(* ===== verification/Selfu_Prelude.thy ===== *)
theory Selfu_Prelude
  imports Main "HOL-Library.State_Monad"
begin

text \<open>
  Shared vocabulary of the development. The operations of the platform are programs of the
  state monad of \<^theory_text>\<open>HOL-Library.State_Monad\<close>; a Go statement
  \<open>x, err := f(a); if err != nil { return r }\<close> is written
  \<open>r \<leftarrow> f a; case r of Inl err \<Rightarrow> ret r | Inr x \<Rightarrow> \<dots>\<close>, so that every early return of the
  source is a branch of the model. This theory holds
  \<^item> \<open>ret\<close>, \<open>for_each\<close> (a Go \<open>for range\<close> loop whose body may \<open>continue\<close>) and the equations
    that push \<open>run_state\<close> through conditionals (collection \<open>run_simps\<close>);
  \<^item> \<open>keeps I m\<close>: the program \<open>m\<close> preserves the state predicate \<open>I\<close>, with one structural rule
    per construct (collection \<open>keeps\<close>), which carries every invariant proof;
  \<^item> \<open>reads m\<close>: the program \<open>m\<close> leaves the state alone;
  \<^item> list lemmas on tables (\<open>find_row\<close>, \<open>put_row\<close>) that all stores share.
\<close>

named_theorems run_simps "equations for run_state"
named_theorems keeps "preservation rules for programs"

type_synonym ('s, 'a) prog = "('s, 'a) state"

abbreviation ret :: "'a \<Rightarrow> ('s, 'a) prog" where
  "ret \<equiv> State_Monad.return"

section \<open>Running programs\<close>

lemma run_state_if [run_simps]:
  "run_state (if b then m else n) s = (if b then run_state m s else run_state n s)"
  by simp

lemma run_state_case_sum [run_simps]:
  "run_state (case r of Inl e \<Rightarrow> f e | Inr x \<Rightarrow> g x) s
    = (case r of Inl e \<Rightarrow> run_state (f e) s | Inr x \<Rightarrow> run_state (g x) s)"
  by (cases r) simp_all

lemma run_state_case_option [run_simps]:
  "run_state (case r of None \<Rightarrow> m | Some x \<Rightarrow> g x) s
    = (case r of None \<Rightarrow> run_state m s | Some x \<Rightarrow> run_state (g x) s)"
  by (cases r) simp_all

lemma run_state_case_prod [run_simps]:
  "run_state (case p of (x, y) \<Rightarrow> f x y) s = (case p of (x, y) \<Rightarrow> run_state (f x y) s)"
  by (cases p) simp

lemma run_state_let [run_simps]: "run_state (let x = a in f x) s = (let x = a in run_state (f x) s)"
  by simp

text \<open>Taking a run apart: used with \<open>elim run_elims\<close>, one case per branch of the program.\<close>

named_theorems run_elims "elimination rules for runs"

lemma run_bindE [run_elims]:
  "run_state (State_Monad.bind m f) w = (r, w') \<Longrightarrow>
   (\<And>a w1. run_state m w = (a, w1) \<Longrightarrow> run_state (f a) w1 = (r, w') \<Longrightarrow> P) \<Longrightarrow> P"
  by (auto split: prod.splits)

lemma run_sumE [run_elims]:
  "run_state (case x of Inl e \<Rightarrow> f e | Inr y \<Rightarrow> g y) w = (r, w') \<Longrightarrow>
   (\<And>e. x = Inl e \<Longrightarrow> run_state (f e) w = (r, w') \<Longrightarrow> P) \<Longrightarrow>
   (\<And>y. x = Inr y \<Longrightarrow> run_state (g y) w = (r, w') \<Longrightarrow> P) \<Longrightarrow> P"
  by (cases x) auto

lemma run_optionE [run_elims]:
  "run_state (case x of None \<Rightarrow> f | Some y \<Rightarrow> g y) w = (r, w') \<Longrightarrow>
   (x = None \<Longrightarrow> run_state f w = (r, w') \<Longrightarrow> P) \<Longrightarrow>
   (\<And>y. x = Some y \<Longrightarrow> run_state (g y) w = (r, w') \<Longrightarrow> P) \<Longrightarrow> P"
  by (cases x) auto

lemma run_pairE [run_elims]:
  "run_state (case x of (a, b) \<Rightarrow> f a b) w = (r, w') \<Longrightarrow>
   (\<And>a b. x = (a, b) \<Longrightarrow> run_state (f a b) w = (r, w') \<Longrightarrow> P) \<Longrightarrow> P"
  by (cases x) auto

lemma run_ifE [run_elims]:
  "run_state (if b then f else g) w = (r, w') \<Longrightarrow>
   (b \<Longrightarrow> run_state f w = (r, w') \<Longrightarrow> P) \<Longrightarrow>
   (\<not> b \<Longrightarrow> run_state g w = (r, w') \<Longrightarrow> P) \<Longrightarrow> P"
  by (cases b) auto

lemma run_retE [run_elims]:
  "run_state (ret x) w = (r, w') \<Longrightarrow> (r = x \<Longrightarrow> w' = w \<Longrightarrow> P) \<Longrightarrow> P"
  by auto

primrec for_each :: "('a \<Rightarrow> ('s, unit) prog) \<Rightarrow> 'a list \<Rightarrow> ('s, unit) prog" where
  "for_each f [] = ret ()"
| "for_each f (x # xs) = do { f x; for_each f xs }"

primrec fold_prog :: "('b \<Rightarrow> 'a \<Rightarrow> ('s, 'b) prog) \<Rightarrow> 'b \<Rightarrow> 'a list \<Rightarrow> ('s, 'b) prog" where
  "fold_prog f acc [] = ret acc"
| "fold_prog f acc (x # xs) = do { acc' \<leftarrow> f acc x; fold_prog f acc' xs }"

section \<open>Invariant preservation\<close>

definition keeps :: "('s \<Rightarrow> bool) \<Rightarrow> ('s, 'a) prog \<Rightarrow> bool" where
  "keeps I m \<longleftrightarrow> (\<forall>s. I s \<longrightarrow> I (snd (run_state m s)))"

lemma keepsI: "(\<And>s. I s \<Longrightarrow> I (snd (run_state m s))) \<Longrightarrow> keeps I m"
  by (simp add: keeps_def)

lemma keepsD: "keeps I m \<Longrightarrow> I s \<Longrightarrow> I (snd (run_state m s))"
  by (simp add: keeps_def)

lemma keeps_run: "keeps I m \<Longrightarrow> run_state m s = (r, s') \<Longrightarrow> I s \<Longrightarrow> I s'"
  by (drule keepsD) auto

lemma keeps_ret [keeps]: "keeps I (ret x)"
  by (simp add: keeps_def)

lemma keeps_bind [keeps]:
  "keeps I m \<Longrightarrow> (\<And>x. keeps I (f x)) \<Longrightarrow> keeps I (State_Monad.bind m f)"
  by (auto simp: keeps_def split: prod.split)

lemma keeps_if [keeps]: "keeps I m \<Longrightarrow> keeps I n \<Longrightarrow> keeps I (if b then m else n)"
  by simp

lemma keeps_case_sum [keeps]:
  "(\<And>e. keeps I (f e)) \<Longrightarrow> (\<And>x. keeps I (g x)) \<Longrightarrow>
     keeps I (case r of Inl e \<Rightarrow> f e | Inr x \<Rightarrow> g x)"
  by (cases r) simp_all

lemma keeps_case_option [keeps]:
  "keeps I m \<Longrightarrow> (\<And>x. keeps I (g x)) \<Longrightarrow> keeps I (case r of None \<Rightarrow> m | Some x \<Rightarrow> g x)"
  by (cases r) simp_all

lemma keeps_case_prod [keeps]:
  "(\<And>x y. keeps I (f x y)) \<Longrightarrow> keeps I (case p of (x, y) \<Rightarrow> f x y)"
  by (cases p) simp

lemma keeps_let [keeps]: "(\<And>x. keeps I (f x)) \<Longrightarrow> keeps I (let x = a in f x)"
  by simp

lemma keeps_for_each [keeps]: "(\<And>x. keeps I (f x)) \<Longrightarrow> keeps I (for_each f xs)"
  by (induction xs) (auto intro!: keeps_ret keeps_bind)

lemma keeps_fold_prog [keeps]:
  "(\<And>acc x. keeps I (f acc x)) \<Longrightarrow> keeps I (fold_prog f acc xs)"
  by (induction xs arbitrary: acc) (auto intro!: keeps_ret keeps_bind)

section \<open>Programs that only read\<close>

definition reads :: "('s, 'a) prog \<Rightarrow> bool" where
  "reads m \<longleftrightarrow> (\<forall>s. snd (run_state m s) = s)"

lemma reads_keeps: "reads m \<Longrightarrow> keeps I m"
  by (simp add: reads_def keeps_def)

section \<open>Rows of a table\<close>

text \<open>
  A table is a list of rows in insertion order. \<open>put_row p f\<close> is SQL's
  \<open>UPDATE \<dots> SET f WHERE p\<close>.
\<close>

definition put_row :: "('r \<Rightarrow> bool) \<Rightarrow> ('r \<Rightarrow> 'r) \<Rightarrow> 'r list \<Rightarrow> 'r list" where
  "put_row p f = map (\<lambda>r. if p r then f r else r)"

lemma set_put_row: "set (put_row p f rs) = (\<lambda>r. if p r then f r else r) ` set rs"
  by (simp add: put_row_def)

lemma length_put_row [simp]: "length (put_row p f rs) = length rs"
  by (simp add: put_row_def)

lemma map_put_row:
  "(\<And>r. r \<in> set rs \<Longrightarrow> p r \<Longrightarrow> k (f r) = k r) \<Longrightarrow> map k (put_row p f rs) = map k rs"
  by (auto simp: put_row_def)

lemma put_row_unaffected: "(\<And>r. r \<in> set rs \<Longrightarrow> \<not> p r) \<Longrightarrow> put_row p f rs = rs"
  by (auto simp: put_row_def intro: map_idI)

lemma put_row_Nil [simp]: "put_row p f [] = []"
  by (simp add: put_row_def)

lemma put_row_Cons [simp]:
  "put_row p f (r # rs) = (if p r then f r else r) # put_row p f rs"
  by (simp add: put_row_def)

lemma find_SomeD: "find p rs = Some r \<Longrightarrow> r \<in> set rs \<and> p r"
  by (auto simp: find_Some_iff)

lemma find_NoneD: "find p rs = None \<Longrightarrow> r \<in> set rs \<Longrightarrow> \<not> p r"
  by (auto simp: find_None_iff)

lemma find_distinct_key:
  assumes "distinct (map k rs)" and "r \<in> set rs"
  shows "find (\<lambda>x. k x = k r) rs = Some r"
  using assms by (induction rs) (auto simp: image_iff)

lemma find_put_row_key:
  assumes "find (\<lambda>r. k r = x) rs = Some r" and "\<And>r. k (f r) = k r"
  shows "find (\<lambda>r. k r = x) (put_row (\<lambda>r. k r = x) f rs) = Some (f r)"
  using assms by (induction rs) (auto split: if_splits)

lemma find_append: "find p (xs @ ys) = (case find p xs of None \<Rightarrow> find p ys | Some r \<Rightarrow> Some r)"
  by (induction xs) auto

lemma distinct_map_filter': "distinct (map k rs) \<Longrightarrow> distinct (map k (filter p rs))"
  by (induction rs) auto

lemma list_ex_filter_less:
  "r \<in> set rs \<Longrightarrow> \<not> p r \<Longrightarrow> length (filter p rs) < length rs"
  by (rule length_filter_less)

end
