(* ===== verification/Go_Strings.thy ===== *)
theory Go_Strings
  imports Selfu_Prelude
begin

text \<open>
  Go strings are byte sequences; a \<^typ>\<open>char\<close> of HOL is a byte, so \<^typ>\<open>string\<close> is used as it is.
  The functions of Go's packages \<open>strings\<close>, \<open>unicode\<close> and \<open>unicode/utf8\<close> that the program calls
  are written out on bytes: UTF-8 decoding with Go's replacement rune for invalid bytes,
  \<open>strings.TrimSpace\<close> (all Unicode white space), \<open>strings.ToLower\<close> (the simple lower-case
  mapping of Unicode 15), \<open>Split\<close>, \<open>Cut\<close>, \<open>Trim\<close>, prefix and suffix operations. The lemmas give the
  algebra the components use: \<open>Split\<close> and joining, ASCII strings being closed under the
  operations, idempotence of trimming and lower-casing on ASCII text.
\<close>

section \<open>Bytes\<close>

definition byte :: "char \<Rightarrow> nat" where
  "byte c = of_char c"

definition chr_of :: "nat \<Rightarrow> char" where
  "chr_of n = char_of n"

lemma byte_inject [simp]: "byte a = byte b \<longleftrightarrow> a = b"
  by (simp add: byte_def)

lemma byte_less [simp]: "byte c < 256"
proof -
  have "byte c = byte c mod 256"
    using of_char_of [of "of_char c :: nat"] by (simp add: byte_def)
  then show ?thesis by (metis mod_less_divisor zero_less_numeral)
qed

lemma byte_chr_of: "n < 256 \<Longrightarrow> byte (chr_of n) = n"
  by (simp add: byte_def chr_of_def)

definition is_ascii :: "string \<Rightarrow> bool" where
  "is_ascii s \<longleftrightarrow> list_all (\<lambda>c. byte c < 128) s"

definition ascii_range :: "char \<Rightarrow> char \<Rightarrow> char \<Rightarrow> bool" where
  "ascii_range lo hi c \<longleftrightarrow> byte lo \<le> byte c \<and> byte c \<le> byte hi"

abbreviation is_lower :: "char \<Rightarrow> bool" where "is_lower \<equiv> ascii_range CHR ''a'' CHR ''z''"
abbreviation is_upper :: "char \<Rightarrow> bool" where "is_upper \<equiv> ascii_range CHR ''A'' CHR ''Z''"
abbreviation is_digit :: "char \<Rightarrow> bool" where "is_digit \<equiv> ascii_range CHR ''0'' CHR ''9''"

definition ascii_lower :: "char \<Rightarrow> char" where
  "ascii_lower c = (if is_upper c then chr_of (byte c + 32) else c)"

section \<open>UTF-8\<close>

definition rune_error :: nat where "rune_error = 65533"

text \<open>\<open>utf8.DecodeRuneInString\<close> on a non-empty string: the rune and its width.\<close>

definition cont :: "nat \<Rightarrow> nat \<Rightarrow> nat \<Rightarrow> bool" where
  "cont lo hi b \<longleftrightarrow> lo \<le> b \<and> b \<le> hi"

text \<open>The range of the second byte depends on the first (no overlong forms, no surrogates).\<close>

definition second_ok :: "nat \<Rightarrow> nat \<Rightarrow> bool" where
  "second_ok b0 b1 \<longleftrightarrow>
     cont (if b0 = 224 then 160 else if b0 = 240 then 144 else 128)
          (if b0 = 237 then 159 else if b0 = 244 then 143 else 191) b1"

definition decode_rune :: "nat list \<Rightarrow> nat \<times> nat" where
  "decode_rune bs =
    (case bs of
      [] \<Rightarrow> (rune_error, 0)
    | b0 # r0 \<Rightarrow>
       if b0 < 128 then (b0, 1)
       else if b0 < 194 \<or> 244 < b0 then (rune_error, 1)
       else (case r0 of [] \<Rightarrow> (rune_error, 1)
        | b1 # r1 \<Rightarrow>
          if \<not> second_ok b0 b1 then (rune_error, 1)
          else if b0 < 224 then ((b0 mod 32) * 64 + b1 mod 64, 2)
          else (case r1 of [] \<Rightarrow> (rune_error, 1)
           | b2 # r2 \<Rightarrow>
             if \<not> cont 128 191 b2 then (rune_error, 1)
             else if b0 < 240 then ((b0 mod 16) * 4096 + (b1 mod 64) * 64 + b2 mod 64, 3)
             else (case r2 of [] \<Rightarrow> (rune_error, 1)
              | b3 # _ \<Rightarrow>
                if \<not> cont 128 191 b3 then (rune_error, 1)
                else ((b0 mod 8) * 262144 + (b1 mod 64) * 4096 + (b2 mod 64) * 64 + b3 mod 64,
                      4)))))"

lemma decode_rune_width: "0 < snd (decode_rune (b # bs))"
  by (simp add: decode_rune_def split: list.splits)

text \<open>A Go \<open>for _, r := range s\<close> loop visits \<open>runes s\<close>.\<close>

function runes_of :: "nat list \<Rightarrow> nat list" where
  "runes_of [] = []"
| "runes_of (b # bs) =
    (let (r, w) = decode_rune (b # bs) in r # runes_of (drop w (b # bs)))"
  by pat_completeness auto
termination
  by (relation "measure length") (use decode_rune_width in \<open>fastforce simp: prod_eq_iff\<close>)+

definition runes :: "string \<Rightarrow> nat list" where
  "runes s = runes_of (map byte s)"

text \<open>\<open>utf8.AppendRune\<close>: surrogates and values above the last code point encode the
  replacement rune.\<close>

definition encode_rune :: "nat \<Rightarrow> string" where
  "encode_rune r =
    (if r < 128 then [chr_of r]
     else if r < 2048 then [chr_of (192 + r div 64), chr_of (128 + r mod 64)]
     else if 1114111 < r \<or> (55296 \<le> r \<and> r \<le> 57343) then map chr_of [239, 191, 189]
     else if r < 65536 then
       [chr_of (224 + r div 4096), chr_of (128 + (r div 64) mod 64), chr_of (128 + r mod 64)]
     else
       [chr_of (240 + r div 262144), chr_of (128 + (r div 4096) mod 64),
        chr_of (128 + (r div 64) mod 64), chr_of (128 + r mod 64)])"

text \<open>\<open>unicode.ToLower\<close>: ranges (first, last, stride, difference) of the simple lower-case
  mapping.\<close>

definition lower_ranges :: "(nat \<times> nat \<times> nat \<times> int) list" where
  "lower_ranges = [
    (65, 90, 1, 32), (192, 214, 1, 32), (216, 222, 1, 32), (256, 302, 2, 1), (304, 304, 1, -199),
    (306, 310, 2, 1), (313, 327, 2, 1), (330, 374, 2, 1), (376, 376, 1, -121), (377, 381, 2, 1),
    (385, 385, 1, 210), (386, 388, 2, 1), (390, 390, 1, 206), (391, 391, 1, 1),
    (393, 394, 1, 205), (395, 395, 1, 1), (398, 398, 1, 79), (399, 399, 1, 202),
    (400, 400, 1, 203), (401, 401, 1, 1), (403, 403, 1, 205), (404, 404, 1, 207),
    (406, 406, 1, 211), (407, 407, 1, 209), (408, 408, 1, 1), (412, 412, 1, 211),
    (413, 413, 1, 213), (415, 415, 1, 214), (416, 420, 2, 1), (422, 422, 1, 218),
    (423, 423, 1, 1), (425, 425, 1, 218), (428, 428, 1, 1), (430, 430, 1, 218), (431, 431, 1, 1),
    (433, 434, 1, 217), (435, 437, 2, 1), (439, 439, 1, 219), (440, 440, 1, 1), (444, 444, 1, 1),
    (452, 452, 1, 2), (453, 453, 1, 1), (455, 455, 1, 2), (456, 456, 1, 1), (458, 458, 1, 2),
    (459, 475, 2, 1), (478, 494, 2, 1), (497, 497, 1, 2), (498, 500, 2, 1), (502, 502, 1, -97),
    (503, 503, 1, -56), (504, 542, 2, 1), (544, 544, 1, -130), (546, 562, 2, 1),
    (570, 570, 1, 10795), (571, 571, 1, 1), (573, 573, 1, -163), (574, 574, 1, 10792),
    (577, 577, 1, 1), (579, 579, 1, -195), (580, 580, 1, 69), (581, 581, 1, 71),
    (582, 590, 2, 1), (880, 882, 2, 1), (886, 886, 1, 1), (895, 895, 1, 116), (902, 902, 1, 38),
    (904, 906, 1, 37), (908, 908, 1, 64), (910, 911, 1, 63), (913, 929, 1, 32),
    (931, 939, 1, 32), (975, 975, 1, 8), (984, 1006, 2, 1), (1012, 1012, 1, -60),
    (1015, 1015, 1, 1), (1017, 1017, 1, -7), (1018, 1018, 1, 1), (1021, 1023, 1, -130),
    (1024, 1039, 1, 80), (1040, 1071, 1, 32), (1120, 1152, 2, 1), (1162, 1214, 2, 1),
    (1216, 1216, 1, 15), (1217, 1229, 2, 1), (1232, 1326, 2, 1), (1329, 1366, 1, 48),
    (4256, 4293, 1, 7264), (4295, 4295, 1, 7264), (4301, 4301, 1, 7264), (5024, 5103, 1, 38864),
    (5104, 5109, 1, 8), (7312, 7354, 1, -3008), (7357, 7359, 1, -3008), (7680, 7828, 2, 1),
    (7838, 7838, 1, -7615), (7840, 7934, 2, 1), (7944, 7951, 1, -8), (7960, 7965, 1, -8),
    (7976, 7983, 1, -8), (7992, 7999, 1, -8), (8008, 8013, 1, -8), (8025, 8031, 2, -8),
    (8040, 8047, 1, -8), (8072, 8079, 1, -8), (8088, 8095, 1, -8), (8104, 8111, 1, -8),
    (8120, 8121, 1, -8), (8122, 8123, 1, -74), (8124, 8124, 1, -9), (8136, 8139, 1, -86),
    (8140, 8140, 1, -9), (8152, 8153, 1, -8), (8154, 8155, 1, -100), (8168, 8169, 1, -8),
    (8170, 8171, 1, -112), (8172, 8172, 1, -7), (8184, 8185, 1, -128), (8186, 8187, 1, -126),
    (8188, 8188, 1, -9), (8486, 8486, 1, -7517), (8490, 8490, 1, -8383), (8491, 8491, 1, -8262),
    (8498, 8498, 1, 28), (8544, 8559, 1, 16), (8579, 8579, 1, 1), (9398, 9423, 1, 26),
    (11264, 11311, 1, 48), (11360, 11360, 1, 1), (11362, 11362, 1, -10743),
    (11363, 11363, 1, -3814), (11364, 11364, 1, -10727), (11367, 11371, 2, 1),
    (11373, 11373, 1, -10780), (11374, 11374, 1, -10749), (11375, 11375, 1, -10783),
    (11376, 11376, 1, -10782), (11378, 11378, 1, 1), (11381, 11381, 1, 1),
    (11390, 11391, 1, -10815), (11392, 11490, 2, 1), (11499, 11501, 2, 1), (11506, 11506, 1, 1),
    (42560, 42604, 2, 1), (42624, 42650, 2, 1), (42786, 42798, 2, 1), (42802, 42862, 2, 1),
    (42873, 42875, 2, 1), (42877, 42877, 1, -35332), (42878, 42886, 2, 1), (42891, 42891, 1, 1),
    (42893, 42893, 1, -42280), (42896, 42898, 2, 1), (42902, 42920, 2, 1),
    (42922, 42922, 1, -42308), (42923, 42923, 1, -42319), (42924, 42924, 1, -42315),
    (42925, 42925, 1, -42305), (42926, 42926, 1, -42308), (42928, 42928, 1, -42258),
    (42929, 42929, 1, -42282), (42930, 42930, 1, -42261), (42931, 42931, 1, 928),
    (42932, 42946, 2, 1), (42948, 42948, 1, -48), (42949, 42949, 1, -42307),
    (42950, 42950, 1, -35384), (42951, 42953, 2, 1), (42960, 42960, 1, 1), (42966, 42968, 2, 1),
    (42997, 42997, 1, 1), (65313, 65338, 1, 32), (66560, 66599, 1, 40), (66736, 66771, 1, 40),
    (66928, 66938, 1, 39), (66940, 66954, 1, 39), (66956, 66962, 1, 39), (66964, 66965, 1, 39),
    (68736, 68786, 1, 64), (71840, 71871, 1, 32), (93760, 93791, 1, 32), (125184, 125217, 1, 34)]"

definition lower_rune :: "nat \<Rightarrow> nat" where
  "lower_rune r =
    (case find (\<lambda>(lo, hi, st, d). lo \<le> r \<and> r \<le> hi \<and> (r - lo) mod st = 0) lower_ranges of
      None \<Rightarrow> r
    | Some (lo, hi, st, d) \<Rightarrow> nat (int r + d))"

text \<open>\<open>strings.ToLower\<close>.\<close>

definition to_lower :: "string \<Rightarrow> string" where
  "to_lower s =
    (if is_ascii s then map ascii_lower s
     else concat (map (\<lambda>r. encode_rune (lower_rune r)) (runes s)))"

section \<open>White space\<close>

definition ascii_space :: "nat \<Rightarrow> bool" where
  "ascii_space b \<longleftrightarrow> b = 32 \<or> (9 \<le> b \<and> b \<le> 13)"

text \<open>The UTF-8 sequences of the runes beyond ASCII for which \<open>unicode.IsSpace\<close> holds.\<close>

definition wide_spaces :: "nat list list" where
  "wide_spaces =
    [[194, 133], [194, 160], [225, 154, 128],
     [226, 128, 128], [226, 128, 129], [226, 128, 130], [226, 128, 131], [226, 128, 132],
     [226, 128, 133], [226, 128, 134], [226, 128, 135], [226, 128, 136], [226, 128, 137],
     [226, 128, 138], [226, 128, 168], [226, 128, 169], [226, 128, 175], [226, 129, 159],
     [227, 128, 128]]"

text \<open>Width of the white-space rune a byte sequence starts with, 0 if it starts with another;
  the sequences to look for are a parameter, so that the same loop trims on the right.\<close>

definition space_width :: "nat list list \<Rightarrow> nat list \<Rightarrow> nat" where
  "space_width wide bs =
    (case bs of [] \<Rightarrow> 0
     | b # _ \<Rightarrow> if ascii_space b then 1
        else (case find (\<lambda>w. take (length w) bs = w) wide of None \<Rightarrow> 0 | Some w \<Rightarrow> length w))"

function drop_spaces :: "nat list list \<Rightarrow> string \<Rightarrow> string" where
  "drop_spaces wide s =
    (let w = space_width wide (map byte s) in
     if w = 0 \<or> s = [] then s else drop_spaces wide (drop w s))"
  by pat_completeness auto
termination
  by (relation "measure (\<lambda>(_, s). length s)") (auto simp: neq_Nil_conv)

declare drop_spaces.simps [simp del]

definition trim_left_space :: "string \<Rightarrow> string" where
  "trim_left_space s = drop_spaces wide_spaces s"

definition trim_right_space :: "string \<Rightarrow> string" where
  "trim_right_space s = rev (drop_spaces (map rev wide_spaces) (rev s))"

text \<open>\<open>strings.TrimSpace\<close>.\<close>

definition trim_space :: "string \<Rightarrow> string" where
  "trim_space s = trim_right_space (trim_left_space s)"

section \<open>Prefixes, suffixes, searching, splitting\<close>

definition has_prefix :: "string \<Rightarrow> string \<Rightarrow> bool" where
  "has_prefix s p \<longleftrightarrow> take (length p) s = p"

definition has_suffix :: "string \<Rightarrow> string \<Rightarrow> bool" where
  "has_suffix s p \<longleftrightarrow> length p \<le> length s \<and> drop (length s - length p) s = p"

definition trim_prefix :: "string \<Rightarrow> string \<Rightarrow> string" where
  "trim_prefix s p = (if has_prefix s p then drop (length p) s else s)"

definition trim_suffix :: "string \<Rightarrow> string \<Rightarrow> string" where
  "trim_suffix s p = (if has_suffix s p then take (length s - length p) s else s)"

fun contains :: "string \<Rightarrow> string \<Rightarrow> bool" where
  "contains [] p = (p = [])"
| "contains (c # s) p = (has_prefix (c # s) p \<or> contains s p)"

definition contains_any :: "string \<Rightarrow> string \<Rightarrow> bool" where
  "contains_any s chars \<longleftrightarrow> list_ex (\<lambda>c. c \<in> set chars) s"

text \<open>\<open>strings.Trim\<close> with a one-byte cutset.\<close>

definition trim_byte :: "char \<Rightarrow> string \<Rightarrow> string" where
  "trim_byte c s = rev (dropWhile (\<lambda>x. x = c) (rev (dropWhile (\<lambda>x. x = c) s)))"

text \<open>\<open>strings.IndexByte\<close>, \<open>strings.LastIndexByte\<close>: \<open>None\<close> stands for -1.\<close>

primrec index_byte :: "string \<Rightarrow> char \<Rightarrow> nat option" where
  "index_byte [] c = None"
| "index_byte (x # s) c = (if x = c then Some 0 else map_option Suc (index_byte s c))"

primrec last_index_byte :: "string \<Rightarrow> char \<Rightarrow> nat option" where
  "last_index_byte [] c = None"
| "last_index_byte (x # s) c =
    (case last_index_byte s c of Some i \<Rightarrow> Some (Suc i)
     | None \<Rightarrow> if x = c then Some 0 else None)"

text \<open>\<open>strings.Split\<close> with a one-byte separator, and \<open>strings.Join\<close>.\<close>

fun split_on :: "char \<Rightarrow> string \<Rightarrow> string list" where
  "split_on c [] = [[]]"
| "split_on c (x # s) =
    (if x = c then [] # split_on c s
     else (case split_on c s of [] \<Rightarrow> [[x]] | w # ws \<Rightarrow> (x # w) # ws))"

fun join_with :: "string \<Rightarrow> string list \<Rightarrow> string" where
  "join_with sep [] = []"
| "join_with sep [w] = w"
| "join_with sep (w # v # ws) = w @ sep @ join_with sep (v # ws)"

text \<open>\<open>strings.Cut\<close> with a one-byte separator: before, after, found.\<close>

primrec cut_at :: "char \<Rightarrow> string \<Rightarrow> string \<times> string \<times> bool" where
  "cut_at c [] = ([], [], False)"
| "cut_at c (x # s) =
    (if x = c then ([], s, True)
     else (case cut_at c s of (b, a, f) \<Rightarrow> (x # b, a, f)))"

section \<open>ASCII text\<close>

lemma is_ascii_simps [simp]:
  "is_ascii []" "is_ascii (c # s) \<longleftrightarrow> byte c < 128 \<and> is_ascii s"
  "is_ascii (s @ t) \<longleftrightarrow> is_ascii s \<and> is_ascii t"
  by (auto simp: is_ascii_def)

lemma is_ascii_rev [simp]: "is_ascii (rev s) = is_ascii s"
  by (auto simp: is_ascii_def list_all_iff)

lemma is_ascii_iff: "is_ascii s \<longleftrightarrow> (\<forall>c \<in> set s. byte c < 128)"
  by (simp add: is_ascii_def list_all_iff)

lemma byte_literals [simp]:
  "byte CHR ''a'' = 97" "byte CHR ''z'' = 122" "byte CHR ''A'' = 65" "byte CHR ''Z'' = 90"
  "byte CHR ''0'' = 48" "byte CHR ''9'' = 57" "byte CHR ''-'' = 45" "byte CHR ''.'' = 46"
  "byte CHR ''@'' = 64" "byte CHR ''_'' = 95" "byte CHR ''+'' = 43" "byte CHR '' '' = 32"
  by (simp_all add: byte_def)

lemma byte_ascii_lower: "byte (ascii_lower c) = (if is_upper c then byte c + 32 else byte c)"
  by (simp add: ascii_lower_def byte_chr_of ascii_range_def)

lemma not_upper_ascii_lower [simp]: "\<not> is_upper (ascii_lower c)"
  by (auto simp: ascii_range_def byte_ascii_lower)

lemma ascii_lower_id: "\<not> is_upper c \<Longrightarrow> ascii_lower c = c"
  by (simp add: ascii_lower_def)

lemma ascii_lower_idem [simp]: "ascii_lower (ascii_lower c) = ascii_lower c"
  by (rule ascii_lower_id) simp

lemma byte_ascii_lower_less: "byte c < 128 \<Longrightarrow> byte (ascii_lower c) < 128"
  by (simp add: byte_ascii_lower ascii_range_def)

lemma is_ascii_map_lower [simp]: "is_ascii s \<Longrightarrow> is_ascii (map ascii_lower s)"
  by (auto simp: is_ascii_iff byte_ascii_lower_less)

lemma to_lower_ascii: "is_ascii s \<Longrightarrow> to_lower s = map ascii_lower s"
  by (simp add: to_lower_def)

lemma to_lower_id: "is_ascii s \<Longrightarrow> (\<forall>c \<in> set s. \<not> is_upper c) \<Longrightarrow> to_lower s = s"
  by (simp add: to_lower_ascii map_idI ascii_lower_id)

lemma is_lower_not_upper [simp]: "is_lower c \<Longrightarrow> \<not> is_upper c"
  by (simp add: ascii_range_def)

lemma is_digit_not_upper [simp]: "is_digit c \<Longrightarrow> \<not> is_upper c"
  by (simp add: ascii_range_def)

section \<open>Prefixes and suffixes\<close>

lemma has_prefix_iff: "has_prefix s p \<longleftrightarrow> (\<exists>r. s = p @ r)"
  by (auto simp: has_prefix_def) (metis append_take_drop_id)

lemma has_suffix_iff: "has_suffix s p \<longleftrightarrow> (\<exists>r. s = r @ p)"
  by (auto simp: has_suffix_def) (metis append_take_drop_id)

lemma trim_suffix_append [simp]: "trim_suffix (s @ p) p = s"
  by (auto simp: trim_suffix_def has_suffix_def)

lemma trim_prefix_append [simp]: "trim_prefix (p @ s) p = s"
  by (auto simp: trim_prefix_def has_prefix_def)

lemma trim_suffix_id: "\<not> has_suffix s p \<Longrightarrow> trim_suffix s p = s"
  by (simp add: trim_suffix_def)

lemma set_trim_suffix: "set (trim_suffix s p) \<subseteq> set s"
  by (auto simp: trim_suffix_def dest: in_set_takeD)

lemma contains_iff: "contains s p \<longleftrightarrow> (\<exists>a b. s = a @ p @ b)"
proof (induction s)
  case Nil
  show ?case by auto
next
  case (Cons c s)
  show ?case
  proof
    assume "contains (c # s) p"
    then show "\<exists>a b. c # s = a @ p @ b"
      using Cons.IH by (auto simp: has_prefix_iff) (metis append_Cons append_Nil)+
  next
    assume "\<exists>a b. c # s = a @ p @ b"
    then obtain a b where ab: "c # s = a @ p @ b" by blast
    show "contains (c # s) p"
    proof (cases a)
      case Nil
      with ab have "has_prefix (c # s) p" by (auto simp: has_prefix_iff)
      then show ?thesis by simp
    next
      case (Cons x a')
      with ab \<open>contains s p \<longleftrightarrow> (\<exists>a b. s = a @ p @ b)\<close> show ?thesis by auto
    qed
  qed
qed

lemma contains_byte: "contains s [c] \<longleftrightarrow> c \<in> set s"
  by (auto simp: contains_iff dest: split_list)

lemma has_suffix_single: "has_suffix s [c] \<longleftrightarrow> s \<noteq> [] \<and> last s = c"
  by (auto simp: has_suffix_iff) (metis append_butlast_last_id)

lemma has_prefix_single: "has_prefix s [c] \<longleftrightarrow> s \<noteq> [] \<and> hd s = c"
  by (cases s) (auto simp: has_prefix_iff)

section \<open>Splitting and joining\<close>

lemma split_on_not_Nil [simp]: "split_on c s \<noteq> []"
  by (induction s) (auto split: list.splits)

lemma split_on_free: "w \<in> set (split_on c s) \<Longrightarrow> c \<notin> set w"
  by (induction s arbitrary: w) (auto split: list.splits if_splits)

lemma join_with_Cons: "ws \<noteq> [] \<Longrightarrow> join_with sep (w # ws) = w @ sep @ join_with sep ws"
  by (cases ws) auto

lemma join_split [simp]: "join_with [c] (split_on c s) = s"
proof (induction s)
  case Nil
  show ?case by simp
next
  case (Cons x s)
  show ?case
  proof (cases "split_on c s")
    case Nil
    then show ?thesis by simp
  next
    case (Cons w ws)
    then show ?thesis using Cons.IH by (cases ws) (auto simp: join_with_Cons)
  qed
qed

lemma split_on_word: "c \<notin> set w \<Longrightarrow> split_on c w = [w]"
  by (induction w) auto

lemma split_on_append: "split_on c (a @ c # b) = split_on c a @ split_on c b"
proof (induction a)
  case Nil
  show ?case by simp
next
  case (Cons x a)
  then show ?case by (cases "split_on c a") auto
qed

lemma split_join: "ws \<noteq> [] \<Longrightarrow> (\<forall>w \<in> set ws. c \<notin> set w) \<Longrightarrow> split_on c (join_with [c] ws) = ws"
proof (induction ws)
  case Nil
  then show ?case by simp
next
  case (Cons w ws)
  then show ?case by (cases ws) (auto simp: split_on_word split_on_append)
qed

lemma set_split_on: "w \<in> set (split_on c s) \<Longrightarrow> set w \<subseteq> set s"
proof (induction s arbitrary: w)
  case Nil
  then show ?case by simp
next
  case (Cons x s)
  then show ?case by (fastforce split: if_splits list.splits)
qed

lemma cut_at_found: "cut_at c (a @ c # b) = (a, b, True)" if "c \<notin> set a"
  using that by (induction a) auto

lemma cut_at_none: "c \<notin> set s \<Longrightarrow> cut_at c s = (s, [], False)"
  by (induction s) auto

lemma cut_at_True: "cut_at c s = (b, a, True) \<Longrightarrow> s = b @ c # a \<and> c \<notin> set b"
  by (induction s arbitrary: b) (auto split: if_splits prod.splits)

lemma cut_at_False: "cut_at c s = (b, a, False) \<Longrightarrow> b = s \<and> a = [] \<and> c \<notin> set s"
  by (induction s arbitrary: b) (auto split: if_splits prod.splits)

section \<open>Trimming\<close>

lemma drop_spaces_fix: "space_width wide (map byte s) = 0 \<Longrightarrow> drop_spaces wide s = s"
  by (subst drop_spaces.simps) simp

lemma drop_spaces_Nil [simp]: "drop_spaces wide [] = []"
  by (subst drop_spaces.simps) simp

lemma drop_spaces_step:
  "s \<noteq> [] \<Longrightarrow> space_width wide (map byte s) = Suc n \<Longrightarrow>
     drop_spaces wide s = drop_spaces wide (drop (Suc n) s)"
  by (subst drop_spaces.simps) simp

lemma drop_spaces_done:
  "drop_spaces wide s = [] \<or> space_width wide (map byte (drop_spaces wide s)) = 0"
proof (induction wide s rule: drop_spaces.induct)
  case (1 wide s)
  show ?case
  proof (cases "space_width wide (map byte s) = 0 \<or> s = []")
    case True
    then show ?thesis by (subst (1 2) drop_spaces.simps) auto
  next
    case False
    then show ?thesis using "1.IH" [OF refl] by (subst (1 2) drop_spaces.simps) (simp add: Let_def)
  qed
qed

lemma drop_spaces_suffix: "\<exists>p. s = p @ drop_spaces wide s"
proof (induction wide s rule: drop_spaces.induct)
  case (1 wide s)
  show ?case
  proof (cases "space_width wide (map byte s) = 0 \<or> s = []")
    case True
    then show ?thesis by (subst drop_spaces.simps) auto
  next
    case False
    let ?w = "space_width wide (map byte s)"
    from False "1.IH" [OF refl] obtain p where "drop ?w s = p @ drop_spaces wide (drop ?w s)"
      by auto
    then have "s = (take ?w s @ p) @ drop_spaces wide (drop ?w s)"
      by (metis append.assoc append_take_drop_id)
    moreover from False have "drop_spaces wide s = drop_spaces wide (drop ?w s)"
      by (subst drop_spaces.simps) simp
    ultimately show ?thesis by metis
  qed
qed

lemma drop_spaces_idem [simp]: "drop_spaces wide (drop_spaces wide s) = drop_spaces wide s"
  using drop_spaces_done [of wide s] by (auto intro: drop_spaces_fix)

lemma space_width_append:
  assumes "[] \<notin> set wide" and *: "space_width wide bs \<noteq> 0"
  shows "space_width wide (bs @ cs) \<noteq> 0"
proof -
  obtain b r where bs: "bs = b # r" using * by (cases bs) (auto simp: space_width_def)
  show ?thesis
  proof (cases "ascii_space b")
    case True
    then show ?thesis by (simp add: space_width_def bs)
  next
    case False
    with * bs obtain w where w: "w \<in> set wide" "take (length w) bs = w"
      by (auto simp: space_width_def split: option.splits dest!: find_SomeD)
    then have "take (length w) (bs @ cs) = w"
      by (metis append_take_drop_id append.assoc append_eq_conv_conj)
    with w(1) obtain v where v: "find (\<lambda>w. take (length w) (bs @ cs) = w) wide = Some v"
      by (cases "find (\<lambda>w. take (length w) (bs @ cs) = w) wide") (auto simp: find_None_iff)
    with assms(1) have "v \<noteq> []" by (auto dest!: find_SomeD)
    with v bs False show ?thesis by (simp add: space_width_def)
  qed
qed

lemma drop_spaces_prefix_fix:
  assumes "[] \<notin> set wide" and "drop_spaces wide (p @ q) = p @ q"
  shows "drop_spaces wide p = p"
proof (cases "p = [] \<or> space_width wide (map byte p) = 0")
  case True
  then show ?thesis by (auto intro: drop_spaces_fix)
next
  case False
  then have "space_width wide (map byte p @ map byte q) \<noteq> 0"
    by (intro space_width_append assms(1)) simp
  then have "space_width wide (map byte (p @ q)) \<noteq> 0" by simp
  moreover have "p @ q = [] \<or> space_width wide (map byte (p @ q)) = 0"
    using drop_spaces_done [of wide "p @ q"] assms(2) by simp
  ultimately show ?thesis using False by simp
qed

text \<open>Trimming cuts a prefix and a suffix, and nothing is left to cut afterwards.\<close>

lemma trim_space_sublist: "\<exists>a b. s = a @ trim_space s @ b"
proof -
  obtain a where a: "s = a @ trim_left_space s"
    using drop_spaces_suffix [of s wide_spaces] by (auto simp: trim_left_space_def)
  obtain b where "rev (trim_left_space s) = b @ drop_spaces (map rev wide_spaces) (rev (trim_left_space s))"
    using drop_spaces_suffix by blast
  then have "trim_left_space s = trim_space s @ rev b"
    unfolding trim_space_def trim_right_space_def
    by (metis rev_append rev_rev_ident)
  with a show ?thesis by metis
qed

lemma set_trim_space: "set (trim_space s) \<subseteq> set s"
  using trim_space_sublist [of s] by (metis Un_commute le_sup_iff order_refl set_append sup_ge1)

lemma is_ascii_trim_space: "is_ascii s \<Longrightarrow> is_ascii (trim_space s)"
  using set_trim_space [of s] by (auto simp: is_ascii_iff)

lemma wide_spaces_nonempty: "[] \<notin> set wide_spaces"
  by (simp add: wide_spaces_def)

lemma trim_space_idem [simp]: "trim_space (trim_space s) = trim_space s"
proof -
  let ?l = "trim_left_space s"
  have r: "rev (trim_space s) = drop_spaces (map rev wide_spaces) (rev ?l)"
    by (simp add: trim_space_def trim_right_space_def)
  obtain b where b: "rev ?l = b @ drop_spaces (map rev wide_spaces) (rev ?l)"
    using drop_spaces_suffix by blast
  then have l: "?l = trim_space s @ rev b" by (metis r rev_append rev_rev_ident)
  have "drop_spaces wide_spaces ?l = ?l" by (simp add: trim_left_space_def)
  then have "trim_left_space (trim_space s) = trim_space s"
    using l drop_spaces_prefix_fix [OF wide_spaces_nonempty] unfolding trim_left_space_def by metis
  then show ?thesis
    by (simp add: trim_space_def [of "trim_space s"] trim_right_space_def r) (simp flip: r)
qed

text \<open>White space at an end of ASCII text is an ASCII space.\<close>

definition space_free :: "string \<Rightarrow> bool" where
  "space_free s \<longleftrightarrow> list_all (\<lambda>c. byte c < 128 \<and> \<not> ascii_space (byte c)) s"

lemma space_width_ascii:
  assumes "byte c < 128" and "\<not> ascii_space (byte c)" and "\<forall>w \<in> set wide. w \<noteq> [] \<and> 128 \<le> hd w"
  shows "space_width wide (byte c # bs) = 0"
proof -
  have "find (\<lambda>w. take (length w) (byte c # bs) = w) wide = None"
  proof -
    have "take (length w) (byte c # bs) \<noteq> w" if "w \<in> set wide" for w
      using assms that by (cases w) auto
    then show ?thesis by (auto simp: find_None_iff)
  qed
  then show ?thesis using assms(2) by (simp add: space_width_def)
qed

lemma wide_spaces_high:
  "\<forall>w \<in> set wide_spaces. w \<noteq> [] \<and> 128 \<le> hd w"
  "\<forall>w \<in> set (map rev wide_spaces). w \<noteq> [] \<and> 128 \<le> hd w"
  by (simp_all add: wide_spaces_def)

lemma trim_space_id:
  assumes "s = [] \<or> (byte (hd s) < 128 \<and> \<not> ascii_space (byte (hd s))
             \<and> byte (last s) < 128 \<and> \<not> ascii_space (byte (last s)))"
  shows "trim_space s = s"
proof (cases "s = []")
  case True
  then show ?thesis by (simp add: trim_space_def trim_left_space_def trim_right_space_def)
next
  case False
  then obtain c r where s: "s = c # r" by (cases s) auto
  obtain d q where rs: "rev s = d # q" using False by (cases "rev s") auto
  then have d: "last s = d" by (metis last_snoc rev.simps(2) rev_swap)
  have 1: "drop_spaces wide_spaces s = s"
    using assms False wide_spaces_high(1)
    by (intro drop_spaces_fix) (simp add: s space_width_ascii)
  have 2: "drop_spaces (map rev wide_spaces) (rev s) = rev s"
    using assms False wide_spaces_high(2) d
    by (intro drop_spaces_fix) (simp add: rs space_width_ascii)
  show ?thesis
    by (simp add: trim_space_def trim_left_space_def trim_right_space_def 1 2)
qed

lemma trim_space_free: "space_free s \<Longrightarrow> trim_space s = s"
  by (rule trim_space_id) (auto simp: space_free_def list_all_iff)

lemma trim_space_Nil [simp]: "trim_space [] = []"
  by (rule trim_space_id) simp

section \<open>Runes of ASCII text\<close>

lemma runes_of_ascii: "list_all (\<lambda>b. b < 128) bs \<Longrightarrow> runes_of bs = bs"
  by (induction bs) (auto simp: decode_rune_def)

lemma runes_ascii: "is_ascii s \<Longrightarrow> runes s = map byte s"
  by (simp add: runes_def runes_of_ascii is_ascii_def list_all_iff)

lemma chr_of_byte [simp]: "chr_of (byte c) = c"
  by (simp add: chr_of_def byte_def)

end
