(* ===== verification/Domain_Model.thy ===== *)
theory Domain_Model
  imports Go_Strings
begin

text \<open>
  Package \<open>internal/domain\<close>: the entities of the platform and their validation rules, a pure
  package. Each Go struct is a record with the source's fields (the informational columns
  \<open>CreatedAt\<close> and \<open>UpdatedAt\<close>, which no decision of the program reads, are left out), each
  validating function returns \<open>Inl\<close> of the error text or \<open>Inr\<close> of the value. The string-typed
  enumerations stay strings, because the code accepts any string there and checks it with
  \<open>Valid\<close>. The international domain-name conversion \<open>idna.Lookup.ToASCII\<close> (golang.org/x/net)
  is the argument \<open>to_ascii\<close> of the definitions that use it.
\<close>

section \<open>Users and audit events (models.go)\<close>

type_synonym status = string

definition UserStatusActive :: status where "UserStatusActive = ''active''"
definition UserStatusDisabled :: status where "UserStatusDisabled = ''disabled''"

definition user_status_valid :: "status \<Rightarrow> bool" where
  "user_status_valid s \<longleftrightarrow> s = UserStatusActive \<or> s = UserStatusDisabled"

record user =
  u_id :: string
  u_email :: string
  u_display_name :: string
  u_status :: status
  u_is_admin :: bool
  u_auth_provider :: string
  u_auth_identity :: string

text \<open>\<open>looksLikeEmail\<close>: \<open>domain := s[at+1:]\<close>.\<close>

definition looksLikeEmail :: "string \<Rightarrow> bool" where
  "looksLikeEmail s =
    (case index_byte s CHR ''@'' of
       None \<Rightarrow> False
     | Some at \<Rightarrow>
        if at = 0 \<or> last_index_byte s CHR ''@'' \<noteq> Some at then False
        else let domain = drop (Suc at) s in
          if domain = [] \<or> contains_any domain [CHR '' '', chr_of 9] then False
          else contains domain ''.'')"

definition NewUser :: "string \<Rightarrow> string \<Rightarrow> string \<Rightarrow> string \<Rightarrow> string + user" where
  "NewUser email displayName authProvider authIdentityID =
    (let email = to_lower (trim_space email) in
     if email = [] then Inl ''email is required''
     else if \<not> looksLikeEmail email then Inl ''email is not a valid address''
     else if trim_space authProvider = [] then Inl ''auth provider is required''
     else if trim_space authIdentityID = [] then Inl ''auth identity id is required''
     else Inr \<lparr>u_id = [], u_email = email, u_display_name = trim_space displayName,
                u_status = UserStatusActive, u_is_admin = False,
                u_auth_provider = authProvider, u_auth_identity = authIdentityID\<rparr>)"

datatype detail = DStr string | DBool bool | DInt int | DList "string list"

record audit_event =
  a_id :: string
  a_actor :: "string option"
  a_action :: string
  a_resource_type :: string
  a_resource_id :: string
  a_details :: "(string \<times> detail) list"
  a_request_id :: string

definition audit_valid :: "audit_event \<Rightarrow> bool" where
  "audit_valid e \<longleftrightarrow> trim_space (a_action e) \<noteq> [] \<and> length (a_action e) \<le> 128"

section \<open>Domains and hostnames (domains.go)\<close>

definition DomainPending :: status where "DomainPending = ''pending''"
definition DomainVerificationRequired :: status where
  "DomainVerificationRequired = ''verification_required''"
definition DomainVerified :: status where "DomainVerified = ''verified''"
definition DomainSuspended :: status where "DomainSuspended = ''suspended''"

definition domain_status_valid :: "status \<Rightarrow> bool" where
  "domain_status_valid s \<longleftrightarrow>
     s \<in> {DomainPending, DomainVerificationRequired, DomainVerified, DomainSuspended}"

record domain =
  d_id :: string
  d_org :: string
  d_fqdn :: string
  d_status :: status
  d_method :: string
  d_token :: string
  d_verified_at :: "int option"
  d_web_enabled :: bool
  d_mail_enabled :: bool

record hostname =
  h_id :: string
  h_domain :: string
  h_instance :: "string option"
  h_hostname :: string
  h_status :: status

text \<open>The inner loop of \<open>NormalizeDomain\<close> over the bytes of one label: \<open>i\<close> is the position,
  \<open>n\<close> the length of the label; the result is the error, if any.\<close>

primrec label_bytes_error :: "nat \<Rightarrow> nat \<Rightarrow> string \<Rightarrow> string option" where
  "label_bytes_error i n [] = None"
| "label_bytes_error i n (c # s) =
    (if c = CHR ''-'' then
       (if i = 0 \<or> i = n - 1
        then Some ''domain label must not start or end with a hyphen''
        else label_bytes_error (Suc i) n s)
     else if (byte c < byte CHR ''a'' \<or> byte CHR ''z'' < byte c)
           \<and> (byte c < byte CHR ''0'' \<or> byte CHR ''9'' < byte c)
     then Some ''invalid character in domain label''
     else label_bytes_error (Suc i) n s)"

primrec labels_error :: "string list \<Rightarrow> string option" where
  "labels_error [] = None"
| "labels_error (l # ls) =
    (if l = [] then Some ''domain has an empty label''
     else if 63 < length l then Some ''domain label exceeds 63 characters''
     else (case label_bytes_error 0 (length l) l of
             Some e \<Rightarrow> Some e
           | None \<Rightarrow> labels_error ls))"

definition NormalizeDomain :: "(string \<Rightarrow> string + string) \<Rightarrow> string \<Rightarrow> string + string" where
  "NormalizeDomain to_ascii s =
    (let s = trim_suffix (trim_space s) ''.'' in
     if s = [] then Inl ''domain is required''
     else if 253 < length s then Inl ''domain is too long''
     else (case to_ascii s of
         Inl e \<Rightarrow> Inl (''invalid internationalized domain: '' @ e)
       | Inr ascii \<Rightarrow>
           let ascii = to_lower ascii in
           (case labels_error (split_on CHR ''.'' ascii) of
              Some e \<Rightarrow> Inl e
            | None \<Rightarrow> Inr ascii)))"

definition NewDomain :: "(string \<Rightarrow> string + string) \<Rightarrow> string \<Rightarrow> string \<Rightarrow> string + domain" where
  "NewDomain to_ascii organizationID fqdn =
    (case NormalizeDomain to_ascii fqdn of
       Inl e \<Rightarrow> Inl e
     | Inr norm \<Rightarrow>
        if organizationID = [] then Inl ''organization id is required''
        else Inr \<lparr>d_id = [], d_org = organizationID, d_fqdn = norm, d_status = DomainPending,
                   d_method = ''dns_txt'', d_token = [], d_verified_at = None,
                   d_web_enabled = False, d_mail_enabled = False\<rparr>)"

definition host_form :: "string \<Rightarrow> string" where
  "host_form s = trim_suffix (to_lower (trim_space s)) ''.''"

definition HostnameWithinDomain :: "string \<Rightarrow> string \<Rightarrow> bool" where
  "HostnameWithinDomain hostname domainName =
    (let h = host_form hostname; d = host_form domainName in
     if h = [] \<or> d = [] then False
     else if h = d then True
     else has_suffix h (''.'' @ d))"

section \<open>Mail (mail.go)\<close>

definition MailDomainProvisioning :: status where "MailDomainProvisioning = ''provisioning''"
definition MailDomainActive :: status where "MailDomainActive = ''active''"
definition MailDomainDisabled :: status where "MailDomainDisabled = ''disabled''"

definition mail_domain_status_valid :: "status \<Rightarrow> bool" where
  "mail_domain_status_valid s \<longleftrightarrow>
     s \<in> {MailDomainProvisioning, MailDomainActive, MailDomainDisabled}"

record mail_domain =
  md_id :: string
  md_domain :: string
  md_status :: status
  md_inbound :: string
  md_outbound :: string
  md_tls :: string
  md_dkim :: string

definition local_part_rune :: "nat \<Rightarrow> bool" where
  "local_part_rune r \<longleftrightarrow>
     (97 \<le> r \<and> r \<le> 122) \<or> (65 \<le> r \<and> r \<le> 90) \<or> (48 \<le> r \<and> r \<le> 57)
     \<or> r = 46 \<or> r = 95 \<or> r = 45 \<or> r = 43"

text \<open>The error text quotes the offending rune; the rune is kept as a number, since no caller
  inspects the text.\<close>

datatype local_part_error =
    LocalRequired | LocalTooLong | LocalBadRune nat | LocalDots

definition ValidateLocalPart :: "string \<Rightarrow> local_part_error option" where
  "ValidateLocalPart local =
    (let local = trim_space local in
     if local = [] then Some LocalRequired
     else if 64 < length local then Some LocalTooLong
     else (case find (\<lambda>r. \<not> local_part_rune r) (runes local) of
         Some r \<Rightarrow> Some (LocalBadRune r)
       | None \<Rightarrow>
          if has_prefix local ''.'' \<or> has_suffix local ''.'' \<or> contains local ''..''
          then Some LocalDots else None))"

text \<open>\<open>net.SplitHostPort\<close>: \<open>Some (host, port)\<close>, \<open>None\<close> on its errors.\<close>

definition SplitHostPort :: "string \<Rightarrow> (string \<times> string) option" where
  "SplitHostPort hp =
    (case last_index_byte hp CHR '':'' of
       None \<Rightarrow> None
     | Some i \<Rightarrow>
        if hd hp = CHR ''['' then
          (case index_byte hp CHR '']'' of
             None \<Rightarrow> None
           | Some e \<Rightarrow>
              if Suc e \<noteq> i then None
              else if CHR ''['' \<in> set (drop 1 hp) \<or> CHR '']'' \<in> set (drop (Suc e) hp) then None
              else Some (take (e - 1) (drop 1 hp), drop (Suc i) hp))
        else if CHR '':'' \<in> set (take i hp) then None
        else if CHR ''['' \<in> set hp \<or> CHR '']'' \<in> set hp then None
        else Some (take i hp, drop (Suc i) hp))"

datatype address_error =
    AddrLocal local_part_error | AddrDomain string | AddrPort

definition BuildAddress ::
    "(string \<Rightarrow> string + string) \<Rightarrow> string \<Rightarrow> string \<Rightarrow> address_error + string" where
  "BuildAddress to_ascii localPart fqdn =
    (case ValidateLocalPart localPart of
       Some e \<Rightarrow> Inl (AddrLocal e)
     | None \<Rightarrow>
        (case NormalizeDomain to_ascii fqdn of
           Inl e \<Rightarrow> Inl (AddrDomain e)
         | Inr norm \<Rightarrow>
            let addr = to_lower localPart @ ''@'' @ norm in
            if SplitHostPort addr \<noteq> None then Inl AddrPort else Inr addr))"

definition MailIdentityRequested :: status where "MailIdentityRequested = ''requested''"
definition MailIdentityProvisioning :: status where "MailIdentityProvisioning = ''provisioning''"
definition MailIdentityActive :: status where "MailIdentityActive = ''active''"
definition MailIdentitySuspended :: status where "MailIdentitySuspended = ''suspended''"
definition MailIdentityDeleted :: status where "MailIdentityDeleted = ''deleted''"

record mail_identity =
  mi_id :: string
  mi_org :: string
  mi_user :: "string option"
  mi_domain :: string
  mi_local :: string
  mi_address :: string
  mi_username :: string
  mi_status :: status

record mail_alias =
  ma_id :: string
  ma_org :: string
  ma_domain :: string
  ma_group :: "string option"
  ma_local :: string
  ma_address :: string
  ma_destinations :: "string list"
  ma_status :: status

record mail_credential =
  mc_id :: string
  mc_identity :: string
  mc_fingerprint :: string
  mc_status :: status

record mail_policy =
  mp_id :: string
  mp_identity :: string
  mp_credential :: string
  mp_from_addresses :: "string list"
  mp_from_domains :: "string list"
  mp_instance :: "string option"

section \<open>Organizations, roles, groups, external resources (identity.go)\<close>

type_synonym org_role = string

definition RoleOwner :: org_role where "RoleOwner = ''owner''"
definition RoleAdmin :: org_role where "RoleAdmin = ''admin''"
definition RoleMember :: org_role where "RoleMember = ''member''"

definition role_valid :: "org_role \<Rightarrow> bool" where
  "role_valid r \<longleftrightarrow> r = RoleOwner \<or> r = RoleAdmin \<or> r = RoleMember"

definition Rank :: "org_role \<Rightarrow> nat" where
  "Rank r = (if r = RoleOwner then 3 else if r = RoleAdmin then 2
             else if r = RoleMember then 1 else 0)"

definition CanManage :: "org_role \<Rightarrow> org_role \<Rightarrow> bool" where
  "CanManage r required \<longleftrightarrow> role_valid r \<and> role_valid required \<and> Rank required \<le> Rank r"

record organization =
  o_id :: string
  o_name :: string
  o_slug :: string
  o_status :: status

text \<open>The loop of \<open>Slugify\<close>: \<open>b\<close> is the builder's content.\<close>

primrec slug_loop :: "string \<Rightarrow> bool \<Rightarrow> nat list \<Rightarrow> string" where
  "slug_loop b lastDash [] = b"
| "slug_loop b lastDash (r # rs) =
    (if (97 \<le> r \<and> r \<le> 122) \<or> (48 \<le> r \<and> r \<le> 57)
     then slug_loop (b @ encode_rune r) False rs
     else if \<not> lastDash \<and> 0 < length b then slug_loop (b @ ''-'') True rs
     else slug_loop b lastDash rs)"

definition Slugify :: "string \<Rightarrow> string" where
  "Slugify s =
    (let s = to_lower (trim_space s);
         out = trim_byte CHR ''-'' (slug_loop [] False (runes s))
     in if out = [] then ''org'' else out)"

definition NewOrganization :: "string \<Rightarrow> string + organization" where
  "NewOrganization name =
    (let name = trim_space name in
     if name = [] then Inl ''organization name is required''
     else if 128 < length name then Inl ''organization name too long''
     else Inr \<lparr>o_id = [], o_name = name, o_slug = Slugify name, o_status = ''active''\<rparr>)"

record membership =
  m_id :: string
  m_org :: string
  m_user :: string
  m_role :: org_role

record group =
  g_id :: string
  g_org :: string
  g_name :: string
  g_slug :: string
  g_description :: string

definition NewGroup :: "string \<Rightarrow> string \<Rightarrow> string \<Rightarrow> string + group" where
  "NewGroup organizationID name description =
    (let name = trim_space name in
     if organizationID = [] then Inl ''organization id is required''
     else if name = [] then Inl ''group name is required''
     else if 128 < length name then Inl ''group name too long''
     else Inr \<lparr>g_id = [], g_org = organizationID, g_name = name, g_slug = Slugify name,
                g_description = trim_space description\<rparr>)"

record group_membership =
  gm_group :: string
  gm_user :: string

definition ResTypeAuthentikUser :: string where "ResTypeAuthentikUser = ''authentik_user''"
definition ResTypeAuthentikGroup :: string where "ResTypeAuthentikGroup = ''authentik_group''"
definition ResTypeAuthentikApplication :: string where
  "ResTypeAuthentikApplication = ''authentik_application''"
definition ResTypeAuthentikProvider :: string where
  "ResTypeAuthentikProvider = ''authentik_provider''"

definition ExtProvisioning :: status where "ExtProvisioning = ''provisioning''"
definition ExtActive :: status where "ExtActive = ''active''"
definition ExtFailed :: status where "ExtFailed = ''failed''"
definition ExtRemoved :: status where "ExtRemoved = ''removed''"

record external_resource =
  x_id :: string
  x_type :: string
  x_object :: string
  x_provider :: string
  x_external :: string
  x_status :: status

section \<open>Installation (installation.go)\<close>

definition DefaultLocalDomain :: string where "DefaultLocalDomain = ''selfu.local''"

record installation =
  in_local_domain :: string
  in_primary_domain :: string
  in_dns_provider :: string
  in_access_provider :: string
  in_onboarded_at :: "int option"

definition Onboarded :: "installation \<Rightarrow> bool" where
  "Onboarded i \<longleftrightarrow> in_onboarded_at i \<noteq> None"

definition ValidateLocalDomain :: "string \<Rightarrow> string" where
  "ValidateLocalDomain s =
    (let s = trim_space s in if s = [] then DefaultLocalDomain else to_lower s)"

end
