(* ===== verification/Domain_Lemmas.thy ===== *)
theory Domain_Lemmas
  imports Domain_Model
begin

text \<open>
  What the validation rules of \<open>internal/domain\<close> guarantee: the shape of a normalized domain
  name, containment of hostnames at label boundaries, the alphabet of slugs and local parts,
  the structure of an accepted e-mail address, the ordering of roles.
\<close>

section \<open>Domain names\<close>

definition ldh_byte :: "char \<Rightarrow> bool" where
  "ldh_byte c \<longleftrightarrow> is_lower c \<or> is_digit c \<or> c = CHR ''-''"

definition ldh_label :: "string \<Rightarrow> bool" where
  "ldh_label l \<longleftrightarrow> l \<noteq> [] \<and> length l \<le> 63 \<and> list_all ldh_byte l
     \<and> hd l \<noteq> CHR ''-'' \<and> last l \<noteq> CHR ''-''"

definition valid_fqdn :: "string \<Rightarrow> bool" where
  "valid_fqdn d \<longleftrightarrow> list_all ldh_label (split_on CHR ''.'' d)"

lemma label_bytes_error_None:
  "label_bytes_error i n s = None \<longleftrightarrow>
     list_all ldh_byte s \<and> (\<forall>j < length s. s ! j = CHR ''-'' \<longrightarrow> i + j \<noteq> 0 \<and> i + j \<noteq> n - 1)"
proof (induction s arbitrary: i)
  case Nil
  show ?case by simp
next
  case (Cons c s)
  have ldh: "ldh_byte c \<longleftrightarrow> c = CHR ''-'' \<or> \<not> ((byte c < 97 \<or> 122 < byte c) \<and> (byte c < 48 \<or> 57 < byte c))"
    by (auto simp: ldh_byte_def ascii_range_def)
  show ?case
    by (auto simp: ldh Cons.IH All_less_Suc2)
qed

lemma label_ok:
  assumes "l \<noteq> []"
  shows "label_bytes_error 0 (length l) l = None
           \<longleftrightarrow> list_all ldh_byte l \<and> hd l \<noteq> CHR ''-'' \<and> last l \<noteq> CHR ''-''"
proof -
  have "(\<forall>j < length l. l ! j = CHR ''-'' \<longrightarrow> 0 + j \<noteq> 0 \<and> 0 + j \<noteq> length l - 1)
          \<longleftrightarrow> l ! 0 \<noteq> CHR ''-'' \<and> l ! (length l - 1) \<noteq> CHR ''-''"
    (is "?L \<longleftrightarrow> ?R")
  proof
    assume ?L
    moreover have "0 < length l" "length l - 1 < length l" using assms by auto
    ultimately show ?R by fastforce
  next
    assume ?R
    then show ?L by (metis add_0)
  qed
  then show ?thesis
    unfolding label_bytes_error_None by (simp add: hd_conv_nth last_conv_nth assms)
qed

lemma labels_error_None: "labels_error ls = None \<longleftrightarrow> list_all ldh_label ls"
proof (induction ls)
  case Nil
  show ?case by simp
next
  case (Cons l ls)
  then show ?case
    using label_ok [of l] by (cases "label_bytes_error 0 (length l) l") (auto simp: ldh_label_def)
qed

lemma set_join_with: "set (join_with sep ws) \<subseteq> set sep \<union> \<Union> (set ` set ws)"
  by (induction sep ws rule: join_with.induct) auto

lemma valid_fqdn_bytes: "valid_fqdn d \<Longrightarrow> c \<in> set d \<Longrightarrow> ldh_byte c \<or> c = CHR ''.''"
  using set_join_with [of "''.''" "split_on CHR ''.'' d"]
  by (fastforce simp: valid_fqdn_def ldh_label_def list_all_iff)

lemma ldh_byte_facts: "ldh_byte c \<Longrightarrow> byte c < 128 \<and> \<not> ascii_space (byte c) \<and> \<not> is_upper c \<and> c \<noteq> CHR ''@'' \<and> c \<noteq> CHR '':''"
  by (auto simp: ldh_byte_def ascii_range_def ascii_space_def byte_def)

lemma valid_fqdn_clean:
  assumes "valid_fqdn d"
  shows "space_free d" and "is_ascii d" and "to_lower d = d" and "CHR ''@'' \<notin> set d"
    and "CHR '':'' \<notin> set d"
proof -
  have *: "byte c < 128 \<and> \<not> ascii_space (byte c) \<and> \<not> is_upper c \<and> c \<noteq> CHR ''@'' \<and> c \<noteq> CHR '':''"
    if "c \<in> set d" for c
    using valid_fqdn_bytes [OF assms that] ldh_byte_facts [of c]
    by (auto simp: ascii_range_def ascii_space_def byte_def)
  then show "space_free d" "is_ascii d" "CHR ''@'' \<notin> set d" "CHR '':'' \<notin> set d"
    by (auto simp: space_free_def is_ascii_iff list_all_iff)
  with * show "to_lower d = d" by (intro to_lower_id) auto
qed

lemma valid_fqdn_ends:
  assumes "valid_fqdn d"
  shows "d \<noteq> []" and "\<not> has_suffix d ''.''"
proof -
  show "d \<noteq> []" using assms by (auto simp: valid_fqdn_def ldh_label_def)
  show "\<not> has_suffix d ''.''"
  proof
    assume "has_suffix d ''.''"
    then obtain q where "d = q @ CHR ''.'' # []" by (auto simp: has_suffix_iff)
    with assms show False by (simp add: valid_fqdn_def split_on_append ldh_label_def)
  qed
qed

text \<open>C32: \<open>NormalizeDomain\<close> succeeds exactly when the trimmed name is non-empty, at most 253
  bytes long, convertible by IDNA, and the lower-cased result consists of letter-digit-hyphen
  labels of 1 to 63 bytes that neither start nor end with a hyphen; the result is that name.\<close>

theorem NormalizeDomain_iff:
  "NormalizeDomain to_ascii s = Inr d \<longleftrightarrow>
     (let t = trim_suffix (trim_space s) ''.''
      in t \<noteq> [] \<and> length t \<le> 253 \<and> (\<exists>a. to_ascii t = Inr a \<and> d = to_lower a \<and> valid_fqdn d))"
  by (auto simp: NormalizeDomain_def Let_def labels_error_None valid_fqdn_def
      split: sum.splits option.splits dest: labels_error_None [THEN iffD2])

lemma NormalizeDomain_valid: "NormalizeDomain to_ascii s = Inr d \<Longrightarrow> valid_fqdn d"
  by (auto simp: NormalizeDomain_def Let_def labels_error_None valid_fqdn_def
      split: sum.splits option.splits if_splits)

text \<open>Normalization is idempotent: a normalized name of legal length that IDNA maps to
  itself normalizes to itself (so a stored name compares equal to a re-entered one).\<close>

theorem NormalizeDomain_idem:
  assumes "NormalizeDomain to_ascii s = Inr d" and "length d \<le> 253" and "to_ascii d = Inr d"
  shows "NormalizeDomain to_ascii d = Inr d"
proof -
  have v: "valid_fqdn d" using assms(1) by (rule NormalizeDomain_valid)
  note c = valid_fqdn_clean [OF v] and e = valid_fqdn_ends [OF v]
  have "labels_error (split_on CHR ''.'' d) = None"
    using v by (simp add: labels_error_None valid_fqdn_def)
  then show ?thesis
    using assms(2,3) e(1) c(3)
    by (simp add: NormalizeDomain_def trim_space_free [OF c(1)] trim_suffix_id [OF e(2)])
qed

lemma sample_fqdn: "NormalizeDomain Inr ''a.io'' = Inr ''a.io''"
proof -
  have "trim_space ''a.io'' = ''a.io''" by (rule trim_space_id) (simp_all add: byte_def ascii_space_def)
  then show ?thesis
    by (simp add: NormalizeDomain_def trim_suffix_def has_suffix_def to_lower_def is_ascii_def
        ascii_lower_def ascii_range_def byte_def)
qed

theorem NormalizeDomain_idem_witness: "NormalizeDomain Inr ''a.io'' = Inr ''a.io''"
  using NormalizeDomain_idem [of Inr "''a.io''" "''a.io''"] sample_fqdn by simp

section \<open>Containment of hostnames\<close>

lemma join_with_append:
  "ps \<noteq> [] \<Longrightarrow> qs \<noteq> [] \<Longrightarrow> join_with sep (ps @ qs) = join_with sep ps @ sep @ join_with sep qs"
proof (induction ps)
  case Nil
  then show ?case by simp
next
  case (Cons p ps)
  then show ?case by (cases ps) (auto simp: join_with_Cons)
qed

lemma suffix_labels:
  "h = d \<or> has_suffix h (c # d) \<longleftrightarrow> (\<exists>ps. split_on c h = ps @ split_on c d)"
proof
  assume "h = d \<or> has_suffix h (c # d)"
  then show "\<exists>ps. split_on c h = ps @ split_on c d"
    by (auto simp: has_suffix_iff split_on_append)
next
  assume "\<exists>ps. split_on c h = ps @ split_on c d"
  then obtain ps where ps: "split_on c h = ps @ split_on c d" by blast
  then have h: "h = join_with [c] (ps @ split_on c d)" by (metis join_split)
  show "h = d \<or> has_suffix h (c # d)"
  proof (cases "ps = []")
    case True
    with h show ?thesis by simp
  next
    case False
    with h have "h = join_with [c] ps @ c # d" by (simp add: join_with_append)
    then show ?thesis by (auto simp: has_suffix_iff)
  qed
qed

text \<open>\<open>HostnameWithinDomain\<close> is containment at label boundaries: after trimming, lower-casing
  and dropping one trailing dot, both names are non-empty and the labels of the domain are the
  last labels of the hostname. A string suffix that is not a label suffix is never accepted.\<close>

theorem HostnameWithinDomain_labels:
  "HostnameWithinDomain h d \<longleftrightarrow>
     host_form h \<noteq> [] \<and> host_form d \<noteq> []
     \<and> (\<exists>ps. split_on CHR ''.'' (host_form h) = ps @ split_on CHR ''.'' (host_form d))"
proof -
  have "host_form h = host_form d \<or> has_suffix (host_form h) (''.'' @ host_form d)
          \<longleftrightarrow> (\<exists>ps. split_on CHR ''.'' (host_form h) = ps @ split_on CHR ''.'' (host_form d))"
    using suffix_labels [of "host_form h" "host_form d" "CHR ''.''"] by simp
  then show ?thesis by (auto simp: HostnameWithinDomain_def Let_def)
qed

lemma host_form_valid: "valid_fqdn d \<Longrightarrow> host_form d = d"
  by (simp add: host_form_def valid_fqdn_clean trim_space_free trim_suffix_id valid_fqdn_ends)

lemma HostnameWithinDomain_refl: "valid_fqdn d \<Longrightarrow> HostnameWithinDomain d d"
  using valid_fqdn_ends [of d] by (simp add: HostnameWithinDomain_labels host_form_valid)

lemma HostnameWithinDomain_trans:
  "HostnameWithinDomain a b \<Longrightarrow> HostnameWithinDomain b c \<Longrightarrow> HostnameWithinDomain a c"
  by (auto simp: HostnameWithinDomain_labels)

section \<open>Runes below 128\<close>

lemma mod_shift:
  fixes b k m :: nat
  assumes "k * m \<le> b" and "b < k * m + m"
  shows "b mod m = b - k * m"
proof -
  have "b = (b - k * m) + k * m" using assms by simp
  then have "b mod m = (b - k * m) mod m" by (metis mod_mult_self1)
  also have "\<dots> = b - k * m" using assms by (intro mod_less) simp
  finally show ?thesis .
qed

lemma lead2: "194 \<le> b \<Longrightarrow> b < 224 \<Longrightarrow> 128 \<le> (b mod 32) * 64 + (x::nat)"
  using mod_shift [of 6 32 b] by simp

lemma lead3:
  fixes b b1 x :: nat
  assumes "224 \<le> b" "b < 240" "second_ok b b1"
  shows "128 \<le> (b mod 16) * 4096 + (b1 mod 64) * 64 + x"
proof (cases "b = 224")
  case True
  with assms have b1: "160 \<le> b1" "b1 \<le> 191" by (auto simp: second_ok_def cont_def)
  then have "b1 mod 64 = b1 - 128" using mod_shift [of 2 64 b1] by simp
  moreover have "32 \<le> b1 - 128" using b1 by arith
  then have "32 * 64 \<le> (b1 - 128) * 64" by (rule mult_le_mono1)
  ultimately show ?thesis by linarith
next
  case False
  have "b mod 16 = b - 224" using mod_shift [of 14 16 b] assms by simp
  with assms False show ?thesis by simp
qed

lemma lead4:
  fixes b b1 x :: nat
  assumes "240 \<le> b" "b \<le> 244" "second_ok b b1"
  shows "128 \<le> (b mod 8) * 262144 + (b1 mod 64) * 4096 + x"
proof (cases "b = 240")
  case True
  with assms have b1: "144 \<le> b1" "b1 \<le> 191" by (auto simp: second_ok_def cont_def)
  then have "b1 mod 64 = b1 - 128" using mod_shift [of 2 64 b1] by simp
  moreover have "16 \<le> b1 - 128" using b1 by arith
  then have "16 * 4096 \<le> (b1 - 128) * 4096" by (rule mult_le_mono1)
  ultimately show ?thesis by linarith
next
  case False
  have "b mod 8 = b - 240" using mod_shift [of 30 8 b] assms by simp
  with assms False show ?thesis by simp
qed

lemma decode_rune_ascii:
  assumes "fst (decode_rune (b # bs)) < 128"
  shows "b < 128"
proof (rule ccontr)
  assume "\<not> b < 128"
  then consider "bs = [] \<or> b < 194 \<or> 244 < b" | b1 r where "bs = b1 # r" "194 \<le> b" "b < 224"
    | b1 r where "bs = b1 # r" "224 \<le> b" "b < 240" | b1 r where "bs = b1 # r" "240 \<le> b" "b \<le> 244"
    by (cases bs) (simp, fastforce)
  then have "128 \<le> fst (decode_rune (b # bs))"
  proof cases
    case 1
    with \<open>\<not> b < 128\<close> show ?thesis by (auto simp: decode_rune_def rune_error_def)
  next
    case 2
    then show ?thesis by (simp add: decode_rune_def rune_error_def lead2)
  next
    case (3 b1 r)
    have "128 \<le> (b mod 16) * 4096 + (b1 mod 64) * 64 + x" if "second_ok b b1" for x
      using lead3 [OF 3(2,3) that] .
    with 3 show ?thesis
      by (auto simp: decode_rune_def rune_error_def split: list.split)
  next
    case (4 b1 r)
    have "128 \<le> (b mod 8) * 262144 + (b1 mod 64) * 4096 + x" if "second_ok b b1" for x
      using lead4 [OF 4(2,3) that] .
    with 4 show ?thesis
      by (auto simp: decode_rune_def rune_error_def add.assoc split: list.split)
  qed
  with assms show False by simp
qed

lemma runes_of_small: "list_all (\<lambda>r. r < 128) (runes_of bs) \<Longrightarrow> runes_of bs = bs"
proof (induction bs rule: runes_of.induct)
  case 1
  show ?case by simp
next
  case (2 b bs)
  obtain r w where rw: "decode_rune (b # bs) = (r, w)" by fastforce
  with "2.prems" have "r < 128" by simp
  with rw have "b < 128" using decode_rune_ascii [of b bs] by simp
  then have "decode_rune (b # bs) = (b, 1)" by (simp add: decode_rune_def)
  with rw have "r = b" "w = 1" by simp_all
  with rw "2.prems" "2.IH" [OF refl rw [symmetric]] show ?case by simp
qed

lemma runes_small:
  assumes "list_all (\<lambda>r. r < 128) (runes s)"
  shows "is_ascii s" and "runes s = map byte s"
proof -
  show r: "runes s = map byte s" using assms runes_of_small unfolding runes_def by blast
  show "is_ascii s" using assms by (simp add: r is_ascii_def list_all_iff)
qed

section \<open>Local parts and addresses\<close>

definition local_byte :: "char \<Rightarrow> bool" where
  "local_byte c \<longleftrightarrow> local_part_rune (byte c)"

lemma local_byte_facts:
  "local_byte c \<Longrightarrow> byte c < 128 \<and> \<not> ascii_space (byte c) \<and> c \<noteq> CHR ''@'' \<and> c \<noteq> CHR '':''"
  by (auto simp: local_byte_def local_part_rune_def ascii_space_def byte_def)

lemma local_byte_lower: "local_byte c \<Longrightarrow> local_byte (ascii_lower c)"
  by (auto simp: local_byte_def local_part_rune_def byte_ascii_lower ascii_range_def)

text \<open>\<open>ValidateLocalPart\<close> accepts exactly the texts whose trimmed form is a dot-atom over the
  platform's alphabet.\<close>

definition dot_atom :: "string \<Rightarrow> bool" where
  "dot_atom l \<longleftrightarrow> l \<noteq> [] \<and> length l \<le> 64 \<and> list_all local_byte l
     \<and> hd l \<noteq> CHR ''.'' \<and> last l \<noteq> CHR ''.'' \<and> \<not> contains l ''..''"

lemma local_part_runes:
  "(find (\<lambda>r. \<not> local_part_rune r) (runes l) = None) \<longleftrightarrow> list_all local_byte l"
proof
  assume "find (\<lambda>r. \<not> local_part_rune r) (runes l) = None"
  then have *: "list_all local_part_rune (runes l)" by (auto simp: find_None_iff list_all_iff)
  then have "list_all (\<lambda>r. r < 128) (runes l)"
    by (auto simp: list_all_iff local_part_rune_def)
  from * runes_small(2) [OF this] show "list_all local_byte l"
    by (simp add: local_byte_def list_all_iff)
next
  assume l: "list_all local_byte l"
  then have "is_ascii l" by (auto simp: is_ascii_iff list_all_iff dest: local_byte_facts)
  with l show "find (\<lambda>r. \<not> local_part_rune r) (runes l) = None"
    by (auto simp: runes_ascii find_None_iff list_all_iff local_byte_def)
qed

lemma ValidateLocalPart_iff: "ValidateLocalPart s = None \<longleftrightarrow> dot_atom (trim_space s)"
  using local_part_runes [of "trim_space s"]
  by (auto simp: ValidateLocalPart_def Let_def dot_atom_def has_prefix_single has_suffix_single
      split: option.splits)

lemma last_index_byte_None: "last_index_byte s c = None \<longleftrightarrow> c \<notin> set s"
  by (induction s) (auto split: option.splits)

lemma SplitHostPort_no_colon: "CHR '':'' \<notin> set s \<Longrightarrow> SplitHostPort s = None"
  by (simp add: SplitHostPort_def last_index_byte_None [THEN iffD2])

text \<open>For a local part without surrounding white space, \<open>BuildAddress\<close> succeeds exactly when
  the local part is a dot-atom and the domain normalizes; the address then cuts at its single
  \<open>@\<close> into the lower-cased local part and the normalized domain (the port check never fires).\<close>

theorem BuildAddress_roundtrip:
  assumes "trim_space l = l"
  shows "BuildAddress to_ascii l fqdn = Inr a \<longleftrightarrow>
     dot_atom l \<and> (\<exists>d. NormalizeDomain to_ascii fqdn = Inr d \<and> a = map ascii_lower l @ ''@'' @ d
        \<and> split_on CHR ''@'' a = [map ascii_lower l, d]
        \<and> cut_at CHR ''@'' a = (map ascii_lower l, d, True))"
proof -
  have *: "split_on CHR ''@'' (map ascii_lower l @ ''@'' @ d) = [map ascii_lower l, d]"
     "cut_at CHR ''@'' (map ascii_lower l @ ''@'' @ d) = (map ascii_lower l, d, True)"
     "SplitHostPort (map ascii_lower l @ ''@'' @ d) = None" "to_lower l = map ascii_lower l"
    if l: "dot_atom l" and d: "NormalizeDomain to_ascii fqdn = Inr d" for d
  proof -
    have lb: "list_all local_byte l" using l by (simp add: dot_atom_def)
    then have at: "CHR ''@'' \<notin> ascii_lower ` set l" and co: "CHR '':'' \<notin> ascii_lower ` set l"
      using local_byte_facts [OF local_byte_lower] by (force simp: list_all_iff)+
    note v = valid_fqdn_clean [OF NormalizeDomain_valid [OF d]]
    show "split_on CHR ''@'' (map ascii_lower l @ ''@'' @ d) = [map ascii_lower l, d]"
      using at v(4) by (simp add: split_on_append split_on_word)
    show "cut_at CHR ''@'' (map ascii_lower l @ ''@'' @ d) = (map ascii_lower l, d, True)"
      using at by (simp add: cut_at_found)
    show "SplitHostPort (map ascii_lower l @ ''@'' @ d) = None"
      using co v(5) by (simp add: SplitHostPort_no_colon)
    show "to_lower l = map ascii_lower l"
      using lb local_byte_facts by (intro to_lower_ascii) (auto simp: is_ascii_iff list_all_iff)
  qed
  show ?thesis
    using * ValidateLocalPart_iff [of l] assms
    by (cases "ValidateLocalPart l") (auto simp: BuildAddress_def Let_def split: sum.splits)
qed

theorem BuildAddress_roundtrip_witness:
  "BuildAddress Inr ''bob'' ''a.io'' = Inr ''bob@a.io''"
proof -
  have t: "trim_space ''bob'' = ''bob''" by (rule trim_space_id) (simp_all add: byte_def ascii_space_def)
  have "dot_atom ''bob''" using ValidateLocalPart_iff [of "''bob''"] t
    by (simp add: ValidateLocalPart_def local_part_rune_def runes_ascii is_ascii_def byte_def
        has_prefix_def has_suffix_def)
  then show ?thesis
    using BuildAddress_roundtrip [OF t, of Inr "''a.io''"] sample_fqdn
    by (auto simp: ascii_lower_def ascii_range_def byte_def)
qed

section \<open>Slugs\<close>

definition slug_byte :: "char \<Rightarrow> bool" where
  "slug_byte c \<longleftrightarrow> is_lower c \<or> is_digit c \<or> c = CHR ''-''"

definition no_double_dash :: "string \<Rightarrow> bool" where
  "no_double_dash s \<longleftrightarrow> successively (\<lambda>a b. \<not> (a = CHR ''-'' \<and> b = CHR ''-'')) s"

definition slug_ok :: "string \<Rightarrow> bool" where
  "slug_ok s \<longleftrightarrow> s \<noteq> [] \<and> list_all slug_byte s \<and> hd s \<noteq> CHR ''-'' \<and> last s \<noteq> CHR ''-''
     \<and> no_double_dash s"

definition slug_part :: "string \<Rightarrow> bool" where
  "slug_part b \<longleftrightarrow> list_all slug_byte b \<and> (b \<noteq> [] \<longrightarrow> hd b \<noteq> CHR ''-'') \<and> no_double_dash b"

lemma slug_loop_part:
  assumes "slug_part b" and "lastDash \<longleftrightarrow> b \<noteq> [] \<and> last b = CHR ''-''"
  shows "slug_part (slug_loop b lastDash rs)"
  using assms
proof (induction rs arbitrary: b lastDash)
  case Nil
  then show ?case by simp
next
  case (Cons r rs)
  show ?case
  proof (cases "(97 \<le> r \<and> r \<le> 122) \<or> (48 \<le> r \<and> r \<le> 57)")
    case True
    then have e: "encode_rune r = [chr_of r]" and ok: "slug_byte (chr_of r)" and nd: "chr_of r \<noteq> CHR ''-''"
      by (auto simp: encode_rune_def slug_byte_def ascii_range_def byte_chr_of simp del: byte_inject
          simp flip: byte_inject)
    have "slug_part (b @ [chr_of r])"
      using Cons.prems(1) ok nd
      by (auto simp: slug_part_def no_double_dash_def successively_append_iff hd_append)
    then have "slug_part (slug_loop (b @ [chr_of r]) False rs)"
      using nd by (intro Cons.IH) auto
    with True e show ?thesis by simp
  next
    case False
    show ?thesis
    proof (cases "\<not> lastDash \<and> 0 < length b")
      case True
      have "slug_part (b @ ''-'')"
        using Cons.prems True
        by (auto simp: slug_part_def no_double_dash_def successively_append_iff slug_byte_def)
      then have "slug_part (slug_loop (b @ ''-'') True rs)"
        by (intro Cons.IH) auto
      with True \<open>\<not> (_ \<or> _)\<close> show ?thesis by auto
    next
      case no: False
      have "slug_part (slug_loop b lastDash rs)" using Cons.prems by (rule Cons.IH)
      with no False show ?thesis by auto
    qed
  qed
qed

lemma trim_byte_prefix: "hd s \<noteq> c \<Longrightarrow> \<exists>q. s = trim_byte c s @ q"
proof -
  assume "hd s \<noteq> c"
  then have d: "dropWhile (\<lambda>x. x = c) s = s" by (cases s) auto
  have "rev s = takeWhile (\<lambda>x. x = c) (rev s) @ dropWhile (\<lambda>x. x = c) (rev s)" by simp
  then have "s = rev (dropWhile (\<lambda>x. x = c) (rev s)) @ rev (takeWhile (\<lambda>x. x = c) (rev s))"
    by (metis rev_append rev_rev_ident)
  then show ?thesis using d by (auto simp: trim_byte_def)
qed

lemma trim_byte_last: "trim_byte c s \<noteq> [] \<Longrightarrow> last (trim_byte c s) \<noteq> c"
  using hd_dropWhile [of "\<lambda>x. x = c" "rev (dropWhile (\<lambda>x. x = c) s)"]
  by (simp add: trim_byte_def last_rev)

lemma trim_byte_id: "hd s \<noteq> c \<Longrightarrow> last s \<noteq> c \<Longrightarrow> trim_byte c s = s"
  by (cases "s = []") (auto simp: trim_byte_def dropWhile_eq_self_iff [THEN iffD2] hd_rev)

lemma Slugify_ok: "slug_ok (Slugify s)"
proof -
  let ?b = "slug_loop [] False (runes (to_lower (trim_space s)))"
  let ?out = "trim_byte CHR ''-'' ?b"
  have p: "slug_part ?b" by (rule slug_loop_part) (auto simp: slug_part_def no_double_dash_def)
  have "slug_ok ?out" if "?out \<noteq> []"
  proof -
    have "?b \<noteq> []" using that by (auto simp: trim_byte_def)
    with p have "hd ?b \<noteq> CHR ''-''" by (simp add: slug_part_def)
    then obtain q where q: "?b = ?out @ q" using trim_byte_prefix by blast
    then have "slug_part ?out"
      using p that unfolding slug_part_def no_double_dash_def
      by (metis hd_append2 list_all_append append_is_Nil_conv successively_append_iff)
    then show ?thesis using that trim_byte_last [OF that] by (simp add: slug_ok_def slug_part_def)
  qed
  moreover have "slug_ok ''org''"
    by (simp add: slug_ok_def slug_byte_def ascii_range_def byte_def no_double_dash_def)
  ultimately show ?thesis by (simp add: Slugify_def Let_def)
qed

lemma slug_byte_facts:
  "slug_byte c \<Longrightarrow> byte c < 128 \<and> \<not> ascii_space (byte c) \<and> \<not> is_upper c"
  by (auto simp: slug_byte_def ascii_range_def ascii_space_def)

lemma slug_loop_append:
  assumes "list_all slug_byte s" and "no_double_dash (b @ s)" and "b @ s \<noteq> [] \<longrightarrow> hd (b @ s) \<noteq> CHR ''-''"
    and "lastDash \<longleftrightarrow> b \<noteq> [] \<and> last b = CHR ''-''"
  shows "slug_loop b lastDash (map byte s) = b @ s"
  using assms
proof (induction s arbitrary: b lastDash)
  case Nil
  then show ?case by simp
next
  case (Cons c s)
  show ?case
  proof (cases "c = CHR ''-''")
    case True
    then have "b \<noteq> []" using Cons.prems(3) by (cases b) auto
    moreover from this Cons.prems(2,4) True have "\<not> lastDash"
      by (auto simp: no_double_dash_def successively_append_iff)
    moreover have "slug_loop (b @ ''-'') True (map byte s) = (b @ ''-'') @ s"
      using Cons.prems True by (intro Cons.IH) auto
    ultimately show ?thesis using True by simp
  next
    case False
    then have r: "(97 \<le> byte c \<and> byte c \<le> 122) \<or> (48 \<le> byte c \<and> byte c \<le> 57)"
      using Cons.prems(1) by (auto simp: slug_byte_def ascii_range_def)
    have "slug_loop (b @ [c]) False (map byte s) = (b @ [c]) @ s"
      using Cons.prems False by (intro Cons.IH) auto
    with r show ?thesis by (auto simp: encode_rune_def)
  qed
qed

lemma Slugify_idem: "Slugify (Slugify s) = Slugify s"
proof -
  let ?t = "Slugify s"
  have ok: "slug_ok ?t" by (rule Slugify_ok)
  then have b: "byte c < 128 \<and> \<not> ascii_space (byte c) \<and> \<not> is_upper c" if "c \<in> set ?t" for c
    using that slug_byte_facts by (auto simp: slug_ok_def list_all_iff)
  then have asc: "is_ascii ?t" and fr: "space_free ?t"
    by (auto simp: is_ascii_iff space_free_def list_all_iff)
  have low: "to_lower ?t = ?t" using asc b by (intro to_lower_id) auto
  have "slug_loop [] False (map byte ?t) = [] @ ?t"
    using ok by (intro slug_loop_append) (auto simp: slug_ok_def)
  moreover have "trim_byte CHR ''-'' ?t = ?t"
    using ok by (intro trim_byte_id) (auto simp: slug_ok_def)
  ultimately show ?thesis
    using ok by (simp add: Slugify_def [of ?t] trim_space_free [OF fr] low runes_ascii [OF asc] slug_ok_def)
qed

text \<open>C39: every slug is non-empty, consists of lower-case letters, digits and single hyphens, and
  neither starts nor ends with a hyphen, whatever bytes the display name holds; and a slug is its
  own slug.\<close>

theorem Slugify_canonical: "slug_ok (Slugify s) \<and> Slugify (Slugify s) = Slugify s"
  by (simp add: Slugify_ok Slugify_idem)

section \<open>E-mail addresses and users\<close>

lemma index_byte_Some: "index_byte s c = Some i \<longleftrightarrow> (\<exists>b. s = take i s @ c # b \<and> c \<notin> set (take i s) \<and> length (take i s) = i)"
proof (induction s arbitrary: i)
  case Nil
  show ?case by auto
next
  case (Cons x s)
  show ?case by (cases i) (auto simp: Cons.IH)
qed

lemma last_index_byte_append: "c \<notin> set b \<Longrightarrow> last_index_byte (a @ c # b) c = Some (length a)"
  by (induction a) (auto simp: last_index_byte_None [THEN iffD2])

text \<open>\<open>looksLikeEmail\<close> accepts exactly the texts \<open>local@domain\<close> with a single at sign, a
  non-empty local part, and a domain that has a dot and neither blank nor tab.\<close>

theorem looksLikeEmail_iff:
  "looksLikeEmail s \<longleftrightarrow>
     (\<exists>l d. s = l @ CHR ''@'' # d \<and> CHR ''@'' \<notin> set l \<and> CHR ''@'' \<notin> set d \<and> l \<noteq> []
        \<and> CHR ''.'' \<in> set d \<and> CHR '' '' \<notin> set d \<and> chr_of 9 \<notin> set d)"
  (is "_ \<longleftrightarrow> ?R")
proof
  assume e: "looksLikeEmail s"
  then obtain i where i: "index_byte s CHR ''@'' = Some i" "i \<noteq> 0"
     "last_index_byte s CHR ''@'' = Some i"
    by (auto simp: looksLikeEmail_def split: option.splits if_splits)
  then obtain b where b: "s = take i s @ CHR ''@'' # b" "CHR ''@'' \<notin> set (take i s)" "length (take i s) = i"
    by (auto simp: index_byte_Some)
  then have d: "drop (Suc i) s = b" by (metis append_eq_conv_conj drop_Suc_Cons drop_drop drop_0 plus_1_eq_Suc)
  have "CHR ''@'' \<notin> set b"
  proof
    assume "CHR ''@'' \<in> set b"
    then obtain u v where uv: "b = u @ CHR ''@'' # v" "CHR ''@'' \<notin> set v" by (meson split_list_last)
    then have "last_index_byte ((take i s @ CHR ''@'' # u) @ CHR ''@'' # v) CHR ''@''
        = Some (length (take i s @ CHR ''@'' # u))" by (intro last_index_byte_append)
    moreover have "(take i s @ CHR ''@'' # u) @ CHR ''@'' # v = s" using b(1) uv(1) by simp
    ultimately show False using i(3) b(3) by simp
  qed
  moreover have "contains b ''.''" "\<not> contains_any b [CHR '' '', chr_of 9]"
    using e i by (auto simp: looksLikeEmail_def d Let_def split: if_splits)
  then have "CHR ''.'' \<in> set b" "CHR '' '' \<notin> set b" "chr_of 9 \<notin> set b"
    by (auto simp: contains_byte contains_any_def list_ex_iff)
  ultimately show ?R using b i(2) by (metis length_0_conv)
next
  assume ?R
  then obtain l d where ld: "s = l @ CHR ''@'' # d" "CHR ''@'' \<notin> set l" "CHR ''@'' \<notin> set d" "l \<noteq> []"
      "CHR ''.'' \<in> set d" "CHR '' '' \<notin> set d" "chr_of 9 \<notin> set d" by blast
  have "index_byte s CHR ''@'' = Some (length l)" using ld(1,2) by (auto simp: index_byte_Some)
  moreover have "last_index_byte s CHR ''@'' = Some (length l)"
    using ld(1,3) by (simp add: last_index_byte_append)
  moreover have "contains d ''.''" using ld(5) by (simp add: contains_byte)
  moreover have "\<not> contains_any d [CHR '' '', chr_of 9]" "d \<noteq> []"
    using ld(5-7) by (auto simp: contains_any_def list_ex_iff)
  ultimately show "looksLikeEmail s" using ld by (simp add: looksLikeEmail_def)
qed

lemma NewUser_fields:
  "NewUser email dn prov ident = Inr u \<Longrightarrow>
     u_email u = to_lower (trim_space email) \<and> looksLikeEmail (u_email u)
     \<and> u_status u = UserStatusActive \<and> \<not> u_is_admin u
     \<and> u_auth_provider u = prov \<and> u_auth_identity u = ident \<and> trim_space prov \<noteq> []"
  by (auto simp: NewUser_def Let_def split: if_splits)

section \<open>Roles\<close>

lemma role_rank_inj: "role_valid a \<Longrightarrow> role_valid b \<Longrightarrow> Rank a = Rank b \<Longrightarrow> a = b"
  by (auto simp: role_valid_def Rank_def RoleOwner_def RoleAdmin_def RoleMember_def split: if_splits)

lemma CanManage_refl: "role_valid r \<Longrightarrow> CanManage r r"
  by (simp add: CanManage_def)

lemma CanManage_trans: "CanManage a b \<Longrightarrow> CanManage b c \<Longrightarrow> CanManage a c"
  by (simp add: CanManage_def)

lemma CanManage_owner: "CanManage r RoleOwner \<longleftrightarrow> r = RoleOwner"
  by (auto simp: CanManage_def role_valid_def Rank_def RoleOwner_def RoleAdmin_def RoleMember_def
      split: if_splits)

lemma CanManage_admin: "CanManage r RoleAdmin \<longleftrightarrow> r = RoleOwner \<or> r = RoleAdmin"
  by (auto simp: CanManage_def role_valid_def Rank_def RoleOwner_def RoleAdmin_def RoleMember_def
      split: if_splits)

lemma CanManage_member: "CanManage r RoleMember \<longleftrightarrow> role_valid r"
  by (auto simp: CanManage_def role_valid_def Rank_def RoleOwner_def RoleAdmin_def RoleMember_def
      split: if_splits)

lemma CanManage_Nil [simp]: "\<not> CanManage [] r"
  by (simp add: CanManage_def role_valid_def RoleOwner_def RoleAdmin_def RoleMember_def)

end
