(* ===== verification/Catalog_Model.thy ===== *)
theory Catalog_Model
  imports Go_Strings
begin

text \<open>
  Package \<open>internal/catalog\<close>: the application manifest and its validation. Pointers of the Go
  struct are options. The YAML decoder (gopkg.in/yaml.v3 with unknown fields rejected) is the
  argument of \<open>Parse\<close>. The errors of \<open>Validate\<close> are a datatype whose constructors carry the
  quoted value; the texts of the messages are not modelled.
\<close>

definition EngineDockerCompose :: string where "EngineDockerCompose = ''docker-compose''"
definition AuthOIDC :: string where "AuthOIDC = ''oidc''"
definition AuthForwardAuth :: string where "AuthForwardAuth = ''forward-auth''"
definition AuthNative :: string where "AuthNative = ''native''"
definition AuthNone :: string where "AuthNone = ''none''"
definition DBPostgres :: string where "DBPostgres = ''postgres''"
definition DBNone :: string where "DBNone = ''none''"
definition SenderPlatformManaged :: string where "SenderPlatformManaged = ''platform-managed''"

record storage =
  st_name :: string
  st_type :: string

record email_needs =
  em_required :: bool
  em_sender_mode :: string
  em_sender_local_part :: string
  em_smtp_required :: bool

record manifest =
  mf_id :: string
  mf_version :: string
  mf_name :: string
  mf_description :: string
  mf_category :: string
  mf_engine :: string
  mf_image :: string
  mf_http_port :: "int option"
  mf_storage :: "storage list"
  mf_database :: string
  mf_auth_mode :: string
  mf_email :: "email_needs option"

datatype manifest_error =
    IdRequired | VersionRequired | UnsupportedEngine string | ImageRequired | BadPort
  | BadStorageType string | BadAuthMode string | BadDatabase string
  | BadSenderMode string | BadSenderLocalPart | BadYaml string

primrec storage_error :: "storage list \<Rightarrow> manifest_error option" where
  "storage_error [] = None"
| "storage_error (s # ss) =
    (if st_type s = ''persistent'' \<or> st_type s = ''ephemeral'' then storage_error ss
     else Some (BadStorageType (st_type s)))"

definition Validate :: "manifest \<Rightarrow> manifest_error option" where
  "Validate m =
    (if trim_space (mf_id m) = [] then Some IdRequired
     else if trim_space (mf_version m) = [] then Some VersionRequired
     else if mf_engine m \<noteq> EngineDockerCompose then Some (UnsupportedEngine (mf_engine m))
     else if mf_engine m = EngineDockerCompose \<and> trim_space (mf_image m) = [] then Some ImageRequired
     else if (case mf_http_port m of None \<Rightarrow> False | Some p \<Rightarrow> p \<le> 0) then Some BadPort
     else (case storage_error (mf_storage m) of
         Some e \<Rightarrow> Some e
       | None \<Rightarrow>
          if \<not> (mf_auth_mode m = AuthOIDC \<or> mf_auth_mode m = AuthForwardAuth
                \<or> mf_auth_mode m = AuthNative \<or> mf_auth_mode m = AuthNone)
          then Some (BadAuthMode (mf_auth_mode m))
          else if \<not> (mf_database m = DBPostgres \<or> mf_database m = DBNone)
          then Some (BadDatabase (mf_database m))
          else (case mf_email m of
              None \<Rightarrow> None
            | Some em \<Rightarrow>
               if em_sender_mode em \<noteq> [] \<and> em_sender_mode em \<noteq> SenderPlatformManaged
               then Some (BadSenderMode (em_sender_mode em))
               else if em_sender_local_part em \<noteq> []
                       \<and> contains_any (em_sender_local_part em) [CHR ''@'', CHR '' '', CHR 0x09]
               then Some BadSenderLocalPart
               else None)))"

definition Parse :: "(string \<Rightarrow> string + manifest) \<Rightarrow> string \<Rightarrow> manifest_error + manifest" where
  "Parse decode data =
    (case decode data of
       Inl e \<Rightarrow> Inl (BadYaml e)
     | Inr m \<Rightarrow> (case Validate m of Some e \<Rightarrow> Inl e | None \<Rightarrow> Inr m))"

definition BuiltIns :: "manifest list" where
  "BuiltIns =
    [\<lparr>mf_id = ''gitea'', mf_version = ''1'', mf_name = ''Gitea'',
      mf_description = ''Lightweight Git hosting'', mf_category = ''development'',
      mf_engine = EngineDockerCompose, mf_image = ''gitea/gitea:1.22.2'',
      mf_http_port = Some 3000,
      mf_storage = [\<lparr>st_name = ''data'', st_type = ''persistent''\<rparr>],
      mf_database = DBPostgres, mf_auth_mode = AuthOIDC,
      mf_email = Some \<lparr>em_required = True, em_sender_mode = SenderPlatformManaged,
                       em_sender_local_part = ''notifications'', em_smtp_required = True\<rparr>\<rparr>]"

section \<open>What validation means\<close>

lemma storage_error_None:
  "storage_error ss = None \<longleftrightarrow> (\<forall>s \<in> set ss. st_type s \<in> {''persistent'', ''ephemeral''})"
  by (induction ss) auto

text \<open>The schema of the specification, as a predicate.\<close>

definition email_ok :: "email_needs \<Rightarrow> bool" where
  "email_ok em \<longleftrightarrow>
     em_sender_mode em \<in> {[], SenderPlatformManaged}
     \<and> {CHR ''@'', CHR '' '', CHR 0x09} \<inter> set (em_sender_local_part em) = {}"

definition manifest_ok :: "manifest \<Rightarrow> bool" where
  "manifest_ok m \<longleftrightarrow>
     trim_space (mf_id m) \<noteq> [] \<and> trim_space (mf_version m) \<noteq> []
     \<and> mf_engine m = EngineDockerCompose \<and> trim_space (mf_image m) \<noteq> []
     \<and> (\<forall>p. mf_http_port m = Some p \<longrightarrow> 0 < p)
     \<and> (\<forall>s \<in> set (mf_storage m). st_type s \<in> {''persistent'', ''ephemeral''})
     \<and> mf_auth_mode m \<in> {AuthOIDC, AuthForwardAuth, AuthNative, AuthNone}
     \<and> mf_database m \<in> {DBPostgres, DBNone}
     \<and> (\<forall>em. mf_email m = Some em \<longrightarrow> email_ok em)"

lemma Validate_iff: "Validate m = None \<longleftrightarrow> manifest_ok m"
proof -
  have e: "(em_sender_mode em \<noteq> [] \<and> em_sender_mode em \<noteq> SenderPlatformManaged)
      \<or> (em_sender_local_part em \<noteq> []
          \<and> contains_any (em_sender_local_part em) [CHR ''@'', CHR '' '', CHR 0x09])
      \<longleftrightarrow> \<not> email_ok em" for em
    by (auto simp: email_ok_def contains_any_def list_ex_iff)
  show ?thesis
  proof (cases "storage_error (mf_storage m)")
    case None
    then have st: "\<forall>s \<in> set (mf_storage m). st_type s \<in> {''persistent'', ''ephemeral''}"
      by (simp only: storage_error_None)
    show ?thesis
    proof (cases "mf_email m")
      case None
      with \<open>storage_error (mf_storage m) = None\<close> st show ?thesis
        by (auto simp: Validate_def manifest_ok_def split: option.splits)
    next
      case (Some em)
      with \<open>storage_error (mf_storage m) = None\<close> st e [of em] show ?thesis
        by (auto simp: Validate_def manifest_ok_def split: option.splits)
    qed
  next
    case (Some err)
    then have "\<not> (\<forall>s \<in> set (mf_storage m). st_type s \<in> {''persistent'', ''ephemeral''})"
      using storage_error_None [of "mf_storage m"] by simp
    with Some show ?thesis by (auto simp: Validate_def manifest_ok_def)
  qed
qed

lemma BuiltIns_ok: "m \<in> set BuiltIns \<Longrightarrow> Validate m = None"
proof -
  have t: "trim_space ''gitea'' = ''gitea''" "trim_space ''1'' = ''1''"
    "trim_space ''gitea/gitea:1.22.2'' = ''gitea/gitea:1.22.2''"
    by (rule trim_space_id, simp add: byte_def ascii_space_def)+
  assume "m \<in> set BuiltIns"
  then show "Validate m = None"
    by (simp add: Validate_iff manifest_ok_def BuiltIns_def t email_ok_def chr_of_def)
qed

text \<open>The manifests \<open>Parse\<close> returns are exactly the decoded ones that meet every rule of the
  schema: identity and version present, the Compose engine with an image, a positive port, known
  storage types, a known authentication mode and database, and a platform-managed sender whose
  local part holds no at sign, blank or tab; and every built-in manifest meets them.\<close>

theorem Parse_iff:
  "(Parse decode s = Inr m \<longleftrightarrow> decode s = Inr m \<and> manifest_ok m)
   \<and> list_all (\<lambda>b. Validate b = None) BuiltIns"
  by (auto simp: Parse_def Validate_iff [symmetric] list_all_iff BuiltIns_ok
      split: sum.splits option.splits)

end
