(* ===== verification/Deploy_Model.thy ===== *)
theory Deploy_Model
  imports Catalog_Model Domain_Lemmas Go_Quote "HOL-Library.Multiset" "HOL-Library.List_Lexorder"
    "HOL-Library.Char_ord"
begin

text \<open>
  Packages \<open>internal/deploy\<close> (the Compose file of an application instance) and
  \<open>internal/traefik\<close> (its routing labels). Both are pure generators. A Go map argument is the
  list of its entries in the order the runtime happens to iterate over it, keys distinct; the
  lemma \<open>sortedKeys_sort\<close> shows that this order does not matter. Text is compared byte by byte,
  which is the lexicographic order of \<^theory_text>\<open>HOL-Library.List_Lexorder\<close> on bytes.
\<close>

section \<open>Sanitizers\<close>

text \<open>The loops of the two \<open>sanitize\<close> functions: keep the safe runes, lower upper-case letters,
  drop the rest.\<close>

definition deploy_rune :: "nat \<Rightarrow> string" where
  "deploy_rune r =
    (if (97 \<le> r \<and> r \<le> 122) \<or> (48 \<le> r \<and> r \<le> 57) \<or> r = 45 \<or> r = 95 then encode_rune r
     else if 65 \<le> r \<and> r \<le> 90 then encode_rune (r - 65 + 97) else [])"

definition deploy_sanitize :: "string \<Rightarrow> string" where
  "deploy_sanitize s =
    (let out = concat (map deploy_rune (runes s));
         out = (if out = [] then ''app'' else out)
     in if 40 < length out then take 40 out else out)"

definition traefik_rune :: "nat \<Rightarrow> string" where
  "traefik_rune r =
    (if (97 \<le> r \<and> r \<le> 122) \<or> (48 \<le> r \<and> r \<le> 57) \<or> r = 45 then encode_rune r
     else if 65 \<le> r \<and> r \<le> 90 then encode_rune (r - 65 + 97) else [])"

definition traefik_sanitize :: "string \<Rightarrow> string" where
  "traefik_sanitize s =
    (let name = trim_byte CHR ''-'' (concat (map traefik_rune (runes s)));
         name = (if name = [] then ''app'' else name)
     in if 20 < length name then take 20 name else name)"

section \<open>Sorting the environment\<close>

text \<open>The inner loop: \<open>for j := i; j > 0 && out[j] < out[j-1]; j-- { swap }\<close>.\<close>

primrec sift :: "'a::linorder list \<Rightarrow> nat \<Rightarrow> 'a list" where
  "sift out 0 = out"
| "sift out (Suc j) =
    (if out ! Suc j < out ! j then sift (out[Suc j := out ! j, j := out ! Suc j]) j else out)"

primrec sift_all :: "'a::linorder list \<Rightarrow> nat list \<Rightarrow> 'a list" where
  "sift_all out [] = out"
| "sift_all out (i # is) = sift_all (sift out i) is"

definition sortedKeys :: "(string \<times> 'v) list \<Rightarrow> string list" where
  "sortedKeys m = (if m = [] then [] else sift_all (map fst m) [1..<length m])"

section \<open>The Compose file\<close>

datatype compose_error = NoInstance | NotCompose

definition volume_lines :: "storage list \<Rightarrow> string list" where
  "volume_lines ss =
    map (\<lambda>s. ''      - '' @ st_name s @ '':/srv/'' @ st_name s)
      (filter (\<lambda>s. st_type s = ''persistent'') ss)"

definition env_lines :: "(string \<times> string) list \<Rightarrow> string list" where
  "env_lines env =
    map (\<lambda>k. ''      '' @ k @ '': '' @ Quote (the (map_of env k))) (sortedKeys env)"

definition Compose :: "string \<Rightarrow> manifest option \<Rightarrow> (string \<times> string) list \<Rightarrow> compose_error + string" where
  "Compose instanceID m extraEnv =
    (if instanceID = [] then Inl NoInstance
     else (case m of
         None \<Rightarrow> Inl NotCompose
       | Some m \<Rightarrow>
          if mf_engine m \<noteq> EngineDockerCompose then Inl NotCompose
          else
            let volumes = volume_lines (mf_storage m); envLines = env_lines extraEnv in
            Inr (''name: platform-'' @ deploy_sanitize instanceID @ [nl]
              @ ''services:'' @ [nl]
              @ ''  app:'' @ [nl]
              @ ''    image: '' @ Quote (mf_image m) @ [nl]
              @ ''    restart: unless-stopped'' @ [nl]
              @ (if 0 < length envLines
                 then ''    environment:'' @ [nl] @ concat (map (\<lambda>l. l @ [nl]) envLines) else [])
              @ (if 0 < length volumes
                 then ''    volumes:'' @ [nl] @ concat (map (\<lambda>v. v @ [nl]) volumes) else [])
              @ (if 0 < length (mf_storage m)
                 then ''volumes:'' @ [nl]
                   @ concat (map (\<lambda>s. ''  '' @ st_name s @ '':'' @ [nl]) (mf_storage m))
                 else []))))"

section \<open>Traefik labels\<close>

record label =
  lb_key :: string
  lb_value :: string

definition RouteLabels :: "string \<Rightarrow> string \<Rightarrow> int \<Rightarrow> bool \<Rightarrow> label list" where
  "RouteLabels instanceID hostname port forwardAuth =
    (let name = traefik_sanitize instanceID;
         mw = name @ ''-auth'';
         out =
          [\<lparr>lb_key = ''traefik.enable'', lb_value = ''true''\<rparr>,
           \<lparr>lb_key = ''traefik.http.routers.'' @ name @ ''.rule'',
            lb_value = ''Host('' @ [CHR 0x60] @ hostname @ [CHR 0x60] @ '')''\<rparr>,
           \<lparr>lb_key = ''traefik.http.routers.'' @ name @ ''.entrypoints'', lb_value = ''websecure''\<rparr>,
           \<lparr>lb_key = ''traefik.http.routers.'' @ name @ ''.tls'', lb_value = ''true''\<rparr>,
           \<lparr>lb_key = ''traefik.http.services.'' @ name @ ''.loadbalancer.server.port'',
            lb_value = show_int port\<rparr>]
          @ (if forwardAuth then
              [\<lparr>lb_key = ''traefik.http.middlewares.'' @ mw @ ''.forwardauth.address'',
                lb_value = ''http://authentik:9000/outpost.goauthentik.io/auth/traefik''\<rparr>,
               \<lparr>lb_key = ''traefik.http.middlewares.'' @ mw @ ''.forwardauth.authResponseHeaders'',
                lb_value = ''X-authentik-*''\<rparr>,
               \<lparr>lb_key = ''traefik.http.routers.'' @ name @ ''.middlewares'', lb_value = mw\<rparr>]
             else [])
     in sort_key lb_key out)"

section \<open>The sanitizers keep their promise\<close>

text \<open>What the callers of a sanitizer rely on: a non-empty name of bounded length over a safe
  alphabet, so that it can be spliced into a line of text.\<close>

locale name_sanitizer =
  fixes san :: "string \<Rightarrow> string" and safe :: "char \<Rightarrow> bool" and bound :: nat
  assumes san_nonempty: "san s \<noteq> []"
    and san_bound: "length (san s) \<le> bound"
    and san_safe: "c \<in> set (san s) \<Longrightarrow> safe c"
    and safe_print: "safe c \<Longrightarrow> 33 \<le> byte c \<and> byte c < 127 \<and> c \<noteq> dquote \<and> c \<noteq> backslash"
begin

lemma no_newline: "nl \<notin> set (san s)"
proof
  assume "nl \<in> set (san s)"
  then have "33 \<le> byte nl" using safe_print san_safe by blast
  then show False by (simp add: byte_def)
qed

lemma line: "nl \<notin> set a \<Longrightarrow> nl \<notin> set b \<Longrightarrow> nl \<notin> set (a @ san s @ b)"
  by (simp add: no_newline)

end

definition deploy_safe :: "char \<Rightarrow> bool" where
  "deploy_safe c \<longleftrightarrow> is_lower c \<or> is_digit c \<or> c = CHR ''-'' \<or> c = CHR ''_''"

definition traefik_safe :: "char \<Rightarrow> bool" where
  "traefik_safe c \<longleftrightarrow> is_lower c \<or> is_digit c \<or> c = CHR ''-''"

lemma deploy_rune_safe: "c \<in> set (deploy_rune r) \<Longrightarrow> deploy_safe c"
  by (auto simp: deploy_rune_def encode_rune_def deploy_safe_def ascii_range_def byte_chr_of
      simp flip: byte_inject split: if_splits)

lemma traefik_rune_safe: "c \<in> set (traefik_rune r) \<Longrightarrow> traefik_safe c"
  by (auto simp: traefik_rune_def encode_rune_def traefik_safe_def ascii_range_def byte_chr_of
      simp flip: byte_inject split: if_splits)

lemma app_safe: "c \<in> set ''app'' \<Longrightarrow> traefik_safe c"
  by (auto simp: traefik_safe_def ascii_range_def byte_def)

lemma traefik_deploy_safe: "traefik_safe c \<Longrightarrow> deploy_safe c"
  by (auto simp: traefik_safe_def deploy_safe_def)

lemma deploy_safe_print:
  "deploy_safe c \<Longrightarrow> 33 \<le> byte c \<and> byte c < 127 \<and> c \<noteq> dquote \<and> c \<noteq> backslash"
  by (auto simp: deploy_safe_def ascii_range_def byte_def)

lemma set_trim_byte: "set (trim_byte c s) \<subseteq> set s"
  by (auto simp: trim_byte_def dest!: set_dropWhileD)

lemma cut_safe:
  assumes "\<And>c. c \<in> set out \<Longrightarrow> P c" and "\<And>c. c \<in> set ''app'' \<Longrightarrow> P c" and "0 < (n::nat)"
  shows "let out = (if out = [] then ''app'' else out);
             r = (if n < length out then take n out else out)
         in r \<noteq> [] \<and> length r \<le> n \<and> list_all P r \<or> n < 3"
  using assms by (auto simp: Let_def list_all_iff dest: in_set_takeD)

lemma deploy_sanitize_ok:
  "deploy_sanitize s \<noteq> [] \<and> length (deploy_sanitize s) \<le> 40
    \<and> list_all deploy_safe (deploy_sanitize s)"
proof -
  define out where "out = concat (map deploy_rune (runes s))"
  have "deploy_safe c" if "c \<in> set out" for c
    using that deploy_rune_safe unfolding out_def by fastforce
  then show ?thesis
    using cut_safe [of out deploy_safe 40] app_safe traefik_deploy_safe
    by (simp add: deploy_sanitize_def Let_def out_def [symmetric])
qed

lemma traefik_sanitize_ok:
  "traefik_sanitize s \<noteq> [] \<and> length (traefik_sanitize s) \<le> 20
    \<and> list_all traefik_safe (traefik_sanitize s)"
proof -
  have "traefik_safe c" if "c \<in> set (trim_byte CHR ''-'' (concat (map traefik_rune (runes s))))" for c
    using that set_trim_byte traefik_rune_safe by fastforce
  then show ?thesis
    using cut_safe [of "trim_byte CHR ''-'' (concat (map traefik_rune (runes s)))" traefik_safe 20]
      app_safe by (simp add: traefik_sanitize_def Let_def)
qed

interpretation project: name_sanitizer deploy_sanitize deploy_safe 40
  using deploy_sanitize_ok deploy_safe_print by unfold_locales (auto simp: list_all_iff)

interpretation router: name_sanitizer traefik_sanitize traefik_safe 20
  using traefik_sanitize_ok deploy_safe_print traefik_deploy_safe
  by unfold_locales (auto simp: list_all_iff)

section \<open>The insertion sort sorts\<close>

lemma mset_sift: "j < length out \<Longrightarrow> mset (sift out j) = mset out"
  by (induction j arbitrary: out) (auto simp: mset_swap)

lemma length_sift [simp]: "length (sift out j) = length out"
  by (induction j arbitrary: out) auto

lemma sift_sorted:
  assumes "j < length out"
    and "\<And>a b. a < b \<Longrightarrow> b \<le> n \<Longrightarrow> a \<noteq> j \<Longrightarrow> b \<noteq> j \<Longrightarrow> out ! a \<le> out ! b"
    and "\<And>b. j < b \<Longrightarrow> b \<le> n \<Longrightarrow> out ! j \<le> out ! b"
    and "n < length out" and "j \<le> n" and "a < b" and "b \<le> n"
  shows "sift out j ! a \<le> sift out j ! b"
  using assms
proof (induction j arbitrary: out a b)
  case 0
  then show ?case by (cases "a = 0") auto
next
  case (Suc j)
  show ?case
  proof (cases "out ! Suc j < out ! j")
    case True
    let ?o = "out[Suc j := out ! j, j := out ! Suc j]"
    have "sift ?o j ! a \<le> sift ?o j ! b"
    proof (rule Suc.IH)
      fix a b assume *: "a < b" "b \<le> n" "a \<noteq> j" "b \<noteq> j"
      show "?o ! a \<le> ?o ! b"
        using * Suc.prems(1,4,5) Suc.prems(2) [of a b] Suc.prems(2) [of j b] Suc.prems(2) [of a j]
        by (auto simp: nth_list_update)
    next
      fix b assume "j < b" "b \<le> n"
      then show "?o ! j \<le> ?o ! b"
        using Suc.prems(1,3,4) True by (auto simp: nth_list_update)
    qed (use Suc.prems in auto)
    with True show ?thesis by simp
  next
    case False
    have "out ! a \<le> out ! b"
    proof (cases "b = Suc j")
      case True
      show ?thesis
      proof (cases "a = j")
        case True with \<open>b = Suc j\<close> False show ?thesis by simp
      next
        case False
        with True Suc.prems have "out ! a \<le> out ! j" by simp
        with \<open>\<not> out ! Suc j < out ! j\<close> True show ?thesis by simp
      qed
    next
      case False
      then show ?thesis using Suc.prems(2) [of a b] Suc.prems(3) [of b] Suc.prems(6,7)
        by (cases "a = Suc j") auto
    qed
    with False show ?thesis by simp
  qed
qed

lemma sift_all_sorted:
  assumes "1 \<le> n" "n \<le> length out" "sorted (take n out)"
  shows "sorted (sift_all out [n..<length out]) \<and> mset (sift_all out [n..<length out]) = mset out"
  using assms
proof (induction "length out - n" arbitrary: n out)
  case 0
  then show ?case by simp
next
  case (Suc d)
  then have n: "n < length out" by simp
  have le: "out ! a \<le> out ! b" if "a < b" "b < n" for a b
    using that Suc.prems(3) n by (auto simp: sorted_iff_nth_mono_less)
  have "sorted (take (Suc n) (sift out n))"
    using n sift_sorted [of n out n] le by (auto simp: sorted_iff_nth_mono_less)
  then have "sorted (sift_all (sift out n) [Suc n..<length (sift out n)])
      \<and> mset (sift_all (sift out n) [Suc n..<length (sift out n)]) = mset (sift out n)"
    using n Suc.hyps(2) by (intro Suc.hyps(1)) auto
  with n show ?case by (simp add: upt_conv_Cons mset_sift)
qed

lemma sortedKeys_sort: "sortedKeys m = sort (map fst m)"
proof (cases m)
  case Nil
  then show ?thesis by (simp add: sortedKeys_def)
next
  case (Cons p ps)
  have "sorted (sift_all (map fst m) [1..<length (map fst m)])
      \<and> mset (sift_all (map fst m) [1..<length (map fst m)]) = mset (map fst m)"
    using Cons by (intro sift_all_sorted) (auto simp: take_Suc_conv_app_nth)
  then have "sort (map fst m) = sift_all (map fst m) [1..<length m]"
    by (intro properties_for_sort) auto
  with Cons show ?thesis by (simp add: sortedKeys_def)
qed

lemma map_of_same_keys:
  assumes "map_of m = map_of m'" and "distinct (map fst m)" and "distinct (map fst m')"
  shows "sort (map fst m) = sort (map fst m')"
proof -
  have "set (map fst m) = set (map fst m')"
    using assms(1) by (simp add: dom_map_of_conv_image_fst [symmetric])
  with assms(2,3) have "mset (map fst m) = mset (map fst m')"
    using set_eq_iff_mset_eq_distinct by blast
  then show ?thesis by (intro properties_for_sort) simp_all
qed

section \<open>The Compose file line by line\<close>

text \<open>The Compose file depends only on the mapping of environment variables, never on the
  order in which the runtime iterates over the Go map, so that rendering is deterministic.\<close>

theorem Compose_deterministic:
  assumes "distinct (map fst env)" and "distinct (map fst env')" and "map_of env = map_of env'"
  shows "Compose i m env = Compose i m env'"
proof -
  have "env_lines env = env_lines env'"
    using map_of_same_keys [OF assms(3,1,2)] assms(3) by (simp add: env_lines_def sortedKeys_sort)
  then show ?thesis by (simp only: Compose_def)
qed

theorem Compose_deterministic_witness:
  "Compose ''i'' (Some (hd BuiltIns)) [(''A'', ''1''), (''B'', ''2'')]
   = Compose ''i'' (Some (hd BuiltIns)) [(''B'', ''2''), (''A'', ''1'')]"
  by (rule Compose_deterministic) (auto simp: fun_eq_iff)

text \<open>The lines of the file, as a list.\<close>

definition compose_lines :: "string \<Rightarrow> manifest \<Rightarrow> (string \<times> string) list \<Rightarrow> string list" where
  "compose_lines i m env =
    [''name: platform-'' @ deploy_sanitize i, ''services:'', ''  app:'',
     ''    image: '' @ Quote (mf_image m), ''    restart: unless-stopped'']
    @ (if env = [] then [] else ''    environment:'' # env_lines env)
    @ (if volume_lines (mf_storage m) = [] then []
       else ''    volumes:'' # volume_lines (mf_storage m))
    @ (if mf_storage m = [] then []
       else ''volumes:'' # map (\<lambda>s. ''  '' @ st_name s @ '':'') (mf_storage m))"

lemma split_lines:
  "(\<And>l. l \<in> set ls \<Longrightarrow> c \<notin> set l) \<Longrightarrow> split_on c (concat (map (\<lambda>l. l @ [c]) ls)) = ls @ [[]]"
proof (induction ls)
  case Nil
  show ?case by simp
next
  case (Cons l ls)
  then have "split_on c l = [l]" using split_join [of "[l]" c] by simp
  with Cons split_on_append [of c l "concat (map (\<lambda>l. l @ [c]) ls)"] show ?case by simp
qed

lemma length_sortedKeys: "length (sortedKeys m) = length m"
  by (simp add: sortedKeys_sort)

lemma Compose_text:
  assumes "i \<noteq> []" and "mf_engine m = EngineDockerCompose"
  shows "Compose i (Some m) env = Inr (concat (map (\<lambda>l. l @ [nl]) (compose_lines i m env)))"
proof -
  have "0 < length (env_lines env) \<longleftrightarrow> env \<noteq> []"
    by (simp only: env_lines_def length_map length_sortedKeys length_greater_0_conv)
  moreover have "volume_lines [] = []" by (simp add: volume_lines_def)
  ultimately show ?thesis
    using assms by (simp add: Compose_def compose_lines_def Let_def comp_def)
qed

lemma compose_lines_clean:
  assumes "\<And>s. s \<in> set (mf_storage m) \<Longrightarrow> nl \<notin> set (st_name s)"
    and "\<And>k v. (k, v) \<in> set env \<Longrightarrow> nl \<notin> set k"
    and "l \<in> set (compose_lines i m env)"
  shows "nl \<notin> set l"
  using assms project.no_newline Quote_no_nl
  by (auto simp: compose_lines_def env_lines_def volume_lines_def sortedKeys_sort split: if_splits)



text \<open>A storage name is not validated: a manifest that passes \<open>Validate\<close> adds lines of its own
  choice to the file.\<close>

definition smuggler :: manifest where
  "smuggler = (hd BuiltIns)
     \<lparr>mf_storage := [\<lparr>st_name = ''d:'' @ [nl] @ ''#'', st_type = ''ephemeral''\<rparr>]\<rparr>"

text \<open>C40: storage names are not validated: a manifest that \<open>Validate\<close> accepts puts a line of its own
  into the rendered file, beyond the lines of the project.\<close>

theorem Compose_storage_injection:
  "Validate smuggler = None
   \<and> (\<exists>file. Compose ''i'' (Some smuggler) [] = Inr file \<and> ''#:'' \<in> set (split_on nl file)
        \<and> ''#:'' \<notin> set (compose_lines ''i'' smuggler []))"
proof (intro conjI exI)
  have "manifest_ok (hd BuiltIns)" using BuiltIns_ok by (auto simp: Validate_iff [symmetric] BuiltIns_def)
  then have "manifest_ok smuggler" by (simp add: manifest_ok_def smuggler_def)
  then show "Validate smuggler = None" by (simp only: Validate_iff)
  have eng: "mf_engine smuggler = EngineDockerCompose" by (simp add: smuggler_def BuiltIns_def)
  show "Compose ''i'' (Some smuggler) []
      = Inr (concat (map (\<lambda>l. l @ [nl]) (compose_lines ''i'' smuggler [])))"
    using eng by (simp only: Compose_text list.distinct not_False_eq_True)
  define pre where "pre = concat (map (\<lambda>l. l @ [nl]) (butlast (compose_lines ''i'' smuggler [])))"
  have last: "compose_lines ''i'' smuggler []
      = butlast (compose_lines ''i'' smuggler []) @ [''  d:'' @ [nl] @ ''#:'']"
    by (simp add: compose_lines_def smuggler_def volume_lines_def)
  have "concat (map (\<lambda>l. l @ [nl]) (compose_lines ''i'' smuggler []))
      = (pre @ ''  d:'') @ nl # (''#:'' @ nl # [])"
    by (subst last) (simp add: pre_def)
  moreover have "split_on nl ((pre @ ''  d:'') @ nl # (''#:'' @ nl # []))
      = split_on nl (pre @ ''  d:'') @ split_on nl ''#:'' @ split_on nl []"
    by (simp only: split_on_append)
  ultimately show "''#:'' \<in> set (split_on nl (concat (map (\<lambda>l. l @ [nl]) (compose_lines ''i'' smuggler []))))"
    by simp
  show "''#:'' \<notin> set (compose_lines ''i'' smuggler [])"
    by (simp add: compose_lines_def smuggler_def volume_lines_def)
qed

section \<open>The routing labels\<close>

lemma RouteLabels_perm:
  "mset (RouteLabels i h p f) = mset
    ([\<lparr>lb_key = ''traefik.enable'', lb_value = ''true''\<rparr>,
      \<lparr>lb_key = ''traefik.http.routers.'' @ traefik_sanitize i @ ''.rule'',
       lb_value = ''Host('' @ [CHR 0x60] @ h @ [CHR 0x60] @ '')''\<rparr>,
      \<lparr>lb_key = ''traefik.http.routers.'' @ traefik_sanitize i @ ''.entrypoints'', lb_value = ''websecure''\<rparr>,
      \<lparr>lb_key = ''traefik.http.routers.'' @ traefik_sanitize i @ ''.tls'', lb_value = ''true''\<rparr>,
      \<lparr>lb_key = ''traefik.http.services.'' @ traefik_sanitize i @ ''.loadbalancer.server.port'',
       lb_value = show_int p\<rparr>]
     @ (if f then
      [\<lparr>lb_key = ''traefik.http.middlewares.'' @ traefik_sanitize i @ ''-auth.forwardauth.address'',
        lb_value = ''http://authentik:9000/outpost.goauthentik.io/auth/traefik''\<rparr>,
       \<lparr>lb_key = ''traefik.http.middlewares.'' @ traefik_sanitize i @ ''-auth.forwardauth.authResponseHeaders'',
        lb_value = ''X-authentik-*''\<rparr>,
       \<lparr>lb_key = ''traefik.http.routers.'' @ traefik_sanitize i @ ''.middlewares'',
        lb_value = traefik_sanitize i @ ''-auth''\<rparr>] else []))"
  by (simp add: RouteLabels_def Let_def)

lemma RouteLabels_distinct: "distinct (map lb_key (RouteLabels i h p f))"
proof -
  have "distinct (map lb_key (RouteLabels i h p f))
      \<longleftrightarrow> distinct (map lb_key ls)" if "mset (RouteLabels i h p f) = mset ls" for ls
    using that by (metis mset_eq_imp_distinct_iff mset_map)
  from this [OF RouteLabels_perm] show ?thesis by (cases f) simp_all
qed

text \<open>The labels of a route come in strictly increasing key order, so each key is given once;
  exactly one label is the router's rule and it names the requested host; the forward-auth
  middleware is wired if and only if it was asked for.\<close>

theorem RouteLabels_ok:
  "sorted (map lb_key (RouteLabels i h p f)) \<and> distinct (map lb_key (RouteLabels i h p f))
   \<and> (map_of (map (\<lambda>l. (lb_key l, lb_value l)) (RouteLabels i h p f)))
       (''traefik.http.routers.'' @ traefik_sanitize i @ ''.rule'')
      = Some (''Host('' @ [CHR 0x60] @ h @ [CHR 0x60] @ '')'')
   \<and> (f \<longleftrightarrow> (''traefik.http.routers.'' @ traefik_sanitize i @ ''.middlewares'')
       \<in> set (map lb_key (RouteLabels i h p f)))"
proof (intro conjI)
  show "sorted (map lb_key (RouteLabels i h p f))"
    by (simp only: RouteLabels_def Let_def sorted_sort_key)
  show d: "distinct (map lb_key (RouteLabels i h p f))" by (rule RouteLabels_distinct)
  have rule: "(''traefik.http.routers.'' @ traefik_sanitize i @ ''.rule'',
      ''Host('' @ [CHR 0x60] @ h @ [CHR 0x60] @ '')'')
      \<in> set (map (\<lambda>l. (lb_key l, lb_value l)) (RouteLabels i h p f))"
    using mset_eq_setD [OF RouteLabels_perm, of i h p f] by (simp only: set_map) simp
  have "distinct (map fst (map (\<lambda>l. (lb_key l, lb_value l)) (RouteLabels i h p f)))"
    using d by (simp add: comp_def)
  from map_of_is_SomeI [OF this rule]
  show "(map_of (map (\<lambda>l. (lb_key l, lb_value l)) (RouteLabels i h p f)))
      (''traefik.http.routers.'' @ traefik_sanitize i @ ''.rule'')
      = Some (''Host('' @ [CHR 0x60] @ h @ [CHR 0x60] @ '')'')" .
  show "f \<longleftrightarrow> (''traefik.http.routers.'' @ traefik_sanitize i @ ''.middlewares'')
      \<in> set (map lb_key (RouteLabels i h p f))"
    using mset_eq_setD [OF RouteLabels_perm, of i h p f] by (simp only: set_map) (cases f; simp)
qed

end
