(* ===== verification/Go_Encoding.thy ===== *)
theory Go_Encoding
  imports Go_Strings
begin

text \<open>
  The encodings of Go's packages \<open>encoding/hex\<close> and \<open>encoding/base64\<close> that the program uses:
  \<open>hex.EncodeToString\<close>, and \<open>base64.RawURLEncoding\<close> with its decoder, which skips carriage returns
  and newlines, rejects every other byte outside the alphabet and accepts non-zero trailing bits.
\<close>

section \<open>Hexadecimal\<close>

definition hex_char :: "nat \<Rightarrow> char" where
  "hex_char n = chr_of (if n < 10 then 48 + n else 87 + n)"

definition hex_encode :: "string \<Rightarrow> string" where
  "hex_encode s = concat (map (\<lambda>c. [hex_char (byte c div 16), hex_char (byte c mod 16)]) s)"

lemma length_hex_encode [simp]: "length (hex_encode s) = 2 * length s"
  by (induction s) (auto simp: hex_encode_def)

section \<open>Base64, URL alphabet, no padding\<close>

definition b64_char :: "nat \<Rightarrow> char" where
  "b64_char n = chr_of (if n < 26 then 65 + n else if n < 52 then 71 + n else if n < 62 then n - 4
     else if n = 62 then 45 else 95)"

definition b64_value :: "char \<Rightarrow> nat option" where
  "b64_value c =
    (let b = byte c in
     if 65 \<le> b \<and> b \<le> 90 then Some (b - 65)
     else if 97 \<le> b \<and> b \<le> 122 then Some (b - 71)
     else if 48 \<le> b \<and> b \<le> 57 then Some (b + 4)
     else if b = 45 then Some 62
     else if b = 95 then Some 63
     else None)"

fun sextets :: "nat list \<Rightarrow> nat list" where
  "sextets [] = []"
| "sextets [a] = [a div 4, (a mod 4) * 16]"
| "sextets [a, b] = [a div 4, (a mod 4) * 16 + b div 16, (b mod 16) * 4]"
| "sextets (a # b # c # r) =
    [a div 4, (a mod 4) * 16 + b div 16, (b mod 16) * 4 + c div 64, c mod 64] @ sextets r"

fun octets :: "nat list \<Rightarrow> nat list option" where
  "octets [] = Some []"
| "octets [w] = None"
| "octets [w, x] = Some [w * 4 + x div 16]"
| "octets [w, x, y] = Some [w * 4 + x div 16, (x mod 16) * 16 + y div 4]"
| "octets (w # x # y # z # r) =
    (case octets r of None \<Rightarrow> None
     | Some bs \<Rightarrow> Some ([w * 4 + x div 16, (x mod 16) * 16 + y div 4, (y mod 4) * 64 + z] @ bs))"

definition raw_url_encode :: "string \<Rightarrow> string" where
  "raw_url_encode s = map b64_char (sextets (map byte s))"

primrec b64_values :: "string \<Rightarrow> nat list option" where
  "b64_values [] = Some []"
| "b64_values (c # s) =
    (if byte c = 10 \<or> byte c = 13 then b64_values s
     else (case b64_value c of None \<Rightarrow> None
        | Some v \<Rightarrow> (case b64_values s of None \<Rightarrow> None | Some vs \<Rightarrow> Some (v # vs))))"

definition raw_url_decode :: "string \<Rightarrow> string option" where
  "raw_url_decode s =
    (case b64_values s of None \<Rightarrow> None
     | Some vs \<Rightarrow> (case octets vs of None \<Rightarrow> None | Some bs \<Rightarrow> Some (map chr_of bs)))"

section \<open>Decoding what was encoded\<close>

lemma sextets_bound: "list_all (\<lambda>b. b < 256) bs \<Longrightarrow> list_all (\<lambda>v. v < 64) (sextets bs)"
  by (induction bs rule: sextets.induct) auto

lemma pack:
  fixes y :: nat
  shows "y < 16 \<Longrightarrow> (k * 16 + y) div 16 = k" "y < 16 \<Longrightarrow> (k * 16 + y) mod 16 = y"
    "y < 4 \<Longrightarrow> (k * 4 + y) div 4 = k" "y < 4 \<Longrightarrow> (k * 4 + y) mod 4 = y"
  by simp_all

lemma quarters:
  fixes b :: nat
  assumes "b < 256"
  shows "b div 16 < 16" "b div 64 < 4"
  using assms by auto

lemma octets_sextets: "list_all (\<lambda>b. b < 256) bs \<Longrightarrow> octets (sextets bs) = Some bs"
  by (induction bs rule: sextets.induct) (simp_all add: pack quarters)

lemma byte_b64_char:
  "n < 64 \<Longrightarrow> byte (b64_char n) = (if n < 26 then 65 + n else if n < 52 then 71 + n
     else if n < 62 then n - 4 else if n = 62 then 45 else 95)"
  unfolding b64_char_def by (subst byte_chr_of) auto

lemma b64_value_char: "n < 64 \<Longrightarrow> b64_value (b64_char n) = Some n"
  by (auto simp: b64_value_def byte_b64_char Let_def)

lemma b64_values_map: "list_all (\<lambda>v. v < 64) vs \<Longrightarrow> b64_values (map b64_char vs) = Some vs"
  by (induction vs) (auto simp: b64_value_char byte_b64_char)

lemma raw_url_decode_encode [simp]: "raw_url_decode (raw_url_encode s) = Some s"
proof -
  have b: "list_all (\<lambda>b. b < 256) (map byte s)" by (simp add: list_all_iff)
  from b64_values_map [OF sextets_bound [OF b]] octets_sextets [OF b] show ?thesis
    by (simp add: raw_url_decode_def raw_url_encode_def comp_def)
qed

text \<open>The alphabet: letters, digits, hyphen and underscore; so no encoded text holds a dot.\<close>

lemma raw_url_alphabet:
  assumes "c \<in> set (raw_url_encode s)"
  shows "is_lower c \<or> is_upper c \<or> is_digit c \<or> c = CHR ''-'' \<or> c = CHR ''_''"
proof -
  have "list_all (\<lambda>v. v < 64) (sextets (map byte s))"
    by (rule sextets_bound) (simp add: list_all_iff)
  with assms obtain n where n: "n < 64" "c = b64_char n"
    by (auto simp: raw_url_encode_def list_all_iff)
  note v = byte_b64_char [OF n(1), folded n(2)]
  consider "n < 62" | "n = 62" | "n = 63" using n(1) by linarith
  then show ?thesis
  proof cases
    case 1
    then show ?thesis using v by (auto simp: ascii_range_def split: if_splits)
  next
    case 2
    then have "c = CHR ''-''" using v byte_inject [of c "CHR ''-''"] by (simp del: byte_inject)
    then show ?thesis by simp
  next
    case 3
    then have "c = CHR ''_''" using v byte_inject [of c "CHR ''_''"] by (simp del: byte_inject)
    then show ?thesis by simp
  qed
qed

lemma raw_url_no_dot: "CHR ''.'' \<notin> set (raw_url_encode s)"
  by (auto dest: raw_url_alphabet simp: ascii_range_def byte_def)

lemma raw_url_encode_Nil [simp]: "raw_url_encode s = [] \<longleftrightarrow> s = []"
proof
  assume "raw_url_encode s = []"
  then have "raw_url_decode (raw_url_encode s) = raw_url_decode []" by simp
  then have "Some s = raw_url_decode []" by (simp only: raw_url_decode_encode)
  then show "s = []" by (simp add: raw_url_decode_def)
qed (simp add: raw_url_encode_def)

end
