(* ===== verification/World_Model.thy ===== *)
theory World_Model
  imports Catalog_Model Domain_Model Go_Encoding "HOL-Library.List_Lexorder"
begin

text \<open>
  The world the platform's operations run in: the PostgreSQL tables (the platform's source of
  truth), the clock, the sources of fresh ids and random bytes, and the state of the external
  systems (a type parameter). The tables and their constraints are those of
  \<open>internal/store/migrations/*.sql\<close>; the columns \<open>created_at\<close> and \<open>updated_at\<close>, which no code reads
  back, are left out. Ids are uuid values in canonical text form.

  Nothing is assumed of the database beyond SQL's meaning of one statement: the list \<open>fates\<close> says
  of each statement to come whether it succeeds, fails (connection lost, malformed parameter,
  timeout), or takes effect while its answer is lost; an empty list means that all succeed. A
  statement that fails by itself (a violated constraint) leaves the tables alone. \<open>delays\<close> gives the
  time that passes before each reading of the clock, in microseconds.
\<close>

section \<open>Rows\<close>

record external_row = external_resource +
  x_observed :: string
  x_last_error :: string

record mail_domain_row = mail_domain +
  md_selector :: string
  md_dns_record :: string

record installation_row = installation +
  in_config :: string

record verification =
  dv_id :: string
  dv_domain :: string
  dv_method :: string
  dv_success :: bool
  dv_detail :: string

record catalog_app =
  ca_id :: string
  ca_name :: string
  ca_slug :: string
  ca_version :: string
  ca_description :: string
  ca_category :: string
  ca_manifest :: manifest

record instance_row =
  ai_id :: string
  ai_org :: string
  ai_catalog :: string
  ai_name :: string
  ai_slug :: string
  ai_status :: status

record app_hostname =
  ah_id :: string
  ah_instance :: string
  ah_hostname :: string
  ah_status :: status

record access_group =
  ag_instance :: string
  ag_group :: string

record invite =
  iv_id :: string
  iv_org :: string
  iv_user :: string
  iv_hash :: string
  iv_role :: org_role
  iv_by :: string
  iv_expires :: int
  iv_accepted :: "int option"

record db =
  t_users :: "user list"
  t_audits :: "(audit_event \<times> int) list"
  t_orgs :: "organization list"
  t_members :: "membership list"
  t_groups :: "group list"
  t_gmembers :: "group_membership list"
  t_externals :: "external_row list"
  t_domains :: "domain list"
  t_hostnames :: "hostname list"
  t_verifications :: "verification list"
  t_mdomains :: "mail_domain_row list"
  t_identities :: "mail_identity list"
  t_creds :: "mail_credential list"
  t_aliases :: "mail_alias list"
  t_policies :: "mail_policy list"
  t_catalog :: "catalog_app list"
  t_instances :: "instance_row list"
  t_ahosts :: "app_hostname list"
  t_agroups :: "access_group list"
  t_install :: "installation_row option"
  t_invites :: "invite list"

text \<open>The database after the migrations: empty tables and the singleton installation row.\<close>

definition fresh_db :: db where
  "fresh_db = \<lparr>t_users = [], t_audits = [], t_orgs = [], t_members = [], t_groups = [],
     t_gmembers = [], t_externals = [], t_domains = [], t_hostnames = [], t_verifications = [],
     t_mdomains = [], t_identities = [], t_creds = [], t_aliases = [], t_policies = [],
     t_catalog = [], t_instances = [], t_ahosts = [], t_agroups = [],
     t_install = Some \<lparr>in_local_domain = ''selfu.local'', in_primary_domain = [],
       in_dns_provider = ''manual'', in_access_provider = ''manual'', in_onboarded_at = None,
       in_config = []\<rparr>,
     t_invites = []\<rparr>"

section \<open>Statements\<close>

datatype pg_err = NoRows | UniqueViolation | OtherErr

text \<open>What a statement may use besides the tables: \<open>now()\<close>, the collation of \<open>ORDER BY\<close> (sort keys)
  and \<open>lower()\<close>, which depend on the server's locale.\<close>

record pg =
  pg_now :: int
  pg_collate :: "string \<Rightarrow> nat list"
  pg_lower :: "string \<Rightarrow> string"

type_synonym 'a stmt = "pg \<Rightarrow> db \<Rightarrow> pg_err + ('a \<times> db)"

datatype fate = Succeeds | Fails | AnswerLost

record 'x world =
  fates :: "fate list"
  clock :: int
  delays :: "nat list"
  uuid_src :: "nat \<Rightarrow> string"
  uuid_ix :: nat
  rand_src :: "nat \<Rightarrow> nat \<Rightarrow> string option"
  rand_ix :: nat
  collate :: "string \<Rightarrow> nat list"
  lower_fn :: "string \<Rightarrow> string"
  db :: db
  ext :: 'x

definition pass_time :: "'x world \<Rightarrow> 'x world" where
  "pass_time w = (case delays w of [] \<Rightarrow> w | d # ds \<Rightarrow> w\<lparr>clock := clock w + int d, delays := ds\<rparr>)"

definition exec_stmt :: "'a stmt \<Rightarrow> 'x world \<Rightarrow> (pg_err + 'a) \<times> 'x world" where
  "exec_stmt st w =
    (case st \<lparr>pg_now = clock w, pg_collate = collate w, pg_lower = lower_fn w\<rparr> (db w) of
       Inl e \<Rightarrow> (Inl e, w)
     | Inr (x, d) \<Rightarrow> (Inr x, w\<lparr>db := d\<rparr>))"

text \<open>One round trip to the database.\<close>

definition sql :: "'a stmt \<Rightarrow> ('x world, pg_err + 'a) prog" where
  "sql st = State (\<lambda>w. let w = pass_time w in
    (case fates w of
       [] \<Rightarrow> exec_stmt st w
     | Succeeds # fs \<Rightarrow> exec_stmt st (w\<lparr>fates := fs\<rparr>)
     | Fails # fs \<Rightarrow> (Inl OtherErr, w\<lparr>fates := fs\<rparr>)
     | AnswerLost # fs \<Rightarrow> (Inl OtherErr, snd (exec_stmt st (w\<lparr>fates := fs\<rparr>)))))"

text \<open>\<open>time.Now()\<close>, \<open>uuid.NewString()\<close>, \<open>rand.Read\<close> of a buffer of \<open>n\<close> bytes, and a call of an
  external system.\<close>

definition time_now :: "('x world, int) prog" where
  "time_now = State (\<lambda>w. let w = pass_time w in (clock w, w))"

definition new_uuid :: "('x world, string) prog" where
  "new_uuid = State (\<lambda>w. (uuid_src w (uuid_ix w), w\<lparr>uuid_ix := Suc (uuid_ix w)\<rparr>))"

definition rand_bytes :: "nat \<Rightarrow> ('x world, string option) prog" where
  "rand_bytes n = State (\<lambda>w. (rand_src w (rand_ix w) n, w\<lparr>rand_ix := Suc (rand_ix w)\<rparr>))"

definition external :: "('x, 'a) prog \<Rightarrow> ('x world, 'a) prog" where
  "external m = State (\<lambda>w. case run_state m (ext w) of (r, x) \<Rightarrow> (r, w\<lparr>ext := x\<rparr>))"

section \<open>Reasoning about programs over the world\<close>

lemma pass_time_fields [simp]:
  "fates (pass_time w) = fates w" "db (pass_time w) = db w" "ext (pass_time w) = ext w"
  "uuid_src (pass_time w) = uuid_src w" "uuid_ix (pass_time w) = uuid_ix w"
  "rand_src (pass_time w) = rand_src w" "rand_ix (pass_time w) = rand_ix w"
  "collate (pass_time w) = collate w" "lower_fn (pass_time w) = lower_fn w"
  by (simp_all add: pass_time_def split: list.splits)

lemma clock_mono: "clock w \<le> clock (pass_time w)"
  by (simp add: pass_time_def split: list.splits)

text \<open>A predicate on the tables.\<close>

definition on_db :: "(db \<Rightarrow> bool) \<Rightarrow> 'x world \<Rightarrow> bool" where
  "on_db I w = I (db w)"

definition stmt_keeps :: "(db \<Rightarrow> bool) \<Rightarrow> 'a stmt \<Rightarrow> bool" where
  "stmt_keeps I st \<longleftrightarrow> (\<forall>pg d x d'. I d \<longrightarrow> st pg d = Inr (x, d') \<longrightarrow> I d')"

lemma stmt_keepsI: "(\<And>pg d x d'. I d \<Longrightarrow> st pg d = Inr (x, d') \<Longrightarrow> I d') \<Longrightarrow> stmt_keeps I st"
  by (auto simp: stmt_keeps_def)

lemma exec_stmt_keeps: "stmt_keeps I st \<Longrightarrow> on_db I w \<Longrightarrow> on_db I (snd (exec_stmt st w))"
  by (auto simp: stmt_keeps_def on_db_def exec_stmt_def split: sum.splits)

text \<open>Whatever the fate of the statement, the tables keep every property the statement keeps.\<close>

lemma keeps_sql: "stmt_keeps I st \<Longrightarrow> keeps (on_db I) (sql st)"
proof (rule keepsI)
  fix w :: "'x world"
  assume st: "stmt_keeps I st" and I: "on_db I w"
  have I': "on_db I (pass_time w\<lparr>fates := fs\<rparr>)" "on_db I (pass_time w)" for fs
    using I by (simp_all add: on_db_def)
  show "on_db I (snd (run_state (sql st) w))"
    using exec_stmt_keeps [OF st I'(1)] exec_stmt_keeps [OF st I'(2)] I'
    by (auto simp: sql_def Let_def split: list.splits fate.splits)
qed

lemma keeps_world [keeps]:
  "keeps (on_db I) time_now" "keeps (on_db I) new_uuid" "keeps (on_db I) (rand_bytes n)"
  "keeps (on_db I) (external m)"
  by (auto simp: keeps_def on_db_def time_now_def new_uuid_def rand_bytes_def external_def Let_def
      split: prod.splits)

text \<open>Statements that only read.\<close>

definition query :: "(pg \<Rightarrow> db \<Rightarrow> pg_err + 'a) \<Rightarrow> 'a stmt" where
  "query q = (\<lambda>pg d. case q pg d of Inl e \<Rightarrow> Inl e | Inr x \<Rightarrow> Inr (x, d))"

lemma query_Inr [simp]: "query q pg d = Inr (x, d') \<longleftrightarrow> q pg d = Inr x \<and> d' = d"
  by (auto simp: query_def split: sum.splits)

lemma query_Inl [simp]: "query q pg d = Inl e \<longleftrightarrow> q pg d = Inl e"
  by (auto simp: query_def split: sum.splits)

lemma stmt_keeps_query [keeps]: "stmt_keeps I (query q)"
  by (auto intro: stmt_keepsI)

text \<open>The result of a round trip: the answer and the tables come from the statement, or the answer
  is an error and the tables are the old ones or the statement's.\<close>

lemma sql_result:
  assumes "run_state (sql st) w = (r, w')"
  obtains pg where "r = Inl OtherErr \<and> db w' = db w"
    | pg e where "st pg (db w) = Inl e" "r = Inl e \<or> r = Inl OtherErr" "db w' = db w"
    | pg x where "st pg (db w) = Inr (x, db w')" "r = Inr x \<or> r = Inl OtherErr"
      "r = Inr x \<longrightarrow> clock w \<le> pg_now pg"
  using assms clock_mono [of w]
  by (auto simp: sql_def Let_def exec_stmt_def split: list.splits fate.splits sum.splits prod.splits)

lemma sql_ext: "run_state (sql st) w = (r, w') \<Longrightarrow> ext w' = ext w"
  by (auto simp: sql_def Let_def exec_stmt_def split: list.splits fate.splits sum.splits prod.splits)

lemma sql_calm:
  "fates w = [] \<Longrightarrow> run_state (sql st) w = exec_stmt st (pass_time w)"
  by (simp add: sql_def Let_def)

end
