(* ===== verification/Store_SQL.thy ===== *)
theory Store_SQL
  imports World_Model
begin

text \<open>
  The SQL text constants of package \<open>internal/store\<close>, one definition each under the constant's
  name, as statements on the tables of \<open>World_Model\<close>. PostgreSQL's order of checks is kept: CHECK
  constraints, then UNIQUE constraints (unless \<open>ON CONFLICT\<close> names them), then foreign keys; a
  CHECK of an UPDATE is evaluated only when a row matches. Foreign keys with \<open>ON DELETE CASCADE\<close>
  or \<open>SET NULL\<close> are the \<open>drop\<close> functions of the last section, which work from the leaves up.
\<close>

section \<open>Forms of statements\<close>

text \<open>\<open>QueryRow(...).Scan(...)\<close>: the first row, or \<open>pgx.ErrNoRows\<close>.\<close>

definition one_row :: "'r list \<Rightarrow> pg_err + 'r" where
  "one_row rs = (case rs of [] \<Rightarrow> Inl NoRows | r # _ \<Rightarrow> Inr r)"

definition insert_stmt :: "bool \<Rightarrow> bool \<Rightarrow> bool \<Rightarrow> 'r \<Rightarrow> db \<Rightarrow> pg_err + ('r \<times> db)" where
  "insert_stmt checks unique refs r d' =
    (if \<not> checks then Inl OtherErr else if \<not> unique then Inl UniqueViolation
     else if \<not> refs then Inl OtherErr else Inr (r, d'))"

text \<open>An UPDATE: the number of matching rows decides whether its checks are evaluated.\<close>

definition update_stmt :: "nat \<Rightarrow> bool \<Rightarrow> db \<Rightarrow> pg_err + (nat \<times> db)" where
  "update_stmt n checks d' = (if 0 < n \<and> \<not> checks then Inl OtherErr else Inr (n, d'))"

definition count_rows :: "('r \<Rightarrow> bool) \<Rightarrow> 'r list \<Rightarrow> nat" where
  "count_rows p rs = length (filter p rs)"

text \<open>A new row clashes with none of the rows on a key.\<close>

definition fresh_key :: "('r \<Rightarrow> 'k) \<Rightarrow> 'r \<Rightarrow> 'r list \<Rightarrow> bool" where
  "fresh_key k r rs \<longleftrightarrow> k r \<notin> k ` set rs"

definition order_by :: "pg \<Rightarrow> ('r \<Rightarrow> string) \<Rightarrow> 'r list \<Rightarrow> 'r list" where
  "order_by pg k rs = sort_key (\<lambda>r. pg_collate pg (k r)) rs"

lemma insert_stmt_Inr:
  "insert_stmt c u f r d' = Inr (x, d'') \<longleftrightarrow> c \<and> u \<and> f \<and> x = r \<and> d'' = d'"
  by (auto simp: insert_stmt_def)

lemma update_stmt_Inr:
  "update_stmt n c d' = Inr (x, d'') \<longleftrightarrow> (n = 0 \<or> c) \<and> x = n \<and> d'' = d'"
  by (auto simp: update_stmt_def)

lemma one_row_Inr: "one_row rs = Inr r \<longleftrightarrow> (\<exists>rs'. rs = r # rs')"
  by (auto simp: one_row_def split: list.splits)

lemma one_row_Inl: "one_row rs = Inl e \<longleftrightarrow> rs = [] \<and> e = NoRows"
  by (auto simp: one_row_def split: list.splits)

lemma one_row_filter: "one_row (filter p rs) = Inr r \<Longrightarrow> r \<in> set rs \<and> p r"
  by (auto simp: one_row_Inr filter_eq_Cons_iff)

section \<open>Users and audit events\<close>

definition user_checks :: "pg \<Rightarrow> user \<Rightarrow> bool" where
  "user_checks pg u \<longleftrightarrow>
     (u_status u = ''active'' \<or> u_status u = ''disabled'') \<and> u_email u = pg_lower pg (u_email u)"

definition user_identity :: "user \<Rightarrow> string \<times> string" where
  "user_identity u = (u_auth_provider u, u_auth_identity u)"

definition new_user_row :: "string \<Rightarrow> string \<Rightarrow> string \<Rightarrow> string \<Rightarrow> string \<Rightarrow> user" where
  "new_user_row rid email name provider identity =
    \<lparr>u_id = rid, u_email = email, u_display_name = name, u_status = ''active'', u_is_admin = False,
     u_auth_provider = provider, u_auth_identity = identity\<rparr>"

definition upsertUserSQL ::
    "string \<Rightarrow> string \<Rightarrow> string \<Rightarrow> string \<Rightarrow> string \<Rightarrow> (user \<times> bool) stmt" where
  "upsertUserSQL rid email name provider identity pg d =
    (let new = new_user_row rid email name provider identity in
     if \<not> user_checks pg new then Inl OtherErr
     else (case find (\<lambda>u. u_email u = email) (t_users d) of
         Some old \<Rightarrow>
           (let upd = old\<lparr>u_auth_provider := provider, u_auth_identity := identity,
                          u_display_name := name, u_status := ''active''\<rparr> in
            if user_identity upd \<in> user_identity ` {u \<in> set (t_users d). u_email u \<noteq> email}
            then Inl UniqueViolation
            else Inr ((upd, False),
              d\<lparr>t_users := put_row (\<lambda>u. u_email u = email)
                 (\<lambda>u. u\<lparr>u_auth_provider := provider, u_auth_identity := identity,
                        u_display_name := name, u_status := ''active''\<rparr>) (t_users d)\<rparr>))
       | None \<Rightarrow>
           insert_stmt True (fresh_key u_id new (t_users d) \<and> fresh_key user_identity new (t_users d))
             True (new, True) (d\<lparr>t_users := t_users d @ [new]\<rparr>)))"

definition grantAdminIfNoneSQL :: "string \<Rightarrow> bool stmt" where
  "grantAdminIfNoneSQL rid pg d =
    (if list_ex (\<lambda>u. u_id u = rid) (t_users d)
        \<and> \<not> list_ex (\<lambda>u. u_id u \<noteq> rid \<and> u_is_admin u) (t_users d)
     then Inr (True, d\<lparr>t_users := put_row (\<lambda>u. u_id u = rid) (\<lambda>u. u\<lparr>u_is_admin := True\<rparr>) (t_users d)\<rparr>)
     else Inl NoRows)"

definition getUserByIDSQL :: "string \<Rightarrow> user stmt" where
  "getUserByIDSQL rid = query (\<lambda>pg d. one_row (filter (\<lambda>u. u_id u = rid) (t_users d)))"

definition adminCountSQL :: "nat stmt" where
  "adminCountSQL = query (\<lambda>pg d.
     Inr (count_rows (\<lambda>u. u_is_admin u \<and> u_status u = ''active'') (t_users d)))"

definition insertUserSQL ::
    "string \<Rightarrow> string \<Rightarrow> string \<Rightarrow> string \<Rightarrow> string \<Rightarrow> user stmt" where
  "insertUserSQL rid email name provider identity pg d =
    (let new = new_user_row rid email name provider identity in
     insert_stmt (user_checks pg new)
       (fresh_key u_id new (t_users d) \<and> fresh_key u_email new (t_users d)
        \<and> fresh_key user_identity new (t_users d))
       True new (d\<lparr>t_users := t_users d @ [new]\<rparr>))"

definition userByEmailSQL :: "string \<Rightarrow> user stmt" where
  "userByEmailSQL email = query (\<lambda>pg d. one_row (filter (\<lambda>u. u_email u = email) (t_users d)))"

definition setUserStatusSQL :: "status \<Rightarrow> string \<Rightarrow> nat stmt" where
  "setUserStatusSQL st rid pg d =
    update_stmt (count_rows (\<lambda>u. u_id u = rid) (t_users d)) (st = ''active'' \<or> st = ''disabled'')
      (d\<lparr>t_users := put_row (\<lambda>u. u_id u = rid) (\<lambda>u. u\<lparr>u_status := st\<rparr>) (t_users d)\<rparr>)"

definition setUserAdminSQL :: "bool \<Rightarrow> string \<Rightarrow> nat stmt" where
  "setUserAdminSQL admin rid pg d =
    update_stmt (count_rows (\<lambda>u. u_id u = rid) (t_users d)) True
      (d\<lparr>t_users := put_row (\<lambda>u. u_id u = rid) (\<lambda>u. u\<lparr>u_is_admin := admin\<rparr>) (t_users d)\<rparr>)"

definition listUsersSQL :: "int \<Rightarrow> user list stmt" where
  "listUsersSQL lim = query (\<lambda>pg d. Inr (take (nat lim) (order_by pg u_email (t_users d))))"

text \<open>The CHECK on \<open>length(action)\<close> counts characters.\<close>

text \<open>The empty string is no uuid.\<close>

definition insertAuditEventSQL :: "audit_event \<Rightarrow> nat stmt" where
  "insertAuditEventSQL e pg d =
    insert_stmt (a_id e \<noteq> [] \<and> 1 \<le> length (runes (a_action e)) \<and> length (runes (a_action e)) \<le> 128)
      (fresh_key a_id e (map fst (t_audits d)))
      (case a_actor e of None \<Rightarrow> True | Some u \<Rightarrow> u \<in> u_id ` set (t_users d))
      1 (d\<lparr>t_audits := t_audits d @ [(e, pg_now pg)]\<rparr>)"

text \<open>\<open>LIKE\<close> on characters: percent, underscore, and backslash as the escape; a pattern that ends
  in its escape character is an error.\<close>

fun like :: "nat list \<Rightarrow> nat list \<Rightarrow> bool option" where
  "like [] s = Some (s = [])"
| "like (p # ps) [] =
    (if p = 37 then like ps [] else if p = 92 \<and> ps = [] then None else Some False)"
| "like (p # ps) (c # s) =
    (if p = 37 then
       (case like ps (c # s) of None \<Rightarrow> None
         | Some True \<Rightarrow> Some True | Some False \<Rightarrow> like (p # ps) s)
     else if p = 95 then like ps s
     else if p = 92 then
       (case ps of [] \<Rightarrow> None | q # qs \<Rightarrow> if q = c then like qs s else Some False)
     else if p = c then like ps s else Some False)"

definition ilike :: "pg \<Rightarrow> string \<Rightarrow> string \<Rightarrow> bool option" where
  "ilike pg s pat = like (runes (pg_lower pg pat)) (runes (pg_lower pg s))"

definition listAuditEventsSQL :: "int \<Rightarrow> string \<Rightarrow> (audit_event \<times> int) list stmt" where
  "listAuditEventsSQL lim flt = query (\<lambda>pg d.
     (let pat = ''%'' @ flt @ ''%'' in
      if flt \<noteq> [] \<and> list_ex (\<lambda>(e, t). ilike pg (a_action e) pat = None) (t_audits d)
      then Inl OtherErr
      else Inr (take (nat lim) (sort_key (\<lambda>(e, t). - t)
        (filter (\<lambda>(e, t). flt = [] \<or> ilike pg (a_action e) pat = Some True) (t_audits d))))))"

section \<open>Organizations, memberships, groups\<close>

definition insertOrgSQL :: "string \<Rightarrow> string \<Rightarrow> string \<Rightarrow> organization stmt" where
  "insertOrgSQL rid name slug pg d =
    (let new = \<lparr>o_id = rid, o_name = name, o_slug = slug, o_status = ''active''\<rparr> in
     insert_stmt True
       (fresh_key o_id new (t_orgs d) \<and> fresh_key o_slug new (t_orgs d) \<and> fresh_key o_name new (t_orgs d))
       True new (d\<lparr>t_orgs := t_orgs d @ [new]\<rparr>))"

definition orgByIDSQL :: "string \<Rightarrow> organization stmt" where
  "orgByIDSQL rid = query (\<lambda>pg d. one_row (filter (\<lambda>x. o_id x = rid) (t_orgs d)))"

definition listOrgsSQL :: "int \<Rightarrow> organization list stmt" where
  "listOrgsSQL lim = query (\<lambda>pg d. Inr (take (nat lim) (order_by pg o_name (t_orgs d))))"

definition role_checks :: "org_role \<Rightarrow> bool" where
  "role_checks r \<longleftrightarrow> r = ''owner'' \<or> r = ''admin'' \<or> r = ''member''"

definition member_key :: "membership \<Rightarrow> string \<times> string" where
  "member_key m = (m_org m, m_user m)"

definition upsertMembershipSQL :: "string \<Rightarrow> string \<Rightarrow> string \<Rightarrow> org_role \<Rightarrow> org_role stmt" where
  "upsertMembershipSQL rid org user role pg d =
    (let new = \<lparr>m_id = rid, m_org = org, m_user = user, m_role = role\<rparr> in
     if \<not> role_checks role then Inl OtherErr
     else if member_key new \<in> member_key ` set (t_members d) then
       Inr (role, d\<lparr>t_members := put_row (\<lambda>m. member_key m = (org, user))
                                   (\<lambda>m. m\<lparr>m_role := role\<rparr>) (t_members d)\<rparr>)
     else insert_stmt True (fresh_key m_id new (t_members d))
       (org \<in> o_id ` set (t_orgs d) \<and> user \<in> u_id ` set (t_users d))
       role (d\<lparr>t_members := t_members d @ [new]\<rparr>))"

definition membershipRoleSQL :: "string \<Rightarrow> string \<Rightarrow> org_role stmt" where
  "membershipRoleSQL org user = query (\<lambda>pg d.
     one_row (map m_role (filter (\<lambda>m. m_org m = org \<and> m_user m = user) (t_members d))))"

record member =
  mb_id :: string
  mb_user :: string
  mb_email :: string
  mb_name :: string
  mb_role :: org_role

definition listMembershipsSQL :: "string \<Rightarrow> member list stmt" where
  "listMembershipsSQL org = query (\<lambda>pg d. Inr (order_by pg mb_email
     [\<lparr>mb_id = m_id m, mb_user = m_user m, mb_email = u_email u, mb_name = u_display_name u,
       mb_role = m_role m\<rparr>. m \<leftarrow> t_members d, m_org m = org, u \<leftarrow> t_users d, u_id u = m_user m]))"

definition removeMembershipSQL :: "string \<Rightarrow> string \<Rightarrow> nat stmt" where
  "removeMembershipSQL org user pg d =
    Inr (count_rows (\<lambda>m. m_org m = org \<and> m_user m = user) (t_members d),
         d\<lparr>t_members := filter (\<lambda>m. \<not> (m_org m = org \<and> m_user m = user)) (t_members d)\<rparr>)"

definition removeAllMembershipsSQL :: "string \<Rightarrow> nat stmt" where
  "removeAllMembershipsSQL user pg d =
    Inr (count_rows (\<lambda>m. m_user m = user) (t_members d),
         d\<lparr>t_members := filter (\<lambda>m. \<not> m_user m = user) (t_members d)\<rparr>)"

definition listOrgsForUserSQL :: "string \<Rightarrow> organization list stmt" where
  "listOrgsForUserSQL user = query (\<lambda>pg d. Inr (order_by pg o_name
     [x. x \<leftarrow> t_orgs d, m \<leftarrow> t_members d, m_org m = o_id x \<and> m_user m = user]))"

definition group_key :: "group \<Rightarrow> string \<times> string" where
  "group_key g = (g_org g, g_slug g)"

definition insertGroupSQL :: "group \<Rightarrow> group stmt" where
  "insertGroupSQL g pg d =
    insert_stmt True (fresh_key g_id g (t_groups d) \<and> fresh_key group_key g (t_groups d))
      (g_org g \<in> o_id ` set (t_orgs d)) g (d\<lparr>t_groups := t_groups d @ [g]\<rparr>)"

definition groupByIDSQL :: "string \<Rightarrow> group stmt" where
  "groupByIDSQL rid = query (\<lambda>pg d. one_row (filter (\<lambda>g. g_id g = rid) (t_groups d)))"

definition listGroupsSQL :: "string \<Rightarrow> group list stmt" where
  "listGroupsSQL org = query (\<lambda>pg d.
     Inr (order_by pg g_name (filter (\<lambda>g. g_org g = org) (t_groups d))))"

definition insertGroupMemberSQL :: "string \<Rightarrow> string \<Rightarrow> nat stmt" where
  "insertGroupMemberSQL grp user pg d =
    (let new = \<lparr>gm_group = grp, gm_user = user\<rparr> in
     if new \<in> set (t_gmembers d) then Inr (0, d)
     else insert_stmt True True (grp \<in> g_id ` set (t_groups d) \<and> user \<in> u_id ` set (t_users d))
       1 (d\<lparr>t_gmembers := t_gmembers d @ [new]\<rparr>))"

definition deleteGroupMemberSQL :: "string \<Rightarrow> string \<Rightarrow> nat stmt" where
  "deleteGroupMemberSQL grp user pg d =
    Inr (count_rows (\<lambda>x. gm_group x = grp \<and> gm_user x = user) (t_gmembers d),
         d\<lparr>t_gmembers := filter (\<lambda>x. \<not> (gm_group x = grp \<and> gm_user x = user)) (t_gmembers d)\<rparr>)"

definition removeAllGroupMembershipsSQL :: "string \<Rightarrow> nat stmt" where
  "removeAllGroupMembershipsSQL user pg d =
    Inr (count_rows (\<lambda>x. gm_user x = user) (t_gmembers d),
         d\<lparr>t_gmembers := filter (\<lambda>x. \<not> gm_user x = user) (t_gmembers d)\<rparr>)"

record group_member =
  gu_user :: string
  gu_email :: string
  gu_name :: string

definition listGroupMembersSQL :: "string \<Rightarrow> group_member list stmt" where
  "listGroupMembersSQL grp = query (\<lambda>pg d. Inr (order_by pg gu_email
     [\<lparr>gu_user = u_id u, gu_email = u_email u, gu_name = u_display_name u\<rparr>.
        x \<leftarrow> t_gmembers d, gm_group x = grp, u \<leftarrow> t_users d, u_id u = gm_user x]))"

section \<open>External resources\<close>

definition external_key :: "external_row \<Rightarrow> string \<times> string" where
  "external_key x = (x_type x, x_object x)"

definition external_checks :: "status \<Rightarrow> bool" where
  "external_checks s \<longleftrightarrow>
     s = ''provisioning'' \<or> s = ''active'' \<or> s = ''failed'' \<or> s = ''removed''"

definition upsertExternalSQL :: "external_resource \<Rightarrow> external_resource stmt" where
  "upsertExternalSQL r pg d =
    (let new = external_resource.extend r \<lparr>x_observed = [], x_last_error = []\<rparr> in
     if \<not> external_checks (x_status r) then Inl OtherErr
     else (case find (\<lambda>x. external_key x = external_key new) (t_externals d) of
         Some old \<Rightarrow>
           Inr (external_resource.truncate
                  (old\<lparr>x_external := x_external r, x_provider := x_provider r, x_status := x_status r\<rparr>),
                d\<lparr>t_externals := put_row (\<lambda>x. external_key x = external_key new)
                   (\<lambda>x. x\<lparr>x_external := x_external r, x_provider := x_provider r,
                          x_status := x_status r\<rparr>) (t_externals d)\<rparr>)
       | None \<Rightarrow> insert_stmt True (fresh_key x_id new (t_externals d)) True r
           (d\<lparr>t_externals := t_externals d @ [new]\<rparr>)))"

definition externalByObjectSQL :: "string \<Rightarrow> string \<Rightarrow> external_resource stmt" where
  "externalByObjectSQL ty obj = query (\<lambda>pg d. one_row (map external_resource.truncate
     (filter (\<lambda>x. x_type x = ty \<and> x_object x = obj) (t_externals d))))"

definition listExternalByProviderSQL :: "string \<Rightarrow> external_resource list stmt" where
  "listExternalByProviderSQL prov = query (\<lambda>pg d. Inr (map external_resource.truncate
     (order_by pg x_type (filter (\<lambda>x. x_provider x = prov) (t_externals d)))))"

definition setExternalObservedSQL :: "status \<Rightarrow> string \<Rightarrow> string \<Rightarrow> string \<Rightarrow> nat stmt" where
  "setExternalObservedSQL st hash err rid pg d =
    update_stmt (count_rows (\<lambda>x. x_id x = rid) (t_externals d)) (external_checks st)
      (d\<lparr>t_externals := put_row (\<lambda>x. x_id x = rid)
         (\<lambda>x. x\<lparr>x_status := st, x_observed := hash, x_last_error := err\<rparr>) (t_externals d)\<rparr>)"

definition setExternalStatusSQL :: "status \<Rightarrow> string \<Rightarrow> string \<Rightarrow> nat stmt" where
  "setExternalStatusSQL st err rid pg d =
    update_stmt (count_rows (\<lambda>x. x_id x = rid) (t_externals d)) (external_checks st)
      (d\<lparr>t_externals := put_row (\<lambda>x. x_id x = rid)
         (\<lambda>x. x\<lparr>x_status := st, x_last_error := err\<rparr>) (t_externals d)\<rparr>)"

definition listExternalSQL :: "string \<Rightarrow> external_resource list stmt" where
  "listExternalSQL obj = query (\<lambda>pg d. Inr (map external_resource.truncate
     (order_by pg x_type (filter (\<lambda>x. x_object x = obj) (t_externals d)))))"

section \<open>Domains and hostnames\<close>

definition domain_key :: "domain \<Rightarrow> string \<times> string" where
  "domain_key x = (d_org x, d_fqdn x)"

definition domain_checks :: "status \<Rightarrow> bool" where
  "domain_checks s \<longleftrightarrow>
     s = ''pending'' \<or> s = ''verification_required'' \<or> s = ''verified'' \<or> s = ''suspended''"

definition insertDomainSQL :: "domain \<Rightarrow> domain stmt" where
  "insertDomainSQL x pg d =
    (let new = x\<lparr>d_verified_at := None, d_web_enabled := False, d_mail_enabled := False\<rparr> in
     insert_stmt (domain_checks (d_status x))
       (fresh_key d_id new (t_domains d) \<and> fresh_key domain_key new (t_domains d))
       (d_org x \<in> o_id ` set (t_orgs d)) new (d\<lparr>t_domains := t_domains d @ [new]\<rparr>))"

definition domainByIDSQL :: "string \<Rightarrow> domain stmt" where
  "domainByIDSQL rid = query (\<lambda>pg d. one_row (filter (\<lambda>x. d_id x = rid) (t_domains d)))"

definition domainByOrgFQDNSQL :: "string \<Rightarrow> string \<Rightarrow> domain stmt" where
  "domainByOrgFQDNSQL org fqdn = query (\<lambda>pg d.
     one_row (filter (\<lambda>x. d_org x = org \<and> d_fqdn x = fqdn) (t_domains d)))"

definition listDomainsSQL :: "string \<Rightarrow> domain list stmt" where
  "listDomainsSQL org = query (\<lambda>pg d.
     Inr (order_by pg d_fqdn (filter (\<lambda>x. d_org x = org) (t_domains d))))"

definition setDomainStatusSQL :: "status \<Rightarrow> int option \<Rightarrow> string \<Rightarrow> nat stmt" where
  "setDomainStatusSQL st at rid pg d =
    update_stmt (count_rows (\<lambda>x. d_id x = rid) (t_domains d)) (domain_checks st)
      (d\<lparr>t_domains := put_row (\<lambda>x. d_id x = rid)
         (\<lambda>x. x\<lparr>d_status := st, d_verified_at := at\<rparr>) (t_domains d)\<rparr>)"

definition countHostnamesSQL :: "string \<Rightarrow> nat stmt" where
  "countHostnamesSQL did = query (\<lambda>pg d. Inr (count_rows (\<lambda>h. h_domain h = did) (t_hostnames d)))"

definition insertVerificationSQL :: "string \<Rightarrow> string \<Rightarrow> string \<Rightarrow> bool \<Rightarrow> string \<Rightarrow> nat stmt" where
  "insertVerificationSQL rid did method success detail pg d =
    (let new = \<lparr>dv_id = rid, dv_domain = did, dv_method = method, dv_success = success,
                dv_detail = detail\<rparr> in
     insert_stmt True (fresh_key dv_id new (t_verifications d)) (did \<in> d_id ` set (t_domains d))
       1 (d\<lparr>t_verifications := t_verifications d @ [new]\<rparr>))"

definition hostname_key :: "hostname \<Rightarrow> string \<times> string" where
  "hostname_key h = (h_domain h, h_hostname h)"

definition insertHostnameSQL :: "string \<Rightarrow> string \<Rightarrow> string \<Rightarrow> status \<Rightarrow> hostname stmt" where
  "insertHostnameSQL rid did host st pg d =
    (let new = \<lparr>h_id = rid, h_domain = did, h_instance = None, h_hostname = host, h_status = st\<rparr> in
     insert_stmt (st = ''active'' \<or> st = ''removed'')
       (fresh_key h_id new (t_hostnames d) \<and> fresh_key hostname_key new (t_hostnames d))
       (did \<in> d_id ` set (t_domains d)) new (d\<lparr>t_hostnames := t_hostnames d @ [new]\<rparr>))"

definition hostnameByIDSQL :: "string \<Rightarrow> hostname stmt" where
  "hostnameByIDSQL rid = query (\<lambda>pg d. one_row (filter (\<lambda>h. h_id h = rid) (t_hostnames d)))"

definition listHostnamesSQL :: "string \<Rightarrow> hostname list stmt" where
  "listHostnamesSQL did = query (\<lambda>pg d.
     Inr (order_by pg h_hostname (filter (\<lambda>h. h_domain h = did) (t_hostnames d))))"

definition deleteHostnameSQL :: "string \<Rightarrow> nat stmt" where
  "deleteHostnameSQL rid pg d =
    Inr (count_rows (\<lambda>h. h_id h = rid) (t_hostnames d),
         d\<lparr>t_hostnames := filter (\<lambda>h. \<not> h_id h = rid) (t_hostnames d)\<rparr>)"

end
