(* ===== verification/Store_SQL_Mail.thy ===== *)
theory Store_SQL_Mail
  imports Store_SQL
begin

text \<open>
  The statements on the mail, application, installation and invitation tables of package
  \<open>internal/store\<close>, and the deletions with their cascades.
\<close>

section \<open>Mail\<close>

definition insertMailDomainSQL :: "string \<Rightarrow> string \<Rightarrow> mail_domain stmt" where
  "insertMailDomainSQL rid did pg d =
    (let new = \<lparr>md_id = rid, md_domain = did, md_status = ''provisioning'',
                md_inbound = ''not_configured'', md_outbound = ''not_configured'',
                md_tls = ''not_configured'', md_dkim = ''not_configured'',
                md_selector = [], md_dns_record = []\<rparr> in
     insert_stmt True (fresh_key md_id new (t_mdomains d) \<and> fresh_key md_domain new (t_mdomains d))
       (did \<in> d_id ` set (t_domains d)) (mail_domain.truncate new)
       (d\<lparr>t_mdomains := t_mdomains d @ [new]\<rparr>))"

definition mailDomainByDomainSQL :: "string \<Rightarrow> mail_domain stmt" where
  "mailDomainByDomainSQL did = query (\<lambda>pg d. one_row (map mail_domain.truncate
     (filter (\<lambda>m. md_domain m = did) (t_mdomains d))))"

definition mail_domain_checks :: "status \<Rightarrow> bool" where
  "mail_domain_checks s \<longleftrightarrow> s = ''provisioning'' \<or> s = ''active'' \<or> s = ''disabled''"

definition setMailDomainStatusSQL :: "status \<Rightarrow> string \<Rightarrow> nat stmt" where
  "setMailDomainStatusSQL st rid pg d =
    update_stmt (count_rows (\<lambda>m. md_id m = rid) (t_mdomains d)) (mail_domain_checks st)
      (d\<lparr>t_mdomains := put_row (\<lambda>m. md_id m = rid) (\<lambda>m. m\<lparr>md_status := st\<rparr>) (t_mdomains d)\<rparr>)"

definition setMailDomainDKIMSQL :: "string \<Rightarrow> string \<Rightarrow> string \<Rightarrow> nat stmt" where
  "setMailDomainDKIMSQL sel rec rid pg d =
    update_stmt (count_rows (\<lambda>m. md_id m = rid) (t_mdomains d)) True
      (d\<lparr>t_mdomains := put_row (\<lambda>m. md_id m = rid)
         (\<lambda>m. m\<lparr>md_selector := sel, md_dns_record := rec, md_dkim := ''configured''\<rparr>)
         (t_mdomains d)\<rparr>)"

definition identity_checks :: "status \<Rightarrow> bool" where
  "identity_checks s \<longleftrightarrow> s = ''requested'' \<or> s = ''provisioning'' \<or> s = ''active''
     \<or> s = ''suspended'' \<or> s = ''deleted''"

definition identity_key :: "mail_identity \<Rightarrow> string \<times> string" where
  "identity_key m = (mi_domain m, mi_local m)"

text \<open>The INSERT names no status: the column's default is \<open>requested\<close>.\<close>

definition insertMailIdentitySQL :: "mail_identity \<Rightarrow> mail_identity stmt" where
  "insertMailIdentitySQL m pg d =
    (let new = m\<lparr>mi_status := ''requested''\<rparr> in
     insert_stmt True
       (fresh_key mi_id new (t_identities d) \<and> fresh_key mi_address new (t_identities d)
        \<and> fresh_key identity_key new (t_identities d))
       (mi_org m \<in> o_id ` set (t_orgs d)
        \<and> (case mi_user m of None \<Rightarrow> True | Some u \<Rightarrow> u \<in> u_id ` set (t_users d))
        \<and> mi_domain m \<in> d_id ` set (t_domains d))
       new (d\<lparr>t_identities := t_identities d @ [new]\<rparr>))"

definition mailIdentityByIDSQL :: "string \<Rightarrow> mail_identity stmt" where
  "mailIdentityByIDSQL rid = query (\<lambda>pg d. one_row (filter (\<lambda>m. mi_id m = rid) (t_identities d)))"

definition mailIdentityByAddressSQL :: "string \<Rightarrow> mail_identity stmt" where
  "mailIdentityByAddressSQL addr = query (\<lambda>pg d.
     one_row (filter (\<lambda>m. mi_address m = addr) (t_identities d)))"

definition listMailIdentitiesSQL :: "string \<Rightarrow> mail_identity list stmt" where
  "listMailIdentitiesSQL did = query (\<lambda>pg d.
     Inr (order_by pg mi_address (filter (\<lambda>m. mi_domain m = did) (t_identities d))))"

definition setMailIdentityStatusSQL :: "status \<Rightarrow> string \<Rightarrow> nat stmt" where
  "setMailIdentityStatusSQL st rid pg d =
    update_stmt (count_rows (\<lambda>m. mi_id m = rid) (t_identities d)) (identity_checks st)
      (d\<lparr>t_identities := put_row (\<lambda>m. mi_id m = rid) (\<lambda>m. m\<lparr>mi_status := st\<rparr>) (t_identities d)\<rparr>)"

definition listMailIdentitiesByUsersSQL :: "string \<Rightarrow> string list \<Rightarrow> mail_identity list stmt" where
  "listMailIdentitiesByUsersSQL org us = query (\<lambda>pg d.
     Inr (order_by pg mi_address (filter (\<lambda>m. mi_org m = org \<and> mi_user m \<in> Some ` set us
       \<and> mi_status m = ''active'') (t_identities d))))"

definition insertMailCredentialSQL :: "string \<Rightarrow> string \<Rightarrow> string \<Rightarrow> mail_credential stmt" where
  "insertMailCredentialSQL rid idn fp pg d =
    (let new = \<lparr>mc_id = rid, mc_identity = idn, mc_fingerprint = fp, mc_status = ''active''\<rparr> in
     insert_stmt True (fresh_key mc_id new (t_creds d)) (idn \<in> mi_id ` set (t_identities d))
       new (d\<lparr>t_creds := t_creds d @ [new]\<rparr>))"

definition revokeCredentialsSQL :: "string \<Rightarrow> nat stmt" where
  "revokeCredentialsSQL idn pg d =
    update_stmt (count_rows (\<lambda>c. mc_identity c = idn \<and> mc_status c = ''active'') (t_creds d)) True
      (d\<lparr>t_creds := put_row (\<lambda>c. mc_identity c = idn \<and> mc_status c = ''active'')
         (\<lambda>c. c\<lparr>mc_status := ''revoked''\<rparr>) (t_creds d)\<rparr>)"

definition alias_key :: "mail_alias \<Rightarrow> string \<times> string" where
  "alias_key a = (ma_domain a, ma_local a)"

definition insertMailAliasSQL :: "mail_alias \<Rightarrow> mail_alias stmt" where
  "insertMailAliasSQL a pg d =
    (let new = a\<lparr>ma_status := ''active''\<rparr> in
     insert_stmt True
       (fresh_key ma_id new (t_aliases d) \<and> fresh_key ma_address new (t_aliases d)
        \<and> fresh_key alias_key new (t_aliases d))
       (ma_org a \<in> o_id ` set (t_orgs d) \<and> ma_domain a \<in> d_id ` set (t_domains d)
        \<and> (case ma_group a of None \<Rightarrow> True | Some g \<Rightarrow> g \<in> g_id ` set (t_groups d)))
       new (d\<lparr>t_aliases := t_aliases d @ [new]\<rparr>))"

definition mailAliasByAddressSQL :: "string \<Rightarrow> mail_alias stmt" where
  "mailAliasByAddressSQL addr = query (\<lambda>pg d.
     one_row (filter (\<lambda>a. ma_address a = addr) (t_aliases d)))"

definition listMailAliasesSQL :: "string \<Rightarrow> mail_alias list stmt" where
  "listMailAliasesSQL did = query (\<lambda>pg d.
     Inr (order_by pg ma_address (filter (\<lambda>a. ma_domain a = did) (t_aliases d))))"

definition updateMailAliasDestsSQL :: "string list \<Rightarrow> string \<Rightarrow> nat stmt" where
  "updateMailAliasDestsSQL dests rid pg d =
    update_stmt (count_rows (\<lambda>a. ma_id a = rid) (t_aliases d)) True
      (d\<lparr>t_aliases := put_row (\<lambda>a. ma_id a = rid) (\<lambda>a. a\<lparr>ma_destinations := dests\<rparr>) (t_aliases d)\<rparr>)"

definition deleteMailAliasSQL :: "string \<Rightarrow> nat stmt" where
  "deleteMailAliasSQL rid pg d =
    Inr (count_rows (\<lambda>a. ma_id a = rid) (t_aliases d),
         d\<lparr>t_aliases := filter (\<lambda>a. \<not> ma_id a = rid) (t_aliases d)\<rparr>)"

definition insertMailPolicySQL :: "mail_policy \<Rightarrow> nat stmt" where
  "insertMailPolicySQL p pg d =
    insert_stmt True (fresh_key mp_id p (t_policies d))
      (mp_identity p \<in> mi_id ` set (t_identities d) \<and> mp_credential p \<in> mc_id ` set (t_creds d))
      1 (d\<lparr>t_policies := t_policies d @ [p]\<rparr>)"

record active_mail_domain =
  am_id :: string
  am_domain :: string
  am_org :: string
  am_fqdn :: string

definition listActiveMailDomainsSQL :: "active_mail_domain list stmt" where
  "listActiveMailDomainsSQL = query (\<lambda>pg d. Inr (order_by pg am_fqdn
     [\<lparr>am_id = md_id m, am_domain = md_domain m, am_org = d_org x, am_fqdn = d_fqdn x\<rparr>.
        m \<leftarrow> t_mdomains d, md_status m = ''active'', x \<leftarrow> t_domains d, d_id x = md_domain m]))"

section \<open>Applications\<close>

definition catalog_key :: "catalog_app \<Rightarrow> string \<times> string" where
  "catalog_key a = (ca_slug a, ca_version a)"

definition insertCatalogAppSQL :: "catalog_app \<Rightarrow> nat stmt" where
  "insertCatalogAppSQL a pg d =
    insert_stmt True (fresh_key ca_id a (t_catalog d) \<and> fresh_key catalog_key a (t_catalog d))
      True 1 (d\<lparr>t_catalog := t_catalog d @ [a]\<rparr>)"

text \<open>The id of a new row is \<open>gen_random_uuid()\<close>, passed in by the caller of the model.\<close>

definition upsertCatalogAppSQL :: "catalog_app \<Rightarrow> nat stmt" where
  "upsertCatalogAppSQL a pg d =
    (if catalog_key a \<in> catalog_key ` set (t_catalog d) then
       Inr (1, d\<lparr>t_catalog := put_row (\<lambda>x. catalog_key x = catalog_key a)
         (\<lambda>x. x\<lparr>ca_name := ca_name a, ca_description := ca_description a,
                ca_category := ca_category a, ca_manifest := ca_manifest a\<rparr>) (t_catalog d)\<rparr>)
     else insert_stmt True (fresh_key ca_id a (t_catalog d)) True 1
       (d\<lparr>t_catalog := t_catalog d @ [a]\<rparr>))"

definition catalogAppByIDSQL :: "string \<Rightarrow> catalog_app stmt" where
  "catalogAppByIDSQL rid = query (\<lambda>pg d. one_row (filter (\<lambda>a. ca_id a = rid) (t_catalog d)))"

definition listCatalogAppsSQL :: "catalog_app list stmt" where
  "listCatalogAppsSQL = query (\<lambda>pg d. Inr (order_by pg ca_name (t_catalog d)))"

definition insertInstanceSQL :: "string \<Rightarrow> string \<Rightarrow> string \<Rightarrow> string \<Rightarrow> string \<Rightarrow> nat stmt" where
  "insertInstanceSQL rid org cat name slug pg d =
    (let new = \<lparr>ai_id = rid, ai_org = org, ai_catalog = cat, ai_name = name, ai_slug = slug,
                ai_status = ''provisioning''\<rparr> in
     insert_stmt True (fresh_key ai_id new (t_instances d))
       (org \<in> o_id ` set (t_orgs d) \<and> cat \<in> ca_id ` set (t_catalog d))
       1 (d\<lparr>t_instances := t_instances d @ [new]\<rparr>))"

definition instance_checks :: "status \<Rightarrow> bool" where
  "instance_checks s \<longleftrightarrow> s = ''provisioning'' \<or> s = ''active'' \<or> s = ''error'' \<or> s = ''removed''"

definition setInstanceStatusSQL :: "status \<Rightarrow> string \<Rightarrow> nat stmt" where
  "setInstanceStatusSQL st rid pg d =
    update_stmt (count_rows (\<lambda>i. ai_id i = rid) (t_instances d)) (instance_checks st)
      (d\<lparr>t_instances := put_row (\<lambda>i. ai_id i = rid) (\<lambda>i. i\<lparr>ai_status := st\<rparr>) (t_instances d)\<rparr>)"

definition instanceByIDSQL :: "string \<Rightarrow> instance_row stmt" where
  "instanceByIDSQL rid = query (\<lambda>pg d. one_row (filter (\<lambda>i. ai_id i = rid) (t_instances d)))"

definition listInstancesSQL :: "string \<Rightarrow> instance_row list stmt" where
  "listInstancesSQL org = query (\<lambda>pg d.
     Inr (order_by pg ai_name (filter (\<lambda>i. ai_org i = org) (t_instances d))))"

definition insertAppHostnameSQL :: "string \<Rightarrow> string \<Rightarrow> string \<Rightarrow> nat stmt" where
  "insertAppHostnameSQL rid inst host pg d =
    (let new = \<lparr>ah_id = rid, ah_instance = inst, ah_hostname = host, ah_status = ''active''\<rparr> in
     insert_stmt True (fresh_key ah_id new (t_ahosts d) \<and> fresh_key ah_hostname new (t_ahosts d))
       (inst \<in> ai_id ` set (t_instances d)) 1 (d\<lparr>t_ahosts := t_ahosts d @ [new]\<rparr>))"

definition insertAccessGroupSQL :: "string \<Rightarrow> string \<Rightarrow> nat stmt" where
  "insertAccessGroupSQL inst grp pg d =
    (let new = \<lparr>ag_instance = inst, ag_group = grp\<rparr> in
     if new \<in> set (t_agroups d) then Inr (0, d)
     else insert_stmt True True
       (inst \<in> ai_id ` set (t_instances d) \<and> grp \<in> g_id ` set (t_groups d))
       1 (d\<lparr>t_agroups := t_agroups d @ [new]\<rparr>))"

section \<open>The installation row\<close>

definition installationSQL :: "installation stmt" where
  "installationSQL = query (\<lambda>pg d.
     (case t_install d of None \<Rightarrow> Inl NoRows | Some i \<Rightarrow> Inr (installation.truncate i)))"

definition installationConfigSQL :: "string stmt" where
  "installationConfigSQL = query (\<lambda>pg d.
     (case t_install d of None \<Rightarrow> Inl NoRows | Some i \<Rightarrow> Inr (in_config i)))"

text \<open>The row, if onboarding is not complete.\<close>

definition open_install :: "db \<Rightarrow> installation_row option" where
  "open_install d = (case t_install d of None \<Rightarrow> None
     | Some i \<Rightarrow> if in_onboarded_at i = None then Some i else None)"

definition setInstallationPrimaryDomainSQL :: "string \<Rightarrow> nat stmt" where
  "setInstallationPrimaryDomainSQL did pg d =
    (case open_install d of None \<Rightarrow> Inr (0, d)
     | Some i \<Rightarrow> if did \<in> d_id ` set (t_domains d)
         then Inr (1, d\<lparr>t_install := Some (i\<lparr>in_primary_domain := did\<rparr>)\<rparr>) else Inl OtherErr)"

definition provider_checks :: "string \<Rightarrow> bool" where
  "provider_checks p \<longleftrightarrow> p = ''manual'' \<or> p = ''cloudflare''"

definition setInstallationProviderSQL :: "string \<Rightarrow> string \<Rightarrow> string \<Rightarrow> nat stmt" where
  "setInstallationProviderSQL dns acc cfg pg d =
    (case open_install d of None \<Rightarrow> Inr (0, d)
     | Some i \<Rightarrow> if provider_checks dns \<and> provider_checks acc
         then Inr (1, d\<lparr>t_install := Some (i\<lparr>in_dns_provider := dns, in_access_provider := acc,
                                           in_config := cfg\<rparr>)\<rparr>)
         else Inl OtherErr)"

definition setInstallationOnboardedSQL :: "int \<Rightarrow> nat stmt" where
  "setInstallationOnboardedSQL at pg d =
    (case open_install d of None \<Rightarrow> Inr (0, d)
     | Some i \<Rightarrow> Inr (1, d\<lparr>t_install := Some (i\<lparr>in_onboarded_at := Some at\<rparr>)\<rparr>))"

section \<open>Invitations\<close>

definition createInviteSQL :: "invite \<Rightarrow> invite stmt" where
  "createInviteSQL v pg d =
    (let new = v\<lparr>iv_accepted := None\<rparr> in
     insert_stmt (role_checks (iv_role v))
       (fresh_key iv_id new (t_invites d) \<and> fresh_key iv_hash new (t_invites d))
       (iv_org v \<in> o_id ` set (t_orgs d) \<and> iv_user v \<in> u_id ` set (t_users d)
        \<and> iv_by v \<in> u_id ` set (t_users d))
       new (d\<lparr>t_invites := t_invites d @ [new]\<rparr>))"

definition expirePendingInvitesSQL :: "string \<Rightarrow> string \<Rightarrow> nat stmt" where
  "expirePendingInvitesSQL org user pg d =
    update_stmt (count_rows (\<lambda>v. iv_org v = org \<and> iv_user v = user \<and> iv_accepted v = None) (t_invites d))
      True
      (d\<lparr>t_invites := put_row (\<lambda>v. iv_org v = org \<and> iv_user v = user \<and> iv_accepted v = None)
         (\<lambda>v. v\<lparr>iv_accepted := Some (pg_now pg)\<rparr>) (t_invites d)\<rparr>)"

definition getInviteByTokenHashSQL :: "string \<Rightarrow> invite stmt" where
  "getInviteByTokenHashSQL h = query (\<lambda>pg d. one_row (filter (\<lambda>v. iv_hash v = h) (t_invites d)))"

definition consumeInviteSQL :: "string \<Rightarrow> invite stmt" where
  "consumeInviteSQL rid pg d =
    (let live = (\<lambda>v. iv_id v = rid \<and> iv_accepted v = None \<and> pg_now pg < iv_expires v);
         burn = (\<lambda>v. v\<lparr>iv_accepted := Some (pg_now pg)\<rparr>) in
     (case find live (t_invites d) of
        None \<Rightarrow> Inl NoRows
      | Some v \<Rightarrow> Inr (burn v, d\<lparr>t_invites := put_row live burn (t_invites d)\<rparr>)))"

section \<open>Deletions with their cascades\<close>

text \<open>Each function removes the rows that satisfy a predicate, after the rows that refer to them.\<close>

definition without :: "('r \<Rightarrow> bool) \<Rightarrow> 'r list \<Rightarrow> 'r list" where
  "without p = filter (\<lambda>r. \<not> p r)"

definition gone :: "('r \<Rightarrow> 'k) \<Rightarrow> ('r \<Rightarrow> bool) \<Rightarrow> 'r list \<Rightarrow> 'k \<Rightarrow> bool" where
  "gone k p rs x \<longleftrightarrow> x \<in> k ` set (filter p rs)"

definition drop_creds :: "(mail_credential \<Rightarrow> bool) \<Rightarrow> db \<Rightarrow> db" where
  "drop_creds p d = d\<lparr>
     t_policies := without (\<lambda>q. gone mc_id p (t_creds d) (mp_credential q)) (t_policies d),
     t_creds := without p (t_creds d)\<rparr>"

definition drop_identities :: "(mail_identity \<Rightarrow> bool) \<Rightarrow> db \<Rightarrow> db" where
  "drop_identities p d =
    (let g = gone mi_id p (t_identities d); d1 = drop_creds (\<lambda>c. g (mc_identity c)) d in
     d1\<lparr>t_policies := without (\<lambda>q. g (mp_identity q)) (t_policies d1),
        t_identities := without p (t_identities d1)\<rparr>)"

definition drop_groups :: "(group \<Rightarrow> bool) \<Rightarrow> db \<Rightarrow> db" where
  "drop_groups p d =
    (let g = gone g_id p (t_groups d) in
     d\<lparr>t_gmembers := without (\<lambda>x. g (gm_group x)) (t_gmembers d),
       t_agroups := without (\<lambda>x. g (ag_group x)) (t_agroups d),
       t_aliases := put_row (\<lambda>a. case ma_group a of None \<Rightarrow> False | Some x \<Rightarrow> g x)
         (\<lambda>a. a\<lparr>ma_group := None\<rparr>) (t_aliases d),
       t_groups := without p (t_groups d)\<rparr>)"

definition drop_instances :: "(instance_row \<Rightarrow> bool) \<Rightarrow> db \<Rightarrow> db" where
  "drop_instances p d =
    (let g = gone ai_id p (t_instances d) in
     d\<lparr>t_ahosts := without (\<lambda>x. g (ah_instance x)) (t_ahosts d),
       t_agroups := without (\<lambda>x. g (ag_instance x)) (t_agroups d),
       t_instances := without p (t_instances d)\<rparr>)"

definition drop_domains :: "(domain \<Rightarrow> bool) \<Rightarrow> db \<Rightarrow> db" where
  "drop_domains p d =
    (let g = gone d_id p (t_domains d); d1 = drop_identities (\<lambda>m. g (mi_domain m)) d in
     d1\<lparr>t_hostnames := without (\<lambda>h. g (h_domain h)) (t_hostnames d1),
        t_verifications := without (\<lambda>v. g (dv_domain v)) (t_verifications d1),
        t_mdomains := without (\<lambda>m. g (md_domain m)) (t_mdomains d1),
        t_aliases := without (\<lambda>a. g (ma_domain a)) (t_aliases d1),
        t_install := map_option (\<lambda>i. if g (in_primary_domain i) then i\<lparr>in_primary_domain := []\<rparr> else i)
          (t_install d1),
        t_domains := without p (t_domains d1)\<rparr>)"

definition drop_orgs :: "(organization \<Rightarrow> bool) \<Rightarrow> db \<Rightarrow> db" where
  "drop_orgs p d =
    (let g = gone o_id p (t_orgs d);
         d1 = drop_identities (\<lambda>m. g (mi_org m)) d;
         d2 = drop_domains (\<lambda>x. g (d_org x)) d1;
         d3 = drop_groups (\<lambda>x. g (g_org x)) d2;
         d4 = drop_instances (\<lambda>i. g (ai_org i)) d3 in
     d4\<lparr>t_members := without (\<lambda>m. g (m_org m)) (t_members d4),
        t_aliases := without (\<lambda>a. g (ma_org a)) (t_aliases d4),
        t_invites := without (\<lambda>v. g (iv_org v)) (t_invites d4),
        t_orgs := without p (t_orgs d4)\<rparr>)"

definition deleteOrgSQL :: "string \<Rightarrow> nat stmt" where
  "deleteOrgSQL rid pg d =
    Inr (count_rows (\<lambda>x. o_id x = rid) (t_orgs d), drop_orgs (\<lambda>x. o_id x = rid) d)"

definition deleteGroupSQL :: "string \<Rightarrow> nat stmt" where
  "deleteGroupSQL rid pg d =
    Inr (count_rows (\<lambda>g. g_id g = rid) (t_groups d), drop_groups (\<lambda>g. g_id g = rid) d)"

definition deleteDomainSQL :: "string \<Rightarrow> nat stmt" where
  "deleteDomainSQL rid pg d =
    Inr (count_rows (\<lambda>x. d_id x = rid) (t_domains d), drop_domains (\<lambda>x. d_id x = rid) d)"

end
