(* ===== verification/Store_Invariant.thy ===== *)
theory Store_Invariant
  imports Store_SQL_Mail
begin

text \<open>
  The integrity of the database: keys are unique, references resolve, enumerated columns hold a
  value of their enumeration. Every statement of the store keeps it, the cascading deletions
  included; the rules are in the collection \<open>keeps\<close>, so that the integrity of the tables carries
  over to every program built from the statements, whatever fails in between.
\<close>

section \<open>Keys and references\<close>

definition uniq :: "('r \<Rightarrow> 'k) \<Rightarrow> 'r list \<Rightarrow> bool" where
  "uniq k rs \<longleftrightarrow> distinct (map k rs)"

definition refs :: "('r \<Rightarrow> 'k) \<Rightarrow> 'k set \<Rightarrow> 'r list \<Rightarrow> bool" where
  "refs k K rs \<longleftrightarrow> k ` set rs \<subseteq> K"

definition orefs :: "('r \<Rightarrow> 'k option) \<Rightarrow> 'k set \<Rightarrow> 'r list \<Rightarrow> bool" where
  "orefs k K rs \<longleftrightarrow> (\<forall>r \<in> set rs. \<forall>x. k r = Some x \<longrightarrow> x \<in> K)"

lemma uniq_simps [simp]:
  "uniq k []" "uniq k (rs @ [r]) \<longleftrightarrow> uniq k rs \<and> k r \<notin> k ` set rs"
  by (auto simp: uniq_def)

lemma uniq_without [intro]: "uniq k rs \<Longrightarrow> uniq k (without p rs)"
  by (simp add: uniq_def without_def distinct_map_filter')

lemma uniq_filter [intro]: "uniq k rs \<Longrightarrow> uniq k (filter p rs)"
  by (simp add: uniq_def distinct_map_filter')

lemma uniq_put_row [intro]: "(\<And>r. k (f r) = k r) \<Longrightarrow> uniq k rs \<Longrightarrow> uniq k (put_row p f rs)"
  by (simp add: uniq_def map_put_row)

lemma image_put_row [simp]: "(\<And>r. k (f r) = k r) \<Longrightarrow> k ` set (put_row p f rs) = k ` set rs"
  using map_put_row [of rs p k f] by (metis list.set_map)

lemma refs_simps [simp]:
  "refs k K []" "refs k K (rs @ [r]) \<longleftrightarrow> refs k K rs \<and> k r \<in> K"
  by (auto simp: refs_def)

lemma orefs_simps [simp]:
  "orefs k K []"
  "orefs k K (rs @ [r]) \<longleftrightarrow> orefs k K rs \<and> (case k r of None \<Rightarrow> True | Some x \<Rightarrow> x \<in> K)"
  by (auto simp: orefs_def split: option.splits)

lemma refs_insert [intro]: "refs k K rs \<Longrightarrow> refs k (insert x K) rs"
  by (auto simp: refs_def)

lemma orefs_insert [intro]: "orefs k K rs \<Longrightarrow> orefs k (insert x K) rs"
  by (auto simp: orefs_def)

lemma refs_without [intro]: "refs k K rs \<Longrightarrow> refs k K (without p rs)"
  by (auto simp: refs_def without_def)

lemma refs_filter [intro]: "refs k K rs \<Longrightarrow> refs k K (filter p rs)"
  by (auto simp: refs_def)

lemma orefs_without [intro]: "orefs k K rs \<Longrightarrow> orefs k K (without p rs)"
  by (auto simp: orefs_def without_def)

lemma orefs_filter [intro]: "orefs k K rs \<Longrightarrow> orefs k K (filter p rs)"
  by (auto simp: orefs_def)

lemma refs_put_row [intro]: "(\<And>r. k (f r) = k r) \<Longrightarrow> refs k K rs \<Longrightarrow> refs k K (put_row p f rs)"
  by (simp add: refs_def)

lemma orefs_put_row [intro]:
  "(\<And>r. k (f r) = k r) \<Longrightarrow> orefs k K rs \<Longrightarrow> orefs k K (put_row p f rs)"
  by (auto simp: orefs_def set_put_row)

text \<open>Removing the rows that refer to removed rows leaves no reference behind.\<close>

lemma refs_gone [intro]:
  "refs k (k' ` set ts) rs \<Longrightarrow>
   refs k (k' ` set (without p ts)) (without (\<lambda>r. gone k' p ts (k r)) rs)"
  by (force simp: refs_def without_def gone_def)

lemma orefs_gone [intro]:
  "orefs k (k' ` set ts) rs \<Longrightarrow> (\<And>r. k (f r) = None) \<Longrightarrow>
   orefs k (k' ` set (without p ts))
     (put_row (\<lambda>r. case k r of None \<Rightarrow> False | Some x \<Rightarrow> gone k' p ts x) f rs)"
  by (force simp: orefs_def without_def gone_def set_put_row split: option.splits if_splits)

lemma list_all_put_row [intro]:
  "list_all P rs \<Longrightarrow> (\<And>r. r \<in> set rs \<Longrightarrow> p r \<Longrightarrow> P r \<Longrightarrow> P (f r)) \<Longrightarrow> list_all P (put_row p f rs)"
  by (auto simp: list_all_iff set_put_row)

lemma list_all_without [intro]: "list_all P rs \<Longrightarrow> list_all P (without p rs)"
  by (auto simp: list_all_iff without_def)

lemma list_all_filter [intro]: "list_all P rs \<Longrightarrow> list_all P (filter p rs)"
  by (auto simp: list_all_iff)

lemma distinct_without [intro]: "distinct rs \<Longrightarrow> distinct (without p rs)"
  by (simp add: without_def)

section \<open>Well-formed tables\<close>

text \<open>One predicate per table: its keys are unique, its references lie in the given sets of ids, its
  enumerated columns hold values of the enumeration.\<close>

definition users_wf :: "user list \<Rightarrow> bool" where
  "users_wf rs \<longleftrightarrow>
     uniq u_id rs
     \<and> uniq u_email rs
     \<and> uniq user_identity rs
     \<and> list_all (\<lambda>u. u_status u = ''active'' \<or> u_status u = ''disabled'') rs"

definition orgs_wf :: "organization list \<Rightarrow> bool" where
  "orgs_wf rs \<longleftrightarrow>
     uniq o_id rs
     \<and> uniq o_slug rs
     \<and> uniq o_name rs"

definition members_wf :: "string set \<Rightarrow> string set \<Rightarrow> membership list \<Rightarrow> bool" where
  "members_wf Org Usr rs \<longleftrightarrow>
     uniq m_id rs
     \<and> uniq member_key rs
     \<and> refs m_org Org rs
     \<and> refs m_user Usr rs
     \<and> list_all (\<lambda>m. role_checks (m_role m)) rs"

definition groups_wf :: "string set \<Rightarrow> group list \<Rightarrow> bool" where
  "groups_wf Org rs \<longleftrightarrow>
     uniq g_id rs
     \<and> uniq group_key rs
     \<and> refs g_org Org rs"

definition gmembers_wf :: "string set \<Rightarrow> string set \<Rightarrow> group_membership list \<Rightarrow> bool" where
  "gmembers_wf Grp Usr rs \<longleftrightarrow>
     distinct rs
     \<and> refs gm_group Grp rs
     \<and> refs gm_user Usr rs"

definition externals_wf :: "external_row list \<Rightarrow> bool" where
  "externals_wf rs \<longleftrightarrow>
     uniq x_id rs
     \<and> uniq external_key rs
     \<and> list_all (\<lambda>x. external_checks (x_status x)) rs"

definition domains_wf :: "string set \<Rightarrow> domain list \<Rightarrow> bool" where
  "domains_wf Org rs \<longleftrightarrow>
     uniq d_id rs
     \<and> uniq domain_key rs
     \<and> refs d_org Org rs
     \<and> list_all (\<lambda>x. domain_checks (d_status x)) rs"

definition hostnames_wf :: "string set \<Rightarrow> hostname list \<Rightarrow> bool" where
  "hostnames_wf Dom rs \<longleftrightarrow>
     uniq h_id rs
     \<and> uniq hostname_key rs
     \<and> refs h_domain Dom rs"

definition verifications_wf :: "string set \<Rightarrow> verification list \<Rightarrow> bool" where
  "verifications_wf Dom rs \<longleftrightarrow>
     uniq dv_id rs
     \<and> refs dv_domain Dom rs"

definition mdomains_wf :: "string set \<Rightarrow> mail_domain_row list \<Rightarrow> bool" where
  "mdomains_wf Dom rs \<longleftrightarrow>
     uniq md_id rs
     \<and> uniq md_domain rs
     \<and> refs md_domain Dom rs
     \<and> list_all (\<lambda>m. mail_domain_checks (md_status m)) rs"

definition identities_wf :: "string set \<Rightarrow> string set \<Rightarrow> string set \<Rightarrow> mail_identity list \<Rightarrow> bool" where
  "identities_wf Org Usr Dom rs \<longleftrightarrow>
     uniq mi_id rs
     \<and> uniq mi_address rs
     \<and> uniq identity_key rs
     \<and> refs mi_org Org rs
     \<and> orefs mi_user Usr rs
     \<and> refs mi_domain Dom rs
     \<and> list_all (\<lambda>m. identity_checks (mi_status m)) rs"

definition creds_wf :: "string set \<Rightarrow> mail_credential list \<Rightarrow> bool" where
  "creds_wf Box rs \<longleftrightarrow>
     uniq mc_id rs
     \<and> refs mc_identity Box rs"

definition aliases_wf :: "string set \<Rightarrow> string set \<Rightarrow> string set \<Rightarrow> mail_alias list \<Rightarrow> bool" where
  "aliases_wf Org Dom Grp rs \<longleftrightarrow>
     uniq ma_id rs
     \<and> uniq ma_address rs
     \<and> uniq alias_key rs
     \<and> refs ma_org Org rs
     \<and> refs ma_domain Dom rs
     \<and> orefs ma_group Grp rs"

definition policies_wf :: "string set \<Rightarrow> string set \<Rightarrow> mail_policy list \<Rightarrow> bool" where
  "policies_wf Box Cred rs \<longleftrightarrow>
     uniq mp_id rs
     \<and> refs mp_identity Box rs
     \<and> refs mp_credential Cred rs"

definition catalog_wf :: "catalog_app list \<Rightarrow> bool" where
  "catalog_wf rs \<longleftrightarrow>
     uniq ca_id rs
     \<and> uniq catalog_key rs"

definition instances_wf :: "string set \<Rightarrow> string set \<Rightarrow> instance_row list \<Rightarrow> bool" where
  "instances_wf Org Cat rs \<longleftrightarrow>
     uniq ai_id rs
     \<and> refs ai_org Org rs
     \<and> refs ai_catalog Cat rs
     \<and> list_all (\<lambda>i. instance_checks (ai_status i)) rs"

definition ahosts_wf :: "string set \<Rightarrow> app_hostname list \<Rightarrow> bool" where
  "ahosts_wf Ins rs \<longleftrightarrow>
     uniq ah_id rs
     \<and> uniq ah_hostname rs
     \<and> refs ah_instance Ins rs"

definition agroups_wf :: "string set \<Rightarrow> string set \<Rightarrow> access_group list \<Rightarrow> bool" where
  "agroups_wf Ins Grp rs \<longleftrightarrow>
     distinct rs
     \<and> refs ag_instance Ins rs
     \<and> refs ag_group Grp rs"

definition invites_wf :: "string set \<Rightarrow> string set \<Rightarrow> invite list \<Rightarrow> bool" where
  "invites_wf Org Usr rs \<longleftrightarrow>
     uniq iv_id rs
     \<and> uniq iv_hash rs
     \<and> refs iv_org Org rs
     \<and> refs iv_user Usr rs
     \<and> refs iv_by Usr rs
     \<and> list_all (\<lambda>v. role_checks (iv_role v)) rs"

definition audits_wf :: "string set \<Rightarrow> (audit_event \<times> int) list \<Rightarrow> bool" where
  "audits_wf Usr rs \<longleftrightarrow> uniq a_id (map fst rs) \<and> orefs a_actor Usr (map fst rs)"

definition install_wf :: "installation_row option \<Rightarrow> bool" where
  "install_wf r \<longleftrightarrow> (\<forall>i. r = Some i \<longrightarrow>
     provider_checks (in_dns_provider i) \<and> provider_checks (in_access_provider i))"

abbreviation user_ids :: "db \<Rightarrow> string set" where "user_ids d \<equiv> u_id ` set (t_users d)"
abbreviation org_ids :: "db \<Rightarrow> string set" where "org_ids d \<equiv> o_id ` set (t_orgs d)"
abbreviation domain_ids :: "db \<Rightarrow> string set" where "domain_ids d \<equiv> d_id ` set (t_domains d)"
abbreviation group_ids :: "db \<Rightarrow> string set" where "group_ids d \<equiv> g_id ` set (t_groups d)"
abbreviation mailbox_ids :: "db \<Rightarrow> string set" where "mailbox_ids d \<equiv> mi_id ` set (t_identities d)"
abbreviation instance_ids :: "db \<Rightarrow> string set" where "instance_ids d \<equiv> ai_id ` set (t_instances d)"

definition db_ok :: "db \<Rightarrow> bool" where
  "db_ok d \<longleftrightarrow>
     audits_wf (user_ids d) (t_audits d) \<and> install_wf (t_install d)
     \<and> users_wf (t_users d)
     \<and> orgs_wf (t_orgs d)
     \<and> members_wf (org_ids d) (user_ids d) (t_members d)
     \<and> groups_wf (org_ids d) (t_groups d)
     \<and> gmembers_wf (group_ids d) (user_ids d) (t_gmembers d)
     \<and> externals_wf (t_externals d)
     \<and> domains_wf (org_ids d) (t_domains d)
     \<and> hostnames_wf (domain_ids d) (t_hostnames d)
     \<and> verifications_wf (domain_ids d) (t_verifications d)
     \<and> mdomains_wf (domain_ids d) (t_mdomains d)
     \<and> identities_wf (org_ids d) (user_ids d) (domain_ids d) (t_identities d)
     \<and> creds_wf (mailbox_ids d) (t_creds d)
     \<and> aliases_wf (org_ids d) (domain_ids d) (group_ids d) (t_aliases d)
     \<and> policies_wf (mailbox_ids d) (mc_id ` set (t_creds d)) (t_policies d)
     \<and> catalog_wf (t_catalog d)
     \<and> instances_wf (org_ids d) (ca_id ` set (t_catalog d)) (t_instances d)
     \<and> ahosts_wf (instance_ids d) (t_ahosts d)
     \<and> agroups_wf (instance_ids d) (group_ids d) (t_agroups d)
     \<and> invites_wf (org_ids d) (user_ids d) (t_invites d)"

lemmas wf_defs = users_wf_def orgs_wf_def members_wf_def groups_wf_def gmembers_wf_def externals_wf_def domains_wf_def hostnames_wf_def verifications_wf_def mdomains_wf_def identities_wf_def creds_wf_def aliases_wf_def policies_wf_def catalog_wf_def instances_wf_def ahosts_wf_def agroups_wf_def invites_wf_def audits_wf_def
  install_wf_def

text \<open>More ids to refer to keep a table well-formed.\<close>

lemma members_wf_more [simp]:
  "members_wf Org Usr rs \<Longrightarrow> members_wf (insert x Org) Usr rs"
  "members_wf Org Usr rs \<Longrightarrow> members_wf Org (insert x Usr) rs"
  by (auto simp: members_wf_def)

lemma groups_wf_more [simp]:
  "groups_wf Org rs \<Longrightarrow> groups_wf (insert x Org) rs"
  by (auto simp: groups_wf_def)

lemma gmembers_wf_more [simp]:
  "gmembers_wf Grp Usr rs \<Longrightarrow> gmembers_wf (insert x Grp) Usr rs"
  "gmembers_wf Grp Usr rs \<Longrightarrow> gmembers_wf Grp (insert x Usr) rs"
  by (auto simp: gmembers_wf_def)

lemma domains_wf_more [simp]:
  "domains_wf Org rs \<Longrightarrow> domains_wf (insert x Org) rs"
  by (auto simp: domains_wf_def)

lemma hostnames_wf_more [simp]:
  "hostnames_wf Dom rs \<Longrightarrow> hostnames_wf (insert x Dom) rs"
  by (auto simp: hostnames_wf_def)

lemma verifications_wf_more [simp]:
  "verifications_wf Dom rs \<Longrightarrow> verifications_wf (insert x Dom) rs"
  by (auto simp: verifications_wf_def)

lemma mdomains_wf_more [simp]:
  "mdomains_wf Dom rs \<Longrightarrow> mdomains_wf (insert x Dom) rs"
  by (auto simp: mdomains_wf_def)

lemma identities_wf_more [simp]:
  "identities_wf Org Usr Dom rs \<Longrightarrow> identities_wf (insert x Org) Usr Dom rs"
  "identities_wf Org Usr Dom rs \<Longrightarrow> identities_wf Org (insert x Usr) Dom rs"
  "identities_wf Org Usr Dom rs \<Longrightarrow> identities_wf Org Usr (insert x Dom) rs"
  by (auto simp: identities_wf_def)

lemma creds_wf_more [simp]:
  "creds_wf Box rs \<Longrightarrow> creds_wf (insert x Box) rs"
  by (auto simp: creds_wf_def)

lemma aliases_wf_more [simp]:
  "aliases_wf Org Dom Grp rs \<Longrightarrow> aliases_wf (insert x Org) Dom Grp rs"
  "aliases_wf Org Dom Grp rs \<Longrightarrow> aliases_wf Org (insert x Dom) Grp rs"
  "aliases_wf Org Dom Grp rs \<Longrightarrow> aliases_wf Org Dom (insert x Grp) rs"
  by (auto simp: aliases_wf_def)

lemma policies_wf_more [simp]:
  "policies_wf Box Cred rs \<Longrightarrow> policies_wf (insert x Box) Cred rs"
  "policies_wf Box Cred rs \<Longrightarrow> policies_wf Box (insert x Cred) rs"
  by (auto simp: policies_wf_def)

lemma instances_wf_more [simp]:
  "instances_wf Org Cat rs \<Longrightarrow> instances_wf (insert x Org) Cat rs"
  "instances_wf Org Cat rs \<Longrightarrow> instances_wf Org (insert x Cat) rs"
  by (auto simp: instances_wf_def)

lemma ahosts_wf_more [simp]:
  "ahosts_wf Ins rs \<Longrightarrow> ahosts_wf (insert x Ins) rs"
  by (auto simp: ahosts_wf_def)

lemma agroups_wf_more [simp]:
  "agroups_wf Ins Grp rs \<Longrightarrow> agroups_wf (insert x Ins) Grp rs"
  "agroups_wf Ins Grp rs \<Longrightarrow> agroups_wf Ins (insert x Grp) rs"
  by (auto simp: agroups_wf_def)

lemma invites_wf_more [simp]:
  "invites_wf Org Usr rs \<Longrightarrow> invites_wf (insert x Org) Usr rs"
  "invites_wf Org Usr rs \<Longrightarrow> invites_wf Org (insert x Usr) rs"
  by (auto simp: invites_wf_def)

lemma audits_wf_more [simp]:
  "audits_wf Usr rs \<Longrightarrow> audits_wf (insert x Usr) rs"
  by (auto simp: audits_wf_def)

lemma fresh_db_ok: "db_ok fresh_db"
  by (simp add: db_ok_def wf_defs fresh_db_def provider_checks_def)

lemmas stmt_simps = Let_def insert_stmt_Inr update_stmt_Inr fresh_key_def

lemma count_rows_0 [simp]: "count_rows p rs = 0 \<longleftrightarrow> (\<forall>r \<in> set rs. \<not> p r)"
  by (auto simp: count_rows_def filter_empty_conv)

section \<open>Statements on users\<close>

lemma upsertUserSQL_ok [keeps]: "stmt_keeps db_ok (upsertUserSQL a b c e f)"
proof (rule stmt_keepsI)
  fix pg d x d'
  assume ok: "db_ok d" and run: "upsertUserSQL a b c e f pg d = Inr (x, d')"
  let ?upd = "\<lambda>u. u\<lparr>u_auth_provider := e, u_auth_identity := f, u_display_name := c,
    u_status := ''active''\<rparr>"
  show "db_ok d'"
  proof (cases "find (\<lambda>u. u_email u = b) (t_users d)")
    case None
    then have "b \<notin> u_email ` set (t_users d)" by (auto simp: find_None_iff)
    with run ok None show ?thesis
      by (auto simp: upsertUserSQL_def stmt_simps db_ok_def users_wf_def new_user_row_def user_checks_def
          split: if_splits)
  next
    case (Some old)
    from run Some have d': "d' = d\<lparr>t_users := put_row (\<lambda>u. u_email u = b) ?upd (t_users d)\<rparr>"
      and free: "(e, f) \<notin> user_identity ` {u \<in> set (t_users d). u_email u \<noteq> b}"
      by (auto simp: upsertUserSQL_def Let_def user_identity_def split: if_splits)
    have "uniq user_identity (put_row (\<lambda>u. u_email u = b) ?upd us)"
      if "uniq user_identity us" "uniq u_email us" "set us \<subseteq> set (t_users d)" for us
      using that
    proof (induction us)
      case (Cons u us)
      have free': "v \<in> set us \<Longrightarrow> u_email v \<noteq> b \<Longrightarrow> user_identity v \<noteq> (e, f)" for v
        using free Cons.prems(3) by (auto simp: image_iff)
      have rest: "uniq user_identity (put_row (\<lambda>u. u_email u = b) ?upd us)"
        using Cons by (auto simp: uniq_def)
      have upd: "user_identity (?upd v) = (e, f)" for v by (simp add: user_identity_def)
      show ?case
      proof (cases "u_email u = b")
        case True
        with Cons.prems(2) have "b \<notin> u_email ` set us" by (simp add: uniq_def)
        then have "put_row (\<lambda>u. u_email u = b) ?upd us = us"
          by (intro put_row_unaffected) auto
        moreover have "user_identity v \<noteq> (e, f)" if "v \<in> set us" for v
          using free' [OF that] that \<open>b \<notin> u_email ` set us\<close> by auto
        ultimately show ?thesis
          using rest True by (simp add: uniq_def upd) (metis image_iff)
      next
        case False
        then have "user_identity u \<noteq> (e, f)" using free Cons.prems(3) by (auto simp: image_iff)
        with False rest Cons.prems(1) show ?thesis
          by (auto simp: uniq_def set_put_row upd)
      qed
    qed (simp add: uniq_def)
    from this [of "t_users d"] ok d' show ?thesis
      by (auto simp: db_ok_def users_wf_def intro!: uniq_put_row)
  qed
qed

end
