(* ===== verification/Store_Integrity.thy ===== *)
theory Store_Integrity
  imports Store_Invariant
begin

text \<open>
  The remaining statements keep the integrity of the database, the cascading deletions included.
\<close>

section \<open>Users and audit events\<close>

lemma grantAdminIfNoneSQL_ok [keeps]: "stmt_keeps db_ok (grantAdminIfNoneSQL i)"
  by (rule stmt_keepsI, auto simp: grantAdminIfNoneSQL_def stmt_simps db_ok_def users_wf_def user_identity_def
      split: if_splits option.splits intro!: uniq_put_row list_all_put_row)

lemma setUserAdminSQL_ok [keeps]: "stmt_keeps db_ok (setUserAdminSQL adm i)"
  by (rule stmt_keepsI, auto simp: setUserAdminSQL_def stmt_simps db_ok_def users_wf_def user_identity_def
      split: if_splits option.splits intro!: uniq_put_row list_all_put_row)

lemma insertUserSQL_ok [keeps]: "stmt_keeps db_ok (insertUserSQL i b c e f)"
  by (rule stmt_keepsI, auto simp: insertUserSQL_def stmt_simps db_ok_def users_wf_def user_checks_def new_user_row_def
      split: if_splits option.splits intro!: uniq_put_row list_all_put_row)

lemma setUserStatusSQL_ok [keeps]: "stmt_keeps db_ok (setUserStatusSQL s i)"
  by (rule stmt_keepsI, auto simp: setUserStatusSQL_def stmt_simps db_ok_def users_wf_def user_identity_def
      split: if_splits option.splits intro!: uniq_put_row list_all_put_row)

lemma insertAuditEventSQL_ok [keeps]: "stmt_keeps db_ok (insertAuditEventSQL ev)"
  by (rule stmt_keepsI, auto simp: insertAuditEventSQL_def stmt_simps db_ok_def audits_wf_def
      split: if_splits option.splits intro!: uniq_put_row list_all_put_row)

section \<open>Organizations and groups\<close>

lemma insertOrgSQL_ok [keeps]: "stmt_keeps db_ok (insertOrgSQL i b c)"
  by (rule stmt_keepsI, auto simp: insertOrgSQL_def stmt_simps db_ok_def orgs_wf_def
      split: if_splits option.splits intro!: uniq_put_row list_all_put_row)

lemma upsertMembershipSQL_ok [keeps]: "stmt_keeps db_ok (upsertMembershipSQL i b c e)"
  by (rule stmt_keepsI, auto simp: upsertMembershipSQL_def stmt_simps db_ok_def members_wf_def member_key_def
      split: if_splits option.splits intro!: uniq_put_row list_all_put_row)

lemma removeMembershipSQL_ok [keeps]: "stmt_keeps db_ok (removeMembershipSQL b c)"
  by (rule stmt_keepsI, auto simp: removeMembershipSQL_def stmt_simps db_ok_def members_wf_def
      split: if_splits option.splits intro!: uniq_put_row list_all_put_row)

lemma removeAllMembershipsSQL_ok [keeps]: "stmt_keeps db_ok (removeAllMembershipsSQL b)"
  by (rule stmt_keepsI, auto simp: removeAllMembershipsSQL_def stmt_simps db_ok_def members_wf_def
      split: if_splits option.splits intro!: uniq_put_row list_all_put_row)

lemma insertGroupSQL_ok [keeps]: "stmt_keeps db_ok (insertGroupSQL gr)"
  by (rule stmt_keepsI, auto simp: insertGroupSQL_def stmt_simps db_ok_def groups_wf_def
      split: if_splits option.splits intro!: uniq_put_row list_all_put_row)

lemma insertGroupMemberSQL_ok [keeps]: "stmt_keeps db_ok (insertGroupMemberSQL b c)"
  by (rule stmt_keepsI, auto simp: insertGroupMemberSQL_def stmt_simps db_ok_def gmembers_wf_def
      split: if_splits option.splits intro!: uniq_put_row list_all_put_row)

lemma deleteGroupMemberSQL_ok [keeps]: "stmt_keeps db_ok (deleteGroupMemberSQL b c)"
  by (rule stmt_keepsI, auto simp: deleteGroupMemberSQL_def stmt_simps db_ok_def gmembers_wf_def
      split: if_splits option.splits intro!: uniq_put_row list_all_put_row)

lemma removeAllGroupMembershipsSQL_ok [keeps]: "stmt_keeps db_ok (removeAllGroupMembershipsSQL b)"
  by (rule stmt_keepsI, auto simp: removeAllGroupMembershipsSQL_def stmt_simps db_ok_def gmembers_wf_def
      split: if_splits option.splits intro!: uniq_put_row list_all_put_row)

lemma upsertExternalSQL_ok [keeps]: "stmt_keeps db_ok (upsertExternalSQL xr)"
  by (rule stmt_keepsI, auto simp: upsertExternalSQL_def stmt_simps db_ok_def externals_wf_def external_key_def find_None_iff image_iff external_resource.defs
      split: if_splits option.splits intro!: uniq_put_row list_all_put_row)

lemma setExternalObservedSQL_ok [keeps]: "stmt_keeps db_ok (setExternalObservedSQL s b c i)"
  by (rule stmt_keepsI, auto simp: setExternalObservedSQL_def stmt_simps db_ok_def externals_wf_def external_key_def
      split: if_splits option.splits intro!: uniq_put_row list_all_put_row)

lemma setExternalStatusSQL_ok [keeps]: "stmt_keeps db_ok (setExternalStatusSQL s b i)"
  by (rule stmt_keepsI, auto simp: setExternalStatusSQL_def stmt_simps db_ok_def externals_wf_def external_key_def
      split: if_splits option.splits intro!: uniq_put_row list_all_put_row)

section \<open>Domains\<close>

lemma insertDomainSQL_ok [keeps]: "stmt_keeps db_ok (insertDomainSQL dm)"
  by (rule stmt_keepsI, auto simp: insertDomainSQL_def stmt_simps db_ok_def domains_wf_def
      split: if_splits option.splits intro!: uniq_put_row list_all_put_row)

lemma setDomainStatusSQL_ok [keeps]: "stmt_keeps db_ok (setDomainStatusSQL s at i)"
  by (rule stmt_keepsI, auto simp: setDomainStatusSQL_def stmt_simps db_ok_def domains_wf_def domain_key_def
      split: if_splits option.splits intro!: uniq_put_row list_all_put_row)

lemma insertVerificationSQL_ok [keeps]: "stmt_keeps db_ok (insertVerificationSQL i b c ok e)"
  by (rule stmt_keepsI, auto simp: insertVerificationSQL_def stmt_simps db_ok_def verifications_wf_def
      split: if_splits option.splits intro!: uniq_put_row list_all_put_row)

lemma insertHostnameSQL_ok [keeps]: "stmt_keeps db_ok (insertHostnameSQL i b c s)"
  by (rule stmt_keepsI, auto simp: insertHostnameSQL_def stmt_simps db_ok_def hostnames_wf_def
      split: if_splits option.splits intro!: uniq_put_row list_all_put_row)

lemma deleteHostnameSQL_ok [keeps]: "stmt_keeps db_ok (deleteHostnameSQL i)"
  by (rule stmt_keepsI, auto simp: deleteHostnameSQL_def stmt_simps db_ok_def hostnames_wf_def
      split: if_splits option.splits intro!: uniq_put_row list_all_put_row)

section \<open>Mail\<close>

lemma insertMailDomainSQL_ok [keeps]: "stmt_keeps db_ok (insertMailDomainSQL i b)"
  by (rule stmt_keepsI, auto simp: insertMailDomainSQL_def stmt_simps db_ok_def mdomains_wf_def mail_domain_checks_def
      split: if_splits option.splits intro!: uniq_put_row list_all_put_row)

lemma setMailDomainStatusSQL_ok [keeps]: "stmt_keeps db_ok (setMailDomainStatusSQL s i)"
  by (rule stmt_keepsI, auto simp: setMailDomainStatusSQL_def stmt_simps db_ok_def mdomains_wf_def
      split: if_splits option.splits intro!: uniq_put_row list_all_put_row)

lemma setMailDomainDKIMSQL_ok [keeps]: "stmt_keeps db_ok (setMailDomainDKIMSQL s b i)"
  by (rule stmt_keepsI, auto simp: setMailDomainDKIMSQL_def stmt_simps db_ok_def mdomains_wf_def
      split: if_splits option.splits intro!: uniq_put_row list_all_put_row)

lemma insertMailIdentitySQL_ok [keeps]: "stmt_keeps db_ok (insertMailIdentitySQL mb)"
  by (rule stmt_keepsI, auto simp: insertMailIdentitySQL_def stmt_simps db_ok_def identities_wf_def identity_checks_def identity_key_def
      split: if_splits option.splits intro!: uniq_put_row list_all_put_row)

lemma setMailIdentityStatusSQL_ok [keeps]: "stmt_keeps db_ok (setMailIdentityStatusSQL s i)"
  by (rule stmt_keepsI, auto simp: setMailIdentityStatusSQL_def stmt_simps db_ok_def identities_wf_def identity_key_def
      split: if_splits option.splits intro!: uniq_put_row list_all_put_row)

lemma insertMailCredentialSQL_ok [keeps]: "stmt_keeps db_ok (insertMailCredentialSQL i b c)"
  by (rule stmt_keepsI, auto simp: insertMailCredentialSQL_def stmt_simps db_ok_def creds_wf_def
      split: if_splits option.splits intro!: uniq_put_row list_all_put_row)

lemma revokeCredentialsSQL_ok [keeps]: "stmt_keeps db_ok (revokeCredentialsSQL b)"
  by (rule stmt_keepsI, auto simp: revokeCredentialsSQL_def stmt_simps db_ok_def creds_wf_def
      split: if_splits option.splits intro!: uniq_put_row list_all_put_row)

lemma insertMailAliasSQL_ok [keeps]: "stmt_keeps db_ok (insertMailAliasSQL al)"
  by (rule stmt_keepsI, auto simp: insertMailAliasSQL_def stmt_simps db_ok_def aliases_wf_def alias_key_def
      split: if_splits option.splits intro!: uniq_put_row list_all_put_row)

lemma updateMailAliasDestsSQL_ok [keeps]: "stmt_keeps db_ok (updateMailAliasDestsSQL ds i)"
  by (rule stmt_keepsI, auto simp: updateMailAliasDestsSQL_def stmt_simps db_ok_def aliases_wf_def alias_key_def
      split: if_splits option.splits intro!: uniq_put_row list_all_put_row)

lemma deleteMailAliasSQL_ok [keeps]: "stmt_keeps db_ok (deleteMailAliasSQL i)"
  by (rule stmt_keepsI, auto simp: deleteMailAliasSQL_def stmt_simps db_ok_def aliases_wf_def
      split: if_splits option.splits intro!: uniq_put_row list_all_put_row)

lemma insertMailPolicySQL_ok [keeps]: "stmt_keeps db_ok (insertMailPolicySQL pol)"
  by (rule stmt_keepsI, auto simp: insertMailPolicySQL_def stmt_simps db_ok_def policies_wf_def
      split: if_splits option.splits intro!: uniq_put_row list_all_put_row)

section \<open>Applications, installation, invitations\<close>

lemma insertCatalogAppSQL_ok [keeps]: "stmt_keeps db_ok (insertCatalogAppSQL ca)"
  by (rule stmt_keepsI, auto simp: insertCatalogAppSQL_def stmt_simps db_ok_def catalog_wf_def
      split: if_splits option.splits intro!: uniq_put_row list_all_put_row)

lemma upsertCatalogAppSQL_ok [keeps]: "stmt_keeps db_ok (upsertCatalogAppSQL ca)"
  by (rule stmt_keepsI, auto simp: upsertCatalogAppSQL_def stmt_simps db_ok_def catalog_wf_def catalog_key_def
      split: if_splits option.splits intro!: uniq_put_row list_all_put_row)

lemma insertInstanceSQL_ok [keeps]: "stmt_keeps db_ok (insertInstanceSQL i b c e f)"
  by (rule stmt_keepsI, auto simp: insertInstanceSQL_def stmt_simps db_ok_def instances_wf_def instance_checks_def
      split: if_splits option.splits intro!: uniq_put_row list_all_put_row)

lemma setInstanceStatusSQL_ok [keeps]: "stmt_keeps db_ok (setInstanceStatusSQL s i)"
  by (rule stmt_keepsI, auto simp: setInstanceStatusSQL_def stmt_simps db_ok_def instances_wf_def
      split: if_splits option.splits intro!: uniq_put_row list_all_put_row)

lemma insertAppHostnameSQL_ok [keeps]: "stmt_keeps db_ok (insertAppHostnameSQL i b c)"
  by (rule stmt_keepsI, auto simp: insertAppHostnameSQL_def stmt_simps db_ok_def ahosts_wf_def
      split: if_splits option.splits intro!: uniq_put_row list_all_put_row)

lemma insertAccessGroupSQL_ok [keeps]: "stmt_keeps db_ok (insertAccessGroupSQL i b)"
  by (rule stmt_keepsI, auto simp: insertAccessGroupSQL_def stmt_simps db_ok_def agroups_wf_def
      split: if_splits option.splits intro!: uniq_put_row list_all_put_row)

lemma setInstallationPrimaryDomainSQL_ok [keeps]: "stmt_keeps db_ok (setInstallationPrimaryDomainSQL b)"
  by (rule stmt_keepsI, auto simp: setInstallationPrimaryDomainSQL_def stmt_simps db_ok_def install_wf_def open_install_def
      split: if_splits option.splits intro!: uniq_put_row list_all_put_row)

lemma setInstallationProviderSQL_ok [keeps]: "stmt_keeps db_ok (setInstallationProviderSQL b c e)"
  by (rule stmt_keepsI, auto simp: setInstallationProviderSQL_def stmt_simps db_ok_def install_wf_def open_install_def
      split: if_splits option.splits intro!: uniq_put_row list_all_put_row)

lemma setInstallationOnboardedSQL_ok [keeps]: "stmt_keeps db_ok (setInstallationOnboardedSQL t)"
  by (rule stmt_keepsI, auto simp: setInstallationOnboardedSQL_def stmt_simps db_ok_def install_wf_def open_install_def
      split: if_splits option.splits intro!: uniq_put_row list_all_put_row)

lemma createInviteSQL_ok [keeps]: "stmt_keeps db_ok (createInviteSQL vt)"
  by (rule stmt_keepsI, auto simp: createInviteSQL_def stmt_simps db_ok_def invites_wf_def
      split: if_splits option.splits intro!: uniq_put_row list_all_put_row)

lemma expirePendingInvitesSQL_ok [keeps]: "stmt_keeps db_ok (expirePendingInvitesSQL b c)"
  by (rule stmt_keepsI, auto simp: expirePendingInvitesSQL_def stmt_simps db_ok_def invites_wf_def
      split: if_splits option.splits intro!: uniq_put_row list_all_put_row)

lemma consumeInviteSQL_ok [keeps]: "stmt_keeps db_ok (consumeInviteSQL i)"
  by (rule stmt_keepsI, auto simp: consumeInviteSQL_def stmt_simps db_ok_def invites_wf_def
      split: if_splits option.splits intro!: uniq_put_row list_all_put_row)

section \<open>Cascades\<close>

lemma wf_without [simp]:
  "users_wf rs1 \<Longrightarrow> users_wf (without p1 rs1)"
  "domains_wf Org rs2 \<Longrightarrow> domains_wf Org (without p2 rs2)"
  "members_wf Org Usr rs3 \<Longrightarrow> members_wf Org Usr (without p3 rs3)"
  "invites_wf Org Usr rs4 \<Longrightarrow> invites_wf Org Usr (without p4 rs4)"
  "aliases_wf Org Dom Grp rs5 \<Longrightarrow> aliases_wf Org Dom Grp (without p5 rs5)"
  "identities_wf Org Usr Dom rs6 \<Longrightarrow> identities_wf Org Usr Dom (without p6 rs6)"
  "policies_wf Box Cred rs7 \<Longrightarrow> policies_wf Box Cred (without p7 rs7)"
  "orgs_wf rs8 \<Longrightarrow> orgs_wf (without p8 rs8)"
  by (auto simp: wf_defs)

lemma drop_creds_ok: "db_ok d \<Longrightarrow> db_ok (drop_creds p d)"
  by (auto simp: drop_creds_def db_ok_def creds_wf_def policies_wf_def)

lemma drop_identities_ok: "db_ok d \<Longrightarrow> db_ok (drop_identities p d)"
  by (auto simp: drop_identities_def drop_creds_def Let_def db_ok_def creds_wf_def policies_wf_def)

lemma drop_groups_ok: "db_ok d \<Longrightarrow> db_ok (drop_groups p d)"
  by (auto simp: drop_groups_def Let_def db_ok_def groups_wf_def gmembers_wf_def agroups_wf_def
      aliases_wf_def alias_key_def intro!: uniq_put_row refs_put_row)

lemma drop_instances_ok: "db_ok d \<Longrightarrow> db_ok (drop_instances p d)"
  by (auto simp: drop_instances_def Let_def db_ok_def instances_wf_def ahosts_wf_def agroups_wf_def)

lemma drop_identities_fields [simp]:
  "t_users (drop_identities p d) = t_users d" "t_audits (drop_identities p d) = t_audits d"
  "t_orgs (drop_identities p d) = t_orgs d" "t_members (drop_identities p d) = t_members d"
  "t_groups (drop_identities p d) = t_groups d" "t_gmembers (drop_identities p d) = t_gmembers d"
  "t_externals (drop_identities p d) = t_externals d" "t_domains (drop_identities p d) = t_domains d"
  "t_hostnames (drop_identities p d) = t_hostnames d"
  "t_verifications (drop_identities p d) = t_verifications d"
  "t_mdomains (drop_identities p d) = t_mdomains d"
  "t_identities (drop_identities p d) = without p (t_identities d)"
  "t_aliases (drop_identities p d) = t_aliases d" "t_catalog (drop_identities p d) = t_catalog d"
  "t_instances (drop_identities p d) = t_instances d" "t_ahosts (drop_identities p d) = t_ahosts d"
  "t_agroups (drop_identities p d) = t_agroups d" "t_install (drop_identities p d) = t_install d"
  "t_invites (drop_identities p d) = t_invites d"
  by (simp_all add: drop_identities_def drop_creds_def Let_def)

text \<open>The mailboxes of removed domains are removed first, so that no mailbox refers to them.\<close>

lemma drop_domains_ok:
  assumes "db_ok d" shows "db_ok (drop_domains p d)"
proof -
  let ?g = "gone d_id p (t_domains d)"
  have "db_ok (drop_identities (\<lambda>m. ?g (mi_domain m)) d)" using assms by (rule drop_identities_ok)
  moreover have "refs mi_domain (domain_ids d) (t_identities d)"
    using assms by (simp add: db_ok_def identities_wf_def)
  ultimately show ?thesis
    by (auto simp: drop_domains_def Let_def db_ok_def hostnames_wf_def verifications_wf_def
        mdomains_wf_def identities_wf_def aliases_wf_def install_wf_def domains_wf_def
        split: option.splits)
qed

end
