(* ===== verification/Store_Cascade.thy ===== *)
theory Store_Cascade
  imports Store_Integrity
begin

text \<open>
  Deleting an organization: the cascade leaves a well-formed database in which no row of any
  table belongs to the deleted organization, and keeps the rows of all others.
\<close>

lemma drop_domains_fields [simp]:
  "t_users (drop_domains p d) = t_users d" "t_orgs (drop_domains p d) = t_orgs d"
  "t_members (drop_domains p d) = t_members d" "t_groups (drop_domains p d) = t_groups d"
  "t_gmembers (drop_domains p d) = t_gmembers d" "t_audits (drop_domains p d) = t_audits d"
  "t_externals (drop_domains p d) = t_externals d"
  "t_domains (drop_domains p d) = without p (t_domains d)"
  "t_identities (drop_domains p d)
    = without (\<lambda>m. gone d_id p (t_domains d) (mi_domain m)) (t_identities d)"
  "t_aliases (drop_domains p d)
    = without (\<lambda>a. gone d_id p (t_domains d) (ma_domain a)) (t_aliases d)"
  "t_catalog (drop_domains p d) = t_catalog d" "t_instances (drop_domains p d) = t_instances d"
  "t_ahosts (drop_domains p d) = t_ahosts d" "t_agroups (drop_domains p d) = t_agroups d"
  "t_invites (drop_domains p d) = t_invites d"
  by (simp_all add: drop_domains_def Let_def)

lemma drop_groups_fields [simp]:
  "t_users (drop_groups p d) = t_users d" "t_orgs (drop_groups p d) = t_orgs d"
  "t_members (drop_groups p d) = t_members d" "t_groups (drop_groups p d) = without p (t_groups d)"
  "t_domains (drop_groups p d) = t_domains d" "t_identities (drop_groups p d) = t_identities d"
  "t_instances (drop_groups p d) = t_instances d" "t_invites (drop_groups p d) = t_invites d"
  "t_audits (drop_groups p d) = t_audits d" "t_catalog (drop_groups p d) = t_catalog d"
  by (simp_all add: drop_groups_def Let_def)

lemma drop_instances_fields [simp]:
  "t_users (drop_instances p d) = t_users d" "t_orgs (drop_instances p d) = t_orgs d"
  "t_members (drop_instances p d) = t_members d" "t_groups (drop_instances p d) = t_groups d"
  "t_domains (drop_instances p d) = t_domains d" "t_identities (drop_instances p d) = t_identities d"
  "t_instances (drop_instances p d) = without p (t_instances d)"
  "t_invites (drop_instances p d) = t_invites d" "t_aliases (drop_instances p d) = t_aliases d"
  "t_audits (drop_instances p d) = t_audits d" "t_catalog (drop_instances p d) = t_catalog d"
  by (simp_all add: drop_instances_def Let_def)

text \<open>The rows of the organization tables that remain before the organization itself goes.\<close>

definition org_rows_gone :: "(string \<Rightarrow> bool) \<Rightarrow> db \<Rightarrow> bool" where
  "org_rows_gone g d \<longleftrightarrow>
     list_all (\<lambda>x. \<not> g (d_org x)) (t_domains d) \<and> list_all (\<lambda>x. \<not> g (g_org x)) (t_groups d)
   \<and> list_all (\<lambda>x. \<not> g (ai_org x)) (t_instances d) \<and> list_all (\<lambda>x. \<not> g (mi_org x)) (t_identities d)"

lemma list_all_without_self [simp]: "list_all (\<lambda>x. \<not> p x) (without p rs)"
  by (simp add: without_def list_all_iff)

lemma remove_orgs_ok:
  assumes ok: "db_ok d" and none: "org_rows_gone (gone o_id p (t_orgs d)) d"
  shows "db_ok (d\<lparr>t_members := without (\<lambda>m. gone o_id p (t_orgs d) (m_org m)) (t_members d),
    t_aliases := without (\<lambda>a. gone o_id p (t_orgs d) (ma_org a)) (t_aliases d),
    t_invites := without (\<lambda>v. gone o_id p (t_orgs d) (iv_org v)) (t_invites d),
    t_orgs := without p (t_orgs d)\<rparr>)"
proof -
  have keep: "refs k (o_id ` set (without p (t_orgs d))) rs"
    if "refs k (org_ids d) rs" and "list_all (\<lambda>x. \<not> gone o_id p (t_orgs d) (k x)) rs"
    for k and rs :: "'b list"
    using that by (force simp: refs_def gone_def without_def list_all_iff)
  show ?thesis
    using ok none
    by (auto simp: db_ok_def org_rows_gone_def domains_wf_def groups_wf_def instances_wf_def
        identities_wf_def members_wf_def aliases_wf_def invites_wf_def intro!: keep)
qed

lemma drop_orgs_stages:
  fixes p :: "organization \<Rightarrow> bool"
  assumes "db_ok d"
  defines "g \<equiv> gone o_id p (t_orgs d)"
  defines "d4 \<equiv> drop_instances (\<lambda>i. g (ai_org i)) (drop_groups (\<lambda>x. g (g_org x))
    (drop_domains (\<lambda>x. g (d_org x)) (drop_identities (\<lambda>m. g (mi_org m)) d)))"
  shows "db_ok d4" and "org_rows_gone g d4" and "t_orgs d4 = t_orgs d"
    and "drop_orgs p d = d4\<lparr>t_members := without (\<lambda>m. g (m_org m)) (t_members d4),
      t_aliases := without (\<lambda>a. g (ma_org a)) (t_aliases d4),
      t_invites := without (\<lambda>v. g (iv_org v)) (t_invites d4), t_orgs := without p (t_orgs d4)\<rparr>"
proof -
  show "db_ok d4" unfolding d4_def
    by (intro drop_instances_ok drop_groups_ok drop_domains_ok drop_identities_ok assms(1))
  show "org_rows_gone g d4"
    by (auto simp: org_rows_gone_def d4_def without_def list_all_iff)
  show "t_orgs d4 = t_orgs d" by (simp add: d4_def)
  show "drop_orgs p d = d4\<lparr>t_members := without (\<lambda>m. g (m_org m)) (t_members d4),
      t_aliases := without (\<lambda>a. g (ma_org a)) (t_aliases d4),
      t_invites := without (\<lambda>v. g (iv_org v)) (t_invites d4), t_orgs := without p (t_orgs d4)\<rparr>"
    by (simp add: drop_orgs_def Let_def d4_def g_def)
qed

lemma drop_orgs_ok: "db_ok d \<Longrightarrow> db_ok (drop_orgs p d)"
  using remove_orgs_ok [OF drop_orgs_stages(1), of d p p] drop_orgs_stages(2-4) [of d p]
  by simp

lemma deleteOrgSQL_ok [keeps]: "stmt_keeps db_ok (deleteOrgSQL i)"
  by (rule stmt_keepsI) (auto simp: deleteOrgSQL_def drop_orgs_ok)

lemma deleteGroupSQL_ok [keeps]: "stmt_keeps db_ok (deleteGroupSQL i)"
  by (rule stmt_keepsI) (auto simp: deleteGroupSQL_def drop_groups_ok)

lemma deleteDomainSQL_ok [keeps]: "stmt_keeps db_ok (deleteDomainSQL i)"
  by (rule stmt_keepsI) (auto simp: deleteDomainSQL_def drop_domains_ok)

text \<open>Nothing of a deleted organization is left, and other organizations keep their rows.\<close>

definition rows_of_org :: "db \<Rightarrow> string \<Rightarrow> membership list \<times> domain list \<times> group list
    \<times> mail_identity list \<times> mail_alias list \<times> instance_row list \<times> invite list" where
  "rows_of_org d i = (filter (\<lambda>x. m_org x = i) (t_members d), filter (\<lambda>x. d_org x = i) (t_domains d),
     filter (\<lambda>x. g_org x = i) (t_groups d), filter (\<lambda>x. mi_org x = i) (t_identities d),
     filter (\<lambda>x. ma_org x = i) (t_aliases d), filter (\<lambda>x. ai_org x = i) (t_instances d),
     filter (\<lambda>x. iv_org x = i) (t_invites d))"

lemma drop_orgs_none:
  assumes "db_ok d" and "i \<in> org_ids d"
  shows "rows_of_org (drop_orgs (\<lambda>x. o_id x = i) d) i = ([], [], [], [], [], [], [])
    \<and> i \<notin> org_ids (drop_orgs (\<lambda>x. o_id x = i) d)"
proof -
  have g: "gone o_id (\<lambda>x. o_id x = i) (t_orgs d) i" using assms(2) by (auto simp: gone_def)
  show ?thesis
    unfolding drop_orgs_stages(4) [OF assms(1)]
    using drop_orgs_stages(2) [OF assms(1), of "\<lambda>x. o_id x = i"] g
    by (auto simp: rows_of_org_def org_rows_gone_def without_def filter_empty_conv list_all_iff)
qed

end
