(* ===== verification/Store_Steps.thy ===== *)
theory Store_Steps
  imports Store_Cascade "HOL-Library.Sublist"
begin

text \<open>
  The database as a transition system: one rule per SQL statement that writes. The server runs the
  requests of the API, the polling loop and the reconciliation worker concurrently, and PostgreSQL
  runs each statement atomically, so every interleaving of them is a sequence of \<open>store_step\<close>s; a
  property of all such sequences holds whatever runs beside what. The locale \<open>table_invariant\<close> is the
  interface between the statements and the programs built from them: a predicate that no
  statement destroys is kept by every program.
\<close>

inductive store_step :: "db \<Rightarrow> db \<Rightarrow> bool" where
  upsertUser: "upsertUserSQL i b c e f pg d = Inr (x, d') \<Longrightarrow> store_step d d'"
| grantAdminIfNone: "grantAdminIfNoneSQL i pg d = Inr (x, d') \<Longrightarrow> store_step d d'"
| setUserAdmin: "setUserAdminSQL adm i pg d = Inr (x, d') \<Longrightarrow> store_step d d'"
| insertUser: "insertUserSQL i b c e f pg d = Inr (x, d') \<Longrightarrow> store_step d d'"
| setUserStatus: "setUserStatusSQL s i pg d = Inr (x, d') \<Longrightarrow> store_step d d'"
| insertAuditEvent: "insertAuditEventSQL ev pg d = Inr (x, d') \<Longrightarrow> store_step d d'"
| insertOrg: "insertOrgSQL i b c pg d = Inr (x, d') \<Longrightarrow> store_step d d'"
| upsertMembership: "upsertMembershipSQL i b c e pg d = Inr (x, d') \<Longrightarrow> store_step d d'"
| removeMembership: "removeMembershipSQL b c pg d = Inr (x, d') \<Longrightarrow> store_step d d'"
| removeAllMemberships: "removeAllMembershipsSQL b pg d = Inr (x, d') \<Longrightarrow> store_step d d'"
| insertGroup: "insertGroupSQL gr pg d = Inr (x, d') \<Longrightarrow> store_step d d'"
| insertGroupMember: "insertGroupMemberSQL b c pg d = Inr (x, d') \<Longrightarrow> store_step d d'"
| deleteGroupMember: "deleteGroupMemberSQL b c pg d = Inr (x, d') \<Longrightarrow> store_step d d'"
| removeAllGroupMemberships: "removeAllGroupMembershipsSQL b pg d = Inr (x, d') \<Longrightarrow> store_step d d'"
| upsertExternal: "upsertExternalSQL xr pg d = Inr (x, d') \<Longrightarrow> store_step d d'"
| setExternalObserved: "setExternalObservedSQL s b c i pg d = Inr (x, d') \<Longrightarrow> store_step d d'"
| setExternalStatus: "setExternalStatusSQL s b i pg d = Inr (x, d') \<Longrightarrow> store_step d d'"
| insertDomain: "insertDomainSQL dm pg d = Inr (x, d') \<Longrightarrow> store_step d d'"
| setDomainStatus: "setDomainStatusSQL s at i pg d = Inr (x, d') \<Longrightarrow> store_step d d'"
| insertVerification: "insertVerificationSQL i b c ok e pg d = Inr (x, d') \<Longrightarrow> store_step d d'"
| insertHostname: "insertHostnameSQL i b c s pg d = Inr (x, d') \<Longrightarrow> store_step d d'"
| deleteHostname: "deleteHostnameSQL i pg d = Inr (x, d') \<Longrightarrow> store_step d d'"
| insertMailDomain: "insertMailDomainSQL i b pg d = Inr (x, d') \<Longrightarrow> store_step d d'"
| setMailDomainStatus: "setMailDomainStatusSQL s i pg d = Inr (x, d') \<Longrightarrow> store_step d d'"
| setMailDomainDKIM: "setMailDomainDKIMSQL s b i pg d = Inr (x, d') \<Longrightarrow> store_step d d'"
| insertMailIdentity: "insertMailIdentitySQL mb pg d = Inr (x, d') \<Longrightarrow> store_step d d'"
| setMailIdentityStatus: "setMailIdentityStatusSQL s i pg d = Inr (x, d') \<Longrightarrow> store_step d d'"
| insertMailCredential: "insertMailCredentialSQL i b c pg d = Inr (x, d') \<Longrightarrow> store_step d d'"
| revokeCredentials: "revokeCredentialsSQL b pg d = Inr (x, d') \<Longrightarrow> store_step d d'"
| insertMailAlias: "insertMailAliasSQL al pg d = Inr (x, d') \<Longrightarrow> store_step d d'"
| updateMailAliasDests: "updateMailAliasDestsSQL ds i pg d = Inr (x, d') \<Longrightarrow> store_step d d'"
| deleteMailAlias: "deleteMailAliasSQL i pg d = Inr (x, d') \<Longrightarrow> store_step d d'"
| insertMailPolicy: "insertMailPolicySQL pol pg d = Inr (x, d') \<Longrightarrow> store_step d d'"
| insertCatalogApp: "insertCatalogAppSQL ca pg d = Inr (x, d') \<Longrightarrow> store_step d d'"
| upsertCatalogApp: "upsertCatalogAppSQL ca pg d = Inr (x, d') \<Longrightarrow> store_step d d'"
| insertInstance: "insertInstanceSQL i b c e f pg d = Inr (x, d') \<Longrightarrow> store_step d d'"
| setInstanceStatus: "setInstanceStatusSQL s i pg d = Inr (x, d') \<Longrightarrow> store_step d d'"
| insertAppHostname: "insertAppHostnameSQL i b c pg d = Inr (x, d') \<Longrightarrow> store_step d d'"
| insertAccessGroup: "insertAccessGroupSQL i b pg d = Inr (x, d') \<Longrightarrow> store_step d d'"
| setInstallationPrimaryDomain: "setInstallationPrimaryDomainSQL b pg d = Inr (x, d') \<Longrightarrow> store_step d d'"
| setInstallationProvider: "setInstallationProviderSQL b c e pg d = Inr (x, d') \<Longrightarrow> store_step d d'"
| setInstallationOnboarded: "setInstallationOnboardedSQL t pg d = Inr (x, d') \<Longrightarrow> store_step d d'"
| createInvite: "createInviteSQL vt pg d = Inr (x, d') \<Longrightarrow> store_step d d'"
| expirePendingInvites: "expirePendingInvitesSQL b c pg d = Inr (x, d') \<Longrightarrow> store_step d d'"
| consumeInvite: "consumeInviteSQL i pg d = Inr (x, d') \<Longrightarrow> store_step d d'"
| deleteOrg: "deleteOrgSQL i pg d = Inr (x, d') \<Longrightarrow> store_step d d'"
| deleteGroup: "deleteGroupSQL i pg d = Inr (x, d') \<Longrightarrow> store_step d d'"
| deleteDomain: "deleteDomainSQL i pg d = Inr (x, d') \<Longrightarrow> store_step d d'"

abbreviation store_steps :: "db \<Rightarrow> db \<Rightarrow> bool" where
  "store_steps \<equiv> store_step\<^sup>*\<^sup>*"

inductive_cases store_stepE: "store_step d d'"

section \<open>Predicates that no statement destroys\<close>

locale table_invariant =
  fixes I :: "db \<Rightarrow> bool"
  assumes step: "store_step d d' \<Longrightarrow> I d \<Longrightarrow> I d'"
begin

lemma steps: "store_steps d d' \<Longrightarrow> I d \<Longrightarrow> I d'"
  by (induction rule: rtranclp_induct) (auto intro: step)

lemma stmts [keeps]:
  "stmt_keeps I (upsertUserSQL i b c e f)"
  "stmt_keeps I (grantAdminIfNoneSQL i)"
  "stmt_keeps I (setUserAdminSQL adm i)"
  "stmt_keeps I (insertUserSQL i b c e f)"
  "stmt_keeps I (setUserStatusSQL s i)"
  "stmt_keeps I (insertAuditEventSQL ev)"
  "stmt_keeps I (insertOrgSQL i b c)"
  "stmt_keeps I (upsertMembershipSQL i b c e)"
  "stmt_keeps I (removeMembershipSQL b c)"
  "stmt_keeps I (removeAllMembershipsSQL b)"
  "stmt_keeps I (insertGroupSQL gr)"
  "stmt_keeps I (insertGroupMemberSQL b c)"
  "stmt_keeps I (deleteGroupMemberSQL b c)"
  "stmt_keeps I (removeAllGroupMembershipsSQL b)"
  "stmt_keeps I (upsertExternalSQL xr)"
  "stmt_keeps I (setExternalObservedSQL s b c i)"
  "stmt_keeps I (setExternalStatusSQL s b i)"
  "stmt_keeps I (insertDomainSQL dm)"
  "stmt_keeps I (setDomainStatusSQL s at i)"
  "stmt_keeps I (insertVerificationSQL i b c ok e)"
  "stmt_keeps I (insertHostnameSQL i b c s)"
  "stmt_keeps I (deleteHostnameSQL i)"
  "stmt_keeps I (insertMailDomainSQL i b)"
  "stmt_keeps I (setMailDomainStatusSQL s i)"
  "stmt_keeps I (setMailDomainDKIMSQL s b i)"
  "stmt_keeps I (insertMailIdentitySQL mb)"
  "stmt_keeps I (setMailIdentityStatusSQL s i)"
  "stmt_keeps I (insertMailCredentialSQL i b c)"
  "stmt_keeps I (revokeCredentialsSQL b)"
  "stmt_keeps I (insertMailAliasSQL al)"
  "stmt_keeps I (updateMailAliasDestsSQL ds i)"
  "stmt_keeps I (deleteMailAliasSQL i)"
  "stmt_keeps I (insertMailPolicySQL pol)"
  "stmt_keeps I (insertCatalogAppSQL ca)"
  "stmt_keeps I (upsertCatalogAppSQL ca)"
  "stmt_keeps I (insertInstanceSQL i b c e f)"
  "stmt_keeps I (setInstanceStatusSQL s i)"
  "stmt_keeps I (insertAppHostnameSQL i b c)"
  "stmt_keeps I (insertAccessGroupSQL i b)"
  "stmt_keeps I (setInstallationPrimaryDomainSQL b)"
  "stmt_keeps I (setInstallationProviderSQL b c e)"
  "stmt_keeps I (setInstallationOnboardedSQL t)"
  "stmt_keeps I (createInviteSQL vt)"
  "stmt_keeps I (expirePendingInvitesSQL b c)"
  "stmt_keeps I (consumeInviteSQL i)"
  "stmt_keeps I (deleteOrgSQL i)"
  "stmt_keeps I (deleteGroupSQL i)"
  "stmt_keeps I (deleteDomainSQL i)"
  by (rule stmt_keepsI, erule step [rotated], erule store_step.intros)+

end

lemma stmt_keepsD: "stmt_keeps I st \<Longrightarrow> st pg d = Inr (x, d') \<Longrightarrow> I d \<Longrightarrow> I d'"
  by (auto simp: stmt_keeps_def)

text \<open>Integrity is such a predicate, and so is being reachable.\<close>

lemma store_step_db_ok: "store_step d d' \<Longrightarrow> db_ok d \<Longrightarrow> db_ok d'"
  by (erule store_stepE; erule stmt_keepsD [rotated]; (assumption | rule keeps))

interpretation integrity: table_invariant db_ok
  by unfold_locales (rule store_step_db_ok)

interpretation history: table_invariant "store_steps d0" for d0
  by unfold_locales (rule rtranclp.rtrancl_into_rtrancl)

end
