(* ===== verification/Store_Ops.thy ===== *)
theory Store_Ops
  imports Store_Steps
begin

text \<open>
  The methods of \<open>store.Store\<close>: each runs the statements of the Go method in its order and maps the
  database's errors as the Go code does. \<open>store_err\<close> has the sentinel errors of the package;
  \<open>ErrInvalid\<close> carries the text of an argument error, \<open>ErrOther\<close> stands for every wrapped error.
  The contexts of the Go methods (cancellation) are covered by the fates of the statements.
\<close>

datatype store_err =
  ErrNotFound | ErrConflict | ErrHasDependents | ErrForeignDestination string | ErrInvalid string | ErrOther

type_synonym ('x, 'a) op = "('x world, store_err + 'a) prog"

text \<open>The error handling of the methods: \<open>mapNotFound\<close>, \<open>isUnique\<close>, and wrapping.\<close>

definition mapNotFound :: "pg_err \<Rightarrow> store_err" where
  "mapNotFound e = (if e = NoRows then ErrNotFound else ErrOther)"

definition conflict_or :: "pg_err \<Rightarrow> store_err" where
  "conflict_or e = (if e = UniqueViolation then ErrConflict else ErrOther)"

definition wrap_err :: "pg_err \<Rightarrow> store_err" where
  "wrap_err e = ErrOther"

definition run_sql :: "(pg_err \<Rightarrow> store_err) \<Rightarrow> 'a stmt \<Rightarrow> ('x, 'a) op" where
  "run_sql on_err st = do {
     r \<leftarrow> sql st;
     ret (case r of Inl e \<Rightarrow> Inl (on_err e) | Inr x \<Rightarrow> Inr x) }"

text \<open>\<open>Exec\<close> whose result is not inspected.\<close>

definition exec_sql :: "(pg_err \<Rightarrow> store_err) \<Rightarrow> nat stmt \<Rightarrow> ('x, unit) op" where
  "exec_sql on_err st = do {
     r \<leftarrow> sql st;
     ret (case r of Inl e \<Rightarrow> Inl (on_err e) | Inr n \<Rightarrow> Inr ()) }"

text \<open>\<open>Exec\<close> followed by \<open>tag.RowsAffected() == 0\<close>.\<close>

definition exec_some :: "nat stmt \<Rightarrow> ('x, unit) op" where
  "exec_some st = do {
     r \<leftarrow> sql st;
     ret (case r of Inl e \<Rightarrow> Inl ErrOther
        | Inr n \<Rightarrow> if n = 0 then Inl ErrNotFound else Inr ()) }"

definition fresh_id :: "string \<Rightarrow> ('x world, string) prog" where
  "fresh_id i = (if i = [] then new_uuid else ret i)"

definition clamp_limit :: "int \<Rightarrow> int" where
  "clamp_limit limit = (if limit \<le> 0 \<or> 500 < limit then 100 else limit)"

section \<open>Users and audit events\<close>

definition UpsertFromOIDC :: "string \<Rightarrow> string \<Rightarrow> string \<Rightarrow> string \<Rightarrow> ('x, (user \<times> bool \<times> bool)) op" where
  "UpsertFromOIDC provider subject email displayName =
    (case NewUser email displayName provider subject of
       Inl e \<Rightarrow> ret (Inl (ErrInvalid e))
     | Inr user \<Rightarrow> do {
         uid \<leftarrow> new_uuid;
         r \<leftarrow> sql (upsertUserSQL uid (u_email user) (u_display_name user)
                    (u_auth_provider user) (u_auth_identity user));
         (case r of
            Inl e \<Rightarrow> ret (Inl ErrOther)
          | Inr (stored, inserted) \<Rightarrow>
             if inserted then do {
               g \<leftarrow> sql (grantAdminIfNoneSQL (u_id stored));
               (case g of
                  Inl e \<Rightarrow> ret (Inl ErrOther)
                | Inr granted \<Rightarrow> ret (Inr (stored\<lparr>u_is_admin := granted\<rparr>, True, granted))) }
             else ret (Inr (stored, False, False))) })"

definition GetByID :: "string \<Rightarrow> ('x, user) op" where
  "GetByID i =
    run_sql mapNotFound (getUserByIDSQL i)"

definition AdminCount :: "('x, nat) op" where
  "AdminCount =
    run_sql wrap_err adminCountSQL"

definition CreateUser :: "string \<Rightarrow> string \<Rightarrow> string \<Rightarrow> string \<Rightarrow> ('x, user) op" where
  "CreateUser email displayName authProvider authIdentityID =
    do {
       uid \<leftarrow> new_uuid;
       run_sql conflict_or (insertUserSQL uid (to_lower (trim_space email)) (trim_space displayName)
         authProvider authIdentityID) }"

definition GetUserByEmail :: "string \<Rightarrow> ('x, user) op" where
  "GetUserByEmail email =
    run_sql mapNotFound (userByEmailSQL (to_lower (trim_space email)))"

definition SetUserStatus :: "string \<Rightarrow> status \<Rightarrow> ('x, unit) op" where
  "SetUserStatus i st =
    (if \<not> user_status_valid st then ret (Inl (ErrInvalid st)) else exec_some (setUserStatusSQL st i))"

definition SetUserAdmin :: "string \<Rightarrow> bool \<Rightarrow> ('x, unit) op" where
  "SetUserAdmin i admin =
    exec_sql wrap_err (setUserAdminSQL admin i)"

definition ListUsers :: "int \<Rightarrow> ('x, (user list)) op" where
  "ListUsers limit =
    run_sql wrap_err (listUsersSQL (clamp_limit limit))"

definition CreateAuditEvent :: "audit_event \<Rightarrow> ('x, unit) op" where
  "CreateAuditEvent e =
    (if \<not> audit_valid e then ret (Inl (ErrInvalid (a_action e)))
     else exec_sql wrap_err (insertAuditEventSQL e))"

definition ListAuditEvents :: "int \<Rightarrow> string \<Rightarrow> ('x, ((audit_event \<times> int) list)) op" where
  "ListAuditEvents limit actionFilter =
    run_sql wrap_err (listAuditEventsSQL (clamp_limit limit) actionFilter)"

section \<open>Organizations\<close>

definition CreateOrganization :: "organization \<Rightarrow> ('x, organization) op" where
  "CreateOrganization org =
    do {
       i \<leftarrow> fresh_id (o_id org);
       run_sql conflict_or (insertOrgSQL i (o_name org) (o_slug org)) }"

definition GetOrganizationByID :: "string \<Rightarrow> ('x, organization) op" where
  "GetOrganizationByID i =
    run_sql mapNotFound (orgByIDSQL i)"

definition ListOrganizations :: "int \<Rightarrow> ('x, (organization list)) op" where
  "ListOrganizations limit =
    run_sql wrap_err (listOrgsSQL (clamp_limit limit))"

definition DeleteOrganization :: "string \<Rightarrow> ('x, unit) op" where
  "DeleteOrganization i =
    exec_some (deleteOrgSQL i)"

definition SetMembership :: "string \<Rightarrow> string \<Rightarrow> org_role \<Rightarrow> ('x, membership) op" where
  "SetMembership orgID userID role =
    (let role = (if role = [] then RoleMember else role) in
     if \<not> role_valid role then ret (Inl (ErrInvalid role))
     else do {
       i \<leftarrow> new_uuid;
       r \<leftarrow> sql (upsertMembershipSQL i orgID userID role);
       ret (case r of Inl e \<Rightarrow> Inl ErrOther
          | Inr stored \<Rightarrow> Inr \<lparr>m_id = i, m_org = orgID, m_user = userID, m_role = stored\<rparr>) })"

definition GetMembershipRole :: "string \<Rightarrow> string \<Rightarrow> ('x, org_role) op" where
  "GetMembershipRole orgID userID =
    run_sql mapNotFound (membershipRoleSQL orgID userID)"

definition ListMemberships :: "string \<Rightarrow> ('x, (member list)) op" where
  "ListMemberships orgID =
    run_sql wrap_err (listMembershipsSQL orgID)"

definition RemoveMembership :: "string \<Rightarrow> string \<Rightarrow> ('x, unit) op" where
  "RemoveMembership orgID userID =
    exec_sql wrap_err (removeMembershipSQL orgID userID)"

definition RemoveAllMemberships :: "string \<Rightarrow> ('x, unit) op" where
  "RemoveAllMemberships userID =
    exec_sql wrap_err (removeAllMembershipsSQL userID)"

definition ListOrganizationsForUser :: "string \<Rightarrow> ('x, (organization list)) op" where
  "ListOrganizationsForUser userID =
    run_sql wrap_err (listOrgsForUserSQL userID)"

section \<open>Groups\<close>

definition CreateGroup :: "group \<Rightarrow> ('x, group) op" where
  "CreateGroup g =
    do {
       i \<leftarrow> fresh_id (g_id g);
       run_sql conflict_or (insertGroupSQL (g\<lparr>g_id := i\<rparr>)) }"

definition GetGroupByID :: "string \<Rightarrow> ('x, group) op" where
  "GetGroupByID i =
    run_sql mapNotFound (groupByIDSQL i)"

definition ListGroupsByOrg :: "string \<Rightarrow> ('x, (group list)) op" where
  "ListGroupsByOrg orgID =
    run_sql wrap_err (listGroupsSQL orgID)"

definition DeleteGroup :: "string \<Rightarrow> ('x, unit) op" where
  "DeleteGroup i =
    exec_some (deleteGroupSQL i)"

definition AddGroupMember :: "string \<Rightarrow> string \<Rightarrow> ('x, unit) op" where
  "AddGroupMember groupID userID =
    do {
       r \<leftarrow> sql (insertGroupMemberSQL groupID userID);
       ret (case r of Inl e \<Rightarrow> if e = UniqueViolation then Inr () else Inl ErrOther | Inr n \<Rightarrow> Inr ()) }"

definition RemoveGroupMember :: "string \<Rightarrow> string \<Rightarrow> ('x, unit) op" where
  "RemoveGroupMember groupID userID =
    exec_sql wrap_err (deleteGroupMemberSQL groupID userID)"

definition RemoveAllGroupMemberships :: "string \<Rightarrow> ('x, unit) op" where
  "RemoveAllGroupMemberships userID =
    exec_sql wrap_err (removeAllGroupMembershipsSQL userID)"

definition ListGroupMembers :: "string \<Rightarrow> ('x, (group_member list)) op" where
  "ListGroupMembers groupID =
    run_sql wrap_err (listGroupMembersSQL groupID)"

section \<open>External resources\<close>

definition UpsertExternalResource :: "external_resource \<Rightarrow> ('x, external_resource) op" where
  "UpsertExternalResource x =
    do {
       i \<leftarrow> fresh_id (x_id x);
       run_sql wrap_err (upsertExternalSQL (x\<lparr>x_id := i,
         x_status := (if x_status x = [] then ExtProvisioning else x_status x)\<rparr>)) }"

definition GetExternalResource :: "string \<Rightarrow> string \<Rightarrow> ('x, external_resource) op" where
  "GetExternalResource ty obj =
    run_sql mapNotFound (externalByObjectSQL ty obj)"

definition ListExternalResourcesByProvider :: "string \<Rightarrow> ('x, (external_resource list)) op" where
  "ListExternalResourcesByProvider provider =
    run_sql wrap_err (listExternalByProviderSQL provider)"

definition SetExternalObserved :: "string \<Rightarrow> status \<Rightarrow> string \<Rightarrow> string \<Rightarrow> ('x, unit) op" where
  "SetExternalObserved i st observedHash lastErr =
    exec_sql wrap_err (setExternalObservedSQL st observedHash lastErr i)"

definition SetExternalStatus :: "string \<Rightarrow> status \<Rightarrow> string \<Rightarrow> ('x, unit) op" where
  "SetExternalStatus i st lastErr =
    exec_sql wrap_err (setExternalStatusSQL st lastErr i)"

definition ListExternalResources :: "string \<Rightarrow> ('x, (external_resource list)) op" where
  "ListExternalResources obj =
    run_sql wrap_err (listExternalSQL obj)"

section \<open>Domains and hostnames\<close>

definition randomTokenHex :: "nat \<Rightarrow> ('x world, string option) prog" where
  "randomTokenHex n = do { b \<leftarrow> rand_bytes n; ret (map_option hex_encode b) }"

definition CreateDomain :: "domain \<Rightarrow> ('x, domain) op" where
  "CreateDomain x =
    do {
       i \<leftarrow> fresh_id (d_id x);
       t \<leftarrow> randomTokenHex 32;
       (case t of
          None \<Rightarrow> ret (Inl ErrOther)
        | Some token \<Rightarrow> run_sql conflict_or
            (insertDomainSQL (x\<lparr>d_id := i, d_status := DomainPending, d_token := token\<rparr>))) }"

definition GetDomainByID :: "string \<Rightarrow> ('x, domain) op" where
  "GetDomainByID i =
    run_sql mapNotFound (domainByIDSQL i)"

definition GetDomainByOrgFQDN :: "string \<Rightarrow> string \<Rightarrow> ('x, domain) op" where
  "GetDomainByOrgFQDN orgID fqdn =
    run_sql mapNotFound (domainByOrgFQDNSQL orgID fqdn)"

definition ListDomainsByOrg :: "string \<Rightarrow> ('x, (domain list)) op" where
  "ListDomainsByOrg orgID =
    run_sql wrap_err (listDomainsSQL orgID)"

definition SetDomainStatus :: "string \<Rightarrow> status \<Rightarrow> int option \<Rightarrow> ('x, unit) op" where
  "SetDomainStatus i st verifiedAt =
    (if \<not> domain_status_valid st then ret (Inl (ErrInvalid st))
     else exec_some (setDomainStatusSQL st verifiedAt i))"

definition LogVerification :: "string \<Rightarrow> string \<Rightarrow> string \<Rightarrow> bool \<Rightarrow> ('x, unit) op" where
  "LogVerification domainID method detail success =
    do {
       i \<leftarrow> new_uuid;
       exec_sql wrap_err (insertVerificationSQL i domainID method success detail) }"

definition DeleteDomain :: "string \<Rightarrow> ('x, unit) op" where
  "DeleteDomain i =
    do {
       r \<leftarrow> sql (countHostnamesSQL i);
       (case r of
          Inl e \<Rightarrow> ret (Inl ErrOther)
        | Inr n \<Rightarrow> if 0 < n then ret (Inl ErrHasDependents) else exec_some (deleteDomainSQL i)) }"

definition AddHostname :: "hostname \<Rightarrow> ('x, hostname) op" where
  "AddHostname h =
    do {
       i \<leftarrow> fresh_id (h_id h);
       run_sql conflict_or (insertHostnameSQL i (h_domain h) (h_hostname h) ''active'') }"

definition GetHostnameByID :: "string \<Rightarrow> ('x, hostname) op" where
  "GetHostnameByID i =
    run_sql mapNotFound (hostnameByIDSQL i)"

definition ListHostnamesByDomain :: "string \<Rightarrow> ('x, (hostname list)) op" where
  "ListHostnamesByDomain domainID =
    run_sql wrap_err (listHostnamesSQL domainID)"

definition RemoveHostname :: "string \<Rightarrow> ('x, unit) op" where
  "RemoveHostname i =
    exec_some (deleteHostnameSQL i)"

section \<open>Mail\<close>

definition CreateMailDomain :: "string \<Rightarrow> ('x, mail_domain) op" where
  "CreateMailDomain domainID =
    do {
       i \<leftarrow> new_uuid;
       run_sql conflict_or (insertMailDomainSQL i domainID) }"

definition GetMailDomainByDomainID :: "string \<Rightarrow> ('x, mail_domain) op" where
  "GetMailDomainByDomainID domainID =
    run_sql mapNotFound (mailDomainByDomainSQL domainID)"

text \<open>The statement runs before the status is checked.\<close>

definition SetMailDomainStatus :: "string \<Rightarrow> status \<Rightarrow> ('x, unit) op" where
  "SetMailDomainStatus i st =
    do {
       r \<leftarrow> sql (setMailDomainStatusSQL st i);
       ret (if \<not> mail_domain_status_valid st then Inl (ErrInvalid st)
            else (case r of Inl e \<Rightarrow> Inl ErrOther | Inr n \<Rightarrow> Inr ())) }"

definition SetMailDomainDKIM :: "string \<Rightarrow> string \<Rightarrow> string \<Rightarrow> ('x, unit) op" where
  "SetMailDomainDKIM i selector rec =
    exec_sql wrap_err (setMailDomainDKIMSQL selector rec i)"

definition CreateMailIdentity :: "mail_identity \<Rightarrow> ('x, mail_identity) op" where
  "CreateMailIdentity m =
    do {
       i \<leftarrow> fresh_id (mi_id m);
       run_sql conflict_or (insertMailIdentitySQL (m\<lparr>mi_id := i\<rparr>)) }"

definition GetMailIdentity :: "string \<Rightarrow> ('x, mail_identity) op" where
  "GetMailIdentity i =
    run_sql mapNotFound (mailIdentityByIDSQL i)"

definition GetMailIdentityByAddress :: "string \<Rightarrow> ('x, mail_identity) op" where
  "GetMailIdentityByAddress address =
    run_sql mapNotFound (mailIdentityByAddressSQL address)"

definition ListMailIdentitiesByDomain :: "string \<Rightarrow> ('x, (mail_identity list)) op" where
  "ListMailIdentitiesByDomain domainID =
    run_sql wrap_err (listMailIdentitiesSQL domainID)"

definition SetMailIdentityStatus :: "string \<Rightarrow> status \<Rightarrow> ('x, unit) op" where
  "SetMailIdentityStatus i st =
    exec_sql wrap_err (setMailIdentityStatusSQL st i)"

primrec ValidateAliasDestinations :: "string \<Rightarrow> string list \<Rightarrow> ('x, unit) op" where
  "ValidateAliasDestinations orgID [] = ret (Inr ())"
| "ValidateAliasDestinations orgID (dest # ds) = do {
     r \<leftarrow> GetMailIdentityByAddress dest;
     (case r of
        Inl e \<Rightarrow> ret (Inl (ErrForeignDestination (dest @ '' is not a mail identity'')))
      | Inr idn \<Rightarrow>
         if mi_org idn \<noteq> orgID
         then ret (Inl (ErrForeignDestination (dest @ '' belongs to another organization'')))
         else ValidateAliasDestinations orgID ds) }"

definition CreateMailCredential :: "mail_credential \<Rightarrow> ('x, mail_credential) op" where
  "CreateMailCredential c =
    do {
       i \<leftarrow> fresh_id (mc_id c);
       run_sql wrap_err (insertMailCredentialSQL i (mc_identity c) (mc_fingerprint c)) }"

definition RevokeCredentialsByIdentity :: "string \<Rightarrow> ('x, unit) op" where
  "RevokeCredentialsByIdentity identityID =
    exec_sql wrap_err (revokeCredentialsSQL identityID)"

definition CreateMailAlias :: "mail_alias \<Rightarrow> ('x, mail_alias) op" where
  "CreateMailAlias a =
    do {
       i \<leftarrow> fresh_id (ma_id a);
       run_sql conflict_or (insertMailAliasSQL (a\<lparr>ma_id := i\<rparr>)) }"

definition UpdateMailAliasDestinations :: "string \<Rightarrow> string list \<Rightarrow> ('x, unit) op" where
  "UpdateMailAliasDestinations i dests =
    exec_sql wrap_err (updateMailAliasDestsSQL dests i)"

definition ListMailIdentitiesByUsers :: "string \<Rightarrow> string list \<Rightarrow> ('x, (mail_identity list)) op" where
  "ListMailIdentitiesByUsers orgID userIDs =
    (if userIDs = [] then ret (Inr [])
     else run_sql wrap_err (listMailIdentitiesByUsersSQL orgID userIDs))"

definition GetMailAliasByAddress :: "string \<Rightarrow> ('x, mail_alias) op" where
  "GetMailAliasByAddress address =
    run_sql mapNotFound (mailAliasByAddressSQL address)"

definition ListMailAliasesByDomain :: "string \<Rightarrow> ('x, (mail_alias list)) op" where
  "ListMailAliasesByDomain domainID =
    run_sql wrap_err (listMailAliasesSQL domainID)"

definition DeleteMailAlias :: "string \<Rightarrow> ('x, unit) op" where
  "DeleteMailAlias i =
    exec_some (deleteMailAliasSQL i)"

definition CreateMailSubmissionPolicy :: "mail_policy \<Rightarrow> ('x, unit) op" where
  "CreateMailSubmissionPolicy p =
    do {
       i \<leftarrow> new_uuid;
       exec_sql wrap_err (insertMailPolicySQL (p\<lparr>mp_id := i\<rparr>)) }"

definition ListActiveMailDomains :: "('x, (active_mail_domain list)) op" where
  "ListActiveMailDomains =
    run_sql wrap_err listActiveMailDomainsSQL"

section \<open>Applications\<close>

text \<open>A manifest is stored as JSON and read back; the encoding is not modelled.\<close>

definition catalog_row :: "string \<Rightarrow> manifest \<Rightarrow> catalog_app" where
  "catalog_row i m = \<lparr>ca_id = i, ca_name = mf_name m, ca_slug = mf_id m, ca_version = mf_version m,
     ca_description = mf_description m, ca_category = mf_category m, ca_manifest = m\<rparr>"

definition CreateCatalogApp :: "manifest \<Rightarrow> ('x, string) op" where
  "CreateCatalogApp m =
    do {
       i \<leftarrow> new_uuid;
       r \<leftarrow> exec_sql conflict_or (insertCatalogAppSQL (catalog_row i m));
       ret (case r of Inl e \<Rightarrow> Inl e | Inr u \<Rightarrow> Inr i) }"

definition UpsertCatalogApp :: "manifest \<Rightarrow> ('x, unit) op" where
  "UpsertCatalogApp m =
    do {
       i \<leftarrow> new_uuid;
       exec_sql wrap_err (upsertCatalogAppSQL (catalog_row i m)) }"

definition GetCatalogAppByID :: "string \<Rightarrow> ('x, catalog_app) op" where
  "GetCatalogAppByID i =
    run_sql mapNotFound (catalogAppByIDSQL i)"

definition ListCatalogApps :: "('x, (catalog_app list)) op" where
  "ListCatalogApps =
    run_sql wrap_err listCatalogAppsSQL"

definition CreateApplicationInstance :: "string \<Rightarrow> string \<Rightarrow> string \<Rightarrow> string \<Rightarrow> ('x, string) op" where
  "CreateApplicationInstance orgID catalogID name slug =
    do {
       i \<leftarrow> new_uuid;
       r \<leftarrow> exec_sql wrap_err (insertInstanceSQL i orgID catalogID name slug);
       ret (case r of Inl e \<Rightarrow> Inl e | Inr u \<Rightarrow> Inr i) }"

definition SetInstanceStatus :: "string \<Rightarrow> status \<Rightarrow> ('x, unit) op" where
  "SetInstanceStatus i st =
    exec_sql wrap_err (setInstanceStatusSQL st i)"

definition GetInstance :: "string \<Rightarrow> ('x, instance_row) op" where
  "GetInstance i =
    run_sql mapNotFound (instanceByIDSQL i)"

definition ListInstancesByOrg :: "string \<Rightarrow> ('x, (instance_row list)) op" where
  "ListInstancesByOrg orgID =
    run_sql wrap_err (listInstancesSQL orgID)"

definition AddInstanceHostname :: "string \<Rightarrow> string \<Rightarrow> ('x, unit) op" where
  "AddInstanceHostname instanceID host =
    do {
       i \<leftarrow> new_uuid;
       exec_sql conflict_or (insertAppHostnameSQL i instanceID host) }"

definition AddInstanceAccessGroup :: "string \<Rightarrow> string \<Rightarrow> ('x, unit) op" where
  "AddInstanceAccessGroup instanceID groupID =
    do {
       r \<leftarrow> sql (insertAccessGroupSQL instanceID groupID);
       ret (case r of Inl e \<Rightarrow> if e = UniqueViolation then Inr () else Inl ErrOther | Inr n \<Rightarrow> Inr ()) }"

section \<open>Installation\<close>

definition GetInstallation :: "('x, installation) op" where
  "GetInstallation =
    do {
       r \<leftarrow> sql installationSQL;
       ret (case r of
          Inl e \<Rightarrow> if e = NoRows
            then Inr \<lparr>in_local_domain = DefaultLocalDomain, in_primary_domain = [],
                      in_dns_provider = ''manual'', in_access_provider = ''manual'',
                      in_onboarded_at = None\<rparr>
            else Inl ErrOther
        | Inr i \<Rightarrow> Inr i) }"

definition SetInstallationPrimaryDomain :: "string \<Rightarrow> ('x, unit) op" where
  "SetInstallationPrimaryDomain domainID =
    exec_some (setInstallationPrimaryDomainSQL domainID)"

definition SetInstallationProvider :: "string \<Rightarrow> string \<Rightarrow> string \<Rightarrow> ('x, unit) op" where
  "SetInstallationProvider dnsProvider accessProvider config =
    exec_some (setInstallationProviderSQL dnsProvider accessProvider config)"

definition GetInstallationConfig :: "('x, string) op" where
  "GetInstallationConfig =
    run_sql mapNotFound installationConfigSQL"

definition SetInstallationOnboarded :: "int \<Rightarrow> ('x, unit) op" where
  "SetInstallationOnboarded at =
    exec_sql wrap_err (setInstallationOnboardedSQL at)"

section \<open>Invitations\<close>

definition CreateInvite :: "invite \<Rightarrow> ('x, invite) op" where
  "CreateInvite v =
    do {
       i \<leftarrow> fresh_id (iv_id v);
       run_sql wrap_err (createInviteSQL (v\<lparr>iv_id := i\<rparr>)) }"

definition ExpirePendingInvites :: "string \<Rightarrow> string \<Rightarrow> ('x, unit) op" where
  "ExpirePendingInvites orgID userID =
    exec_sql wrap_err (expirePendingInvitesSQL orgID userID)"

definition GetInviteByTokenHash :: "string \<Rightarrow> ('x, invite) op" where
  "GetInviteByTokenHash h =
    run_sql mapNotFound (getInviteByTokenHashSQL h)"

definition ConsumeInvite :: "string \<Rightarrow> ('x, invite) op" where
  "ConsumeInvite i =
    do {
       r \<leftarrow> sql (consumeInviteSQL i);
       ret (case r of Inl e \<Rightarrow> if e = NoRows then Inl ErrConflict else Inl ErrOther | Inr v \<Rightarrow> Inr v) }"

section \<open>The methods under an invariant of the statements\<close>

lemma keeps_run_sql [keeps]: "stmt_keeps I st \<Longrightarrow> keeps (on_db I) (run_sql h st)"
  by (auto simp: run_sql_def intro!: keeps keeps_sql)

lemma keeps_exec_sql [keeps]: "stmt_keeps I st \<Longrightarrow> keeps (on_db I) (exec_sql h st)"
  by (auto simp: exec_sql_def intro!: keeps keeps_sql)

lemma keeps_exec_some [keeps]: "stmt_keeps I st \<Longrightarrow> keeps (on_db I) (exec_some st)"
  by (auto simp: exec_some_def intro!: keeps keeps_sql)

lemma keeps_fresh_id [keeps]: "keeps (on_db I) (fresh_id i)"
  by (simp add: fresh_id_def keeps)

context table_invariant begin

lemma users_and_audit_events_keep [keeps]:
  "keeps (on_db I) (UpsertFromOIDC provider subject email displayName)"
  "keeps (on_db I) (GetByID i)"
  "keeps (on_db I) (AdminCount)"
  "keeps (on_db I) (CreateUser email displayName authProvider authIdentityID)"
  "keeps (on_db I) (GetUserByEmail email)"
  "keeps (on_db I) (SetUserStatus i st)"
  "keeps (on_db I) (SetUserAdmin i admin)"
  "keeps (on_db I) (ListUsers limit)"
  "keeps (on_db I) (CreateAuditEvent e)"
  "keeps (on_db I) (ListAuditEvents limit actionFilter)"
  unfolding Let_def AdminCount_def CreateAuditEvent_def CreateUser_def GetByID_def
    GetUserByEmail_def ListAuditEvents_def ListUsers_def SetUserAdmin_def SetUserStatus_def
    UpsertFromOIDC_def adminCountSQL_def getUserByIDSQL_def listAuditEventsSQL_def
    listUsersSQL_def userByEmailSQL_def
  by (intro keeps keeps_sql)+

lemma organizations_keep [keeps]:
  "keeps (on_db I) (CreateOrganization org)"
  "keeps (on_db I) (GetOrganizationByID i)"
  "keeps (on_db I) (ListOrganizations limit)"
  "keeps (on_db I) (DeleteOrganization i)"
  "keeps (on_db I) (SetMembership orgID userID role)"
  "keeps (on_db I) (GetMembershipRole orgID userID)"
  "keeps (on_db I) (ListMemberships orgID)"
  "keeps (on_db I) (RemoveMembership orgID userID)"
  "keeps (on_db I) (RemoveAllMemberships userID)"
  "keeps (on_db I) (ListOrganizationsForUser userID)"
  unfolding Let_def CreateOrganization_def DeleteOrganization_def GetMembershipRole_def
    GetOrganizationByID_def ListMemberships_def ListOrganizationsForUser_def
    ListOrganizations_def RemoveAllMemberships_def RemoveMembership_def SetMembership_def
    listMembershipsSQL_def listOrgsForUserSQL_def listOrgsSQL_def membershipRoleSQL_def
    orgByIDSQL_def
  by (intro keeps keeps_sql)+

lemma groups_keep [keeps]:
  "keeps (on_db I) (CreateGroup g)"
  "keeps (on_db I) (GetGroupByID i)"
  "keeps (on_db I) (ListGroupsByOrg orgID)"
  "keeps (on_db I) (DeleteGroup i)"
  "keeps (on_db I) (AddGroupMember groupID userID)"
  "keeps (on_db I) (RemoveGroupMember groupID userID)"
  "keeps (on_db I) (RemoveAllGroupMemberships userID)"
  "keeps (on_db I) (ListGroupMembers groupID)"
  unfolding Let_def AddGroupMember_def CreateGroup_def DeleteGroup_def GetGroupByID_def
    ListGroupMembers_def ListGroupsByOrg_def RemoveAllGroupMemberships_def RemoveGroupMember_def
    groupByIDSQL_def listGroupMembersSQL_def listGroupsSQL_def
  by (intro keeps keeps_sql)+

lemma external_resources_keep [keeps]:
  "keeps (on_db I) (UpsertExternalResource x)"
  "keeps (on_db I) (GetExternalResource ty obj)"
  "keeps (on_db I) (ListExternalResourcesByProvider provider)"
  "keeps (on_db I) (SetExternalObserved i st observedHash lastErr)"
  "keeps (on_db I) (SetExternalStatus i st lastErr)"
  "keeps (on_db I) (ListExternalResources obj)"
  unfolding Let_def GetExternalResource_def ListExternalResourcesByProvider_def
    ListExternalResources_def SetExternalObserved_def SetExternalStatus_def
    UpsertExternalResource_def externalByObjectSQL_def listExternalByProviderSQL_def
    listExternalSQL_def
  by (intro keeps keeps_sql)+

lemma domains_and_hostnames_keep [keeps]:
  "keeps (on_db I) (CreateDomain x)"
  "keeps (on_db I) (GetDomainByID i)"
  "keeps (on_db I) (GetDomainByOrgFQDN orgID fqdn)"
  "keeps (on_db I) (ListDomainsByOrg orgID)"
  "keeps (on_db I) (SetDomainStatus i st verifiedAt)"
  "keeps (on_db I) (LogVerification domainID method detail success)"
  "keeps (on_db I) (DeleteDomain i)"
  "keeps (on_db I) (AddHostname h)"
  "keeps (on_db I) (GetHostnameByID i)"
  "keeps (on_db I) (ListHostnamesByDomain domainID)"
  "keeps (on_db I) (RemoveHostname i)"
  unfolding Let_def AddHostname_def CreateDomain_def randomTokenHex_def DeleteDomain_def GetDomainByID_def
    GetDomainByOrgFQDN_def GetHostnameByID_def ListDomainsByOrg_def ListHostnamesByDomain_def
    LogVerification_def RemoveHostname_def SetDomainStatus_def countHostnamesSQL_def
    domainByIDSQL_def domainByOrgFQDNSQL_def hostnameByIDSQL_def listDomainsSQL_def
    listHostnamesSQL_def
  by (intro keeps keeps_sql)+

lemma mail_keep [keeps]:
  "keeps (on_db I) (CreateMailDomain domainID)"
  "keeps (on_db I) (GetMailDomainByDomainID domainID)"
  "keeps (on_db I) (SetMailDomainStatus i st)"
  "keeps (on_db I) (SetMailDomainDKIM i selector rec)"
  "keeps (on_db I) (CreateMailIdentity m)"
  "keeps (on_db I) (GetMailIdentity i)"
  "keeps (on_db I) (GetMailIdentityByAddress address)"
  "keeps (on_db I) (ListMailIdentitiesByDomain domainID)"
  "keeps (on_db I) (SetMailIdentityStatus i st)"
  "keeps (on_db I) (CreateMailCredential c)"
  "keeps (on_db I) (RevokeCredentialsByIdentity identityID)"
  "keeps (on_db I) (CreateMailAlias a)"
  "keeps (on_db I) (UpdateMailAliasDestinations i dests)"
  "keeps (on_db I) (ListMailIdentitiesByUsers orgID userIDs)"
  "keeps (on_db I) (GetMailAliasByAddress address)"
  "keeps (on_db I) (ListMailAliasesByDomain domainID)"
  "keeps (on_db I) (DeleteMailAlias i)"
  "keeps (on_db I) (CreateMailSubmissionPolicy p)"
  "keeps (on_db I) (ListActiveMailDomains)"
  unfolding Let_def CreateMailAlias_def CreateMailCredential_def CreateMailDomain_def
    CreateMailIdentity_def CreateMailSubmissionPolicy_def DeleteMailAlias_def
    GetMailAliasByAddress_def GetMailDomainByDomainID_def GetMailIdentityByAddress_def
    GetMailIdentity_def ListActiveMailDomains_def ListMailAliasesByDomain_def
    ListMailIdentitiesByDomain_def ListMailIdentitiesByUsers_def RevokeCredentialsByIdentity_def
    SetMailDomainDKIM_def SetMailDomainStatus_def SetMailIdentityStatus_def
    UpdateMailAliasDestinations_def listActiveMailDomainsSQL_def listMailAliasesSQL_def
    listMailIdentitiesByUsersSQL_def listMailIdentitiesSQL_def mailAliasByAddressSQL_def
    mailDomainByDomainSQL_def mailIdentityByAddressSQL_def mailIdentityByIDSQL_def
  by (intro keeps keeps_sql)+

lemma applications_keep [keeps]:
  "keeps (on_db I) (CreateCatalogApp m)"
  "keeps (on_db I) (UpsertCatalogApp m)"
  "keeps (on_db I) (GetCatalogAppByID i)"
  "keeps (on_db I) (ListCatalogApps)"
  "keeps (on_db I) (CreateApplicationInstance orgID catalogID name slug)"
  "keeps (on_db I) (SetInstanceStatus i st)"
  "keeps (on_db I) (GetInstance i)"
  "keeps (on_db I) (ListInstancesByOrg orgID)"
  "keeps (on_db I) (AddInstanceHostname instanceID host)"
  "keeps (on_db I) (AddInstanceAccessGroup instanceID groupID)"
  unfolding Let_def AddInstanceAccessGroup_def AddInstanceHostname_def
    CreateApplicationInstance_def CreateCatalogApp_def GetCatalogAppByID_def GetInstance_def
    ListCatalogApps_def ListInstancesByOrg_def SetInstanceStatus_def UpsertCatalogApp_def
    catalogAppByIDSQL_def instanceByIDSQL_def listCatalogAppsSQL_def listInstancesSQL_def
  by (intro keeps keeps_sql)+

lemma installation_keep [keeps]:
  "keeps (on_db I) (GetInstallation)"
  "keeps (on_db I) (SetInstallationPrimaryDomain domainID)"
  "keeps (on_db I) (SetInstallationProvider dnsProvider accessProvider config)"
  "keeps (on_db I) (GetInstallationConfig)"
  "keeps (on_db I) (SetInstallationOnboarded at)"
  unfolding Let_def GetInstallationConfig_def GetInstallation_def SetInstallationOnboarded_def
    SetInstallationPrimaryDomain_def SetInstallationProvider_def installationConfigSQL_def
    installationSQL_def
  by (intro keeps keeps_sql)+

lemma invitations_keep [keeps]:
  "keeps (on_db I) (CreateInvite v)"
  "keeps (on_db I) (ExpirePendingInvites orgID userID)"
  "keeps (on_db I) (GetInviteByTokenHash h)"
  "keeps (on_db I) (ConsumeInvite i)"
  unfolding Let_def ConsumeInvite_def CreateInvite_def ExpirePendingInvites_def
    GetInviteByTokenHash_def getInviteByTokenHashSQL_def
  by (intro keeps keeps_sql)+

lemma ValidateAliasDestinations_keeps [keeps]:
  "keeps (on_db I) (ValidateAliasDestinations org ds)"
  by (induction ds) (auto intro!: keeps)

end

end
