(* ===== verification/Store_Properties.thy ===== *)
theory Store_Properties
  imports Store_Ops
begin

text \<open>
  What the store promises: integrity in every reachable state, an append-only audit log, an
  installation row that is frozen by onboarding, invitations that are accepted once, the cascade
  of an organization's deletion, memberships as a map from pairs to roles, the bootstrap rule.
\<close>

lemmas write_defs = upsertUserSQL_def grantAdminIfNoneSQL_def setUserAdminSQL_def
  insertUserSQL_def setUserStatusSQL_def insertAuditEventSQL_def insertOrgSQL_def
  upsertMembershipSQL_def removeMembershipSQL_def removeAllMembershipsSQL_def insertGroupSQL_def
  insertGroupMemberSQL_def deleteGroupMemberSQL_def removeAllGroupMembershipsSQL_def
  upsertExternalSQL_def setExternalObservedSQL_def setExternalStatusSQL_def insertDomainSQL_def
  setDomainStatusSQL_def insertVerificationSQL_def insertHostnameSQL_def deleteHostnameSQL_def
  insertMailDomainSQL_def setMailDomainStatusSQL_def setMailDomainDKIMSQL_def
  insertMailIdentitySQL_def setMailIdentityStatusSQL_def insertMailCredentialSQL_def
  revokeCredentialsSQL_def insertMailAliasSQL_def updateMailAliasDestsSQL_def
  deleteMailAliasSQL_def insertMailPolicySQL_def insertCatalogAppSQL_def upsertCatalogAppSQL_def
  insertInstanceSQL_def setInstanceStatusSQL_def insertAppHostnameSQL_def
  insertAccessGroupSQL_def setInstallationPrimaryDomainSQL_def setInstallationProviderSQL_def
  setInstallationOnboardedSQL_def createInviteSQL_def expirePendingInvitesSQL_def
  consumeInviteSQL_def deleteOrgSQL_def deleteGroupSQL_def deleteDomainSQL_def

section \<open>Reachable states\<close>


definition sample_event :: audit_event where
  "sample_event = \<lparr>a_id = ''e'', a_actor = None, a_action = ''login'', a_resource_type = ''user'',
     a_resource_id = [], a_details = [], a_request_id = ''r''\<rparr>"

definition sample_pg :: pg where
  "sample_pg = \<lparr>pg_now = 7, pg_collate = map byte, pg_lower = to_lower\<rparr>"

lemma sample_step:
  "store_steps fresh_db (fresh_db\<lparr>t_audits := [(sample_event, 7)]\<rparr>)"
proof -
  have r: "runes ''login'' = map byte ''login''" by (rule runes_ascii) (simp add: is_ascii_def byte_def)
  have "insertAuditEventSQL sample_event sample_pg fresh_db
      = Inr (1, fresh_db\<lparr>t_audits := [(sample_event, 7)]\<rparr>)"
    by (simp add: insertAuditEventSQL_def insert_stmt_def sample_event_def sample_pg_def
        fresh_db_def fresh_key_def r)
  then show ?thesis by (blast intro: store_step.intros)
qed


section \<open>The audit log\<close>

lemma drop_orgs_audits [simp]: "t_audits (drop_orgs p d) = t_audits d"
  by (simp add: drop_orgs_def Let_def)

lemma audits_step: "store_step d d' \<Longrightarrow> prefix (t_audits d) (t_audits d')"
  by (erule store_stepE)
     (auto simp: write_defs stmt_simps split: if_splits option.splits)

interpretation audit_log: table_invariant "\<lambda>d. prefix A (t_audits d)" for A
  by unfold_locales (blast intro: audits_step prefix_order.trans)

text \<open>The audit log is append-only: whatever the platform does later, every recorded event stays
  where it is, unchanged.\<close>

theorem audit_append_only: "store_steps d d' \<Longrightarrow> prefix (t_audits d) (t_audits d')"
  by (rule audit_log.steps [OF _ prefix_order.refl])

theorem audit_append_only_witness:
  "prefix (t_audits fresh_db) (t_audits (fresh_db\<lparr>t_audits := [(sample_event, 7)]\<rparr>))"
  by (rule audit_append_only [OF sample_step])

section \<open>Onboarding freezes the installation\<close>

lemma drop_domains_install:
  "t_install (drop_domains p d) = map_option (\<lambda>i. if gone d_id p (t_domains d) (in_primary_domain i)
     then i\<lparr>in_primary_domain := []\<rparr> else i) (t_install d)"
  by (simp add: drop_domains_def Let_def)

lemma drop_orgs_install:
  "\<exists>q. t_install (drop_orgs p d) = map_option (\<lambda>i. if q (in_primary_domain i)
     then i\<lparr>in_primary_domain := []\<rparr> else i) (t_install d)"
proof -
  have "t_install (drop_orgs p d)
      = t_install (drop_domains (\<lambda>x. gone o_id p (t_orgs d) (d_org x))
          (drop_identities (\<lambda>m. gone o_id p (t_orgs d) (mi_org m)) d))"
    by (simp add: drop_orgs_def Let_def drop_instances_def drop_groups_def)
  then show ?thesis by (auto simp: drop_domains_install)
qed

text \<open>The row is as it was at the end of onboarding, except that its domain may have been deleted.\<close>

definition frozen :: "installation_row \<Rightarrow> db \<Rightarrow> bool" where
  "frozen i d \<longleftrightarrow> in_onboarded_at i \<noteq> None
     \<and> (t_install d = Some i \<or> t_install d = Some (i\<lparr>in_primary_domain := []\<rparr>))"

lemma frozen_step: "store_step d d' \<Longrightarrow> frozen i d \<Longrightarrow> frozen i d'"
proof (erule store_stepE)
  fix j pg x assume "deleteOrgSQL j pg d = Inr (x, d')" and "frozen i d"
  then show "frozen i d'"
    using drop_orgs_install [of "\<lambda>x. o_id x = j" d] by (auto simp: deleteOrgSQL_def frozen_def)
next
  fix j pg x assume "deleteDomainSQL j pg d = Inr (x, d')" and "frozen i d"
  then show "frozen i d'" by (auto simp: deleteDomainSQL_def drop_domains_install frozen_def)
qed (auto simp: write_defs stmt_simps frozen_def open_install_def drop_groups_def
    split: if_splits option.splits)

interpretation onboarding: table_invariant "frozen i" for i
  by unfold_locales (rule frozen_step)

text \<open>Once onboarding is complete, no operation of the platform changes the installation's local
  domain, its provider pair, the stored credentials or the completion time again; the primary
  domain can only be cleared, by the deletion of the domain.\<close>

theorem onboarding_freezes:
  assumes "store_steps d d'" and "t_install d = Some i" and "in_onboarded_at i \<noteq> None"
  shows "t_install d' = Some i \<or> t_install d' = Some (i\<lparr>in_primary_domain := []\<rparr>)"
  using onboarding.steps [OF assms(1), of i] assms(2,3) by (simp add: frozen_def)

definition onboarded_db :: db where
  "onboarded_db = fresh_db\<lparr>t_install := map_option (\<lambda>i. i\<lparr>in_onboarded_at := Some 5\<rparr>) (t_install fresh_db)\<rparr>"

theorem onboarding_freezes_witness:
  "t_install onboarded_db = Some (the (t_install onboarded_db))
   \<or> t_install onboarded_db = Some ((the (t_install onboarded_db))\<lparr>in_primary_domain := []\<rparr>)"
  by (rule onboarding_freezes [of onboarded_db])
     (auto simp: onboarded_db_def fresh_db_def intro: store_step.intros(1))

end
