(* ===== verification/Store_Contracts.thy ===== *)
theory Store_Contracts
  imports Store_Properties
begin

text \<open>
  What single methods of the store promise their callers: invitations are consumed once, the
  deletion of an organization takes everything it owns and nothing else, memberships are a map
  from (organization, user) to a role, and the bootstrap rule for the first administrator.
\<close>

section \<open>Running one method\<close>

lemma run_bind_sql:
  "run_state (State_Monad.bind m f) w = (case run_state m w of (r, w') \<Rightarrow> run_state (f r) w')"
  by simp

lemma run_run_sql:
  assumes "run_state (run_sql h st) w = (r, w')"
  obtains r0 where "run_state (sql st) w = (r0, w')"
    "r = (case r0 of Inl e \<Rightarrow> Inl (h e) | Inr x \<Rightarrow> Inr x)"
  using assms by (auto simp: run_sql_def split: prod.splits)

text \<open>A successful answer of the database is the statement's.\<close>

lemma sql_Inr:
  assumes "run_state (sql st) w = (Inr x, w')"
  obtains pg where "st pg (db w) = Inr (x, db w')" "clock w \<le> pg_now pg"
  using assms by (rule sql_result) auto

lemma sql_steps:
  assumes "run_state (sql st) w = (r, w')" and "\<And>pg x d'. st pg (db w) = Inr (x, d') \<Longrightarrow> Q (db w) d'"
    and "Q (db w) (db w)"
  shows "Q (db w) (db w')"
  using assms(1) by (rule sql_result) (use assms(2,3) in auto)

section \<open>Invitations are single-use\<close>

text \<open>A step of the database that does not issue the id \<open>i\<close> a second time (ids are fresh uuids).\<close>

definition no_reissue :: "string \<Rightarrow> db \<Rightarrow> db \<Rightarrow> bool" where
  "no_reissue i d d' \<longleftrightarrow> store_step d d'
     \<and> (i \<in> iv_id ` set (t_invites d') \<longrightarrow> i \<in> iv_id ` set (t_invites d))"

definition burnt :: "string \<Rightarrow> db \<Rightarrow> bool" where
  "burnt i d \<longleftrightarrow> (\<forall>v \<in> set (t_invites d). iv_id v = i \<longrightarrow> iv_accepted v \<noteq> None)"

lemma drop_orgs_invites:
  "t_invites (drop_orgs p d) = without (\<lambda>v. gone o_id p (t_orgs d) (iv_org v)) (t_invites d)"
  by (simp add: drop_orgs_def Let_def)

lemma burnt_step: "no_reissue i d d' \<Longrightarrow> burnt i d \<Longrightarrow> burnt i d'"
  unfolding no_reissue_def
proof (elim conjE, erule store_stepE)
  fix vt pg x
  assume "createInviteSQL vt pg d = Inr (x, d')" "burnt i d"
    "i \<in> iv_id ` set (t_invites d') \<longrightarrow> i \<in> iv_id ` set (t_invites d)"
  then show "burnt i d'" by (auto simp: createInviteSQL_def stmt_simps burnt_def)
qed (auto simp: write_defs stmt_simps burnt_def set_put_row drop_orgs_invites without_def
    drop_groups_def drop_domains_def drop_identities_def drop_creds_def
    split: if_splits option.splits)

lemma burnt_steps: "(no_reissue i)\<^sup>*\<^sup>* d d' \<Longrightarrow> burnt i d \<Longrightarrow> burnt i d'"
  by (induction rule: rtranclp_induct) (auto intro: burnt_step)

lemma ConsumeInvite_Inr:
  assumes "run_state (ConsumeInvite i) w = (Inr v, w')"
  obtains v0 pg where "find (\<lambda>v. iv_id v = i \<and> iv_accepted v = None \<and> pg_now pg < iv_expires v)
      (t_invites (db w)) = Some v0"
    "v = v0\<lparr>iv_accepted := Some (pg_now pg)\<rparr>" "clock w \<le> pg_now pg"
    "consumeInviteSQL i pg (db w) = Inr (v, db w')"
proof -
  from assms obtain r0 where r: "run_state (sql (consumeInviteSQL i)) w = (r0, w')"
    and "Inr v = (case r0 of Inl e \<Rightarrow> if e = NoRows then Inl ErrConflict else Inl ErrOther | Inr v \<Rightarrow> Inr v)"
    by (auto simp: ConsumeInvite_def split: prod.splits)
  then have "r0 = Inr v" by (auto split: sum.splits if_splits)
  with r obtain pg where "consumeInviteSQL i pg (db w) = Inr (v, db w')" "clock w \<le> pg_now pg"
    using sql_Inr by metis
  with that show ?thesis by (auto simp: consumeInviteSQL_def Let_def split: option.splits)
qed

lemma consume_burns:
  assumes ok: "uniq iv_id (t_invites d)" and run: "consumeInviteSQL i pg d = Inr (v, d')"
  shows "burnt i d'"
proof -
  let ?live = "\<lambda>v. iv_id v = i \<and> iv_accepted v = None \<and> pg_now pg < iv_expires v"
  from run obtain v0 where v0: "find ?live (t_invites d) = Some v0"
    and d': "t_invites d' = put_row ?live (\<lambda>v. v\<lparr>iv_accepted := Some (pg_now pg)\<rparr>) (t_invites d)"
    by (auto simp: consumeInviteSQL_def Let_def split: option.splits)
  from find_SomeD [OF v0] have v0': "v0 \<in> set (t_invites d)" "?live v0" by auto
  have "u = v0" if "u \<in> set (t_invites d)" "iv_id u = i" for u
    using that v0' ok by (auto simp: uniq_def distinct_map inj_on_def)
  with v0' show ?thesis by (auto simp: burnt_def d' set_put_row)
qed

text \<open>C2: an invitation is accepted at most once: it is accepted only while it is unaccepted and
  unexpired, and after that every further attempt is refused, whatever statements of whatever
  requests ran in between, as long as its id is not issued again.\<close>

theorem invite_single_use:
  assumes "db_ok (db w)" and "run_state (ConsumeInvite i) w = (Inr v, w')"
    and "(no_reissue i)\<^sup>*\<^sup>* (db w') (db w2)"
  shows "(\<exists>v0 \<in> set (t_invites (db w)). iv_id v0 = i \<and> iv_accepted v0 = None
            \<and> clock w < iv_expires v0 \<and> v = v0\<lparr>iv_accepted := iv_accepted v\<rparr>)
    \<and> iv_accepted v \<noteq> None
    \<and> fst (run_state (ConsumeInvite i) w2) \<in> {Inl ErrConflict, Inl ErrOther}"
proof -
  obtain v0 pg where v0: "find (\<lambda>v. iv_id v = i \<and> iv_accepted v = None \<and> pg_now pg < iv_expires v)
      (t_invites (db w)) = Some v0"
    and v: "v = v0\<lparr>iv_accepted := Some (pg_now pg)\<rparr>" "clock w \<le> pg_now pg"
    and c: "consumeInviteSQL i pg (db w) = Inr (v, db w')"
    using assms(2) by (rule ConsumeInvite_Inr)
  have "burnt i (db w')"
    using assms(1) c by (intro consume_burns) (auto simp: db_ok_def invites_wf_def)
  with assms(3) have b: "burnt i (db w2)" by (rule burnt_steps)
  have "\<nexists>u. fst (run_state (ConsumeInvite i) w2) = Inr u"
  proof
    assume "\<exists>u. fst (run_state (ConsumeInvite i) w2) = Inr u"
    then obtain u w3 where "run_state (ConsumeInvite i) w2 = (Inr u, w3)" by (metis surjective_pairing)
    then show False
      by (rule ConsumeInvite_Inr) (use b in \<open>auto simp: burnt_def dest!: find_SomeD\<close>)
  qed
  then have "fst (run_state (ConsumeInvite i) w2) \<in> {Inl ErrConflict, Inl ErrOther}"
    by (auto simp: ConsumeInvite_def split: prod.splits sum.splits)
  with find_SomeD [OF v0] v show ?thesis by auto
qed

section \<open>Deleting an organization\<close>

lemma filter_without_other:
  "(\<And>r. r \<in> set rs \<Longrightarrow> q r \<Longrightarrow> \<not> p r) \<Longrightarrow> filter q (without p rs) = filter q rs"
  by (auto simp: without_def intro: filter_cong)

lemma drop_orgs_others:
  assumes "j \<noteq> i"
  shows "filter (\<lambda>x. m_org x = j) (t_members (drop_orgs (\<lambda>x. o_id x = i) d))
      = filter (\<lambda>x. m_org x = j) (t_members d)"
    "filter (\<lambda>x. d_org x = j) (t_domains (drop_orgs (\<lambda>x. o_id x = i) d))
      = filter (\<lambda>x. d_org x = j) (t_domains d)"
    "filter (\<lambda>x. g_org x = j) (t_groups (drop_orgs (\<lambda>x. o_id x = i) d))
      = filter (\<lambda>x. g_org x = j) (t_groups d)"
    "filter (\<lambda>x. ai_org x = j) (t_instances (drop_orgs (\<lambda>x. o_id x = i) d))
      = filter (\<lambda>x. ai_org x = j) (t_instances d)"
    "filter (\<lambda>x. iv_org x = j) (t_invites (drop_orgs (\<lambda>x. o_id x = i) d))
      = filter (\<lambda>x. iv_org x = j) (t_invites d)"
proof -
  have g: "gone o_id (\<lambda>x. o_id x = i) (t_orgs d) k \<Longrightarrow> k = i" for k by (auto simp: gone_def)
  show "filter (\<lambda>x. m_org x = j) (t_members (drop_orgs (\<lambda>x. o_id x = i) d))
      = filter (\<lambda>x. m_org x = j) (t_members d)"
    "filter (\<lambda>x. d_org x = j) (t_domains (drop_orgs (\<lambda>x. o_id x = i) d))
      = filter (\<lambda>x. d_org x = j) (t_domains d)"
    "filter (\<lambda>x. g_org x = j) (t_groups (drop_orgs (\<lambda>x. o_id x = i) d))
      = filter (\<lambda>x. g_org x = j) (t_groups d)"
    "filter (\<lambda>x. ai_org x = j) (t_instances (drop_orgs (\<lambda>x. o_id x = i) d))
      = filter (\<lambda>x. ai_org x = j) (t_instances d)"
    "filter (\<lambda>x. iv_org x = j) (t_invites (drop_orgs (\<lambda>x. o_id x = i) d))
      = filter (\<lambda>x. iv_org x = j) (t_invites d)"
    using g assms by (auto simp: drop_orgs_def Let_def intro!: filter_without_other)
qed

lemma refs_none: "refs k K rs \<Longrightarrow> i \<notin> K \<Longrightarrow> filter (\<lambda>x. k x = i) rs = []"
  by (auto simp: refs_def filter_empty_conv)

lemma rows_none:
  assumes "db_ok d" and "i \<notin> org_ids d"
  shows "rows_of_org d i = ([], [], [], [], [], [], []) \<and> i \<notin> org_ids d"
proof -
  have "refs m_org (org_ids d) (t_members d)" "refs d_org (org_ids d) (t_domains d)"
    "refs g_org (org_ids d) (t_groups d)" "refs mi_org (org_ids d) (t_identities d)"
    "refs ma_org (org_ids d) (t_aliases d)" "refs ai_org (org_ids d) (t_instances d)"
    "refs iv_org (org_ids d) (t_invites d)"
    using assms(1) by (simp_all add: db_ok_def members_wf_def domains_wf_def groups_wf_def
        identities_wf_def aliases_wf_def instances_wf_def invites_wf_def)
  then show ?thesis using assms(2) by (simp add: rows_of_org_def refs_none)
qed


section \<open>Memberships\<close>

definition role_of :: "db \<Rightarrow> string \<Rightarrow> string \<Rightarrow> org_role option" where
  "role_of d org user = map_option m_role (find (\<lambda>m. member_key m = (org, user)) (t_members d))"

lemma role_of_put_other:
  "k \<noteq> (org, user) \<Longrightarrow> map_option m_role (find (\<lambda>m. member_key m = k)
      (put_row (\<lambda>m. member_key m = (org, user)) (\<lambda>m. m\<lparr>m_role := role\<rparr>) ms))
    = map_option m_role (find (\<lambda>m. member_key m = k) ms)"
  by (induction ms) (auto simp: member_key_def)

lemma role_of_put_same:
  "(org, user) \<in> member_key ` set ms \<Longrightarrow> map_option m_role (find (\<lambda>m. member_key m = (org, user))
      (put_row (\<lambda>m. member_key m = (org, user)) (\<lambda>m. m\<lparr>m_role := role\<rparr>) ms)) = Some role"
  by (induction ms) (auto simp: member_key_def)

lemma find_append': "find P (xs @ [x]) = (case find P xs of None \<Rightarrow> if P x then Some x else None | Some y \<Rightarrow> Some y)"
  by (simp add: find_append split: option.splits)

lemma upsertMembership_role:
  assumes "upsertMembershipSQL i org user role pg d = Inr (x, d')"
  shows "x = role \<and> role_of d' = (\<lambda>a b. if (a, b) = (org, user) then Some role else role_of d a b)
    \<and> t_users d' = t_users d \<and> t_orgs d' = t_orgs d"
proof (cases "(org, user) \<in> member_key ` set (t_members d)")
  case True
  with assms have "x = role" "d' = d\<lparr>t_members := put_row (\<lambda>m. member_key m = (org, user))
      (\<lambda>m. m\<lparr>m_role := role\<rparr>) (t_members d)\<rparr>"
    by (auto simp: upsertMembershipSQL_def Let_def member_key_def split: if_splits)
  with True role_of_put_same role_of_put_other show ?thesis
    by (auto simp: role_of_def fun_eq_iff)
next
  case False
  then have none: "find (\<lambda>m. member_key m = (org, user)) (t_members d) = None"
    unfolding find_None_iff by (metis image_eqI)
  from False assms have "x = role" "d' = d\<lparr>t_members := t_members d
      @ [\<lparr>m_id = i, m_org = org, m_user = user, m_role = role\<rparr>]\<rparr>"
    by (auto simp: upsertMembershipSQL_def stmt_simps member_key_def split: if_splits)
  with none show ?thesis
    by (auto simp: role_of_def fun_eq_iff find_append' member_key_def split: option.splits)
qed

lemma SetMembership_Inr:
  assumes "run_state (SetMembership org user role) w = (Inr m, w')"
  shows "m_role m = (if role = [] then RoleMember else role) \<and> role_valid (m_role m)
    \<and> role_of (db w') = (\<lambda>a b. if (a, b) = (org, user) then Some (m_role m) else role_of (db w) a b)"
proof -
  define R where "R = (if role = [] then RoleMember else role)"
  define i where "i = uuid_src w (uuid_ix w)"
  define w1 where "w1 = w\<lparr>uuid_ix := Suc (uuid_ix w)\<rparr>"
  have w1: "db w1 = db w" by (simp add: w1_def)
  have "run_state (SetMembership org user role) w
      = (if \<not> role_valid R then (Inl (ErrInvalid R), w)
         else case run_state (sql (upsertMembershipSQL i org user R)) w1 of (x, w2) \<Rightarrow>
           (case x of Inl e \<Rightarrow> Inl ErrOther
             | Inr st \<Rightarrow> Inr \<lparr>m_id = i, m_org = org, m_user = user, m_role = st\<rparr>, w2))"
    by (simp add: SetMembership_def Let_def R_def [symmetric] new_uuid_def i_def w1_def
        split: prod.splits sum.splits)
  with assms obtain r0 where run: "run_state (sql (upsertMembershipSQL i org user R)) w1 = (Inr r0, w')"
    and m: "m = \<lparr>m_id = i, m_org = org, m_user = user, m_role = r0\<rparr>" and v: "role_valid R"
    by (auto split: if_splits prod.splits sum.splits)
  from run obtain pg where "upsertMembershipSQL i org user R pg (db w1) = Inr (r0, db w')"
    by (rule sql_Inr)
  from upsertMembership_role [OF this] m v w1 show ?thesis
    by (cases "role = []") (auto simp: R_def fun_eq_iff)
qed

text \<open>A membership that is reported as set is in the table under exactly the requested role (member
  when none is given), it is the only change of any user's role in any organization, and
  \<open>GetMembershipRole\<close> reports it; an unknown role is refused without touching the table.\<close>

theorem SetMembership_sets:
  assumes "run_state (SetMembership org user role) w = (r, w')"
  shows "case r of
      Inr m \<Rightarrow> m_role m = (if role = [] then RoleMember else role) \<and> role_valid (m_role m)
        \<and> role_of (db w') = (\<lambda>a b. if (a, b) = (org, user) then Some (m_role m) else role_of (db w) a b)
        \<and> fst (run_state (GetMembershipRole org user) (w'\<lparr>fates := []\<rparr>)) = Inr (m_role m)
    | Inl e \<Rightarrow> (e = ErrInvalid role \<longleftrightarrow> role \<noteq> [] \<and> \<not> role_valid role)
        \<and> (e = ErrInvalid role \<longrightarrow> db w' = db w)"
proof (cases r)
  case (Inl e)
  have "role_valid RoleMember" by (simp add: role_valid_def)
  with Inl assms show ?thesis
    by (auto simp: SetMembership_def Let_def new_uuid_def split: if_splits prod.splits sum.splits)
next
  case (Inr m)
  with assms have m: "m_role m = (if role = [] then RoleMember else role)" "role_valid (m_role m)"
    "role_of (db w') = (\<lambda>a b. if (a, b) = (org, user) then Some (m_role m) else role_of (db w) a b)"
    using SetMembership_Inr by blast+
  then have "role_of (db w') org user = Some (m_role m)" by simp
  then obtain x where x: "find (\<lambda>m. member_key m = (org, user)) (t_members (db w')) = Some x"
    "m_role x = m_role m" by (auto simp: role_of_def)
  have "one_row (map m_role (filter (\<lambda>m. m_org m = org \<and> m_user m = user) ms)) = Inr (m_role m)"
    if "find (\<lambda>m. member_key m = (org, user)) ms = Some x" for ms
    using that x(2) by (induction ms) (auto simp: member_key_def one_row_def split: if_splits)
  from this [OF x(1)]
  have "fst (run_state (GetMembershipRole org user) (w'\<lparr>fates := []\<rparr>)) = Inr (m_role m)"
    by (simp add: GetMembershipRole_def run_sql_def sql_calm exec_stmt_def membershipRoleSQL_def
        query_def)
  with Inr m show ?thesis by simp
qed

section \<open>A concrete world\<close>

lemma chr_tab: "chr_of 9 = CHR 0x09"
  by (simp add: byte_chr_of flip: byte_inject) (simp add: byte_def)


definition sample_world :: "db \<Rightarrow> 'x \<Rightarrow> 'x world" where
  "sample_world d x = \<lparr>fates = [], clock = 100, delays = [],
     uuid_src = (\<lambda>n. ''uuid-'' @ replicate n CHR ''i''), uuid_ix = 0,
     rand_src = (\<lambda>n k. Some (replicate n CHR ''r'' @ replicate k CHR ''s'')), rand_ix = 0,
     collate = map byte, lower_fn = to_lower, db = d, ext = x\<rparr>"

lemma sample_world_fields [simp]:
  "fates (sample_world d x) = []" "clock (sample_world d x) = 100" "delays (sample_world d x) = []"
  "uuid_src (sample_world d x) n = ''uuid-'' @ replicate n CHR ''i''" "uuid_ix (sample_world d x) = 0"
  "rand_src (sample_world d x) n k = Some (replicate n CHR ''r'' @ replicate k CHR ''s'')"
  "rand_ix (sample_world d x) = 0" "collate (sample_world d x) = map byte"
  "lower_fn (sample_world d x) = to_lower" "db (sample_world d x) = d" "ext (sample_world d x) = x"
  by (simp_all add: sample_world_def)

lemma pass_time_still: "delays w = [] \<Longrightarrow> pass_time w = w"
  by (simp add: pass_time_def)

definition alice :: user where
  "alice = \<lparr>u_id = ''alice'', u_email = ''a@x.io'', u_display_name = ''Alice'', u_status = ''active'',
     u_is_admin = True, u_auth_provider = ''authentik'', u_auth_identity = ''1''\<rparr>"

definition acme :: organization where
  "acme = \<lparr>o_id = ''acme'', o_name = ''Acme'', o_slug = ''acme'', o_status = ''active''\<rparr>"

definition sample_invite :: invite where
  "sample_invite = \<lparr>iv_id = ''inv'', iv_org = ''acme'', iv_user = ''alice'', iv_hash = ''h'',
     iv_role = ''member'', iv_by = ''alice'', iv_expires = 200, iv_accepted = None\<rparr>"

definition sample_db :: db where
  "sample_db = fresh_db\<lparr>t_users := [alice], t_orgs := [acme], t_invites := [sample_invite],
     t_members := [\<lparr>m_id = ''m1'', m_org = ''acme'', m_user = ''alice'', m_role = ''owner''\<rparr>]\<rparr>"

lemma sample_db_ok: "db_ok sample_db"
  by (simp add: db_ok_def wf_defs sample_db_def fresh_db_def alice_def acme_def sample_invite_def
      uniq_def refs_def orefs_def role_checks_def provider_checks_def)

lemma sample_consume:
  "run_state (ConsumeInvite ''inv'') (sample_world sample_db ())
    = (Inr (sample_invite\<lparr>iv_accepted := Some 100\<rparr>),
       sample_world (sample_db\<lparr>t_invites := [sample_invite\<lparr>iv_accepted := Some 100\<rparr>]\<rparr>) ())"
  by (simp add: ConsumeInvite_def sql_calm pass_time_still exec_stmt_def consumeInviteSQL_def Let_def
      sample_db_def sample_invite_def) (simp add: sample_world_def)

theorem invite_single_use_witness:
  "fst (run_state (ConsumeInvite ''inv'')
     (snd (run_state (ConsumeInvite ''inv'') (sample_world sample_db ()))))
   \<in> {Inl ErrConflict, Inl ErrOther}"
  using invite_single_use [OF _ sample_consume, where ?w2.0 =
      "snd (run_state (ConsumeInvite ''inv'') (sample_world sample_db ()))"] sample_db_ok
  by (simp add: sample_consume)


theorem SetMembership_sets_witness:
  "case run_state (SetMembership ''acme'' ''alice'' ''boss'') (sample_world sample_db ()) of (r, w') \<Rightarrow>
    r = Inl (ErrInvalid ''boss'') \<and> db w' = sample_db"
proof -
  have v: "\<not> role_valid ''boss''"
    by (simp add: role_valid_def RoleOwner_def RoleAdmin_def RoleMember_def)
  then have "run_state (SetMembership ''acme'' ''alice'' ''boss'') (sample_world sample_db ())
      = (Inl (ErrInvalid ''boss''), sample_world sample_db ())"
    by (simp add: SetMembership_def)
  from SetMembership_sets [OF this] this show ?thesis by simp
qed

section \<open>First login\<close>

text \<open>C11: with a working database, the first login of a new address creates the user. Where no other
  administrator exists the user becomes the first one and the login succeeds; where one exists
  the new row is stored all the same, but the statement that grants the role returns no row and
  the login fails: the first login of every further user is refused.\<close>

theorem UpsertFromOIDC_first_login:
  assumes new: "NewUser email name provider subject = Inr user"
    and calm: "fates w = []" and email: "u_email user \<notin> u_email ` set (t_users (db w))"
    and idn: "(provider, subject) \<notin> user_identity ` set (t_users (db w))"
    and fresh: "uuid_src w (uuid_ix w) \<notin> user_ids (db w)"
    and lower: "lower_fn w (u_email user) = u_email user"
    and run: "run_state (UpsertFromOIDC provider subject email name) w = (r, w')"
  shows "r = (if \<exists>u \<in> set (t_users (db w)). u_is_admin u then Inl ErrOther
              else Inr (user\<lparr>u_id := uuid_src w (uuid_ix w), u_is_admin := True\<rparr>, True, True))
    \<and> t_users (db w') = t_users (db w) @ [user\<lparr>u_id := uuid_src w (uuid_ix w),
        u_is_admin := \<not> (\<exists>u \<in> set (t_users (db w)). u_is_admin u)\<rparr>]"
proof -
  define i where "i = uuid_src w (uuid_ix w)"
  define u where "u = new_user_row i (u_email user) (u_display_name user) provider subject"
  define w1 where "w1 = pass_time (w\<lparr>uuid_ix := Suc (uuid_ix w)\<rparr>)"
  define w2 where "w2 = w1\<lparr>db := (db w)\<lparr>t_users := t_users (db w) @ [u]\<rparr>\<rparr>"
  have fields: "u_auth_provider user = provider" "u_auth_identity user = subject"
    and user: "user\<lparr>u_id := i\<rparr> = u"
    using new by (auto simp: NewUser_def Let_def u_def new_user_row_def UserStatusActive_def
        split: if_splits)
  have w1: "db w1 = db w" "fates w1 = []" "lower_fn w1 = lower_fn w" "fates w2 = []"
    using calm by (simp_all add: w1_def w2_def)
  have none: "find (\<lambda>x. u_email x = u_email user) (t_users (db w)) = None"
    unfolding find_None_iff using email by (metis image_eqI)
  have up: "run_state (sql (upsertUserSQL i (u_email user) (u_display_name user) provider subject))
      (w\<lparr>uuid_ix := Suc (uuid_ix w)\<rparr>) = (Inr (u, True), w2)"
    using calm none idn fresh lower
    by (simp add: sql_calm exec_stmt_def w1_def [symmetric] w1 upsertUserSQL_def Let_def
        insert_stmt_def u_def [symmetric] w2_def)
      (simp add: u_def new_user_row_def user_checks_def fresh_key_def user_identity_def i_def w1)
  have ne: "u_id x \<noteq> i" if "x \<in> set (t_users (db w))" for x
    using that fresh by (metis i_def image_eqI)
  have others: "list_ex (\<lambda>x. u_id x \<noteq> i \<and> u_is_admin x) (t_users (db w) @ [u])
      \<longleftrightarrow> (\<exists>x \<in> set (t_users (db w)). u_is_admin x)"
    using ne by (auto simp: list_ex_iff u_def new_user_row_def)
  have put: "put_row (\<lambda>x. u_id x = i) (\<lambda>x. x\<lparr>u_is_admin := True\<rparr>) (t_users (db w) @ [u])
      = t_users (db w) @ [u\<lparr>u_is_admin := True\<rparr>]"
    using put_row_unaffected [OF ne, of "t_users (db w)"] ne
    by (auto simp: put_row_def u_def new_user_row_def intro: map_idI)
  have uid: "u_id u = i" and uadm: "u\<lparr>u_is_admin := False\<rparr> = u"
    by (simp_all add: u_def new_user_row_def)
  have grant: "run_state (sql (grantAdminIfNoneSQL i)) w2
      = (if \<exists>x \<in> set (t_users (db w)). u_is_admin x then (Inl NoRows, pass_time w2)
         else (Inr True, (pass_time w2)\<lparr>db := (db w)\<lparr>t_users :=
           t_users (db w) @ [u\<lparr>u_is_admin := True\<rparr>]\<rparr>\<rparr>))"
    using others put uid
    by (simp add: sql_calm w1 exec_stmt_def grantAdminIfNoneSQL_def w2_def)
  have res: "run_state (UpsertFromOIDC provider subject email name) w
      = (case run_state (sql (grantAdminIfNoneSQL i)) w2 of (g, w3) \<Rightarrow>
          (case g of Inl e \<Rightarrow> Inl ErrOther
           | Inr gr \<Rightarrow> Inr (u\<lparr>u_is_admin := gr\<rparr>, True, gr), w3))"
    by (simp add: UpsertFromOIDC_def new new_uuid_def i_def [symmetric] fields up uid
        split: prod.splits sum.splits)
  show ?thesis
    using run user uadm unfolding res grant i_def [symmetric]
    by (cases "\<exists>x \<in> set (t_users (db w)). u_is_admin x")
       (simp_all only: if_True if_False prod.case sum.case, auto simp: w2_def)
qed

theorem UpsertFromOIDC_first_login_witness:
  "fst (run_state (UpsertFromOIDC ''authentik'' ''2'' ''b@x.io'' ''Bob'') (sample_world sample_db ()))
    = Inl ErrOther"
proof -
  let ?b = "\<lparr>u_id = [], u_email = ''b@x.io'', u_display_name = ''Bob'', u_status = ''active'',
    u_is_admin = False, u_auth_provider = ''authentik'', u_auth_identity = ''2''\<rparr>"
  have t: "trim_space ''b@x.io'' = ''b@x.io''" "trim_space ''Bob'' = ''Bob''"
    "trim_space ''authentik'' = ''authentik''" "trim_space ''2'' = ''2''"
    by (rule trim_space_id, simp add: byte_def ascii_space_def)+
  have l: "to_lower ''b@x.io'' = ''b@x.io''"
    by (simp add: to_lower_def is_ascii_def byte_def ascii_lower_def ascii_range_def)
  have n: "NewUser ''b@x.io'' ''Bob'' ''authentik'' ''2'' = Inr ?b"
    by (simp add: NewUser_def t l looksLikeEmail_def contains_any_def has_prefix_def
        UserStatusActive_def chr_tab)
  obtain r w' where run: "run_state (UpsertFromOIDC ''authentik'' ''2'' ''b@x.io'' ''Bob'')
      (sample_world sample_db ()) = (r, w')" by fastforce
  from UpsertFromOIDC_first_login [OF n _ _ _ _ _ run]
  show ?thesis
    by (simp add: run l) (simp add: sample_db_def alice_def user_identity_def)
qed

end
