(* ===== verification/Go_Crypto.thy ===== *)
theory Go_Crypto
  imports Go_Encoding "HOL-Library.Word"
begin

text \<open>
  Go's \<open>crypto/sha256\<close> and \<open>crypto/hmac\<close>, written out from FIPS 180-4 and RFC 2104 on 32-bit words:
  the program hashes invitation tokens and stretches keys with SHA-256 and signs session cookies with
  HMAC-SHA256. Nothing is proved about collisions; the lemmas used elsewhere are only that a digest
  has 32 bytes.
\<close>

unbundle bit_operations_syntax

type_synonym w32 = "32 word"

text \<open>The round constants, eight words to a row.\<close>

definition sha_rows :: "int list" where
  "sha_rows =
   [0x428a2f9871374491b5c0fbcfe9b5dba53956c25b59f111f1923f82a4ab1c5ed5,
    0xd807aa9812835b01243185be550c7dc372be5d7480deb1fe9bdc06a7c19bf174,
    0xe49b69c1efbe47860fc19dc6240ca1cc2de92c6f4a7484aa5cb0a9dc76f988da,
    0x983e5152a831c66db00327c8bf597fc7c6e00bf3d5a7914706ca635114292967,
    0x27b70a852e1b21384d2c6dfc53380d13650a7354766a0abb81c2c92e92722c85,
    0xa2bfe8a1a81a664bc24b8b70c76c51a3d192e819d6990624f40e3585106aa070,
    0x19a4c1161e376c082748774c34b0bcb5391c0cb34ed8aa4a5b9cca4f682e6ff3,
    0x748f82ee78a5636f84c878148cc7020890befffaa4506cebbef9a3f7c67178f2]"

definition sha_k :: "w32 list" where
  "sha_k = concat (map (\<lambda>row. map (\<lambda>i. of_int (row div 2 ^ (32 * i))) [7, 6, 5, 4, 3, 2, 1, 0]) sha_rows)"

definition rotr :: "nat \<Rightarrow> w32 \<Rightarrow> w32" where
  "rotr n x = drop_bit n x OR push_bit (32 - n) x"

definition be_word :: "nat list \<Rightarrow> w32" where
  "be_word bs = fold (\<lambda>b acc. push_bit 8 acc OR of_nat b) bs 0"

definition be_bytes :: "nat \<Rightarrow> 'a::len word \<Rightarrow> nat list" where
  "be_bytes k x = map (\<lambda>i. unat (take_bit 8 (drop_bit (8 * (k - 1 - i)) x))) [0..<k]"

text \<open>Padding to a multiple of 64 bytes: a one bit, zeros, and the length in bits.\<close>

definition sha_pad :: "nat list \<Rightarrow> nat list" where
  "sha_pad bs = bs @ [128] @ replicate ((119 - length bs mod 64) mod 64) 0 @ be_bytes 8 (of_nat (8 * length bs) :: 64 word)"

text \<open>The message schedule, kept in reverse.\<close>

definition schedule_step :: "w32 list \<Rightarrow> w32 list" where
  "schedule_step ws =
    (let w2 = ws ! 1; w7 = ws ! 6; w15 = ws ! 14; w16 = ws ! 15;
         s0 = rotr 7 w15 XOR rotr 18 w15 XOR drop_bit 3 w15;
         s1 = rotr 17 w2 XOR rotr 19 w2 XOR drop_bit 10 w2
     in (w16 + s0 + w7 + s1) # ws)"

definition schedule :: "nat list \<Rightarrow> w32 list" where
  "schedule block =
    rev ((schedule_step ^^ 48) (rev (map (\<lambda>i. be_word (take 4 (drop (4 * i) block))) [0..<16])))"

type_synonym sha_state = "w32 \<times> w32 \<times> w32 \<times> w32 \<times> w32 \<times> w32 \<times> w32 \<times> w32"

definition sha_round :: "w32 \<times> w32 \<Rightarrow> sha_state \<Rightarrow> sha_state" where
  "sha_round kw st =
    (case (kw, st) of ((k, wi), (a, b, c, d, e, f, g, h)) \<Rightarrow>
      let s1 = rotr 6 e XOR rotr 11 e XOR rotr 25 e;
          ch = (e AND f) XOR (NOT e AND g);
          t1 = h + s1 + ch + k + wi;
          s0 = rotr 2 a XOR rotr 13 a XOR rotr 22 a;
          maj = (a AND b) XOR (a AND c) XOR (b AND c)
      in (t1 + s0 + maj, a, b, c, d + t1, e, f, g))"

definition sha_block :: "nat list \<Rightarrow> sha_state \<Rightarrow> sha_state" where
  "sha_block block st =
    (case (st, fold sha_round (zip sha_k (schedule block)) st) of
       ((a, b, c, d, e, f, g, h), (a', b', c', d', e', f', g', h')) \<Rightarrow>
         (a + a', b + b', c + c', d + d', e + e', f + f', g + g', h + h'))"

primrec sha_blocks :: "nat \<Rightarrow> nat list \<Rightarrow> sha_state \<Rightarrow> sha_state" where
  "sha_blocks 0 bs st = st"
| "sha_blocks (Suc n) bs st = sha_blocks n (drop 64 bs) (sha_block (take 64 bs) st)"

definition sha_init :: sha_state where
  "sha_init = (0x6a09e667, 0xbb67ae85, 0x3c6ef372, 0xa54ff53a, 0x510e527f, 0x9b05688c, 0x1f83d9ab, 0x5be0cd19)"

definition sha256 :: "string \<Rightarrow> string" where
  "sha256 s =
    (let bs = sha_pad (map byte s) in
     case sha_blocks (length bs div 64) bs sha_init of (a, b, c, d, e, f, g, h) \<Rightarrow>
       map chr_of (concat (map (be_bytes 4) [a, b, c, d, e, f, g, h])))"

text \<open>\<open>hmac.New(sha256.New, key)\<close>: longer keys are hashed, shorter ones padded with zeros.\<close>

definition hmac_sha256 :: "string \<Rightarrow> string \<Rightarrow> string" where
  "hmac_sha256 key msg =
    (let k0 = (if 64 < length key then sha256 key else key);
         k = map byte k0 @ replicate (64 - length k0) 0;
         pad = (\<lambda>m. map (\<lambda>b. chr_of (b XOR m)) k)
     in sha256 (pad 0x5c @ sha256 (pad 0x36 @ msg)))"

lemma length_be_bytes [simp]: "length (be_bytes k x) = k"
  by (simp add: be_bytes_def)

lemma length_sha256 [simp]: "length (sha256 s) = 32"
  by (simp add: sha256_def Let_def split: prod.split)

lemma sha_pad_blocks: "length (sha_pad bs) mod 64 = 0"
proof -
  have "length (sha_pad bs) = length bs + 9 + (119 - length bs mod 64) mod 64"
    by (simp add: sha_pad_def)
  moreover define q r where "q = length bs div 64" and "r = length bs mod 64"
  then have "length bs = 64 * q + r" "r < 64" by simp_all
  moreover have "(119 - r) mod 64 = (if r \<le> 55 then 55 - r else 119 - r)" using \<open>r < 64\<close>
    by (auto simp: mod_if)
  ultimately show ?thesis by auto
qed

end
