(* ===== verification/Http_Base.thy ===== *)
theory Http_Base
  imports Store_Contracts Go_Crypto
begin

text \<open>
  The frame of package \<open>internal/httpapi\<close>: requests, replies, the dependencies of the handlers and
  the helpers every handler uses. A handler is a program over the world that returns a reply:
  \<open>Fail status code message\<close> for \<open>writeError\<close>, \<open>Done status payload\<close> for \<open>writeJSON\<close>. A request holds the
  authenticated user that \<open>authn\<close> put in the context, the correlation id, the path value \<open>id\<close>
  and the outcome of decoding the JSON body. Log lines are not modelled.

  The external systems are the dependencies of the Go struct \<open>Deps\<close>: functions into programs on the
  external state, an option where the Go field may be nil. \<open>idna\<close> belongs to a library and is an argument too.
\<close>

datatype 'p reply = Fail nat string string | Done nat 'p

record 'b request =
  rq_user :: user
  rq_id :: string
  rq_path :: string
  rq_body :: "string + 'b"

record app_oidc =
  ao_provider_pk :: string
  ao_app_pk :: string
  ao_client_id :: string
  ao_client_secret :: string

text \<open>\<open>IdentityProvisioner\<close>: \<open>None\<close> is a returned error.\<close>

record 'x provisioner =
  ip_ensure_user :: "string \<Rightarrow> string \<Rightarrow> ('x, (string \<times> bool) option) prog"
  ip_set_active :: "string \<Rightarrow> bool \<Rightarrow> ('x, unit option) prog"
  ip_ensure_group :: "string \<Rightarrow> ('x, string option) prog"
  ip_app_oidc :: "string \<Rightarrow> string \<Rightarrow> string \<Rightarrow> ('x, app_oidc option) prog"
  ip_forward_auth :: "string \<Rightarrow> string \<Rightarrow> string \<Rightarrow> ('x, app_oidc option) prog"

text \<open>The dependencies of the identity, invitation and organization handlers.\<close>

record 'x deps =
  dp_provider_name :: string
  dp_issuer :: string
  dp_identity :: "'x provisioner option"
  dp_password_setter :: "(string \<Rightarrow> string \<Rightarrow> ('x, unit option) prog) option"
  dp_to_ascii :: "string \<Rightarrow> string + string"

section \<open>Helpers\<close>

abbreviation forbidden :: "string \<Rightarrow> 'p reply" where
  "forbidden msg \<equiv> Fail 403 ''forbidden'' msg"

abbreviation invalid_request :: "string \<Rightarrow> 'p reply" where
  "invalid_request msg \<equiv> Fail 400 ''invalid_request'' msg"

definition internalError :: "'p reply" where
  "internalError = Fail 500 ''internal_error'' ''internal server error''"

declare internalError_def [code_unfold]

definition audit :: "string \<Rightarrow> audit_event \<Rightarrow> ('x world, unit) prog" where
  "audit reqID e = do {
     i \<leftarrow> new_uuid;
     r \<leftarrow> CreateAuditEvent (e\<lparr>a_id := i, a_request_id := reqID\<rparr>);
     ret () }"

definition event :: "string option \<Rightarrow> string \<Rightarrow> string \<Rightarrow> string \<Rightarrow> (string \<times> detail) list \<Rightarrow> audit_event" where
  "event actor action ty obj details =
    \<lparr>a_id = [], a_actor = actor, a_action = action, a_resource_type = ty, a_resource_id = obj,
     a_details = details, a_request_id = []\<rparr>"

text \<open>\<open>requireOrgRole\<close>: \<open>None\<close> lets the handler go on, \<open>Some\<close> is the reply it has written.\<close>

definition requireOrgRole :: "'b request \<Rightarrow> string \<Rightarrow> org_role \<Rightarrow> ('x world, 'p reply option) prog" where
  "requireOrgRole rq orgID required =
    (if u_is_admin (rq_user rq) then ret None
     else do {
       r \<leftarrow> GetMembershipRole orgID (u_id (rq_user rq));
       ret (case r of
           Inl e \<Rightarrow> Some (if e = ErrNotFound then forbidden ''not a member of this organization''
                          else internalError)
         | Inr role \<Rightarrow> if \<not> CanManage role required then Some (forbidden ''insufficient role'') else None) })"

definition ignore :: "('s, 'a) prog \<Rightarrow> ('s, unit) prog" where
  "ignore m = do { r \<leftarrow> m; ret () }"

text \<open>\<open>auth.RandomToken\<close>.\<close>

definition RandomToken :: "nat \<Rightarrow> ('x world, string option) prog" where
  "RandomToken n = do { b \<leftarrow> rand_bytes n; ret (map_option raw_url_encode b) }"

text \<open>Record an external object, as every handler that provisions one does.\<close>

definition external_row_for :: "'x deps \<Rightarrow> string \<Rightarrow> string \<Rightarrow> string \<Rightarrow> external_resource" where
  "external_row_for d ty obj ext_id = \<lparr>x_id = [], x_type = ty, x_object = obj,
     x_provider = dp_provider_name d, x_external = ext_id, x_status = ExtActive\<rparr>"

lemma keeps_ignore [keeps]: "keeps I m \<Longrightarrow> keeps I (ignore m)"
  by (simp add: ignore_def keeps)

context table_invariant begin

lemma RandomToken_keeps [keeps]: "keeps (on_db I) (RandomToken n)"
  unfolding RandomToken_def by (intro keeps)

lemma audit_keeps [keeps]: "keeps (on_db I) (audit reqID e)"
  unfolding audit_def by (intro keeps)

lemma requireOrgRole_keeps [keeps]: "keeps (on_db I) (requireOrgRole rq orgID required)"
  unfolding requireOrgRole_def by (intro keeps)

end

section \<open>What the role check lets through\<close>

lemma membershipRole_Inr:
  assumes "run_state (GetMembershipRole org user) w = (Inr role, w')"
  shows "\<exists>m \<in> set (t_members (db w)). m_org m = org \<and> m_user m = user \<and> m_role m = role"
    and "db w' = db w"
proof -
  from assms obtain r0 where r: "run_state (sql (membershipRoleSQL org user)) w = (r0, w')"
    and "Inr role = (case r0 of Inl e \<Rightarrow> Inl (mapNotFound e) | Inr x \<Rightarrow> Inr x)"
    unfolding GetMembershipRole_def by (rule run_run_sql)
  then have "r0 = Inr role" by (auto split: sum.splits)
  with r obtain pg where "membershipRoleSQL org user pg (db w) = Inr (role, db w')"
    using sql_Inr by metis
  then show "\<exists>m \<in> set (t_members (db w)). m_org m = org \<and> m_user m = user \<and> m_role m = role"
    and "db w' = db w"
    by (auto simp: membershipRoleSQL_def one_row_Inr map_eq_Cons_conv filter_eq_Cons_iff)
qed

lemma reads_sql_query: "db (snd (run_state (sql (query q)) w)) = db w"
proof -
  obtain r w' where "run_state (sql (query q)) w = (r, w')" by fastforce
  then show ?thesis by (auto elim!: sql_result)
qed

lemma reads_run_query: "db (snd (run_state (run_sql h (query q)) w)) = db w"
  using reads_sql_query [of q w] by (auto simp: run_sql_def split: prod.splits)

lemma GetMembershipRole_db: "db (snd (run_state (GetMembershipRole org user) w)) = db w"
  by (simp only: GetMembershipRole_def membershipRoleSQL_def reads_run_query)

text \<open>The caller may act on an organization with a required role: as a platform administrator, or as
  a member whose role ranks at least as high.\<close>

definition may_manage :: "db \<Rightarrow> user \<Rightarrow> string \<Rightarrow> org_role \<Rightarrow> bool" where
  "may_manage d u org required \<longleftrightarrow> u_is_admin u
     \<or> (\<exists>m \<in> set (t_members d). m_org m = org \<and> m_user m = u_id u \<and> CanManage (m_role m) required)"

lemma requireOrgRole_pass:
  assumes "run_state (requireOrgRole rq org required) w = (None, w')"
  shows "may_manage (db w) (rq_user rq) org required"
proof (cases "u_is_admin (rq_user rq)")
  case True
  then show ?thesis by (simp add: may_manage_def)
next
  case False
  with assms obtain role where "run_state (GetMembershipRole org (u_id (rq_user rq))) w = (Inr role, w')"
    and "CanManage role required"
    by (auto simp: requireOrgRole_def split: prod.splits sum.splits if_splits)
  with membershipRole_Inr(1) [OF this(1)] show ?thesis by (auto simp: may_manage_def)
qed

lemma requireOrgRole_db: "db (snd (run_state (requireOrgRole rq org required) w)) = db w"
  using GetMembershipRole_db [of org "u_id (rq_user rq)" w]
  by (auto simp: requireOrgRole_def split: prod.splits)

lemma requireOrgRole_run_db: "run_state (requireOrgRole rq org required) w = (g, w') \<Longrightarrow> db w' = db w"
  using requireOrgRole_db by (metis snd_conv)

lemma requireOrgRole_Fail:
  "fst (run_state (requireOrgRole rq org required) w) = Some rep \<Longrightarrow> \<exists>c k m. rep = Fail c k m \<and> (c = 403 \<or> c = 500)"
  by (auto simp: requireOrgRole_def internalError_def split: if_splits prod.splits sum.splits)

end
