(* ===== verification/Http_Identity.thy ===== *)
theory Http_Identity
  imports Http_Base
begin

text \<open>
  The handlers of \<open>internal/httpapi/identity_handlers.go\<close>: organizations, memberships, groups and
  users. Each is the whole Go handler: its checks in their order, every store call and every call
  of the identity provider, best-effort steps whose errors are only logged included.
\<close>

section \<open>Organizations and memberships\<close>

definition createOrganization :: "'x deps \<Rightarrow> string request \<Rightarrow> ('x world, organization reply) prog" where
  "createOrganization d rq =
    (if \<not> u_is_admin (rq_user rq) then ret (forbidden ''platform admin required'')
     else (case rq_body rq of
         Inl e \<Rightarrow> ret (invalid_request e)
       | Inr name \<Rightarrow>
          (case NewOrganization name of
             Inl e \<Rightarrow> ret (invalid_request e)
           | Inr org \<Rightarrow> do {
               r \<leftarrow> CreateOrganization org;
               (case r of
                  Inl e \<Rightarrow> ret (if e = ErrConflict
                    then Fail 409 ''conflict'' ''organization name or slug already exists''
                    else internalError)
                | Inr created \<Rightarrow> do {
                    audit (rq_id rq) (event (Some (u_id (rq_user rq))) ''organization.created''
                      ''organization'' (o_id created) []);
                    ret (Done 201 created) }) })))"

definition listOrganizations :: "'b request \<Rightarrow> ('x world, organization list reply) prog" where
  "listOrganizations rq =
    (if \<not> u_is_admin (rq_user rq) then ret (forbidden ''platform admin required'')
     else do {
       r \<leftarrow> ListOrganizations 100;
       ret (case r of Inl e \<Rightarrow> internalError | Inr orgs \<Rightarrow> Done 200 orgs) })"

record add_member_req =
  am_user_id :: string
  am_role :: org_role

definition addOrganizationMember :: "add_member_req request \<Rightarrow> ('x world, membership reply) prog" where
  "addOrganizationMember rq =
    (let actor = rq_user rq; orgID = rq_path rq in
     case rq_body rq of
       Inl e \<Rightarrow> ret (invalid_request e)
     | Inr req \<Rightarrow> do {
         g \<leftarrow> requireOrgRole rq orgID RoleAdmin;
         (case g of
            Some rep \<Rightarrow> ret rep
          | None \<Rightarrow> do {
              ar \<leftarrow> GetMembershipRole orgID (u_id actor);
              (case ar of
                 Inl e \<Rightarrow> ret internalError
               | Inr actorRole \<Rightarrow>
                  if am_role req = RoleOwner \<and> \<not> CanManage actorRole RoleOwner
                  then ret (forbidden ''only an owner can grant owner'')
                  else if am_role req = RoleAdmin \<and> \<not> CanManage actorRole RoleAdmin
                  then ret (forbidden ''only owner/admin can grant admin'')
                  else do {
                    r \<leftarrow> SetMembership orgID (am_user_id req) (am_role req);
                    (case r of
                       Inl e \<Rightarrow> ret internalError
                     | Inr m \<Rightarrow> do {
                         audit (rq_id rq) (event (Some (u_id actor)) ''organization.member_added''
                           ''organization'' orgID
                           [(''user_id'', DStr (am_user_id req)), (''role'', DStr (am_role req))]);
                         ret (Done 200 m) }) }) }) })"

definition listOrganizationMembers :: "'b request \<Rightarrow> ('x world, member list reply) prog" where
  "listOrganizationMembers rq = do {
     g \<leftarrow> requireOrgRole rq (rq_path rq) RoleMember;
     (case g of
        Some rep \<Rightarrow> ret rep
      | None \<Rightarrow> do {
          r \<leftarrow> ListMemberships (rq_path rq);
          ret (case r of Inl e \<Rightarrow> internalError | Inr ms \<Rightarrow> Done 200 ms) }) }"

definition deleteOrganization :: "'b request \<Rightarrow> ('x world, unit reply) prog" where
  "deleteOrganization rq =
    (if \<not> u_is_admin (rq_user rq) then ret (forbidden ''platform admin required'')
     else do {
       r \<leftarrow> DeleteOrganization (rq_path rq);
       (case r of
          Inl e \<Rightarrow> ret (if e = ErrNotFound then Fail 404 ''not_found'' ''organization not found''
                        else internalError)
        | Inr u \<Rightarrow> do {
            audit (rq_id rq) (event (Some (u_id (rq_user rq))) ''organization.deleted''
              ''organization'' (rq_path rq) []);
            ret (Done 200 ()) }) })"

section \<open>Groups\<close>

record create_group_req =
  cg_name :: string
  cg_description :: string

text \<open>The mirror group is provisioned after the row exists; a failure leaves only the row.\<close>

definition mirror_group :: "'x deps \<Rightarrow> group \<Rightarrow> ('x world, unit) prog" where
  "mirror_group d created =
    (case dp_identity d of
       None \<Rightarrow> ret ()
     | Some ip \<Rightarrow> do {
         pk \<leftarrow> external (ip_ensure_group ip (g_slug created));
         (case pk of
            None \<Rightarrow> ret ()
          | Some pk \<Rightarrow> ignore (UpsertExternalResource
              (external_row_for d ResTypeAuthentikGroup (g_id created) pk))) })"

definition createGroup :: "'x deps \<Rightarrow> create_group_req request \<Rightarrow> ('x world, group reply) prog" where
  "createGroup d rq = do {
     g \<leftarrow> requireOrgRole rq (rq_path rq) RoleAdmin;
     (case g of
        Some rep \<Rightarrow> ret rep
      | None \<Rightarrow>
         (case rq_body rq of
            Inl e \<Rightarrow> ret (invalid_request e)
          | Inr req \<Rightarrow>
             (case NewGroup (rq_path rq) (cg_name req) (cg_description req) of
                Inl e \<Rightarrow> ret (invalid_request e)
              | Inr grp \<Rightarrow> do {
                  r \<leftarrow> CreateGroup grp;
                  (case r of
                     Inl e \<Rightarrow> ret (if e = ErrConflict
                       then Fail 409 ''conflict'' ''group slug already exists in this organization''
                       else internalError)
                   | Inr created \<Rightarrow> do {
                       mirror_group d created;
                       audit (rq_id rq) (event (Some (u_id (rq_user rq))) ''group.created''
                         ''group'' (g_id created) []);
                       ret (Done 201 created) }) }))) }"

definition listGroups :: "'b request \<Rightarrow> ('x world, group list reply) prog" where
  "listGroups rq = do {
     g \<leftarrow> requireOrgRole rq (rq_path rq) RoleMember;
     (case g of
        Some rep \<Rightarrow> ret rep
      | None \<Rightarrow> do {
          r \<leftarrow> ListGroupsByOrg (rq_path rq);
          ret (case r of Inl e \<Rightarrow> internalError | Inr gs \<Rightarrow> Done 200 gs) }) }"

definition addGroupMember :: "string request \<Rightarrow> ('x world, unit reply) prog" where
  "addGroupMember rq =
    (case rq_body rq of
       Inl e \<Rightarrow> ret (invalid_request e)
     | Inr userID \<Rightarrow> do {
         gr \<leftarrow> GetGroupByID (rq_path rq);
         (case gr of
            Inl e \<Rightarrow> ret (Fail 404 ''not_found'' ''group not found'')
          | Inr grp \<Rightarrow> do {
              g \<leftarrow> requireOrgRole rq (g_org grp) RoleAdmin;
              (case g of
                 Some rep \<Rightarrow> ret rep
               | None \<Rightarrow> do {
                   r \<leftarrow> AddGroupMember (g_id grp) userID;
                   ret (case r of Inl e \<Rightarrow> internalError | Inr u \<Rightarrow> Done 200 ()) }) }) })"

definition listGroupMembers :: "'b request \<Rightarrow> ('x world, group_member list reply) prog" where
  "listGroupMembers rq = do {
     gr \<leftarrow> GetGroupByID (rq_path rq);
     (case gr of
        Inl e \<Rightarrow> ret (Fail 404 ''not_found'' ''group not found'')
      | Inr grp \<Rightarrow> do {
          g \<leftarrow> requireOrgRole rq (g_org grp) RoleMember;
          (case g of
             Some rep \<Rightarrow> ret rep
           | None \<Rightarrow> do {
               r \<leftarrow> ListGroupMembers (g_id grp);
               ret (case r of Inl e \<Rightarrow> internalError | Inr ms \<Rightarrow> Done 200 ms) }) }) }"

section \<open>Users\<close>

record create_user_req =
  cu_email :: string
  cu_display_name :: string
  cu_org :: string
  cu_groups :: "string list"
  cu_role :: org_role

definition createUser :: "'x deps \<Rightarrow> create_user_req request \<Rightarrow> ('x world, user reply) prog" where
  "createUser d rq =
    (if \<not> u_is_admin (rq_user rq) then ret (forbidden ''platform admin required'')
     else (case rq_body rq of
         Inl e \<Rightarrow> ret (invalid_request e)
       | Inr req \<Rightarrow>
          if cu_email req = [] then ret (invalid_request ''email is required'')
          else (case dp_identity d of
              None \<Rightarrow> ret (Fail 500 ''internal_error'' ''identity provisioning unavailable'')
            | Some ip \<Rightarrow> do {
                p \<leftarrow> external (ip_ensure_user ip (cu_email req) (cu_display_name req));
                (case p of
                   None \<Rightarrow> ret (Fail 422 ''provisioning_failed'' ''could not provision identity'')
                 | Some (pk, created) \<Rightarrow> do {
                     r \<leftarrow> CreateUser (cu_email req) (cu_display_name req) (dp_provider_name d) pk;
                     (case r of
                        Inl e \<Rightarrow> ret (if e = ErrConflict then Fail 409 ''conflict'' ''user already exists''
                                      else internalError)
                      | Inr user \<Rightarrow> do {
                          ignore (UpsertExternalResource
                            (external_row_for d ResTypeAuthentikUser (u_id user) pk));
                          (if cu_org req \<noteq> [] then do {
                             ignore (SetMembership (cu_org req) (u_id user)
                               (if cu_role req = [] \<or> \<not> role_valid (cu_role req) then RoleMember
                                else cu_role req));
                             for_each (\<lambda>gid. ignore (AddGroupMember gid (u_id user))) (cu_groups req) }
                           else ret ());
                          audit (rq_id rq) (event (Some (u_id (rq_user rq))) ''user.created'' ''user''
                            (u_id user) [(''email'', DStr (u_email user)), (''authentik_id'', DStr pk)]);
                          ret (Done 201 user) }) }) })))"

text \<open>The identity at the provider is switched first, when it is known; a failure is only logged.\<close>

definition switch_external :: "'x deps \<Rightarrow> string \<Rightarrow> bool \<Rightarrow> ('x world, unit) prog" where
  "switch_external d uid active = do {
     r \<leftarrow> GetExternalResource ResTypeAuthentikUser uid;
     (case (dp_identity d, r) of
        (Some ip, Inr res) \<Rightarrow> ignore (external (ip_set_active ip (x_external res) active))
      | _ \<Rightarrow> ret ()) }"

definition disableUser :: "'x deps \<Rightarrow> 'b request \<Rightarrow> ('x world, status reply) prog" where
  "disableUser d rq =
    (if \<not> u_is_admin (rq_user rq) then ret (forbidden ''platform admin required'')
     else do {
       switch_external d (rq_path rq) False;
       r \<leftarrow> SetUserStatus (rq_path rq) UserStatusDisabled;
       (case r of
          Inl e \<Rightarrow> ret (if e = ErrNotFound then Fail 404 ''not_found'' ''user not found''
                        else internalError)
        | Inr u \<Rightarrow> do {
            ignore (RemoveAllMemberships (rq_path rq));
            ignore (RemoveAllGroupMemberships (rq_path rq));
            audit (rq_id rq) (event (Some (u_id (rq_user rq))) ''user.disabled'' ''user'' (rq_path rq) []);
            ret (Done 200 ''disabled'') }) })"

definition enableUser :: "'x deps \<Rightarrow> 'b request \<Rightarrow> ('x world, status reply) prog" where
  "enableUser d rq =
    (if \<not> u_is_admin (rq_user rq) then ret (forbidden ''platform admin required'')
     else do {
       switch_external d (rq_path rq) True;
       r \<leftarrow> SetUserStatus (rq_path rq) UserStatusActive;
       (case r of
          Inl e \<Rightarrow> ret (if e = ErrNotFound then Fail 404 ''not_found'' ''user not found''
                        else internalError)
        | Inr u \<Rightarrow> do {
            audit (rq_id rq) (event (Some (u_id (rq_user rq))) ''user.enabled'' ''user'' (rq_path rq) []);
            ret (Done 200 ''active'') }) })"

text \<open>The guards against demoting oneself and the last administrator; a failed count is taken as
  zero.\<close>

definition demotion_guard :: "user \<Rightarrow> string \<Rightarrow> bool \<Rightarrow> ('x world, 'p reply option) prog" where
  "demotion_guard adm i to_admin =
    (if to_admin then ret None
     else if i = u_id adm then ret (Some (invalid_request ''cannot demote yourself''))
     else do {
       n \<leftarrow> AdminCount;
       ret (if (case n of Inl e \<Rightarrow> 0 | Inr n \<Rightarrow> n) \<le> 1
            then Some (Fail 409 ''last_admin'' ''cannot demote the last platform admin'')
            else None) })"

definition apply_admin :: "bool request \<Rightarrow> bool \<Rightarrow> ('x world, bool reply) prog" where
  "apply_admin rq to_admin = do {
     r \<leftarrow> SetUserAdmin (rq_path rq) to_admin;
     (case r of
        Inl e \<Rightarrow> ret (if e = ErrNotFound then Fail 404 ''not_found'' ''user not found''
                      else internalError)
      | Inr u \<Rightarrow> do {
          audit (rq_id rq) (event (Some (u_id (rq_user rq))) ''user.admin_updated'' ''user'' (rq_path rq)
            [(''is_admin'', DBool to_admin)]);
          ret (Done 200 to_admin) }) }"

definition setUserAdmin :: "bool request \<Rightarrow> ('x world, bool reply) prog" where
  "setUserAdmin rq =
    (let adm = rq_user rq; i = rq_path rq in
     if \<not> u_is_admin adm then ret (forbidden ''platform admin required'')
     else (case rq_body rq of
         Inl e \<Rightarrow> ret (invalid_request e)
       | Inr to_admin \<Rightarrow> do {
           guard \<leftarrow> demotion_guard adm i to_admin;
           (case guard of Some rep \<Rightarrow> ret rep | None \<Rightarrow> apply_admin rq to_admin) }))"

definition listUsers :: "'b request \<Rightarrow> ('x world, user list reply) prog" where
  "listUsers rq =
    (if \<not> u_is_admin (rq_user rq) then ret (forbidden ''platform admin required'')
     else do {
       r \<leftarrow> ListUsers 100;
       ret (case r of Inl e \<Rightarrow> internalError | Inr us \<Rightarrow> Done 200 us) })"

section \<open>Every handler keeps what the statements keep\<close>

context table_invariant begin

lemma mirror_group_keeps [keeps]: "keeps (on_db I) (mirror_group d g)"
  unfolding mirror_group_def by (intro keeps)

lemma switch_external_keeps [keeps]: "keeps (on_db I) (switch_external d u b)"
  unfolding switch_external_def by (intro keeps)

lemma identity_handlers_keep [keeps]:
  "keeps (on_db I) (createOrganization d rq1)"
  "keeps (on_db I) (listOrganizations rq2)"
  "keeps (on_db I) (addOrganizationMember rq3)"
  "keeps (on_db I) (listOrganizationMembers rq4)"
  "keeps (on_db I) (deleteOrganization rq5)"
  "keeps (on_db I) (createGroup d rq6)"
  "keeps (on_db I) (listGroups rq7)"
  "keeps (on_db I) (addGroupMember rq8)"
  "keeps (on_db I) (listGroupMembers rq9)"
  "keeps (on_db I) (createUser d rq10)"
  "keeps (on_db I) (disableUser d rq11)"
  "keeps (on_db I) (enableUser d rq12)"
  "keeps (on_db I) (setUserAdmin rq13)"
  "keeps (on_db I) (listUsers rq14)"
  unfolding createOrganization_def listOrganizations_def addOrganizationMember_def
    listOrganizationMembers_def deleteOrganization_def createGroup_def listGroups_def
    addGroupMember_def listGroupMembers_def createUser_def disableUser_def enableUser_def
    setUserAdmin_def apply_admin_def demotion_guard_def listUsers_def Let_def
  by (intro keeps)+

end

end
