(* ===== verification/Http_Identity_Lemmas.thy ===== *)
theory Http_Identity_Lemmas
  imports Http_Identity
begin

text \<open>
  What the identity handlers guarantee: who may do what, that nobody grants a role above their
  own, that revoking an administrator leaves one, and what disabling a user does and leaves.
\<close>

section \<open>Runs with a working database\<close>

definition pg_of :: "'x world \<Rightarrow> pg" where
  "pg_of w = \<lparr>pg_now = clock w, pg_collate = collate w, pg_lower = lower_fn w\<rparr>"

lemma calm_sql:
  "fates w = [] \<Longrightarrow> run_state (sql st) w
    = (case st (pg_of (pass_time w)) (db w) of Inl e \<Rightarrow> (Inl e, pass_time w)
       | Inr (x, d) \<Rightarrow> (Inr x, (pass_time w)\<lparr>db := d\<rparr>))"
  by (simp add: sql_calm exec_stmt_def pg_of_def)

lemma run_external:
  "run_state (external m) w = (fst (run_state m (ext w)), w\<lparr>ext := snd (run_state m (ext w))\<rparr>)"
  by (simp add: external_def split: prod.splits)

lemma run_ignore: "run_state (ignore m) w = ((), snd (run_state m w))"
  by (simp add: ignore_def split: prod.splits)

section \<open>Authorization\<close>

text \<open>A refused request: an error reply, and the tables are as before.\<close>

definition denied :: "('x world, 'p reply) prog \<Rightarrow> 'x world \<Rightarrow> bool" where
  "denied m w \<longleftrightarrow> (case run_state m w of (rep, w') \<Rightarrow>
     (\<exists>c k msg. rep = Fail c k msg) \<and> db w' = db w)"

lemma denied_ret [simp]: "denied (ret (Fail c k m)) w"
  by (simp add: denied_def)

lemma denied_guard:
  fixes m :: "('x world, 'p reply) prog"
  assumes "\<not> may_manage (db w) (rq_user rq) org required"
  shows "denied (State_Monad.bind (requireOrgRole rq org required)
    (\<lambda>g. case g of None \<Rightarrow> m | Some rep \<Rightarrow> ret rep)) w"
proof (cases "run_state (requireOrgRole rq org required :: ('x world, 'p reply option) prog) w")
  case (Pair g w1)
  then obtain rep where g: "g = Some rep" using assms by (cases g) (auto dest: requireOrgRole_pass)
  with Pair have "fst (run_state (requireOrgRole rq org required) w) = Some rep" by simp
  from requireOrgRole_Fail [OF this] obtain c k msg where "rep = Fail c k msg" by auto
  moreover have "db w1 = db w"
    by (rule requireOrgRole_run_db [OF Pair])
  ultimately show ?thesis using Pair g by (simp add: denied_def)
qed

lemma GetGroupByID_Inr:
  assumes "run_state (GetGroupByID i) w = (Inr g, w')"
  shows "g \<in> set (t_groups (db w))" and "g_id g = i" and "db w' = db w"
proof -
  from assms obtain r0 where r: "run_state (sql (groupByIDSQL i)) w = (r0, w')"
    and "Inr g = (case r0 of Inl e \<Rightarrow> Inl (mapNotFound e) | Inr x \<Rightarrow> Inr x)"
    unfolding GetGroupByID_def by (rule run_run_sql)
  then have "r0 = Inr g" by (auto split: sum.splits)
  with r obtain pg where "groupByIDSQL i pg (db w) = Inr (g, db w')" using sql_Inr by metis
  then show "g \<in> set (t_groups (db w))" and "g_id g = i" and "db w' = db w"
    by (auto simp: groupByIDSQL_def dest: one_row_filter)
qed

lemma GetGroupByID_db: "db (snd (run_state (GetGroupByID i) w)) = db w"
  by (simp only: GetGroupByID_def groupByIDSQL_def reads_run_query)

text \<open>A caller who is neither a platform administrator nor a member of the organization with a
  sufficient role cannot add members or groups to it, add users to its groups, or list its members
  and groups: the request is answered with an error and the tables are as before, whatever the
  database answers.\<close>

theorem organization_access:
  assumes "\<not> may_manage (db w) u org RoleAdmin"
  shows "(\<forall>rq. rq_user rq = u \<and> rq_path rq = org \<longrightarrow> denied (addOrganizationMember rq) w)
    \<and> (\<forall>d rq. rq_user rq = u \<and> rq_path rq = org \<longrightarrow> denied (createGroup d rq) w)
    \<and> (\<forall>rq. rq_user rq = u \<and> (\<forall>g \<in> set (t_groups (db w)). g_id g = rq_path rq \<longrightarrow> g_org g = org)
         \<longrightarrow> denied (addGroupMember rq) w)
    \<and> (\<not> may_manage (db w) u org RoleMember \<longrightarrow>
         (\<forall>rq. rq_user rq = u \<and> rq_path rq = org \<longrightarrow>
            denied (listOrganizationMembers (rq :: 'b request)) w \<and> denied (listGroups rq) w))"
proof (intro conjI allI impI; (elim conjE)?)
  fix rq :: "add_member_req request"
  assume "rq_user rq = u" "rq_path rq = org"
  with assms denied_guard [of w rq org RoleAdmin] show "denied (addOrganizationMember rq) w"
    by (cases "rq_body rq") (simp_all add: addOrganizationMember_def Let_def)
next
  fix d and rq :: "create_group_req request"
  assume "rq_user rq = u" "rq_path rq = org"
  with assms denied_guard [of w rq org RoleAdmin] show "denied (createGroup d rq) w"
    by (simp add: createGroup_def)
next
  fix rq :: "string request"
  assume u: "rq_user rq = u" and g: "\<forall>g \<in> set (t_groups (db w)). g_id g = rq_path rq \<longrightarrow> g_org g = org"
  show "denied (addGroupMember rq) w"
  proof (cases "rq_body rq")
    case (Inr userID)
    obtain r w1 where run: "run_state (GetGroupByID (rq_path rq)) w = (r, w1)" by fastforce
    show ?thesis
    proof (cases r)
      case (Inl e)
      with run Inr GetGroupByID_db [of "rq_path rq" w] show ?thesis
        by (simp add: addGroupMember_def denied_def)
    next
      case (Inr grp)
      from GetGroupByID_Inr [OF run [unfolded Inr]] g have "g_org grp = org" "db w1 = db w" by auto
      with assms u denied_guard [of w1 rq org RoleAdmin] run Inr \<open>rq_body rq = Inr userID\<close>
      show ?thesis by (simp add: addGroupMember_def denied_def)
    qed
  qed (simp add: addGroupMember_def)
next
  fix rq :: "'b request"
  assume "\<not> may_manage (db w) u org RoleMember" "rq_user rq = u" "rq_path rq = org"
  with denied_guard [of w rq org RoleMember]
  show "denied (listOrganizationMembers rq) w" "denied (listGroups rq) w"
    by (simp_all add: listOrganizationMembers_def listGroups_def)
qed

definition mallory :: user where
  "mallory = alice\<lparr>u_id := ''mallory'', u_email := ''m@x.io'', u_is_admin := False,
     u_auth_identity := ''9''\<rparr>"

theorem organization_access_witness:
  "\<forall>d. denied (createGroup d \<lparr>rq_user = mallory, rq_id = [], rq_path = ''acme'',
     rq_body = Inr \<lparr>cg_name = ''ops'', cg_description = []\<rparr>\<rparr>) (sample_world sample_db ())"
proof
  fix d :: "unit deps"
  have no: "\<not> may_manage (db (sample_world sample_db ())) mallory ''acme'' RoleAdmin"
    by (simp add: may_manage_def mallory_def alice_def sample_db_def)
  show "denied (createGroup d \<lparr>rq_user = mallory, rq_id = [], rq_path = ''acme'',
     rq_body = Inr \<lparr>cg_name = ''ops'', cg_description = []\<rparr>\<rparr>) (sample_world sample_db ())"
    by (rule organization_access [OF no, THEN conjunct2, THEN conjunct1, rule_format]) simp
qed

text \<open>Without platform administration no request creates, deletes or lists organizations, creates,
  disables, enables, promotes, demotes or lists users: the answer is 403 and nothing at all
  happens, neither in the database nor at the identity provider.\<close>

theorem platform_admin_only:
  assumes "\<not> u_is_admin u"
  shows "(\<forall>d rq w. rq_user rq = u \<longrightarrow>
            run_state (createOrganization d rq) w = (forbidden ''platform admin required'', w))
    \<and> (\<forall>d rq w. rq_user rq = u \<longrightarrow>
            run_state (createUser d rq) w = (forbidden ''platform admin required'', w))
    \<and> (\<forall>rq w. rq_user rq = u \<longrightarrow>
            run_state (setUserAdmin rq) w = (forbidden ''platform admin required'', w))
    \<and> (\<forall>d (rq :: 'b request) w. rq_user rq = u \<longrightarrow>
            run_state (disableUser d rq) w = (forbidden ''platform admin required'', w)
          \<and> run_state (enableUser d rq) w = (forbidden ''platform admin required'', w)
          \<and> run_state (deleteOrganization rq) w = (forbidden ''platform admin required'', w)
          \<and> run_state (listOrganizations rq) w = (forbidden ''platform admin required'', w)
          \<and> run_state (listUsers rq) w = (forbidden ''platform admin required'', w))"
  using assms
  by (simp add: createOrganization_def createUser_def setUserAdmin_def disableUser_def
      enableUser_def deleteOrganization_def listOrganizations_def listUsers_def Let_def)

theorem platform_admin_only_witness:
  "run_state (setUserAdmin \<lparr>rq_user = mallory, rq_id = [], rq_path = ''mallory'', rq_body = Inr True\<rparr>)
     (sample_world sample_db ()) = (forbidden ''platform admin required'', sample_world sample_db ())"
proof -
  have no: "\<not> u_is_admin mallory" by (simp add: mallory_def)
  show ?thesis
    by (rule platform_admin_only [OF no, THEN conjunct2, THEN conjunct2, THEN conjunct1, rule_format])
       simp
qed

section \<open>No escalation of roles\<close>

lemma CreateAuditEvent_frame:
  assumes "run_state (CreateAuditEvent e) w = (r, w')"
  shows "\<exists>a. db w' = (db w)\<lparr>t_audits := a\<rparr>"
proof (cases "audit_valid e")
  case True
  with assms obtain r0 where "run_state (sql (insertAuditEventSQL e)) w = (r0, w')"
    by (auto simp: CreateAuditEvent_def exec_sql_def split: prod.splits)
  then show ?thesis
    by (rule sql_result) (auto simp: insertAuditEventSQL_def insert_stmt_Inr
        intro: exI [of _ "t_audits (db w)"])
next
  case False
  with assms show ?thesis by (auto simp: CreateAuditEvent_def intro!: exI [of _ "t_audits (db w)"])
qed

lemma audit_frame: "run_state (audit i e) w = (u, w') \<Longrightarrow> \<exists>a. db w' = (db w)\<lparr>t_audits := a\<rparr>"
  unfolding audit_def by (elim run_elims) (auto simp: new_uuid_def dest!: CreateAuditEvent_frame)

lemma role_of_audits: "role_of (d\<lparr>t_audits := a\<rparr>) = role_of d"
  by (simp add: role_of_def fun_eq_iff)

lemma requireOrgRole_goes_on:
  assumes "run_state (requireOrgRole rq org required) w = (g, w1)"
    and "run_state (case g of None \<Rightarrow> m | Some rep \<Rightarrow> ret rep) w1 = (Done c x, w')"
  shows "may_manage (db w) (rq_user rq) org required \<and> db w1 = db w
    \<and> run_state m w1 = (Done c x, w')"
proof (cases g)
  case (Some rep)
  with assms(1) have "fst (run_state (requireOrgRole rq org required) w) = Some rep" by simp
  from requireOrgRole_Fail [OF this] assms(2) Some show ?thesis by auto
next
  case None
  with assms requireOrgRole_pass requireOrgRole_run_db [OF assms(1)] show ?thesis by auto
qed

lemma addOrganizationMember_Done:
  fixes w :: "'x world"
  assumes run: "run_state (addOrganizationMember rq) w = (Done c m, w')"
  shows "\<exists>req ar (w2 :: 'x world) (w3 :: 'x world). rq_body rq = Inr req \<and> db w2 = db w
    \<and> may_manage (db w) (rq_user rq) (rq_path rq) RoleAdmin
    \<and> (\<exists>x \<in> set (t_members (db w)). m_org x = rq_path rq \<and> m_user x = u_id (rq_user rq) \<and> m_role x = ar)
    \<and> (am_role req = RoleOwner \<longrightarrow> CanManage ar RoleOwner)
    \<and> (am_role req = RoleAdmin \<longrightarrow> CanManage ar RoleAdmin)
    \<and> run_state (SetMembership (rq_path rq) (am_user_id req) (am_role req)) w2 = (Inr m, w3)
    \<and> role_of (db w') = role_of (db w3)"
  using run unfolding addOrganizationMember_def Let_def
proof (elim run_sumE run_bindE)
  fix req g w1
  assume body: "rq_body rq = Inr req"
    and g: "run_state (requireOrgRole rq (rq_path rq) RoleAdmin) w = (g, w1)"
    and rest: "run_state (case g of None \<Rightarrow> do {
              ar \<leftarrow> GetMembershipRole (rq_path rq) (u_id (rq_user rq));
              (case ar of
                 Inl e \<Rightarrow> ret internalError
               | Inr actorRole \<Rightarrow>
                  if am_role req = RoleOwner \<and> \<not> CanManage actorRole RoleOwner
                  then ret (forbidden ''only an owner can grant owner'')
                  else if am_role req = RoleAdmin \<and> \<not> CanManage actorRole RoleAdmin
                  then ret (forbidden ''only owner/admin can grant admin'')
                  else do {
                    r \<leftarrow> SetMembership (rq_path rq) (am_user_id req) (am_role req);
                    (case r of
                       Inl e \<Rightarrow> ret internalError
                     | Inr m \<Rightarrow> do {
                         audit (rq_id rq) (event (Some (u_id (rq_user rq))) ''organization.member_added''
                           ''organization'' (rq_path rq)
                           [(''user_id'', DStr (am_user_id req)), (''role'', DStr (am_role req))]);
                         ret (Done 200 m) }) }) }
        | Some rep \<Rightarrow> ret rep) w1 = (Done c m, w')"
  from requireOrgRole_goes_on [OF g rest] have pass: "may_manage (db w) (rq_user rq) (rq_path rq) RoleAdmin"
    and d1: "db w1 = db w" by auto
  from requireOrgRole_goes_on [OF g rest, THEN conjunct2, THEN conjunct2] show ?thesis
  proof (elim run_elims)
    fix a w2 ar r w3 y u w4
    assume "run_state (GetMembershipRole (rq_path rq) (u_id (rq_user rq))) w1 = (a, w2)" "a = Inr ar"
      and conds: "\<not> (am_role req = RoleOwner \<and> \<not> CanManage ar RoleOwner)"
        "\<not> (am_role req = RoleAdmin \<and> \<not> CanManage ar RoleAdmin)"
      and set: "run_state (SetMembership (rq_path rq) (am_user_id req) (am_role req)) w2 = (r, w3)"
        "r = Inr y"
      and au: "run_state (audit (rq_id rq) (event (Some (u_id (rq_user rq))) ''organization.member_added''
                           ''organization'' (rq_path rq)
                           [(''user_id'', DStr (am_user_id req)), (''role'', DStr (am_role req))])) w3 = (u, w4)"
      and fin: "Done c m = Done 200 y" "w' = w4"
    then have ar: "run_state (GetMembershipRole (rq_path rq) (u_id (rq_user rq))) w1 = (Inr ar, w2)" by simp
    have "role_of (db w') = role_of (db w3)"
      using audit_frame [OF au] fin by (auto simp: role_of_audits)
    with body pass conds membershipRole_Inr [OF ar] d1 set fin show ?thesis
      by (intro exI [of _ req] exI [of _ ar] exI [of _ w2] exI [of _ w3] conjI) auto
  qed (auto simp: internalError_def)
qed (auto elim!: run_retE)

text \<open>C10: nobody grants a role above their own: when adding a member succeeds, the caller is a member of
  the organization whose role ranks at least as high as the granted one (an owner for owner, an
  owner or administrator for administrator) and may manage the organization; the granted role is
  then the member's role, whatever it was before, and no other user's role in any organization
  changes.\<close>

theorem addOrganizationMember_no_escalation:
  fixes w :: "'x world"
  assumes ok: "db_ok (db w)"
    and run: "run_state (addOrganizationMember rq) w = (Done c m, w')"
  shows "may_manage (db w) (rq_user rq) (rq_path rq) RoleAdmin
    \<and> (\<exists>x \<in> set (t_members (db w)). m_org x = rq_path rq \<and> m_user x = u_id (rq_user rq)
         \<and> Rank (m_role m) \<le> Rank (m_role x))
    \<and> (\<exists>req. rq_body rq = Inr req \<and> role_of (db w')
         = (\<lambda>a b. if (a, b) = (rq_path rq, am_user_id req) then Some (m_role m) else role_of (db w) a b))"
proof -
  from addOrganizationMember_Done [OF run] obtain req ar x and w2 w3 :: "'x world"
    where f: "rq_body rq = Inr req" "db w2 = db w"
    "may_manage (db w) (rq_user rq) (rq_path rq) RoleAdmin"
    "am_role req = RoleOwner \<longrightarrow> CanManage ar RoleOwner"
    "am_role req = RoleAdmin \<longrightarrow> CanManage ar RoleAdmin"
    "role_of (db w') = role_of (db w3)"
    and x: "x \<in> set (t_members (db w))" "m_org x = rq_path rq" "m_user x = u_id (rq_user rq)" "m_role x = ar"
    and set: "run_state (SetMembership (rq_path rq) (am_user_id req) (am_role req)) w2 = (Inr m, w3)"
    by blast
  from SetMembership_Inr [OF set] have m: "m_role m = (if am_role req = [] then RoleMember else am_role req)"
    "role_valid (m_role m)" and role: "role_of (db w3)
      = (\<lambda>a b. if (a, b) = (rq_path rq, am_user_id req) then Some (m_role m) else role_of (db w2) a b)"
    by auto
  have "role_checks ar" using ok x by (auto simp: db_ok_def members_wf_def list_all_iff)
  then have "Rank (m_role m) \<le> Rank ar"
    using m f(4,5) by (auto simp: role_valid_def role_checks_def Rank_def CanManage_def RoleOwner_def
        RoleAdmin_def RoleMember_def split: if_splits)
  with f x role show ?thesis
    by (intro conjI bexI [of _ x] exI [of _ req]) (simp_all add: fun_eq_iff)
qed

end
