(* ===== verification/Http_Users_Lemmas.thy ===== *)
theory Http_Users_Lemmas
  imports Http_Identity_Lemmas
begin

text \<open>
  Administrators and disabled users: revoking an administrator leaves an active one; disabling a
  user ends every membership and leaves the user's mailboxes and credentials as they are.
\<close>

section \<open>A run that keeps the database working\<close>

definition at_db :: "db \<Rightarrow> 'x world \<Rightarrow> bool" where
  "at_db D w \<longleftrightarrow> fates w = [] \<and> db w = D"

lemma at_db_external [keeps]: "keeps (at_db D) (external m)"
  by (auto simp: keeps_def at_db_def run_external)

lemma at_db_query [keeps]: "keeps (at_db D) (sql (query q))"
  by (auto simp: keeps_def at_db_def calm_sql query_def split: sum.splits prod.splits)

lemma at_db_run_query [keeps]: "keeps (at_db D) (run_sql h (query q))"
  unfolding run_sql_def by (intro keeps)

lemma switch_external_at [keeps]: "keeps (at_db D) (switch_external d u b)"
  unfolding switch_external_def GetExternalResource_def externalByObjectSQL_def by (intro keeps)

lemma run_audit: "run_state (audit i e) w = ((), snd (run_state (audit i e) w))"
  by (cases "run_state (audit i e) w") simp

section \<open>Revoking administrators\<close>

lemma two_rows_another:
  assumes "uniq k rs" and "1 < count_rows p rs"
  shows "\<exists>r \<in> set rs. p r \<and> k r \<noteq> x"
proof -
  obtain a b rest where ab: "filter p rs = a # b # rest"
    using assms(2) by (auto simp: count_rows_def length_Suc_conv less_iff_Suc_add)
  moreover have "distinct (map k (filter p rs))" using assms(1) by (simp add: uniq_def distinct_map_filter')
  ultimately have "k a \<noteq> k b" by auto
  moreover have "a \<in> set rs \<and> p a" "b \<in> set rs \<and> p b"
    using arg_cong [OF ab, of set] by auto
  ultimately show ?thesis by (cases "k a = x") auto
qed

lemma AdminCount_Inr:
  assumes "run_state AdminCount w = (Inr n, w')"
  shows "n = count_rows (\<lambda>u. u_is_admin u \<and> u_status u = ''active'') (t_users (db w)) \<and> db w' = db w"
proof -
  from assms have "run_state (sql adminCountSQL) w = (Inr n, w')"
    by (auto simp: AdminCount_def run_sql_def split: prod.splits sum.splits)
  then obtain pg where "adminCountSQL pg (db w) = Inr (n, db w')" by (rule sql_Inr)
  then show ?thesis by (auto simp: adminCountSQL_def)
qed

lemma SetUserAdmin_Inr:
  assumes "run_state (SetUserAdmin i b) w = (Inr u, w')"
  shows "t_users (db w') = put_row (\<lambda>u. u_id u = i) (\<lambda>u. u\<lparr>u_is_admin := b\<rparr>) (t_users (db w))"
proof -
  from assms obtain n where "run_state (sql (setUserAdminSQL b i)) w = (Inr n, w')"
    by (auto simp: SetUserAdmin_def exec_sql_def split: prod.splits sum.splits)
  then obtain pg where "setUserAdminSQL b i pg (db w) = Inr (n, db w')" by (rule sql_Inr)
  then show ?thesis by (auto simp: setUserAdminSQL_def update_stmt_Inr)
qed

lemma demotion_guard_Some:
  "run_state (demotion_guard adm i b) w = (Some rep, w') \<Longrightarrow> \<exists>c k m. rep = Fail c k m"
  by (auto simp: demotion_guard_def split: if_splits prod.splits)

lemma demotion_guard_None:
  assumes "run_state (demotion_guard adm i False) w = (None, w')"
  shows "i \<noteq> u_id adm \<and> db w' = db w
    \<and> 1 < count_rows (\<lambda>u. u_is_admin u \<and> u_status u = ''active'') (t_users (db w))"
proof -
  from assms obtain n where "i \<noteq> u_id adm" "run_state AdminCount w = (Inr n, w')" "1 < n"
    by (auto simp: demotion_guard_def split: if_splits prod.splits sum.splits)
  with AdminCount_Inr [OF this(2)] show ?thesis by simp
qed

text \<open>C13: a successful revocation of administrator rights is never of the caller, and leaves at least
  one active platform administrator.\<close>

theorem setUserAdmin_leaves_admin:
  assumes ok: "db_ok (db w)" and body: "rq_body rq = Inr False"
    and run: "run_state (setUserAdmin rq) w = (Done c b, w')"
  shows "rq_path rq \<noteq> u_id (rq_user rq)
    \<and> (\<exists>u \<in> set (t_users (db w')). u_is_admin u \<and> u_status u = ''active'')"
proof -
  have "u_is_admin (rq_user rq)" using run by (cases "u_is_admin (rq_user rq)") (auto simp: setUserAdmin_def)
  with run body have "run_state (do {
      g \<leftarrow> demotion_guard (rq_user rq) (rq_path rq) False;
      (case g of Some rep \<Rightarrow> ret rep | None \<Rightarrow> apply_admin rq False) }) w = (Done c b, w')"
    by (simp add: setUserAdmin_def)
  then obtain g w1 where g: "run_state (demotion_guard (rq_user rq) (rq_path rq) False) w = (g, w1)"
    and rest: "run_state (case g of Some rep \<Rightarrow> ret rep | None \<Rightarrow> apply_admin rq False) w1 = (Done c b, w')"
    by (rule run_bindE)
  have "g = None" using demotion_guard_Some g rest by (cases g) fastforce+
  with g have guard: "rq_path rq \<noteq> u_id (rq_user rq)" "db w1 = db w"
    "1 < count_rows (\<lambda>u. u_is_admin u \<and> u_status u = ''active'') (t_users (db w))"
    using demotion_guard_None by blast+
  obtain v where v: "v \<in> set (t_users (db w))" "u_is_admin v" "u_status v = ''active''"
    "u_id v \<noteq> rq_path rq"
    using two_rows_another [of u_id, OF _ guard(3), of "rq_path rq"] ok
    by (auto simp: db_ok_def users_wf_def)
  have "v \<in> set (t_users (db w'))"
    using rest unfolding \<open>g = None\<close> option.case apply_admin_def
  proof (elim run_elims)
    fix r w2 x y u w3
    assume "run_state (SetUserAdmin (rq_path rq) False) w1 = (r, w2)" "r = Inr x"
      and "run_state (audit (rq_id rq) (event (Some (u_id (rq_user rq))) ''user.admin_updated'' ''user''
                       (rq_path rq) [(''is_admin'', DBool False)])) w2 = (u, w3)" "w' = w3"
    then have "t_users (db w') = put_row (\<lambda>u. u_id u = rq_path rq) (\<lambda>u. u\<lparr>u_is_admin := False\<rparr>)
        (t_users (db w1))"
      using SetUserAdmin_Inr by (auto dest!: audit_frame)
    with v guard(2) show ?thesis by (force simp: set_put_row)
  qed (auto simp: internalError_def split: if_splits)
  with v guard(1) show ?thesis by blast
qed

section \<open>Disabling a user\<close>

text \<open>C14: with a working database, disabling an existing user marks it disabled and removes it from
  every organization and group; its mailboxes, their credentials, its sessions and its
  administrator flag are left as they are, and so is every other user.\<close>

theorem disableUser_effect:
  assumes adm: "u_is_admin (rq_user rq)" and calm: "fates w = []"
    and user: "rq_path rq \<in> user_ids (db w)"
    and run: "run_state (disableUser d rq) w = (rep, w')"
  shows "rep = Done 200 ''disabled''
    \<and> t_users (db w') = put_row (\<lambda>u. u_id u = rq_path rq) (\<lambda>u. u\<lparr>u_status := UserStatusDisabled\<rparr>) (t_users (db w))
    \<and> t_members (db w') = filter (\<lambda>m. m_user m \<noteq> rq_path rq) (t_members (db w))
    \<and> t_gmembers (db w') = filter (\<lambda>m. gm_user m \<noteq> rq_path rq) (t_gmembers (db w))
    \<and> t_identities (db w') = t_identities (db w) \<and> t_creds (db w') = t_creds (db w)"
proof -
  define D where "D = db w"
  obtain w1 where sw: "run_state (switch_external d (rq_path rq) False) w = ((), w1)"
    by (metis old.unit.exhaust surj_pair)
  have w1: "fates w1 = []" "db w1 = D"
    using keeps_run [OF switch_external_at sw, of D] calm by (auto simp: at_db_def D_def)
  have some: "count_rows (\<lambda>u. u_id u = rq_path rq) (t_users D) \<noteq> 0"
    using user by (auto simp: D_def image_iff simp del: neq0_conv)
  have ok: "user_status_valid UserStatusDisabled"
    "UserStatusDisabled = ''active'' \<or> UserStatusDisabled = ''disabled''"
    by (simp_all add: user_status_valid_def UserStatusDisabled_def)
  from run show ?thesis
    by (subst (asm) disableUser_def)
       (auto simp: adm sw ok SetUserStatus_def exec_some_def calm_sql w1 setUserStatusSQL_def
          update_stmt_def some run_ignore RemoveAllMemberships_def
          RemoveAllGroupMemberships_def exec_sql_def removeAllMembershipsSQL_def
          removeAllGroupMembershipsSQL_def D_def [symmetric] simp del: count_rows_0
        split: prod.splits dest!: audit_frame)
qed

section \<open>Concrete runs\<close>

definition by_alice :: "string \<Rightarrow> 'b \<Rightarrow> 'b request" where
  "by_alice path body = \<lparr>rq_user = alice, rq_id = [], rq_path = path, rq_body = Inr body\<rparr>"

lemma sample_member_run:
  "\<exists>w'. run_state (addOrganizationMember (by_alice ''acme'' \<lparr>am_user_id = ''alice'', am_role = ''admin''\<rparr>))
      (sample_world sample_db ())
    = (Done 200 \<lparr>m_id = ''uuid-'', m_org = ''acme'', m_user = ''alice'', m_role = ''admin''\<rparr>, w')"
proof -
  have "run_state (SetMembership ''acme'' ''alice'' ''admin'') (sample_world sample_db ())
      = (Inr \<lparr>m_id = ''uuid-'', m_org = ''acme'', m_user = ''alice'', m_role = ''admin''\<rparr>,
         snd (run_state (SetMembership ''acme'' ''alice'' ''admin'') (sample_world sample_db ())))"
    by (simp add: SetMembership_def Let_def new_uuid_def role_valid_def RoleAdmin_def calm_sql
        upsertMembershipSQL_def role_checks_def member_key_def sample_db_def)
  moreover have "run_state (GetMembershipRole ''acme'' ''alice'') (sample_world sample_db ())
      = (Inr ''owner'', sample_world sample_db ())"
    by (simp add: GetMembershipRole_def run_sql_def calm_sql membershipRoleSQL_def query_def
        sample_db_def one_row_def pass_time_still)
  moreover have "CanManage ''owner'' RoleAdmin" "''admin'' \<noteq> RoleOwner"
    by (simp_all add: CanManage_def role_valid_def Rank_def RoleOwner_def RoleAdmin_def)
  ultimately show ?thesis
    by (auto simp: addOrganizationMember_def by_alice_def requireOrgRole_def alice_def Let_def
        split: prod.splits)
qed

theorem addOrganizationMember_no_escalation_witness:
  "\<exists>w'. fst (run_state (addOrganizationMember
        (by_alice ''acme'' \<lparr>am_user_id = ''alice'', am_role = ''admin''\<rparr>)) (sample_world sample_db ()))
      = Done 200 \<lparr>m_id = ''uuid-'', m_org = ''acme'', m_user = ''alice'', m_role = ''admin''\<rparr>
    \<and> role_of (db (w' :: unit world)) ''acme'' ''alice'' = Some ''admin''"
proof -
  obtain w' where run: "run_state (addOrganizationMember
      (by_alice ''acme'' \<lparr>am_user_id = ''alice'', am_role = ''admin''\<rparr>)) (sample_world sample_db ())
    = (Done 200 \<lparr>m_id = ''uuid-'', m_org = ''acme'', m_user = ''alice'', m_role = ''admin''\<rparr>, w')"
    using sample_member_run by blast
  have ok: "db_ok (db (sample_world sample_db ()))" by (simp add: sample_db_ok)
  from addOrganizationMember_no_escalation [OF ok run]
  have "role_of (db w') ''acme'' ''alice'' = Some ''admin''" by (auto simp: by_alice_def)
  with run show ?thesis by (auto intro: exI [of _ w'])
qed

definition two_admins :: db where
  "two_admins = sample_db\<lparr>t_users := [alice, mallory\<lparr>u_is_admin := True\<rparr>]\<rparr>"

theorem setUserAdmin_leaves_admin_witness:
  "\<exists>w'. run_state (setUserAdmin (by_alice ''mallory'' False)) (sample_world two_admins ())
      = (Done 200 False, w')
    \<and> (\<exists>u \<in> set (t_users (db w')). u_is_admin u \<and> u_status u = ''active'')"
proof -
  let ?w = "sample_world two_admins ()"
  let ?r = "by_alice ''mallory'' False"
  have ok: "db_ok (db ?w)"
    by (simp add: db_ok_def wf_defs two_admins_def sample_db_def fresh_db_def alice_def acme_def
        mallory_def sample_invite_def uniq_def refs_def orefs_def role_checks_def provider_checks_def
        user_identity_def)
  have "run_state AdminCount ?w = (Inr 2, ?w)"
    by (simp add: AdminCount_def run_sql_def calm_sql adminCountSQL_def query_def pass_time_still
        count_rows_def two_admins_def alice_def mallory_def)
  moreover obtain w1 where "run_state (SetUserAdmin ''mallory'' False) ?w = (Inr (), w1)"
    by (simp add: SetUserAdmin_def exec_sql_def calm_sql setUserAdminSQL_def update_stmt_def)
  ultimately obtain w' where run: "run_state (setUserAdmin ?r) ?w = (Done 200 False, w')"
    by (auto simp: setUserAdmin_def by_alice_def demotion_guard_def apply_admin_def alice_def Let_def
        split_beta)
  from setUserAdmin_leaves_admin [OF ok _ run] run show ?thesis by (simp add: by_alice_def)
qed

theorem disableUser_effect_witness:
  "\<forall>d :: unit deps. t_members (db (snd (run_state (disableUser d (by_alice ''alice'' ()))
     (sample_world sample_db ())))) = []"
proof
  fix d :: "unit deps"
  obtain rep w' where run: "run_state (disableUser d (by_alice ''alice'' ())) (sample_world sample_db ())
      = (rep, w')" by fastforce
  from disableUser_effect [OF _ _ _ run]
  show "t_members (db (snd (run_state (disableUser d (by_alice ''alice'' ()))
     (sample_world sample_db ())))) = []"
    by (simp add: run) (simp add: by_alice_def alice_def sample_db_def)
qed

end
