(* ===== verification/Http_Invites.thy ===== *)
theory Http_Invites
  imports Http_Users_Lemmas
begin

text \<open>
  The handlers of \<open>internal/httpapi/invite_handlers.go\<close>: an administrator of an organization issues a
  single-use token for a (possibly new) user; whoever presents the token sets the user's password at
  the identity provider and claims the membership. The clock counts microseconds.
\<close>

definition inviteTTL :: int where
  "inviteTTL = 7 * 24 * 3600 * 1000000"

definition minInvitePasswordLen :: nat where
  "minInvitePasswordLen = 8"

record create_invite_req =
  ci_email :: string
  ci_display_name :: string
  ci_role :: org_role

record invite_resp =
  ir_id :: string
  ir_role :: org_role
  ir_expires :: int
  ir_token :: string

record accept_invite_req =
  ac_token :: string
  ac_password :: string

definition hashInviteToken :: "string \<Rightarrow> string" where
  "hashInviteToken token = hex_encode (sha256 token)"

text \<open>The user with an address, created on demand; provisioning at the identity provider and the record
  of its id are best effort. The boolean tells whether the user is new.\<close>

definition ensurePlatformUser :: "'x deps \<Rightarrow> string \<Rightarrow> string \<Rightarrow> ('x, user \<times> bool) op" where
  "ensurePlatformUser d email displayName = do {
     r \<leftarrow> GetUserByEmail email;
     (case r of
        Inr user \<Rightarrow> ret (Inr (user, False))
      | Inl e \<Rightarrow>
         if e \<noteq> ErrNotFound then ret (Inl e)
         else do {
           pk \<leftarrow> (case dp_identity d of
                    None \<Rightarrow> ret []
                  | Some ip \<Rightarrow> do {
                      p \<leftarrow> external (ip_ensure_user ip email displayName);
                      ret (case p of None \<Rightarrow> [] | Some (pk, created) \<Rightarrow> pk) });
           c \<leftarrow> CreateUser email displayName (dp_provider_name d) pk;
           (case c of
              Inl e \<Rightarrow> ret (Inl e)
            | Inr user \<Rightarrow> do {
                (if pk \<noteq> [] then ignore (UpsertExternalResource
                   (external_row_for d ResTypeAuthentikUser (u_id user) pk)) else ret ());
                ret (Inr (user, True)) }) }) }"

text \<open>Only an owner, or a platform administrator, invites with the owner role.\<close>

definition may_invite_as :: "'b request \<Rightarrow> org_role \<Rightarrow> ('x world, bool) prog" where
  "may_invite_as rq role =
    (if role = RoleOwner \<and> \<not> u_is_admin (rq_user rq) then do {
       r \<leftarrow> GetMembershipRole (rq_path rq) (u_id (rq_user rq));
       ret (case r of Inl e \<Rightarrow> False | Inr actorRole \<Rightarrow> CanManage actorRole RoleOwner) }
     else ret True)"

text \<open>The part of \<open>createInvite\<close> after the user is known.\<close>

definition issue_invite :: "'x deps \<Rightarrow> 'b request \<Rightarrow> org_role \<Rightarrow> user \<Rightarrow> ('x world, (user \<times> invite_resp) reply) prog" where
  "issue_invite d rq role user =
    (let orgID = rq_path rq; invitedBy = u_id (rq_user rq) in do {
       m \<leftarrow> GetMembershipRole orgID (u_id user);
       (case m of
          Inr r \<Rightarrow> ret (Fail 409 ''conflict'' ''user is already a member of this organization'')
        | Inl e \<Rightarrow> do {
            x \<leftarrow> ExpirePendingInvites orgID (u_id user);
            (case x of
               Inl e \<Rightarrow> ret internalError
             | Inr u \<Rightarrow> do {
                 t \<leftarrow> RandomToken 32;
                 (case t of
                    None \<Rightarrow> ret internalError
                  | Some token \<Rightarrow> do {
                      i \<leftarrow> new_uuid;
                      now \<leftarrow> time_now;
                      c \<leftarrow> CreateInvite \<lparr>iv_id = i, iv_org = orgID, iv_user = u_id user,
                             iv_hash = hashInviteToken token, iv_role = role, iv_by = invitedBy,
                             iv_expires = now + inviteTTL, iv_accepted = None\<rparr>;
                      (case c of
                         Inl e \<Rightarrow> ret internalError
                       | Inr iv \<Rightarrow> do {
                           audit (rq_id rq) (event (Some invitedBy) ''user.invited'' ''organization'' orgID
                             [(''email'', DStr (u_email user)), (''user_id'', DStr (u_id user)),
                              (''role'', DStr role), (''invite_id'', DStr (iv_id iv))]);
                           ret (Done 200 (user, \<lparr>ir_id = iv_id iv, ir_role = role,
                             ir_expires = iv_expires iv, ir_token = token\<rparr>)) }) }) }) }) })"

definition createInvite :: "'x deps \<Rightarrow> create_invite_req request \<Rightarrow> ('x world, (user \<times> invite_resp) reply) prog" where
  "createInvite d rq = do {
     g \<leftarrow> requireOrgRole rq (rq_path rq) RoleAdmin;
     (case g of
        Some rep \<Rightarrow> ret rep
      | None \<Rightarrow>
         (case rq_body rq of
            Inl e \<Rightarrow> ret (invalid_request e)
          | Inr req \<Rightarrow>
             let email = to_lower (trim_space (ci_email req));
                 role = (if ci_role req = [] then RoleMember else ci_role req) in
             if email = [] then ret (invalid_request ''email is required'')
             else if \<not> role_valid role then ret (invalid_request ''invalid role'')
             else do {
               may \<leftarrow> may_invite_as rq role;
               (if \<not> may then ret (forbidden ''only an owner can invite with the owner role'')
                else do {
                  u \<leftarrow> ensurePlatformUser d email (ci_display_name req);
                  (case u of
                     Inl e \<Rightarrow> ret internalError
                   | Inr (user, created) \<Rightarrow> issue_invite d rq role user) }) })) }"

text \<open>The redemption of an invitation whose token has been found live.\<close>

definition redeem_invite :: "'x deps \<Rightarrow> string \<Rightarrow> string \<Rightarrow> invite \<Rightarrow> ('x world, (string \<times> org_role) reply) prog" where
  "redeem_invite d reqID password iv = do {
     x \<leftarrow> GetExternalResource ResTypeAuthentikUser (iv_user iv);
     (case x of
        Inl e \<Rightarrow> ret (Fail 503 ''password_unavailable''
          ''no external identity is linked to this user yet; ask an admin to re-invite later'')
      | Inr res \<Rightarrow>
         if x_external res = [] then ret (Fail 503 ''password_unavailable''
           ''no external identity is linked to this user yet; ask an admin to re-invite later'')
         else (case dp_password_setter d of
             None \<Rightarrow> ret (Fail 503 ''password_unavailable'' ''password setup is not configured'')
           | Some set_password \<Rightarrow> do {
               p \<leftarrow> external (set_password (x_external res) password);
               (case p of
                  None \<Rightarrow> ret (Fail 502 ''password_set_failed''
                    ''could not set the password upstream; the invite was not consumed, try again'')
                | Some done \<Rightarrow> do {
                    c \<leftarrow> ConsumeInvite (iv_id iv);
                    (case c of
                       Inl e \<Rightarrow> ret (if e = ErrConflict
                         then Fail 409 ''invite_used'' ''invite was already redeemed'' else internalError)
                     | Inr consumed \<Rightarrow> do {
                         m \<leftarrow> SetMembership (iv_org consumed) (iv_user consumed) (iv_role consumed);
                         (case m of
                            Inl e \<Rightarrow> ret internalError
                          | Inr membership \<Rightarrow> do {
                              audit reqID (event None ''user.activated'' ''user'' (iv_user consumed)
                                [(''organization_id'', DStr (iv_org consumed)),
                                 (''organization'', DStr (m_org membership)),
                                 (''role'', DStr (iv_role consumed)),
                                 (''invite_id'', DStr (iv_id consumed))]);
                              ret (Done 200 (iv_org consumed, iv_role consumed)) }) }) }) })) }"

definition acceptInvite :: "'x deps \<Rightarrow> accept_invite_req request \<Rightarrow> ('x world, (string \<times> org_role) reply) prog" where
  "acceptInvite d rq =
    (case rq_body rq of
       Inl e \<Rightarrow> ret (invalid_request e)
     | Inr req \<Rightarrow>
        let tok = trim_space (ac_token req);
            invalid = Fail 400 ''invalid_invite'' ''invite is invalid, expired or already used'' in
        if tok = [] \<or> length (ac_password req) < minInvitePasswordLen
        then ret (invalid_request
          ''a valid invite token and a password of at least 8 characters are required'')
        else do {
          r \<leftarrow> GetInviteByTokenHash (hashInviteToken tok);
          (case r of
             Inl e \<Rightarrow> ret (if e = ErrNotFound then invalid else internalError)
           | Inr iv \<Rightarrow>
              if iv_accepted iv \<noteq> None then ret invalid
              else do {
                now \<leftarrow> time_now;
                (if iv_expires iv < now then ret invalid
                 else redeem_invite d (rq_id rq) (ac_password req) iv) }) })"

section \<open>The handlers keep what the statements keep\<close>

context table_invariant begin

lemma ensurePlatformUser_keeps [keeps]: "keeps (on_db I) (ensurePlatformUser d email name)"
  unfolding ensurePlatformUser_def by (intro keeps)

lemma may_invite_as_keeps [keeps]: "keeps (on_db I) (may_invite_as rq role)"
  unfolding may_invite_as_def by (intro keeps)

lemma issue_invite_keeps [keeps]: "keeps (on_db I) (issue_invite d rq role user)"
  unfolding issue_invite_def Let_def by (intro keeps)

lemma redeem_invite_keeps [keeps]: "keeps (on_db I) (redeem_invite d i pw iv)"
  unfolding redeem_invite_def by (intro keeps)

lemma invite_handlers_keep [keeps]:
  "keeps (on_db I) (createInvite d rq)" "keeps (on_db I) (acceptInvite d rq')"
  unfolding createInvite_def acceptInvite_def Let_def by (intro keeps)+

end

end
