(* ===== verification/Http_Frames.thy ===== *)
theory Http_Frames
  imports Http_Users_Lemmas
begin

text \<open>
  Frames of the handler proofs. \<open>reading\<close>: a program that only queries leaves the tables as they are while
  time passes. \<open>quiet\<close>: when the database works and the clock stands still, they stay so. Both are invariants
  in the sense of \<open>keeps\<close>, so that the rules of the collection derive them along a handler.
\<close>

section \<open>Programs that only read\<close>

text \<open>The tables are \<open>D\<close> and the clock has reached \<open>T\<close>.\<close>

definition reading :: "int \<Rightarrow> db \<Rightarrow> 'x world \<Rightarrow> bool" where
  "reading T D w \<longleftrightarrow> T \<le> clock w \<and> db w = D"

lemma reading_start: "reading (clock w) (db w) w"
  by (simp add: reading_def)

lemma reading_pass: "reading T D w \<Longrightarrow> reading T D (pass_time w)"
  using clock_mono [of w] by (simp add: reading_def)

lemma reading_query [keeps]: "keeps (reading T D) (sql (query q))"
proof (rule keepsI)
  fix w :: "'x world"
  assume "reading T D w"
  from reading_pass [OF this] show "reading T D (snd (run_state (sql (query q)) w))"
    by (auto simp: sql_def Let_def exec_stmt_def query_def reading_def
        split: list.splits fate.splits sum.splits)
qed

lemma reading_world [keeps]:
  "keeps (reading T D) (external m)" "keeps (reading T D) new_uuid" "keeps (reading T D) time_now"
  "keeps (reading T D) (rand_bytes n)"
  by (auto simp: keeps_def run_external new_uuid_def time_now_def rand_bytes_def Let_def
      intro: reading_pass)
     (simp_all add: reading_def)

lemma reading_run_query [keeps]: "keeps (reading T D) (run_sql h (query q))"
  unfolding run_sql_def by (intro keeps)

lemma reading_methods [keeps]:
  "keeps (reading T D) (GetMembershipRole org u)" "keeps (reading T D) (GetExternalResource ty obj)"
  "keeps (reading T D) (GetInviteByTokenHash h)" "keeps (reading T D) (GetUserByEmail e)"
  unfolding GetMembershipRole_def membershipRoleSQL_def GetExternalResource_def externalByObjectSQL_def
    GetInviteByTokenHash_def getInviteByTokenHashSQL_def GetUserByEmail_def userByEmailSQL_def
  by (intro keeps)+

lemma requireOrgRole_reading [keeps]: "keeps (reading T D) (requireOrgRole rq org role)"
  unfolding requireOrgRole_def by (intro keeps)

lemma run_reading:
  assumes "keeps (reading (clock w) (db w)) m" and "run_state m w = (r, w')"
  shows "db w' = db w" and "clock w \<le> clock w'"
  using keeps_run [OF assms reading_start] by (simp_all add: reading_def)

text \<open>What an answered query says of the tables, and what one update may do to them.\<close>

lemma run_query_Inr:
  assumes "run_state (run_sql h (query q)) w = (Inr x, w')"
  shows "\<exists>pg. q pg (db w) = Inr x" and "db w' = db w"
proof -
  from assms have "run_state (sql (query q)) w = (Inr x, w')"
    by (auto simp: run_sql_def split: prod.splits sum.splits)
  then obtain pg where "query q pg (db w) = Inr (x, db w')" by (rule sql_Inr)
  then show "\<exists>pg. q pg (db w) = Inr x" and "db w' = db w" by auto
qed

lemma run_query_db: "run_state (run_sql h (query q)) w = (r, w') \<Longrightarrow> db w' = db w"
  using reads_run_query [of h q w] by simp

lemma exec_sql_step:
  assumes "run_state (exec_sql h st) w = (r, w')"
  shows "db w' = db w \<or> (\<exists>pg n. st pg (db w) = Inr (n, db w'))"
proof -
  from assms obtain r0 where "run_state (sql st) w = (r0, w')"
    by (auto simp: exec_sql_def split: prod.splits)
  then show ?thesis by (rule sql_result) auto
qed

lemma exec_some_step:
  assumes "run_state (exec_some st) w = (r, w')"
  shows "db w' = db w \<or> (\<exists>pg n. st pg (db w) = Inr (n, db w'))"
proof -
  from assms obtain r0 where "run_state (sql st) w = (r0, w')"
    by (auto simp: exec_some_def split: prod.splits)
  then show ?thesis by (rule sql_result) auto
qed

lemma run_sql_Inr:
  assumes "run_state (run_sql h st) w = (Inr x, w')"
  shows "\<exists>pg. st pg (db w) = Inr (x, db w')"
proof -
  from assms have "run_state (sql st) w = (Inr x, w')"
    by (auto simp: run_sql_def split: prod.splits sum.splits)
  then obtain pg where "st pg (db w) = Inr (x, db w')" by (rule sql_Inr)
  then show ?thesis by blast
qed

lemma run_on_db: "keeps (on_db I) m \<Longrightarrow> run_state m w = (r, w') \<Longrightarrow> I (db w) \<Longrightarrow> I (db w')"
  by (drule keeps_run) (simp_all add: on_db_def)

lemma exec_sql_Inr:
  assumes "run_state (exec_sql h st) w = (Inr x, w')"
  shows "\<exists>pg n. st pg (db w) = Inr (n, db w')"
proof -
  from assms obtain n where "run_state (sql st) w = (Inr n, w')"
    by (auto simp: exec_sql_def split: prod.splits sum.splits)
  then obtain pg where "st pg (db w) = Inr (n, db w')" by (rule sql_Inr)
  then show ?thesis by blast
qed

lemma run_ignoreE [run_elims]:
  "run_state (ignore m) w = (r, w') \<Longrightarrow> (\<And>x. run_state m w = (x, w') \<Longrightarrow> P) \<Longrightarrow> P"
  by (auto simp: ignore_def split: prod.splits)

lemma external_db: "run_state (external m) w = (r, w') \<Longrightarrow> db w' = db w"
  by (auto simp: run_external)

section \<open>The external systems\<close>

text \<open>Only \<open>external\<close> changes the external state.\<close>

lemma ext_sql [keeps]: "keeps (\<lambda>w. ext w = e) (sql st)"
  by (auto simp: keeps_def intro: sql_ext [OF prod.collapse [symmetric]])

lemma ext_world [keeps]:
  "keeps (\<lambda>w. ext w = e) new_uuid" "keeps (\<lambda>w. ext w = e) time_now" "keeps (\<lambda>w. ext w = e) (rand_bytes n)"
  by (auto simp: keeps_def new_uuid_def time_now_def rand_bytes_def Let_def)

lemma ext_run_sql [keeps]:
  "keeps (\<lambda>w. ext w = e) (run_sql h st)" "keeps (\<lambda>w. ext w = e) (exec_sql h st')"
  "keeps (\<lambda>w. ext w = e) (exec_some st')" "keeps (\<lambda>w. ext w = e) (fresh_id i)"
  unfolding run_sql_def exec_sql_def exec_some_def fresh_id_def by (intro keeps)+

lemma ext_tail: "keeps (\<lambda>w. ext w = e) m \<Longrightarrow> ext w = e \<Longrightarrow> ext (snd (run_state m w)) = e"
  by (rule keepsD)

lemma run_ext: "(\<And>e. keeps (\<lambda>w. ext w = e) m) \<Longrightarrow> run_state m w = (r, w') \<Longrightarrow> ext w' = ext w"
  by (rule keeps_run) simp_all

lemma ext_guard [keeps]: "keeps (\<lambda>w. ext w = e) (requireOrgRole rq org role)"
  unfolding requireOrgRole_def GetMembershipRole_def by (intro keeps)

section \<open>A database that works\<close>

lemma filter_uniq: "uniq k rs \<Longrightarrow> r \<in> set rs \<Longrightarrow> filter (\<lambda>x. k x = k r) rs = [r]"
  by (induction rs) (auto simp: uniq_def filter_empty_conv image_iff)

text \<open>The database works and time stands still at \<open>T\<close>.\<close>

definition quiet :: "int \<Rightarrow> 'x world \<Rightarrow> bool" where
  "quiet T w \<longleftrightarrow> fates w = [] \<and> delays w = [] \<and> clock w = T"

lemma quiet_sql [keeps]: "keeps (quiet T) (sql st)"
  by (auto simp: keeps_def quiet_def calm_sql pass_time_still split: sum.splits)

lemma quiet_world [keeps]:
  "keeps (quiet T) (external m)" "keeps (quiet T) new_uuid" "keeps (quiet T) time_now"
  "keeps (quiet T) (rand_bytes n)"
  by (auto simp: keeps_def quiet_def run_external new_uuid_def time_now_def rand_bytes_def Let_def
      pass_time_still)

lemma quiet_run_sql [keeps]:
  "keeps (quiet T) (run_sql h st)" "keeps (quiet T) (exec_sql h st')" "keeps (quiet T) (fresh_id i)"
  unfolding run_sql_def exec_sql_def fresh_id_def by (intro keeps)+

lemma quiet_methods [keeps]:
  "keeps (quiet T) (GetMembershipRole org u)" "keeps (quiet T) (ExpirePendingInvites org u)"
  "keeps (quiet T) (RandomToken n)"
  unfolding GetMembershipRole_def ExpirePendingInvites_def RandomToken_def by (intro keeps)+

section \<open>The sample world\<close>

lemma sample_world_db [simp]: "(sample_world D x)\<lparr>db := D'\<rparr> = sample_world D' x"
  by (simp add: sample_world_def)

lemma sample_world_pass [simp]: "pass_time (sample_world D x) = sample_world D x"
  by (simp add: pass_time_still)

lemma sample_world_quiet [simp]: "quiet 100 (sample_world D x)"
  by (simp add: quiet_def)

lemma sample_sql:
  "run_state (sql st) (sample_world D x) = (case st (pg_of (sample_world D x)) D of
     Inl e \<Rightarrow> (Inl e, sample_world D x) | Inr (y, D') \<Rightarrow> (Inr y, sample_world D' x))"
  by (simp add: calm_sql split: sum.split prod.split)

lemma sample_time: "run_state time_now (sample_world D x) = (100, sample_world D x)"
  by (simp add: time_now_def)

lemma alice_guard: "u_is_admin (rq_user rq) \<Longrightarrow> run_state (requireOrgRole rq org role) w = (None, w)"
  by (simp add: requireOrgRole_def)

end
