(* ===== verification/Http_Invites_Lemmas.thy ===== *)
theory Http_Invites_Lemmas
  imports Http_Invites Http_Frames
begin

text \<open>
  What the invitation handlers guarantee. Redeeming a token grants exactly the role of a live
  invitation and burns it; issuing one changes no membership and never exceeds the inviter's own
  rank; and what it nevertheless lets an organization's administrator do.
\<close>

section \<open>Programs that leave the memberships alone\<close>

lemma may_invite_as_reading [keeps]: "keeps (reading T D) (may_invite_as rq role)"
  unfolding may_invite_as_def by (intro keeps)

definition members_are :: "membership list \<Rightarrow> db \<Rightarrow> bool" where
  "members_are M d \<longleftrightarrow> t_members d = M"

lemma members_are_stmts [keeps]:
  "stmt_keeps (members_are M) (createInviteSQL v)"
  "stmt_keeps (members_are M) (expirePendingInvitesSQL org u)"
  "stmt_keeps (members_are M) (consumeInviteSQL i)"
  "stmt_keeps (members_are M) (insertUserSQL i e n p x)"
  "stmt_keeps (members_are M) (upsertExternalSQL r)"
  "stmt_keeps (members_are M) (insertAuditEventSQL ev)"
  by (auto intro!: stmt_keepsI simp: members_are_def createInviteSQL_def expirePendingInvitesSQL_def
      consumeInviteSQL_def insertUserSQL_def upsertExternalSQL_def insertAuditEventSQL_def Let_def
      insert_stmt_Inr update_stmt_Inr split: option.splits if_splits)

lemma members_are_methods [keeps]:
  "keeps (on_db (members_are M)) (GetMembershipRole org u)"
  "keeps (on_db (members_are M)) (GetExternalResource ty obj)"
  "keeps (on_db (members_are M)) (GetInviteByTokenHash h)"
  "keeps (on_db (members_are M)) (GetUserByEmail e)"
  "keeps (on_db (members_are M)) (CreateUser e n p x)"
  "keeps (on_db (members_are M)) (UpsertExternalResource r)"
  "keeps (on_db (members_are M)) (CreateInvite v)"
  "keeps (on_db (members_are M)) (ExpirePendingInvites org u)"
  "keeps (on_db (members_are M)) (ConsumeInvite i)"
  "keeps (on_db (members_are M)) (CreateAuditEvent ev)"
  unfolding GetMembershipRole_def membershipRoleSQL_def GetExternalResource_def externalByObjectSQL_def
    GetInviteByTokenHash_def getInviteByTokenHashSQL_def GetUserByEmail_def userByEmailSQL_def
    CreateUser_def UpsertExternalResource_def CreateInvite_def ExpirePendingInvites_def ConsumeInvite_def
    CreateAuditEvent_def
  by (intro keeps keeps_sql)+

lemma members_are_handlers [keeps]:
  "keeps (on_db (members_are M)) (audit i ev)"
  "keeps (on_db (members_are M)) (requireOrgRole rq org role)"
  "keeps (on_db (members_are M)) (RandomToken n)"
  "keeps (on_db (members_are M)) (ensurePlatformUser d e n')"
  "keeps (on_db (members_are M)) (may_invite_as rq role)"
  "keeps (on_db (members_are M)) (issue_invite d rq role u)"
  unfolding audit_def requireOrgRole_def RandomToken_def ensurePlatformUser_def may_invite_as_def
    issue_invite_def Let_def
  by (intro keeps)+

lemma createInvite_members [keeps]: "keeps (on_db (members_are M)) (createInvite d rq)"
  unfolding createInvite_def Let_def by (intro keeps)

lemma run_members:
  "keeps (on_db (members_are (t_members (db w)))) m \<Longrightarrow> run_state m w = (r, w') \<Longrightarrow>
     t_members (db w') = t_members (db w)"
  by (drule keeps_run) (auto simp: on_db_def members_are_def)

lemmas audit_members = run_members [OF members_are_handlers(1)]

section \<open>Redeeming a token\<close>

lemma redeem_invite_Done:
  assumes "run_state (redeem_invite d i pw iv) w = (Done c x, w')"
  obtains res set_password w1 w2 w3 w4 v m where
    "run_state (GetExternalResource ResTypeAuthentikUser (iv_user iv)) w = (Inr res, w1)"
    "x_external res \<noteq> []" "dp_password_setter d = Some set_password"
    "run_state (external (set_password (x_external res) pw)) w1 = (Some (), w2)"
    "run_state (ConsumeInvite (iv_id iv)) w2 = (Inr v, w3)"
    "run_state (SetMembership (iv_org v) (iv_user v) (iv_role v)) w3 = (Inr m, w4)"
    "t_members (db w') = t_members (db w4)" "c = 200" "x = (iv_org v, iv_role v)"
  using assms unfolding redeem_invite_def
  by (elim run_elims) (auto simp: internalError_def split: if_splits dest!: audit_members)

lemma redeem_invite_Fail:
  assumes "run_state (redeem_invite d i pw iv) w = (Fail c k msg, w')" and "c \<noteq> 500"
  shows "t_members (db w') = t_members (db w)"
proof -
  note frame = run_members [OF members_are_methods(2)] run_members [OF members_are_methods(9)]
  show ?thesis
    using assms unfolding redeem_invite_def
    by (elim run_elims) (auto simp: internalError_def run_external dest!: frame)
qed

text \<open>What redeeming needs: the invitation named by the token, live in the tables as they were.\<close>

lemma GetInviteByTokenHash_Inr:
  assumes "run_state (GetInviteByTokenHash h) w = (Inr iv, w')"
  shows "iv \<in> set (t_invites (db w))" and "iv_hash iv = h"
proof -
  from assms have "run_state (sql (getInviteByTokenHashSQL h)) w = (Inr iv, w')"
    by (auto simp: GetInviteByTokenHash_def run_sql_def split: prod.splits sum.splits)
  then obtain pg where "getInviteByTokenHashSQL h pg (db w) = Inr (iv, db w')" by (rule sql_Inr)
  then show "iv \<in> set (t_invites (db w))" and "iv_hash iv = h"
    by (auto simp: getInviteByTokenHashSQL_def dest: one_row_filter)
qed

lemma acceptInvite_redeems:
  fixes w :: "'x world"
  assumes "run_state (acceptInvite d rq) w = (rep, w')"
  obtains (refused) c k msg where "rep = Fail c k msg" "db w' = db w"
  | (redeemed) req iv and w2 :: "'x world" where "rq_body rq = Inr req"
    "minInvitePasswordLen \<le> length (ac_password req)"
    "iv \<in> set (t_invites (db w))" "iv_hash iv = hashInviteToken (trim_space (ac_token req))"
    "iv_accepted iv = None" "clock w \<le> iv_expires iv"
    "db w2 = db w" "clock w \<le> clock w2"
    "run_state (redeem_invite d (rq_id rq) (ac_password req) iv) w2 = (rep, w')"
proof (cases "rq_body rq")
  case (Inl e)
  with assms refused show ?thesis by (auto simp: acceptInvite_def)
next
  case (Inr req)
  let ?h = "hashInviteToken (trim_space (ac_token req))"
  let ?bad = "trim_space (ac_token req) = [] \<or> length (ac_password req) < minInvitePasswordLen"
  show ?thesis
  proof (cases ?bad)
    case True
    with assms Inr refused show ?thesis by (auto simp: acceptInvite_def)
  next
    case False
    obtain r and w1 :: "'x world" where r: "run_state (GetInviteByTokenHash ?h) w = (r, w1)" by fastforce
    note w1 = run_reading [OF reading_methods(3) r]
    show ?thesis
    proof (cases "\<exists>iv. r = Inr iv \<and> iv_accepted iv = None \<and> \<not> iv_expires iv < clock (pass_time w1)")
      case True
      then obtain iv where iv: "r = Inr iv" "iv_accepted iv = None" "clock (pass_time w1) \<le> iv_expires iv"
        by auto
      have "run_state (redeem_invite d (rq_id rq) (ac_password req) iv) (pass_time w1) = (rep, w')"
        using assms Inr False r iv by (auto simp: acceptInvite_def time_now_def Let_def)
      with GetInviteByTokenHash_Inr [OF r [unfolded iv(1)]] iv w1 clock_mono [of w1] False Inr
      show ?thesis by (intro redeemed) auto
    next
      case none: False
      have "(\<exists>c k msg. rep = Fail c k msg) \<and> db w' = db w1"
        using assms Inr False r none
        by (auto simp: acceptInvite_def time_now_def Let_def internalError_def split: sum.splits if_splits)
      with refused w1 show ?thesis by auto
    qed
  qed
qed

lemma role_of_cong: "t_members d = t_members d' \<Longrightarrow> role_of d = role_of d'"
  by (simp add: role_of_def fun_eq_iff)

text \<open>C7: a membership is granted through a token only if the token belongs to an invitation that is
  unaccepted and unexpired and the password is long enough; the invitee then holds exactly the role
  of the invitation in exactly its organization, the invitation is burnt, and no other role
  changes. A refused redemption (anything but a reply of 200 or 500) changes no role.\<close>

theorem acceptInvite_grants:
  assumes ok: "db_ok (db w)" and run: "run_state (acceptInvite d rq) w = (rep, w')"
  shows "case rep of
      Done c (org, role) \<Rightarrow> \<exists>req. \<exists>iv \<in> set (t_invites (db w)). rq_body rq = Inr req
        \<and> iv_hash iv = hashInviteToken (trim_space (ac_token req)) \<and> 8 \<le> length (ac_password req)
        \<and> iv_accepted iv = None \<and> clock w < iv_expires iv
        \<and> org = iv_org iv \<and> role = iv_role iv
        \<and> role_of (db w')
          = (\<lambda>a b. if (a, b) = (org, iv_user iv) then Some role else role_of (db w) a b)
    | Fail c k msg \<Rightarrow> c = 500 \<or> role_of (db w') = role_of (db w)"
  using run
proof (cases rule: acceptInvite_redeems)
  case (refused c k msg)
  then show ?thesis by simp
next
  case (redeemed req iv w2)
  show ?thesis
  proof (cases rep)
    case (Fail c k msg)
    with redeemed(9) have r: "run_state (redeem_invite d (rq_id rq) (ac_password req) iv) w2
        = (Fail c k msg, w')" by simp
    from role_of_cong [OF redeem_invite_Fail [OF r]] Fail redeemed(7) show ?thesis by auto
  next
    case (Done c x)
    with redeemed(9) have "run_state (redeem_invite d (rq_id rq) (ac_password req) iv) w2 = (Done c x, w')"
      by simp
    then show ?thesis
    proof (rule redeem_invite_Done)
      fix res set_password w3 w4 w5 w6 v m
      assume ext: "run_state (GetExternalResource ResTypeAuthentikUser (iv_user iv)) w2 = (Inr res, w3)"
        and pw: "run_state (external (set_password (x_external res) (ac_password req))) w3 = (Some (), w4)"
        and con: "run_state (ConsumeInvite (iv_id iv)) w4 = (Inr v, w5)"
        and set: "run_state (SetMembership (iv_org v) (iv_user v) (iv_role v)) w5 = (Inr m, w6)"
        and fin: "t_members (db w') = t_members (db w6)" "x = (iv_org v, iv_role v)"
      note e = run_reading [OF reading_methods(2) ext] and p = run_reading [OF reading_world(1) pw]
      have D: "db w4 = db w" and T: "clock w \<le> clock w4"
        using e p redeemed(7,8) by auto
      from con obtain v0 and pg :: pg where v0: "find (\<lambda>v. iv_id v = iv_id iv \<and> iv_accepted v = None
          \<and> pg_now pg < iv_expires v) (t_invites (db w4)) = Some v0"
        and v: "v = v0\<lparr>iv_accepted := Some (pg_now pg)\<rparr>" "clock w4 \<le> pg_now pg"
        by (rule ConsumeInvite_Inr)
      note v0 = v0 [unfolded D]
      have iv: "v0 = iv" using find_SomeD [OF v0] ok redeemed(3)
        by (auto simp: db_ok_def invites_wf_def uniq_def distinct_map inj_on_def)
      have live: "clock w < iv_expires iv" using find_SomeD [OF v0] iv v T by auto
      have role: "role_checks (iv_role iv)"
        using ok redeemed(3) by (auto simp: db_ok_def invites_wf_def list_all_iff)
      have m: "m_role m = iv_role iv" using SetMembership_Inr [OF set] role v iv
        by (auto simp: role_checks_def)
      have r5: "role_of (db w5) = role_of (db w)"
        using run_members [OF members_are_methods(9) con] D by (intro role_of_cong) simp
      have "role_of (db w') = (\<lambda>a b. if (a, b) = (iv_org iv, iv_user iv) then Some (iv_role iv)
          else role_of (db w) a b)"
        unfolding role_of_cong [OF fin(1)] r5 [symmetric]
        using SetMembership_Inr [OF set] v(1) iv m by (simp add: fun_eq_iff)
      with Done redeemed live v iv fin(2) show ?thesis
        by (auto simp: minInvitePasswordLen_def intro!: exI [of _ req] bexI [of _ iv])
    qed
  qed
qed

section \<open>Issuing a token\<close>

lemma quiet_handlers [keeps]:
  "keeps (quiet T) (requireOrgRole rq org role)" "keeps (quiet T) (may_invite_as rq role)"
  "keeps (quiet T) (ensurePlatformUser d e n')"
  unfolding requireOrgRole_def may_invite_as_def ensurePlatformUser_def GetUserByEmail_def
    CreateUser_def ignore_def UpsertExternalResource_def
  by (intro keeps)+

lemma may_invite_as_True:
  assumes "run_state (may_invite_as rq role) w = (True, w')"
  shows "role = RoleOwner \<longrightarrow> may_manage (db w) (rq_user rq) (rq_path rq) RoleOwner"
  using assms unfolding may_invite_as_def
proof (elim run_elims)
  fix r w1
  assume r: "run_state (GetMembershipRole (rq_path rq) (u_id (rq_user rq))) w = (r, w1)"
    and may: "True = (case r of Inl e \<Rightarrow> False | Inr actorRole \<Rightarrow> CanManage actorRole RoleOwner)"
  then obtain held where held: "r = Inr held" "CanManage held RoleOwner" by (cases r) simp_all
  from membershipRole_Inr(1) [OF r [unfolded held(1)]] obtain m where "m \<in> set (t_members (db w))"
    "m_org m = rq_path rq" "m_user m = u_id (rq_user rq)" "m_role m = held" by blast
  with held(2) have "\<exists>m \<in> set (t_members (db w)). m_org m = rq_path rq
      \<and> m_user m = u_id (rq_user rq) \<and> CanManage (m_role m) RoleOwner" by blast
  then show ?thesis unfolding may_manage_def by blast
qed (simp add: may_manage_def)

lemma ExpirePendingInvites_Inr:
  assumes "run_state (ExpirePendingInvites org u) w = (Inr x, w')"
  shows "\<forall>v \<in> set (t_invites (db w')). iv_org v = org \<and> iv_user v = u \<longrightarrow> iv_accepted v \<noteq> None"
proof -
  from assms obtain n where "run_state (sql (expirePendingInvitesSQL org u)) w = (Inr n, w')"
    by (auto simp: ExpirePendingInvites_def exec_sql_def split: prod.splits sum.splits)
  then obtain pg where "expirePendingInvitesSQL org u pg (db w) = Inr (n, db w')" by (rule sql_Inr)
  then have "t_invites (db w') = put_row (\<lambda>v. iv_org v = org \<and> iv_user v = u \<and> iv_accepted v = None)
      (\<lambda>v. v\<lparr>iv_accepted := Some (pg_now pg)\<rparr>) (t_invites (db w))"
    by (simp add: expirePendingInvitesSQL_def update_stmt_Inr)
  then show ?thesis by (simp add: set_put_row del: if_image_distrib)
qed

lemma CreateInvite_Inr:
  assumes "run_state (CreateInvite v) w = (Inr iv, w')"
  shows "iv = v\<lparr>iv_id := iv_id iv, iv_accepted := None\<rparr>" and "t_invites (db w') = t_invites (db w) @ [iv]"
proof -
  from assms obtain i and w1 where "run_state (sql (createInviteSQL (v\<lparr>iv_id := i\<rparr>))) w1 = (Inr iv, w')"
    and D: "db w1 = db w"
    by (auto simp: CreateInvite_def fresh_id_def new_uuid_def run_sql_def split: prod.splits sum.splits if_splits)
  then obtain pg where "createInviteSQL (v\<lparr>iv_id := i\<rparr>) pg (db w1) = Inr (iv, db w')" by (auto elim: sql_Inr)
  then show "iv = v\<lparr>iv_id := iv_id iv, iv_accepted := None\<rparr>" and "t_invites (db w') = t_invites (db w) @ [iv]"
    by (auto simp: createInviteSQL_def insert_stmt_Inr Let_def D)
qed

lemma issue_invite_Done:
  fixes w :: "'x world"
  assumes "run_state (issue_invite d rq role user) w = (Done c x, w')"
  shows "\<exists>token iv. x = (user, \<lparr>ir_id = iv_id iv, ir_role = role, ir_expires = iv_expires iv, ir_token = token\<rparr>)
    \<and> iv_org iv = rq_path rq \<and> iv_user iv = u_id user \<and> iv_role iv = role
    \<and> iv_hash iv = hashInviteToken token \<and> iv_accepted iv = None \<and> iv \<in> set (t_invites (db w'))
    \<and> (\<forall>v \<in> set (t_invites (db w')). iv_org v = rq_path rq \<and> iv_user v = u_id user
          \<and> iv_accepted v = None \<longrightarrow> v = iv)
    \<and> (\<exists>b. token = raw_url_encode b) \<and> (\<forall>T. quiet T w \<longrightarrow> iv_expires iv = T + inviteTTL)"
  using assms unfolding issue_invite_def Let_def
proof (elim run_elims)
  fix r1 and w1 :: "'x world" and r2 w2 u t w3 token i w4 now w5 c0 w6 iv au w7
  assume mem: "run_state (GetMembershipRole (rq_path rq) (u_id user)) w = (r1, w1)"
    and exp: "run_state (ExpirePendingInvites (rq_path rq) (u_id user)) w1 = (r2, w2)" "r2 = Inr u"
    and tok: "run_state (RandomToken 32) w2 = (t, w3)" "t = Some token"
    and i: "run_state new_uuid w3 = (i, w4)" and now: "run_state time_now w4 = (now, w5)"
    and create: "run_state (CreateInvite \<lparr>iv_id = i, iv_org = rq_path rq, iv_user = u_id user,
        iv_hash = hashInviteToken token, iv_role = role, iv_by = u_id (rq_user rq),
        iv_expires = now + inviteTTL, iv_accepted = None\<rparr>) w5 = (c0, w6)" "c0 = Inr iv"
    and au: "run_state (audit (rq_id rq) (event (Some (u_id (rq_user rq))) ''user.invited'' ''organization''
        (rq_path rq) [(''email'', DStr (u_email user)), (''user_id'', DStr (u_id user)),
          (''role'', DStr role), (''invite_id'', DStr (iv_id iv))])) w6 = (au, w7)"
    and fin: "Done c x = Done 200 (user, \<lparr>ir_id = iv_id iv, ir_role = role, ir_expires = iv_expires iv,
        ir_token = token\<rparr>)" "w' = w7"
  have D: "db w5 = db w2"
    using tok i now by (auto simp: RandomToken_def rand_bytes_def new_uuid_def time_now_def Let_def)
  have "t_invites (db w') = t_invites (db w6)" using audit_frame [OF au] fin(2) by auto
  with CreateInvite_Inr(2) [OF create(1) [unfolded create(2)]] D
  have inv: "t_invites (db w') = t_invites (db w2) @ [iv]" by simp
  from CreateInvite_Inr(1) [OF create(1) [unfolded create(2)]]
  have iv: "iv_org iv = rq_path rq" "iv_user iv = u_id user" "iv_role iv = role"
    "iv_hash iv = hashInviteToken token" "iv_accepted iv = None"
    by (metis invite.select_convs invite.simps)+
  obtain b where "token = raw_url_encode b"
    using tok by (auto simp: RandomToken_def split: prod.splits)
  moreover have "iv_expires iv = now + inviteTTL" using CreateInvite_Inr(1) [OF create(1) [unfolded create(2)]]
    by (metis invite.select_convs(7) invite.simps)
  moreover have "now = T" if "quiet T w" for T
  proof -
    have "quiet T w4"
      using keeps_run [OF quiet_methods(1) mem that] by (auto dest!: keeps_run [OF quiet_methods(2) exp(1)]
          keeps_run [OF quiet_methods(3) tok(1)] keeps_run [OF quiet_world(2) i])
    with now show ?thesis by (auto simp: time_now_def quiet_def pass_time_still Let_def)
  qed
  ultimately show ?thesis
    using fin(1) iv inv ExpirePendingInvites_Inr [OF exp(1) [unfolded exp(2)]]
    by (intro exI [of _ token] exI [of _ iv]) auto
qed (auto simp: internalError_def)

lemma guarded_run:
  fixes m :: "('x world, 'p reply) prog"
  assumes "run_state (State_Monad.bind (requireOrgRole rq org required)
      (\<lambda>g. case g of None \<Rightarrow> m | Some rep \<Rightarrow> ret rep)) w = (Done c x, w')"
  obtains g w1 where "may_manage (db w) (rq_user rq) org required" "db w1 = db w"
    "run_state m w1 = (Done c x, w')"
    "run_state (requireOrgRole rq org required :: ('x world, 'p reply option) prog) w = (g, w1)"
  using assms by (elim run_bindE) (metis requireOrgRole_goes_on)

lemma createInvite_Done:
  fixes w :: "'x world"
  assumes "run_state (createInvite d rq) w = (Done c x, w')"
  shows "\<exists>role user (w1 :: 'x world). may_manage (db w) (rq_user rq) (rq_path rq) RoleAdmin
    \<and> (role = RoleOwner \<longrightarrow> may_manage (db w) (rq_user rq) (rq_path rq) RoleOwner)
    \<and> role_valid role \<and> run_state (issue_invite d rq role user) w1 = (Done c x, w')
    \<and> (\<forall>T. quiet T w \<longrightarrow> quiet T w1)"
  using assms unfolding createInvite_def Let_def
proof (elim guarded_run run_elims)
  fix g and w1 :: "'x world" and req may and w2 :: "'x world" and u w3 y user and created :: bool
  let ?role = "if ci_role req = [] then RoleMember else ci_role req"
  assume "may_manage (db w) (rq_user rq) (rq_path rq) RoleAdmin" and D: "db w1 = db w"
    and role: "\<not> \<not> role_valid ?role" and may: "run_state (may_invite_as rq ?role) w1 = (may, w2)"
    "\<not> \<not> may" and iss: "run_state (issue_invite d rq ?role user) w3 = (Done c x, w')"
    and g: "run_state (requireOrgRole rq (rq_path rq) RoleAdmin :: ('x world, (user \<times> invite_resp) reply option) prog) w = (g, w1)"
    and u: "run_state (ensurePlatformUser d (to_lower (trim_space (ci_email req))) (ci_display_name req)) w2
      = (u, w3)"
  moreover have "quiet T w \<longrightarrow> quiet T w3" for T
    using keeps_run [OF quiet_handlers(1) g, of T] keeps_run [OF quiet_handlers(2) may(1), of T]
      keeps_run [OF quiet_handlers(3) u, of T] by blast
  moreover from may have "run_state (may_invite_as rq ?role) w1 = (True, w2)" by simp
  from may_invite_as_True [OF this]
  have "?role = RoleOwner \<longrightarrow> may_manage (db w) (rq_user rq) (rq_path rq) RoleOwner" by (simp only: D)
  ultimately show ?thesis by (intro exI [of _ ?role] exI [of _ user] exI [of _ w3]) blast
qed (simp_all add: internalError_def)

text \<open>C8: issuing an invitation changes no membership, whatever happens. When it succeeds, the caller
  may manage the organization, and as an owner when the invited role is owner; the returned token
  belongs to an unaccepted invitation of that organization, user and role, of which only the hash
  is stored, and no other invitation of the organization and user is left unaccepted.\<close>

theorem createInvite_no_escalation:
  assumes "run_state (createInvite d rq) w = (rep, w')"
  shows "t_members (db w') = t_members (db w)
    \<and> (case rep of Fail c k msg \<Rightarrow> True
        | Done c (user, resp) \<Rightarrow>
            may_manage (db w) (rq_user rq) (rq_path rq) RoleAdmin
          \<and> (ir_role resp = RoleOwner \<longrightarrow> may_manage (db w) (rq_user rq) (rq_path rq) RoleOwner)
          \<and> role_valid (ir_role resp)
          \<and> (\<exists>iv. filter (\<lambda>v. iv_org v = rq_path rq \<and> iv_user v = u_id user \<and> iv_accepted v = None)
                    (t_invites (db w')) \<in> lists {iv} - {[]}
               \<and> iv_id iv = ir_id resp \<and> iv_role iv = ir_role resp \<and> iv_expires iv = ir_expires resp
               \<and> iv_hash iv = hashInviteToken (ir_token resp)))"
proof (cases rep)
  case (Fail c k msg)
  with run_members [OF createInvite_members assms] show ?thesis by simp
next
  case (Done c x)
  with createInvite_Done assms obtain role user w1 where
    may: "may_manage (db w) (rq_user rq) (rq_path rq) RoleAdmin"
      "role = RoleOwner \<longrightarrow> may_manage (db w) (rq_user rq) (rq_path rq) RoleOwner" "role_valid role"
    and iss: "run_state (issue_invite d rq role user) w1 = (Done c x, w')" by meson
  from issue_invite_Done [OF iss] obtain token iv where
    x: "x = (user, \<lparr>ir_id = iv_id iv, ir_role = role, ir_expires = iv_expires iv, ir_token = token\<rparr>)"
    and iv: "iv_org iv = rq_path rq" "iv_user iv = u_id user" "iv_role iv = role"
      "iv_hash iv = hashInviteToken token" "iv_accepted iv = None" "iv \<in> set (t_invites (db w'))"
      "\<forall>v \<in> set (t_invites (db w')). iv_org v = rq_path rq \<and> iv_user v = u_id user
          \<and> iv_accepted v = None \<longrightarrow> v = iv" by blast
  have "filter (\<lambda>v. iv_org v = rq_path rq \<and> iv_user v = u_id user \<and> iv_accepted v = None)
      (t_invites (db w')) \<in> lists {iv} - {[]}"
  proof -
    have "v = iv" if "v \<in> set (filter (\<lambda>v. iv_org v = rq_path rq \<and> iv_user v = u_id user
        \<and> iv_accepted v = None) (t_invites (db w')))" for v
      using that iv(7) by simp
    then have "set (filter (\<lambda>v. iv_org v = rq_path rq \<and> iv_user v = u_id user
        \<and> iv_accepted v = None) (t_invites (db w'))) \<subseteq> {iv}" by blast
    moreover have "filter (\<lambda>v. iv_org v = rq_path rq \<and> iv_user v = u_id user
        \<and> iv_accepted v = None) (t_invites (db w')) \<noteq> []"
      unfolding filter_empty_conv using iv(1,2,5,6) by blast
    ultimately show ?thesis by (simp add: in_lists_conv_set subset_iff)
  qed
  with run_members [OF createInvite_members assms] Done may x iv(3,4) show ?thesis
    by (auto intro!: exI [of _ iv])
qed

section \<open>What an administrator of an organization can do to any user\<close>

lemma createInvite_quiet [keeps]: "keeps (quiet T) (createInvite d rq)"
  unfolding createInvite_def Let_def issue_invite_def CreateInvite_def audit_def CreateAuditEvent_def
  by (intro keeps)

lemma trim_space_token: "trim_space (raw_url_encode b) = raw_url_encode b"
  by (rule trim_space_free)
     (auto simp: space_free_def list_all_iff ascii_range_def ascii_space_def dest!: raw_url_alphabet)

lemma ext_methods [keeps]:
  "keeps (\<lambda>w. ext w = e) (ConsumeInvite i)" "keeps (\<lambda>w. ext w = e) (SetMembership org u role)"
  "keeps (\<lambda>w. ext w = e) (audit i ev)"
  unfolding ConsumeInvite_def SetMembership_def audit_def CreateAuditEvent_def exec_sql_def Let_def
  by (intro keeps)+

lemma ext_consumed: "run_state (ConsumeInvite i) w = (r, w') \<Longrightarrow> ext w' = ext w"
  using keeps_run [OF ext_methods(1) [of "ext w"]] by auto

text \<open>Once the password call is reached it is made, and nothing afterwards undoes it.\<close>

lemma redeem_sets_password:
  assumes "quiet T w" and "dp_password_setter d = Some sp"
    and "externalByObjectSQL ResTypeAuthentikUser (iv_user iv) (pg_of w) (db w) = Inr (res, db w)"
    and "x_external res \<noteq> []"
  shows "ext (snd (run_state (redeem_invite d i pw iv) w))
    = snd (run_state (sp (x_external res) pw) (ext w))"
proof -
  let ?e = "snd (run_state (sp (x_external res) pw) (ext w))"
  have w: "fates w = []" "delays w = []" using assms(1) by (auto simp: quiet_def)
  have get: "run_state (GetExternalResource ResTypeAuthentikUser (iv_user iv)) w = (Inr res, w)"
    using assms(3) w by (simp add: GetExternalResource_def run_sql_def calm_sql pass_time_still)
  show ?thesis
    unfolding redeem_invite_def
    by (simp add: get assms(2,4) run_external split: option.split prod.split)
       (auto intro!: ext_tail keeps dest!: ext_consumed)
qed


section \<open>A concrete run\<close>

text \<open>Alice owns an organization and has no rights on the platform; Mallory administers the platform and
  is not a member. The identity provider's state is the password last set.\<close>

definition small_deps :: "string deps" where
  "small_deps = \<lparr>dp_provider_name = ''authentik'', dp_issuer = ''https://id'', dp_identity = None,
     dp_password_setter = Some (\<lambda>pk pw. State (\<lambda>x. (Some (), pw))), dp_to_ascii = Inr\<rparr>"

definition victim_link :: external_row where
  "victim_link = \<lparr>x_id = ''e'', x_type = ResTypeAuthentikUser, x_object = ''mallory'', x_provider = ''authentik'',
     x_external = ''7'', x_status = ExtActive, x_observed = [], x_last_error = []\<rparr>"

definition invite_world :: "string world" where
  "invite_world = sample_world (sample_db\<lparr>t_users := [alice\<lparr>u_is_admin := False\<rparr>,
     mallory\<lparr>u_is_admin := True\<rparr>], t_externals := [victim_link]\<rparr>) ''secret''"

definition invite_mallory :: "create_invite_req request" where
  "invite_mallory = \<lparr>rq_user = alice\<lparr>u_is_admin := False\<rparr>, rq_id = [], rq_path = ''acme'',
     rq_body = Inr \<lparr>ci_email = ''m@x.io'', ci_display_name = [], ci_role = []\<rparr>\<rparr>"

definition small_token :: string where
  "small_token = raw_url_encode (replicate 32 CHR ''s'')"

lemma invite_world_fields:
  "quiet 100 invite_world" "t_users (db invite_world) = [alice\<lparr>u_is_admin := False\<rparr>, mallory\<lparr>u_is_admin := True\<rparr>]"
  "t_externals (db invite_world) = [victim_link]" "t_orgs (db invite_world) = [acme]"
  "t_invites (db invite_world) = [sample_invite]"
  "t_members (db invite_world) = [\<lparr>m_id = ''m1'', m_org = ''acme'', m_user = ''alice'', m_role = ''owner''\<rparr>]"
  by (simp_all add: invite_world_def quiet_def sample_db_def)

lemma invite_world_ok: "db_ok (db invite_world)"
  by (simp add: invite_world_def db_ok_def wf_defs sample_db_def fresh_db_def alice_def acme_def
      mallory_def sample_invite_def uniq_def refs_def orefs_def role_checks_def provider_checks_def
      user_identity_def victim_link_def external_key_def external_checks_def ExtActive_def)

lemma small_email: "to_lower (trim_space ''m@x.io'') = ''m@x.io''"
proof -
  have "trim_space ''m@x.io'' = ''m@x.io''"
    by (rule trim_space_free) (simp add: space_free_def byte_def ascii_space_def)
  moreover have "to_lower ''m@x.io'' = ''m@x.io''"
    by (rule to_lower_id) (simp_all add: is_ascii_def byte_def ascii_range_def)
  ultimately show ?thesis by simp
qed

lemma hex_encode_even: "hex_encode s \<noteq> ''h''"
proof
  assume "hex_encode s = ''h''"
  then have "length (hex_encode s) = 1" by simp
  then show False by simp
qed

lemma audit_returns: "\<exists>w'. run_state (audit i e) w = ((), w')"
  by (rule exI) (rule run_audit)

lemma invite_mallory_fields [simp]:
  "rq_user invite_mallory = alice\<lparr>u_is_admin := False\<rparr>" "rq_path invite_mallory = ''acme''"
  "rq_body invite_mallory = Inr \<lparr>ci_email = ''m@x.io'', ci_display_name = [], ci_role = []\<rparr>"
  by (simp_all add: invite_mallory_def)

lemma invite_mallory_run:
  "fst (run_state (createInvite small_deps invite_mallory) invite_world)
    = Done 200 (mallory\<lparr>u_is_admin := True\<rparr>, \<lparr>ir_id = ''uuid-'', ir_role = ''member'',
        ir_expires = 100 + inviteTTL, ir_token = small_token\<rparr>)"
    "t_externals (db (snd (run_state (createInvite small_deps invite_mallory) invite_world))) = [victim_link]"
proof -
  note w = invite_world_def sample_world_def pass_time_def sample_db_def fresh_db_def
  have role: "run_state (requireOrgRole invite_mallory ''acme'' RoleAdmin
      :: (string world, (user \<times> invite_resp) reply option) prog) invite_world = (None, invite_world)"
    by (simp add: requireOrgRole_def invite_mallory_def GetMembershipRole_def run_sql_def calm_sql w
        membershipRoleSQL_def query_def one_row_def alice_def CanManage_def role_valid_def Rank_def
        RoleOwner_def RoleAdmin_def RoleMember_def)
  have user: "run_state (ensurePlatformUser small_deps ''m@x.io'' []) invite_world
      = (Inr (mallory\<lparr>u_is_admin := True\<rparr>, False), invite_world)"
    by (simp add: ensurePlatformUser_def GetUserByEmail_def run_sql_def calm_sql small_email w
        userByEmailSQL_def query_def one_row_def alice_def mallory_def)
  have iss: "fst (run_state (issue_invite small_deps invite_mallory ''member'' (mallory\<lparr>u_is_admin := True\<rparr>))
      invite_world) = Done 200 (mallory\<lparr>u_is_admin := True\<rparr>, \<lparr>ir_id = ''uuid-'', ir_role = ''member'',
        ir_expires = 100 + inviteTTL, ir_token = small_token\<rparr>)"
    by (simp add: issue_invite_def GetMembershipRole_def run_sql_def calm_sql w invite_mallory_def
        membershipRoleSQL_def query_def one_row_def alice_def mallory_def ExpirePendingInvites_def
        exec_sql_def expirePendingInvitesSQL_def update_stmt_def sample_invite_def RandomToken_def
        rand_bytes_def new_uuid_def time_now_def CreateInvite_def fresh_id_def createInviteSQL_def
        insert_stmt_def role_checks_def fresh_key_def acme_def small_token_def hashInviteToken_def
        small_deps_def Let_def audit_returns hex_encode_even split: prod.split)
  have ext: "t_externals (db (snd (run_state (issue_invite small_deps invite_mallory ''member''
      (mallory\<lparr>u_is_admin := True\<rparr>)) invite_world))) = [victim_link]"
    by (simp add: issue_invite_def GetMembershipRole_def run_sql_def calm_sql w invite_mallory_def
        membershipRoleSQL_def query_def one_row_def alice_def mallory_def ExpirePendingInvites_def
        exec_sql_def expirePendingInvitesSQL_def update_stmt_def sample_invite_def RandomToken_def
        rand_bytes_def new_uuid_def time_now_def CreateInvite_def fresh_id_def createInviteSQL_def
        insert_stmt_def role_checks_def fresh_key_def acme_def small_token_def hashInviteToken_def
        small_deps_def Let_def hex_encode_even split: prod.split) (auto dest!: audit_frame)
  have "run_state (createInvite small_deps invite_mallory) invite_world
      = run_state (issue_invite small_deps invite_mallory ''member'' (mallory\<lparr>u_is_admin := True\<rparr>)) invite_world"
    using role user
    by (simp add: createInvite_def small_email may_invite_as_def RoleMember_def
        role_valid_def RoleOwner_def)
  with iss ext show "fst (run_state (createInvite small_deps invite_mallory) invite_world)
    = Done 200 (mallory\<lparr>u_is_admin := True\<rparr>, \<lparr>ir_id = ''uuid-'', ir_role = ''member'',
        ir_expires = 100 + inviteTTL, ir_token = small_token\<rparr>)"
    "t_externals (db (snd (run_state (createInvite small_deps invite_mallory) invite_world))) = [victim_link]"
    by simp_all
qed

theorem createInvite_no_escalation_witness:
  "may_manage (db invite_world) (alice\<lparr>u_is_admin := False\<rparr>) ''acme'' RoleAdmin
   \<and> t_members (db (snd (run_state (createInvite small_deps invite_mallory) invite_world)))
     = t_members (db invite_world)"
proof -
  obtain rep w' where r: "run_state (createInvite small_deps invite_mallory) invite_world = (rep, w')"
    by fastforce
  with invite_mallory_run(1) have rep: "rep = Done 200 (mallory\<lparr>u_is_admin := True\<rparr>, \<lparr>ir_id = ''uuid-'',
      ir_role = ''member'', ir_expires = 100 + inviteTTL, ir_token = small_token\<rparr>)" by simp
  from createInvite_no_escalation [OF r] show ?thesis by (simp add: rep r)
qed

text \<open>The owner of an organization sets the password of the platform's administrator.\<close>

definition redeem_as_owner :: "accept_invite_req request" where
  "redeem_as_owner = \<lparr>rq_user = alice\<lparr>u_is_admin := False\<rparr>, rq_id = [], rq_path = [],
     rq_body = Inr \<lparr>ac_token = small_token, ac_password = ''hunter22!''\<rparr>\<rparr>"


definition pending_world :: "string world" where
  "pending_world = invite_world\<lparr>db := (db invite_world)\<lparr>t_invites :=
     [sample_invite\<lparr>iv_user := ''mallory'', iv_hash := hashInviteToken small_token\<rparr>]\<rparr>\<rparr>"

lemma pending_world_ok: "db_ok (db pending_world)"
  using invite_world_ok
  by (simp add: pending_world_def db_ok_def wf_defs invite_world_fields sample_invite_def uniq_def refs_def
      role_checks_def alice_def mallory_def acme_def)

lemma pending_token: "trim_space small_token = small_token" "small_token \<noteq> []"
  by (simp_all add: small_token_def trim_space_token)

lemma pending_run:
  "fst (run_state (acceptInvite small_deps redeem_as_owner) pending_world) = Done 200 (''acme'', ''member'')"
proof -
  have w: "fates pending_world = []" "delays pending_world = []" "clock pending_world = 100"
    "t_invites (db pending_world) = [sample_invite\<lparr>iv_user := ''mallory'', iv_hash := hashInviteToken small_token\<rparr>]"
    "t_externals (db pending_world) = [victim_link]" "uuid_src pending_world = uuid_src invite_world"
    "uuid_ix pending_world = uuid_ix invite_world" "t_users (db pending_world) = t_users (db invite_world)"
    "t_orgs (db pending_world) = t_orgs (db invite_world)"
    "t_members (db pending_world) = t_members (db invite_world)"
    using invite_world_fields by (simp_all add: pending_world_def quiet_def)
  have ids: "uuid_src invite_world n = ''uuid-'' @ replicate n CHR ''i''" "uuid_ix invite_world = 0" for n
    by (simp_all add: invite_world_def)
  show ?thesis
    by (simp add: acceptInvite_def redeem_as_owner_def pending_token minInvitePasswordLen_def
        GetInviteByTokenHash_def run_sql_def calm_sql w pass_time_still getInviteByTokenHashSQL_def
        query_def one_row_def hashInviteToken_def small_deps_def sample_invite_def time_now_def
        redeem_invite_def GetExternalResource_def externalByObjectSQL_def victim_link_def
        external_resource.truncate_def run_external ConsumeInvite_def consumeInviteSQL_def
        SetMembership_def role_valid_def RoleMember_def new_uuid_def upsertMembershipSQL_def
        role_checks_def member_key_def insert_stmt_def fresh_key_def invite_world_fields ids
        acme_def alice_def mallory_def pg_of_def Let_def audit_returns split: prod.split)
qed

theorem acceptInvite_grants_witness:
  "role_of (db (snd (run_state (acceptInvite small_deps redeem_as_owner) pending_world))) ''acme'' ''mallory''
    = Some ''member''"
proof -
  obtain w' where r: "run_state (acceptInvite small_deps redeem_as_owner) pending_world
      = (Done 200 (''acme'', ''member''), w')" using pending_run by (metis prod.collapse)
  have "t_invites (db pending_world) = [sample_invite\<lparr>iv_user := ''mallory'', iv_hash := hashInviteToken small_token\<rparr>]"
    by (simp add: pending_world_def)
  with acceptInvite_grants [OF pending_world_ok r] show ?thesis by (auto simp: r)
qed

end
