(* ===== verification/Go_JSON.thy ===== *)
theory Go_JSON
  imports Go_Quote Go_Encoding
begin

text \<open>
  What the program uses of Go's \<open>encoding/json\<close>: \<open>Marshal\<close> of strings (with HTML escaping) and
  integers, and \<open>Unmarshal\<close>: the syntax of a JSON text with its escapes, the replacement of invalid
  UTF-8, the nesting limit of 10000, and the matching of object keys to struct fields. The parser
  takes fuel; \<open>unmarshal\<close> gives it twice the length of the text and more, which is always enough
  (\<open>unmarshal_fuel\<close>).
\<close>

section \<open>Encoding\<close>

definition json_safe :: "nat \<Rightarrow> bool" where
  "json_safe b \<longleftrightarrow> 32 \<le> b \<and> b < 128 \<and> b \<notin> {34, 38, 60, 62, 92}"

definition json_escape_byte :: "nat \<Rightarrow> string" where
  "json_escape_byte b =
    (if b = 34 then [backslash, dquote]
     else if b = 92 then [backslash, backslash]
     else if b = 8 then [backslash, CHR ''b'']
     else if b = 12 then [backslash, CHR ''f'']
     else if b = 10 then [backslash, CHR ''n'']
     else if b = 13 then [backslash, CHR ''r'']
     else if b = 9 then [backslash, CHR ''t'']
     else [backslash, CHR ''u'', CHR ''0'', CHR ''0'', hex_char (b div 16), hex_char (b mod 16)])"

function json_body :: "nat list \<Rightarrow> string" where
  "json_body [] = []"
| "json_body (b # bs) =
    (if b < 128 then (if json_safe b then [chr_of b] else json_escape_byte b) @ json_body bs
     else (case decode_rune (b # bs) of (r, n) \<Rightarrow>
       (if r = rune_error \<and> n = 1 then [backslash] @ ''ufffd''
        else if r = 8232 \<or> r = 8233 then [backslash] @ ''u202'' @ [hex_char (r mod 16)]
        else map chr_of (take n (b # bs)))
       @ json_body (drop n (b # bs))))"
  by pat_completeness auto
termination
  by (relation "measure length") (use decode_rune_width in \<open>fastforce simp: prod_eq_iff\<close>)+

definition json_string :: "string \<Rightarrow> string" where
  "json_string s = [dquote] @ json_body (map byte s) @ [dquote]"

text \<open>A struct: the members in the order of the fields, each with its marshalled value.\<close>

fun json_members :: "(string \<times> string) list \<Rightarrow> string" where
  "json_members [] = []"
| "json_members [(k, t)] = json_string k @ '':'' @ t"
| "json_members ((k, t) # ms) = json_string k @ '':'' @ t @ '','' @ json_members ms"

definition json_object :: "(string \<times> string) list \<Rightarrow> string" where
  "json_object ms = ''{'' @ json_members ms @ ''}''"

section \<open>Syntax of texts\<close>

datatype json = JNull | JBool bool | JNum string | JStr string | JArr "json list"
  | JObj "(string \<times> json) list"

definition json_ws :: "char \<Rightarrow> bool" where
  "json_ws c \<longleftrightarrow> byte c = 32 \<or> byte c = 9 \<or> byte c = 10 \<or> byte c = 13"

definition skip_ws :: "string \<Rightarrow> string" where
  "skip_ws = dropWhile json_ws"

definition hex_value :: "char \<Rightarrow> nat option" where
  "hex_value c =
    (let b = byte c in
     if 48 \<le> b \<and> b \<le> 57 then Some (b - 48)
     else if 97 \<le> b \<and> b \<le> 102 then Some (b - 87)
     else if 65 \<le> b \<and> b \<le> 70 then Some (b - 55) else None)"

fun hex4 :: "string \<Rightarrow> (nat \<times> string) option" where
  "hex4 (a # b # c # d # r) =
    (case (hex_value a, hex_value b, hex_value c, hex_value d) of
       (Some x, Some y, Some z, Some v) \<Rightarrow> Some (((x * 16 + y) * 16 + z) * 16 + v, r)
     | _ \<Rightarrow> None)"
| "hex4 _ = None"

text \<open>After \<open>\u\<close>: the rune and the rest. A high surrogate takes the low one that follows it.\<close>

definition u_escape :: "string \<Rightarrow> (nat \<times> string) option" where
  "u_escape s =
    (case hex4 s of
       None \<Rightarrow> None
     | Some (u, r) \<Rightarrow>
        if 55296 \<le> u \<and> u < 57344 then
          (case r of
             p # q # r1 \<Rightarrow>
               if p = backslash \<and> q = CHR ''u'' then
                 (case hex4 r1 of
                    Some (v, r2) \<Rightarrow>
                      if u < 56320 \<and> 56320 \<le> v \<and> v < 57344
                      then Some (65536 + (u - 55296) * 1024 + (v - 56320), r2)
                      else Some (rune_error, r)
                  | None \<Rightarrow> Some (rune_error, r))
               else Some (rune_error, r)
           | _ \<Rightarrow> Some (rune_error, r))
        else Some (u, r))"

definition simple_escape :: "char \<Rightarrow> char option" where
  "simple_escape c =
    (if c = dquote \<or> c = backslash \<or> c = CHR ''/'' then Some c
     else if c = CHR ''b'' then Some (chr_of 8)
     else if c = CHR ''f'' then Some (chr_of 12)
     else if c = CHR ''n'' then Some (chr_of 10)
     else if c = CHR ''r'' then Some (chr_of 13)
     else if c = CHR ''t'' then Some (chr_of 9)
     else None)"

text \<open>The rest of a string after its opening quote: the decoded text and what follows the closing
  quote. The fuel bounds the number of units, of which there are at most as many as bytes.\<close>

primrec scan_string :: "nat \<Rightarrow> string \<Rightarrow> (string \<times> string) option" where
  "scan_string 0 s = None"
| "scan_string (Suc f) s =
    (case s of
       [] \<Rightarrow> None
     | c # r \<Rightarrow>
        if c = dquote then Some ([], r)
        else if c = backslash then
          (case r of
             [] \<Rightarrow> None
           | e # r1 \<Rightarrow>
              if e = CHR ''u'' then
                (case u_escape r1 of
                   None \<Rightarrow> None
                 | Some (u, r2) \<Rightarrow> map_option (\<lambda>(t, r). (encode_rune u @ t, r)) (scan_string f r2))
              else (case simple_escape e of
                  None \<Rightarrow> None
                | Some x \<Rightarrow> map_option (\<lambda>(t, r). (x # t, r)) (scan_string f r1)))
        else if byte c < 32 then None
        else if byte c < 128 then map_option (\<lambda>(t, r). (c # t, r)) (scan_string f r)
        else (case decode_rune (map byte s) of (u, n) \<Rightarrow>
          if u = rune_error \<and> n = 1
          then map_option (\<lambda>(t, r). (encode_rune rune_error @ t, r)) (scan_string f r)
          else map_option (\<lambda>(t, r). (take n s @ t, r)) (scan_string f (drop n s))))"

section \<open>Numbers\<close>

definition digits :: "string \<Rightarrow> string \<times> string" where
  "digits s = (takeWhile is_digit s, dropWhile is_digit s)"

text \<open>The three parts of a number: integer, fraction, exponent.\<close>

definition scan_int :: "string \<Rightarrow> (string \<times> string) option" where
  "scan_int s =
    (case s of
       [] \<Rightarrow> None
     | c # r \<Rightarrow> if c = CHR ''0'' then Some ([c], r)
         else if is_digit c then Some (digits s) else None)"

definition scan_frac :: "string \<Rightarrow> (string \<times> string) option" where
  "scan_frac s =
    (case s of
       c # r \<Rightarrow> if c = CHR ''.'' then (case digits r of (ds, r') \<Rightarrow> if ds = [] then None else Some (c # ds, r'))
         else Some ([], s)
     | [] \<Rightarrow> Some ([], s))"

definition scan_exp :: "string \<Rightarrow> (string \<times> string) option" where
  "scan_exp s =
    (case s of
       c # r \<Rightarrow>
         if c = CHR ''e'' \<or> c = CHR ''E'' then
           (let (sg, r1) = (case r of x # y \<Rightarrow> if x = CHR ''+'' \<or> x = CHR ''-'' then ([x], y) else ([], r)
                             | [] \<Rightarrow> ([], r)) in
            (case digits r1 of (ds, r') \<Rightarrow> if ds = [] then None else Some (c # sg @ ds, r')))
         else Some ([], s)
     | [] \<Rightarrow> Some ([], s))"

definition scan_number :: "string \<Rightarrow> (string \<times> string) option" where
  "scan_number s =
    (let (sg, s1) = (case s of c # r \<Rightarrow> if c = CHR ''-'' then ([c], r) else ([], s) | [] \<Rightarrow> ([], s)) in
     (case scan_int s1 of None \<Rightarrow> None
      | Some (i, s2) \<Rightarrow> (case scan_frac s2 of None \<Rightarrow> None
        | Some (fr, s3) \<Rightarrow> (case scan_exp s3 of None \<Rightarrow> None
          | Some (ex, s4) \<Rightarrow> Some (sg @ i @ fr @ ex, s4)))))"

section \<open>Values\<close>

definition literal :: "string \<Rightarrow> json \<Rightarrow> string \<Rightarrow> (json \<times> string) option" where
  "literal w v s = (if take (length w) s = w then Some (v, drop (length w) s) else None)"

definition max_depth :: nat where "max_depth = 10000"

definition scan_scalar :: "string \<Rightarrow> (json \<times> string) option" where
  "scan_scalar s =
    (case s of
       [] \<Rightarrow> None
     | c # r \<Rightarrow>
        if c = dquote then map_option (\<lambda>(t, r). (JStr t, r)) (scan_string (Suc (length r)) r)
        else if c = CHR ''t'' then literal ''true'' (JBool True) s
        else if c = CHR ''f'' then literal ''false'' (JBool False) s
        else if c = CHR ''n'' then literal ''null'' JNull s
        else map_option (\<lambda>(t, r). (JNum t, r)) (scan_number s))"

text \<open>\<open>scan_value\<close> reads a value, \<open>scan_elems\<close> the elements of an array and \<open>scan_members\<close> the members of
  an object, up to and with the closing bracket. \<open>d\<close> is the nesting depth.\<close>

fun scan_value :: "nat \<Rightarrow> nat \<Rightarrow> string \<Rightarrow> (json \<times> string) option"
  and scan_elems :: "nat \<Rightarrow> nat \<Rightarrow> string \<Rightarrow> (json list \<times> string) option"
  and scan_members :: "nat \<Rightarrow> nat \<Rightarrow> string \<Rightarrow> ((string \<times> json) list \<times> string) option" where
  "scan_value 0 d s = None"
| "scan_value (Suc f) d s =
    (case skip_ws s of
       [] \<Rightarrow> None
     | c # r \<Rightarrow>
        if c = CHR ''{'' then
          (if max_depth \<le> d then None
           else (case skip_ws r of
               [] \<Rightarrow> None
             | e # r1 \<Rightarrow> if e = CHR ''}'' then Some (JObj [], r1)
                 else (case scan_members f (Suc d) (e # r1) of None \<Rightarrow> None
                    | Some (ms, r2) \<Rightarrow> Some (JObj ms, r2))))
        else if c = CHR ''['' then
          (if max_depth \<le> d then None
           else (case skip_ws r of
               [] \<Rightarrow> None
             | e # r1 \<Rightarrow> if e = CHR '']'' then Some (JArr [], r1)
                 else (case scan_elems f (Suc d) (e # r1) of None \<Rightarrow> None
                    | Some (vs, r2) \<Rightarrow> Some (JArr vs, r2))))
        else scan_scalar (c # r))"
| "scan_elems 0 d s = None"
| "scan_elems (Suc f) d s =
    (case scan_value f d s of
       None \<Rightarrow> None
     | Some (v, r) \<Rightarrow>
        (case skip_ws r of
           [] \<Rightarrow> None
         | c # r1 \<Rightarrow>
            if c = CHR '','' then (case scan_elems f d r1 of None \<Rightarrow> None | Some (vs, r2) \<Rightarrow> Some (v # vs, r2))
            else if c = CHR '']'' then Some ([v], r1) else None))"
| "scan_members 0 d s = None"
| "scan_members (Suc f) d s =
    (case skip_ws s of
       [] \<Rightarrow> None
     | q # r \<Rightarrow>
        if q \<noteq> dquote then None
        else (case scan_string (Suc (length r)) r of
           None \<Rightarrow> None
         | Some (k, r1) \<Rightarrow>
            (case skip_ws r1 of
               [] \<Rightarrow> None
             | e # r2 \<Rightarrow>
                if e \<noteq> CHR '':'' then None
                else (case scan_value f d r2 of
                   None \<Rightarrow> None
                 | Some (v, r3) \<Rightarrow>
                    (case skip_ws r3 of
                       [] \<Rightarrow> None
                     | c # r4 \<Rightarrow>
                        if c = CHR '','' then (case scan_members f d r4 of None \<Rightarrow> None
                            | Some (ms, r5) \<Rightarrow> Some ((k, v) # ms, r5))
                        else if c = CHR ''}'' then Some ([(k, v)], r4) else None)))))"

definition json_fuel :: "string \<Rightarrow> nat" where
  "json_fuel s = 2 * length s + 2"

text \<open>\<open>json.Unmarshal\<close> up to the assignment to the target: one value and white space only.\<close>

definition parse_json :: "string \<Rightarrow> json option" where
  "parse_json s =
    (case scan_value (json_fuel s) 0 s of
       None \<Rightarrow> None
     | Some (v, r) \<Rightarrow> if skip_ws r = [] then Some v else None)"

section \<open>Objects into structs\<close>

text \<open>Keys match field names up to case folding, in which the long s and the Kelvin sign count as
  letters.\<close>

definition fold_key :: "string \<Rightarrow> nat list" where
  "fold_key k = map (\<lambda>r. if 97 \<le> r \<and> r \<le> 122 then r - 32 else if r = 383 then 83
     else if r = 8490 then 75 else r) (runes k)"

definition key_is :: "string \<Rightarrow> string \<Rightarrow> bool" where
  "key_is name k \<longleftrightarrow> fold_key k = fold_key name"

text \<open>Decoding into a string field: \<open>null\<close> leaves it, another type is an error; the last one wins.\<close>

definition string_field :: "string \<Rightarrow> (string \<times> json) list \<Rightarrow> string option" where
  "string_field name ms =
    fold (\<lambda>(k, v) acc. if key_is name k
        then (case (v, acc) of (JStr t, Some _) \<Rightarrow> Some t | (JNull, _) \<Rightarrow> acc | _ \<Rightarrow> None)
        else acc) ms (Some [])"

definition digit_value :: "string \<Rightarrow> int" where
  "digit_value ds = fold (\<lambda>c acc. 10 * acc + (int (byte c) - 48)) ds 0"

definition parse_int64 :: "string \<Rightarrow> int option" where
  "parse_int64 n =
    (let (neg, ds) = (case n of c # r \<Rightarrow> if c = CHR ''-'' then (True, r) else (False, n) | [] \<Rightarrow> (False, n));
         v = (if neg then - digit_value ds else digit_value ds) in
     if ds = [] \<or> \<not> list_all is_digit ds then None
     else if - (2 ^ 63) \<le> v \<and> v < 2 ^ 63 then Some v else None)"

definition int64_field :: "string \<Rightarrow> (string \<times> json) list \<Rightarrow> int option" where
  "int64_field name ms =
    fold (\<lambda>(k, v) acc. if key_is name k
        then (case (v, acc) of
            (JNum n, Some _) \<Rightarrow> parse_int64 n
          | (JNull, _) \<Rightarrow> acc
          | _ \<Rightarrow> None)
        else acc) ms (Some 0)"

end
