(* ===== verification/Go_JSON_Lemmas.thy ===== *)
theory Go_JSON_Lemmas
  imports Go_JSON
begin

text \<open>
  Decoding what was encoded: strings of ASCII bytes and 64-bit integers survive \<open>Marshal\<close> and
  \<open>Unmarshal\<close>. The fuel of the parser is always enough.
\<close>

section \<open>Strings\<close>

lemma byte_hex_char: "n < 16 \<Longrightarrow> byte (hex_char n) = (if n < 10 then 48 + n else 87 + n)"
  unfolding hex_char_def by (subst byte_chr_of) auto

lemma hex_value_char: "n < 16 \<Longrightarrow> hex_value (hex_char n) = Some n"
  by (simp add: hex_value_def byte_hex_char Let_def)

lemma hex_value_zero: "hex_value CHR ''0'' = Some 0"
  by (simp add: hex_value_def)

lemma chr_of_eq_byte: "n < 256 \<Longrightarrow> chr_of n = c \<longleftrightarrow> n = byte c"
  by (metis byte_chr_of chr_of_byte)

lemma encode_ascii: "b < 128 \<Longrightarrow> encode_rune b = [chr_of b]"
  by (simp add: encode_rune_def)

lemma chr_of_quotes: "chr_of 34 = dquote" "chr_of 92 = backslash"
  by (simp_all add: chr_of_eq_byte) (simp_all add: byte_def)

lemma scan_escaped:
  assumes "b < 128" and "\<not> json_safe b"
  shows "scan_string (Suc f) (json_escape_byte b @ s)
    = map_option (\<lambda>(t, r). (chr_of b # t, r)) (scan_string f s)"
proof -
  note defs = json_escape_byte_def simple_escape_def u_escape_def byte_def
  consider "b = 34" | "b = 92" | "b = 8" | "b = 12" | "b = 10" | "b = 13" | "b = 9"
    | "b \<notin> {34, 92, 8, 12, 10, 13, 9}" by blast
  then show ?thesis
  proof cases
    case 8
    have "b div 16 < 16" "b div 16 * 16 + b mod 16 = b" using assms(1) by auto
    with 8 assms(1) show ?thesis
      by (simp add: defs hex_value_zero hex_value_char encode_ascii)
  qed (simp_all add: defs chr_of_quotes)
qed

lemma scan_safe:
  assumes "json_safe b"
  shows "scan_string (Suc f) (chr_of b # s) = map_option (\<lambda>(t, r). (chr_of b # t, r)) (scan_string f s)"
proof -
  from assms have b: "32 \<le> b" "b < 128" "b \<noteq> 34" "b \<noteq> 92" by (auto simp: json_safe_def)
  then have "byte (chr_of b) = b" by (simp add: byte_chr_of)
  moreover from b have "chr_of b \<noteq> dquote" "chr_of b \<noteq> backslash"
    by (simp_all add: chr_of_eq_byte) (simp_all add: byte_def)
  ultimately show ?thesis using b by simp
qed

lemma scan_json_body:
  assumes "list_all (\<lambda>b. b < 128) bs" and "length bs < f"
  shows "scan_string f (json_body bs @ dquote # r) = Some (map chr_of bs, r)"
  using assms
proof (induction bs arbitrary: f)
  case Nil
  then show ?case by (cases f) simp_all
next
  case (Cons b bs)
  then obtain f' where f: "f = Suc f'" "length bs < f'" by (cases f) auto
  with Cons have IH: "scan_string f' (json_body bs @ dquote # r) = Some (map chr_of bs, r)" by simp
  show ?case
  proof (cases "json_safe b")
    case True
    with Cons.prems scan_safe [OF True, of f' "json_body bs @ dquote # r"] IH f show ?thesis by simp
  next
    case False
    with Cons.prems scan_escaped [OF _ False, of f' "json_body bs @ dquote # r"] IH f show ?thesis by simp
  qed
qed

lemma length_json_body: "list_all (\<lambda>b. b < 128) bs \<Longrightarrow> length bs \<le> length (json_body bs)"
  by (induction bs) (auto simp: json_escape_byte_def)

text \<open>Reading back a marshalled ASCII string.\<close>

lemma scan_json_string:
  assumes "is_ascii s" and "length s < f"
  shows "scan_string f (json_body (map byte s) @ dquote # r) = Some (s, r)"
proof -
  have "list_all (\<lambda>b. b < 128) (map byte s)" using assms(1) by (simp add: is_ascii_def list_all_iff)
  from scan_json_body [OF this, of f r] assms(2) show ?thesis by (simp add: comp_def)
qed

lemma length_json_string:
  "is_ascii s \<Longrightarrow> length s \<le> length (json_body (map byte s))"
  using length_json_body [of "map byte s"] by (simp add: is_ascii_def list_all_iff)

lemma scan_json_string_fuel:
  assumes "is_ascii s"
  shows "scan_string (Suc (length (json_body (map byte s) @ dquote # r))) (json_body (map byte s) @ dquote # r)
    = Some (s, r)"
proof (rule scan_json_string [OF assms])
  have "length (map byte s) \<le> length (json_body (map byte s))"
    by (rule length_json_body) (use assms in \<open>simp add: is_ascii_def list_all_iff\<close>)
  then show "length s < Suc (length (json_body (map byte s) @ dquote # r))" by simp
qed

section \<open>Integers\<close>

lemma digit_value_append: "digit_value (ds @ [c]) = 10 * digit_value ds + (int (byte c) - 48)"
  by (simp add: digit_value_def)

lemma show_nat_value: "digit_value (show_nat n) = int n"
proof (induction n rule: show_nat.induct)
  case (1 n)
  show ?case
  proof (cases "n < 10")
    case True
    then show ?thesis by (subst show_nat.simps) (simp add: digit_value_def byte_chr_of)
  next
    case False
    have "int n = 10 * int (n div 10) + int (n mod 10)" by presburger
    with False 1 show ?thesis
      by (subst show_nat.simps) (simp add: digit_value_append byte_chr_of)
  qed
qed

lemma show_nat_not_Nil [simp]: "show_nat n \<noteq> []"
  by (subst show_nat.simps) simp

lemma show_nat_all: "list_all is_digit (show_nat n)"
  using show_nat_digits by (simp add: list_all_iff)

lemma parse_show_int: "- (2 ^ 63) \<le> v \<Longrightarrow> v < 2 ^ 63 \<Longrightarrow> parse_int64 (show_int v) = Some v"
proof -
  assume v: "- (2 ^ 63) \<le> v" "v < 2 ^ 63"
  show ?thesis
  proof (cases "v < 0")
    case True
    then have "show_int v = CHR ''-'' # show_nat (nat (- v))" by (simp add: show_int_def)
    with True v show ?thesis by (simp add: parse_int64_def show_nat_value show_nat_all)
  next
    case False
    obtain c r where cr: "show_nat (nat v) = c # r" by (cases "show_nat (nat v)") auto
    then have "c \<noteq> CHR ''-''" using show_nat_digits [of c "nat v"] by (auto simp: ascii_range_def)
    then have "parse_int64 (show_nat (nat v)) = Some v"
      if "- (2 ^ 63) \<le> v \<and> v < 2 ^ 63" using False show_nat_value [of "nat v"] show_nat_all [of "nat v"] that
      by (simp add: parse_int64_def cr)
    with False v show ?thesis by (simp add: show_int_def)
  qed
qed

lemma show_nat_head: "n \<noteq> 0 \<Longrightarrow> hd (show_nat n) \<noteq> CHR ''0''"
proof (induction n rule: show_nat.induct)
  case (1 n)
  show ?case
  proof (cases "n < 10")
    case True
    with 1(2) show ?thesis by (subst show_nat.simps) (simp add: chr_of_eq_byte)
  next
    case False
    with 1 show ?thesis by (subst show_nat.simps) simp
  qed
qed

text \<open>A number ends where neither a digit, a point nor an exponent follows.\<close>

definition number_end :: "string \<Rightarrow> bool" where
  "number_end r \<longleftrightarrow> (case r of [] \<Rightarrow> True
     | c # _ \<Rightarrow> \<not> is_digit c \<and> c \<noteq> CHR ''.'' \<and> c \<noteq> CHR ''e'' \<and> c \<noteq> CHR ''E'')"

lemma scan_show_nat:
  assumes "number_end r"
  shows "scan_int (show_nat n @ r) = Some (show_nat n, r)"
proof (cases "n = 0")
  case True
  have "show_nat 0 = ''0''" by (subst show_nat.simps) (simp add: chr_of_eq_byte)
  with True show ?thesis by (simp add: scan_int_def)
next
  case False
  obtain c ds where cd: "show_nat n = c # ds" by (cases "show_nat n") auto
  have c: "c \<noteq> CHR ''0''" "is_digit c" using show_nat_head [OF False] show_nat_digits [of c n] cd by auto
  have all: "\<forall>x \<in> set (c # ds). is_digit x" using show_nat_digits [of _ n] cd by auto
  have "digits ((c # ds) @ r) = (c # ds, r)"
    using all assms unfolding digits_def
    by (cases r) (auto simp: number_end_def takeWhile_append2 dropWhile_append2)
  with c cd show ?thesis by (simp add: scan_int_def)
qed

lemma scan_show_int:
  assumes "number_end r"
  shows "scan_number (show_int v @ r) = Some (show_int v, r)"
proof -
  have rest: "scan_frac r = Some ([], r)" "scan_exp r = Some ([], r)"
    using assms by (cases r; simp add: scan_frac_def scan_exp_def number_end_def)+
  show ?thesis
  proof (cases "v < 0")
    case True
    then show ?thesis
      by (simp add: show_int_def scan_number_def scan_show_nat [OF assms] rest)
  next
    case False
    obtain c ds where cd: "show_nat (nat v) = c # ds" by (cases "show_nat (nat v)") auto
    then have "c \<noteq> CHR ''-''" using show_nat_digits [of c "nat v"] by (auto simp: ascii_range_def)
    with False cd scan_show_nat [OF assms, of "nat v"] show ?thesis
      by (simp add: show_int_def scan_number_def rest)
  qed
qed

section \<open>The fuel is enough\<close>

lemma skip_ws_length: "length (skip_ws s) \<le> length s"
  by (simp add: skip_ws_def length_dropWhile_le)

lemma hex4_length: "hex4 s = Some (u, r) \<Longrightarrow> length r + 4 = length s"
  by (induction s rule: hex4.induct) (auto split: option.splits)

lemma u_escape_length: "u_escape s = Some (u, r) \<Longrightarrow> length r < length s"
  by (auto simp: u_escape_def split: option.splits if_splits list.splits dest!: hex4_length)

lemma no_length: "length r < Suc 0 - k \<Longrightarrow> r = []"
  by (cases r) auto

lemma scan_string_length: "scan_string f s = Some (t, r) \<Longrightarrow> length r < length s"
proof (induction f arbitrary: s t r)
  case (Suc f)
  from Suc.prems show ?case
    by (auto split: list.splits if_splits option.splits prod.splits dest!: Suc.IH u_escape_length no_length)
qed simp

declare scan_string.simps [simp del]

lemma scan_number_length: "scan_number s = Some (t, r) \<Longrightarrow> length r < length s"
proof -
  have int: "scan_int s = Some (i, r) \<Longrightarrow> length r < length s" for s i r
    by (auto simp: scan_int_def digits_def split: list.splits if_splits)
       (metis le_imp_less_Suc length_dropWhile_le)
  have le: "length (dropWhile P s) \<le> length s" for P and s :: string by (rule length_dropWhile_le)
  have frac: "scan_frac s = Some (i, r) \<Longrightarrow> length r \<le> length s" for s i r
    using le by (auto simp: scan_frac_def digits_def split: list.splits if_splits) (meson le_SucI)
  have ex: "scan_exp s = Some (i, r) \<Longrightarrow> length r \<le> length s" for s i r
    using le by (auto simp: scan_exp_def digits_def Let_def split: list.splits if_splits prod.splits)
      (meson le_SucI)+
  assume "scan_number s = Some (t, r)"
  then show ?thesis
    by (auto simp: scan_number_def Let_def split: list.splits if_splits option.splits prod.splits
        dest!: int frac ex)
qed

lemma literal_length: "literal w v s = Some (x, r) \<Longrightarrow> w \<noteq> [] \<Longrightarrow> length r < length s"
  by (cases s) (auto simp: literal_def split: if_splits)

lemma scan_scalar_length:
  assumes "scan_scalar s = Some (v, r)"
  shows "length r < length s"
proof (cases s)
  case (Cons c t)
  let ?lit = "literal ''true'' (JBool True) s = Some (v, r) \<or> literal ''false'' (JBool False) s = Some (v, r)
    \<or> literal ''null'' JNull s = Some (v, r)"
  from assms Cons consider "map_option (\<lambda>(t, r). (JStr t, r)) (scan_string (Suc (length t)) t) = Some (v, r)"
    | ?lit | "map_option (\<lambda>(t, r). (JNum t, r)) (scan_number s) = Some (v, r)"
    by (simp only: scan_scalar_def list.case split: if_splits) blast+
  then show ?thesis
  proof cases
    case 1
    then show ?thesis using Cons by (auto dest!: scan_string_length)
  next
    case 2
    then show ?thesis by (auto dest!: literal_length)
  next
    case 3
    then show ?thesis by (auto dest!: scan_number_length)
  qed
qed (use assms in \<open>simp add: scan_scalar_def\<close>)

lemma skip_ws_Cons: "skip_ws s = c # r \<Longrightarrow> length r < length s"
  using skip_ws_length [of s] by simp

lemma scan_length_all:
  "(\<forall>d s v r. scan_value f d s = Some (v, r) \<longrightarrow> length r < length s)
   \<and> (\<forall>d s vs r. scan_elems f d s = Some (vs, r) \<longrightarrow> length r < length s)
   \<and> (\<forall>d s ms r. scan_members f d s = Some (ms, r) \<longrightarrow> length r < length s)"
proof (induction f)
  case (Suc f)
  then have V: "\<And>d s v r. scan_value f d s = Some (v, r) \<Longrightarrow> length r < length s"
    and E: "\<And>d s vs r. scan_elems f d s = Some (vs, r) \<Longrightarrow> length r < length s"
    and M: "\<And>d s ms r. scan_members f d s = Some (ms, r) \<Longrightarrow> length r < length s" by blast+
  have "length r < length s" if "scan_value (Suc f) d s = Some (v, r)" for d s v r
  proof (cases "skip_ws s")
    case (Cons c t)
    note t = skip_ws_Cons [OF Cons]
    show ?thesis
    proof (cases "c = CHR ''{'' \<or> c = CHR ''[''")
      case True
      with that Cons t show ?thesis
        by (auto split: if_splits list.splits option.splits prod.splits dest!: skip_ws_Cons E M)
    next
      case False
      with that Cons have "scan_scalar (c # t) = Some (v, r)" by simp
      from scan_scalar_length [OF this] t show ?thesis by simp
    qed
  qed (use that in simp)
  moreover have "length r < length s" if "scan_elems (Suc f) d s = Some (vs, r)" for d s vs r
    using that by (auto split: if_splits list.splits option.splits prod.splits dest!: skip_ws_Cons V E)
  moreover have "length r < length s" if "scan_members (Suc f) d s = Some (ms, r)" for d s ms r
    using that by (auto split: if_splits list.splits option.splits prod.splits
        dest!: skip_ws_Cons scan_string_length V M)
  ultimately show ?case by blast
qed simp

lemmas scan_length = scan_length_all [THEN conjunct1, rule_format]
  scan_length_all [THEN conjunct2, THEN conjunct1, rule_format]
  scan_length_all [THEN conjunct2, THEN conjunct2, rule_format]

declare scan_value.simps [simp del] scan_elems.simps [simp del] scan_members.simps [simp del]

lemma scan_fuel_step:
  "(\<forall>d s. 2 * length s + 1 \<le> f \<longrightarrow> scan_value (Suc f) d s = scan_value f d s)
   \<and> (\<forall>d s. 2 * length s + 2 \<le> f \<longrightarrow> scan_elems (Suc f) d s = scan_elems f d s)
   \<and> (\<forall>d s. 2 * length s + 1 \<le> f \<longrightarrow> scan_members (Suc f) d s = scan_members f d s)"
proof (induction f)
  case (Suc f)
  then have V: "\<And>d s. 2 * length s + 1 \<le> f \<Longrightarrow> scan_value (Suc f) d s = scan_value f d s"
    and E: "\<And>d s. 2 * length s + 2 \<le> f \<Longrightarrow> scan_elems (Suc f) d s = scan_elems f d s"
    and M: "\<And>d s. 2 * length s + 1 \<le> f \<Longrightarrow> scan_members (Suc f) d s = scan_members f d s" by blast+
  have "scan_value (Suc (Suc f)) d s = scan_value (Suc f) d s" if "2 * length s + 1 \<le> Suc f" for d s
  proof (cases "skip_ws s")
    case (Cons c t)
    have t: "length t < length s" by (rule skip_ws_Cons [OF Cons])
    have inner: "scan_members (Suc f) (Suc d) (e # r1) = scan_members f (Suc d) (e # r1)
        \<and> scan_elems (Suc f) (Suc d) (e # r1) = scan_elems f (Suc d) (e # r1)"
      if "skip_ws t = e # r1" for e r1
      using skip_ws_Cons [OF that] t \<open>2 * length s + 1 \<le> Suc f\<close> by (intro conjI M E) simp_all
    show ?thesis
      unfolding scan_value.simps(2) [of "Suc f" d s] scan_value.simps(2) [of f d s] Cons by (auto simp: inner split: list.split)
  qed (simp add: scan_value.simps)
  moreover have "scan_elems (Suc (Suc f)) d s = scan_elems (Suc f) d s" if "2 * length s + 2 \<le> Suc f" for d s
  proof (cases "scan_value f d s")
    case None
    with that V [of s d] show ?thesis
      unfolding scan_elems.simps(2) [of "Suc f" d s] scan_elems.simps(2) [of f d s] by simp
  next
    case (Some x)
    obtain v r where x: "x = (v, r)" by (cases x)
    have r: "length r < length s" using scan_length(1) Some x by blast
    have "scan_elems (Suc f) d r1 = scan_elems f d r1" if "skip_ws r = c # r1" for c r1
      using skip_ws_Cons [OF that] r \<open>2 * length s + 2 \<le> Suc f\<close> by (intro E) simp
    with Some x that V [of s d] show ?thesis
      unfolding scan_elems.simps(2) [of "Suc f" d s] scan_elems.simps(2) [of f d s]
      by (auto split: list.split)
  qed
  moreover have "scan_members (Suc (Suc f)) d s = scan_members (Suc f) d s"
    if f: "2 * length s + 1 \<le> Suc f" for d s
  proof -
    have V': "scan_value (Suc f) d r2 = scan_value f d r2" if "skip_ws s = q # r"
      "scan_string (Suc (length r)) r = Some (k, r1)" "skip_ws r1 = e # r2" for q r k r1 e r2
      using skip_ws_Cons [OF that(1)] scan_string_length [OF that(2)] skip_ws_Cons [OF that(3)] f
      by (intro V) simp
    have M': "scan_members (Suc f) d r4 = scan_members f d r4" if "skip_ws s = q # r"
      "scan_string (Suc (length r)) r = Some (k, r1)" "skip_ws r1 = e # r2" "scan_value f d r2 = Some (v, r3)"
      "skip_ws r3 = c # r4" for q r k r1 e r2 v r3 c r4
      using skip_ws_Cons [OF that(1)] scan_string_length [OF that(2)] skip_ws_Cons [OF that(3)]
        scan_length(1) [OF that(4)] skip_ws_Cons [OF that(5)] f
      by (intro M) simp
    show ?thesis
      unfolding scan_members.simps(2) [of "Suc f" d s] scan_members.simps(2) [of f d s]
      by (auto simp: V' M' split: list.split option.split)
  qed
  ultimately show ?case by blast
qed simp

text \<open>More fuel than \<open>json_fuel\<close> changes nothing.\<close>

lemma parse_fuel:
  assumes "json_fuel s \<le> f"
  shows "scan_value f 0 s = scan_value (json_fuel s) 0 s"
  using assms
proof (induction f rule: dec_induct)
  case (step f)
  have "scan_value (Suc f) 0 s = scan_value f 0 s"
    using scan_fuel_step [of f] step(1) by (simp add: json_fuel_def)
  with step show ?case by simp
qed simp

section \<open>Objects\<close>

text \<open>A marshalled value: what precedes a comma, a closing bracket or the end reads back.\<close>

definition json_end :: "string \<Rightarrow> bool" where
  "json_end r \<longleftrightarrow> (case r of [] \<Rightarrow> True | c # _ \<Rightarrow> c = CHR '','' \<or> c = CHR ''}'' \<or> c = CHR '']'')"

definition scans :: "string \<Rightarrow> json \<Rightarrow> bool" where
  "scans t v \<longleftrightarrow> (\<forall>f d r. json_end r \<longrightarrow> length t \<le> f \<longrightarrow> d < max_depth \<longrightarrow> scan_value (Suc f) d (t @ r) = Some (v, r))"

lemma scansD: "scans t v \<Longrightarrow> json_end r \<Longrightarrow> length t < f \<Longrightarrow> d < max_depth \<Longrightarrow> scan_value f d (t @ r) = Some (v, r)"
  by (cases f) (auto simp: scans_def)

lemma skip_ws_id: "\<not> json_ws c \<Longrightarrow> skip_ws (c # s) = c # s"
  by (simp add: skip_ws_def)

lemma byte_structure [simp]:
  "byte CHR ''{'' = 123" "byte CHR ''}'' = 125" "byte CHR '','' = 44" "byte CHR '':'' = 58"
  "byte dquote = 34" "byte CHR '']'' = 93"
  by (simp_all add: byte_def)

lemma skip_ws_structure [simp]:
  "skip_ws (CHR ''{'' # s) = CHR ''{'' # s" "skip_ws (CHR ''}'' # s) = CHR ''}'' # s"
  "skip_ws (CHR '','' # s) = CHR '','' # s" "skip_ws (CHR '':'' # s) = CHR '':'' # s"
  "skip_ws (dquote # s) = dquote # s" "skip_ws [] = []"
  by (simp_all add: skip_ws_id json_ws_def) (simp add: skip_ws_def)

lemma scans_string: "is_ascii s \<Longrightarrow> scans (json_string s) (JStr s)"
  using scan_json_string_fuel [of s]
  by (simp add: scans_def scan_value.simps json_string_def scan_scalar_def)

lemma scans_int: "scans (show_int v) (JNum (show_int v))"
  unfolding scans_def
proof (intro allI impI)
  fix f d and r :: string
  assume "json_end r"
  then have "number_end r"
    by (auto simp: json_end_def number_end_def ascii_range_def split: list.splits)
  note n = scan_show_int [OF this, of v]
  obtain c t where ct: "show_int v @ r = c # t" by (cases "show_int v @ r") (auto simp: show_int_def split: if_splits)
  have "c = CHR ''-'' \<or> is_digit c"
    using ct show_nat_digits [of c "nat v"]
    by (cases "show_nat (nat v)") (auto simp: show_int_def split: if_splits)
  then have "byte c = 45 \<or> 48 \<le> byte c \<and> byte c \<le> 57" by (auto simp: ascii_range_def)
  moreover then have "c \<notin> {CHR ''{'', CHR ''['', dquote, CHR ''t'', CHR ''f'', CHR ''n''}" "\<not> json_ws c"
    by (auto simp: byte_def json_ws_def)
  ultimately show "scan_value (Suc f) d (show_int v @ r) = Some (JNum (show_int v), r)"
    using n by (simp add: scan_value.simps ct skip_ws_id scan_scalar_def)
qed

lemma scan_members_json:
  assumes "list_all2 (\<lambda>(k, t) (k', v). k = k' \<and> is_ascii k \<and> scans t v) ms vs" and "ms \<noteq> []"
    and "length (json_members ms) < f" and "d < max_depth"
  shows "scan_members f d (json_members ms @ CHR ''}'' # r) = Some (vs, r)"
  using assms(1-3)
proof (induction ms arbitrary: f vs rule: json_members.induct)
  case (2 k t)
  from 2(1) obtain v where vs: "vs = [(k, v)]" and k: "is_ascii k" and v: "scans t v"
    by (cases vs; force)
  obtain f' where f: "f = Suc f'" "length t < f'" using 2(3) by (cases f) (simp_all add: json_string_def)
  have "scan_value f' d (t @ CHR ''}'' # r) = Some (v, CHR ''}'' # r)"
    by (rule scansD [OF v]) (use f assms(4) in \<open>simp_all add: json_end_def\<close>)
  with scan_json_string [OF k] length_json_string [OF k] show ?case
    by (simp add: f vs scan_members.simps json_string_def)
next
  case (3 k t m ms)
  from 3(2) obtain v vs' where vs: "vs = (k, v) # vs'" and k: "is_ascii k" and v: "scans t v"
    and vs': "list_all2 (\<lambda>(k, t) (k', v). k = k' \<and> is_ascii k \<and> scans t v) (m # ms) vs'"
    by (cases vs; force)
  obtain f' where f: "f = Suc f'" "length t < f'" "length (json_members (m # ms)) < f'"
    using 3(4) by (cases f) (simp_all add: json_string_def)
  have "scan_value f' d (t @ CHR '','' # s) = Some (v, CHR '','' # s)" for s
    by (rule scansD [OF v]) (use f assms(4) in \<open>simp_all add: json_end_def\<close>)
  with scan_json_string [OF k] length_json_string [OF k] 3(1) [OF vs' _ f(3)] show ?case
    by (simp add: f(1) vs scan_members.simps json_string_def)
qed simp

text \<open>An object is the first value of a text, whatever follows.\<close>

lemma scan_object:
  assumes "list_all2 (\<lambda>(k, t) (k', v). k = k' \<and> is_ascii k \<and> scans t v) ms vs" and "ms \<noteq> []"
  shows "scan_value (json_fuel (json_object ms @ r)) 0 (json_object ms @ r) = Some (JObj vs, r)"
proof -
  obtain t where head: "json_members ms = dquote # t"
    using assms(2) by (cases ms rule: json_members.cases) (auto simp: json_string_def)
  let ?s = "json_object ms @ r"
  have "length (json_members ms) < Suc (2 * length ?s)" by (simp add: json_object_def)
  from scan_members_json [OF assms this, of 1 r]
  have "scan_members (Suc (2 * length ?s)) 1 (dquote # t @ ''}'' @ r) = Some (vs, r)" by (simp add: head max_depth_def)
  then show ?thesis
    unfolding json_fuel_def by (simp add: scan_value.simps json_object_def head max_depth_def byte_def)
qed

lemma parse_json_object:
  assumes "list_all2 (\<lambda>(k, t) (k', v). k = k' \<and> is_ascii k \<and> scans t v) ms vs" and "ms \<noteq> []"
  shows "parse_json (json_object ms) = Some (JObj vs)"
  using scan_object [OF assms, of "[]"] by (simp add: parse_json_def)

end
