(* ===== verification/Auth_Session.thy ===== *)
theory Auth_Session
  imports Go_JSON_Lemmas Go_Crypto
begin

text \<open>
  Package \<open>internal/auth\<close>, the session layer: \<open>session.go\<close> signs a user id and an expiry with
  HMAC-SHA256 into a cookie and checks them, and carries the state and nonce of a login in a second
  cookie. Times are nanoseconds since the epoch, as are durations; a token stores seconds. The
  wrap-around of Go's \<open>time.Time\<close> for expiry times beyond 292 billion years is not modelled.
\<close>

record session =
  se_user :: string
  se_expires :: int

record session_store =
  ss_name :: string
  ss_key :: string
  ss_ttl :: int
  ss_secure :: bool
  ss_oidc_ttl :: int

record session_options =
  so_name :: string
  so_secret :: string
  so_ttl :: int
  so_secure :: bool
  so_oidc_ttl :: int

definition second :: int where "second = 1000000000"

text \<open>Go's integer division truncates towards zero.\<close>

definition quot :: "int \<Rightarrow> int \<Rightarrow> int" where
  "quot a b = sgn a * sgn b * (\<bar>a\<bar> div \<bar>b\<bar>)"

definition NewSessionStore :: "session_options \<Rightarrow> string + session_store" where
  "NewSessionStore opts =
    (if length (so_secret opts) < 32 then Inl ''auth: session secret must be at least 32 bytes''
     else if so_name opts = [] then Inl ''auth: session cookie name must be set''
     else let oidcTTL = (if so_oidc_ttl opts \<le> 0 then 600 * second else so_oidc_ttl opts) in
       Inr \<lparr>ss_name = so_name opts, ss_key = sha256 (so_secret opts), ss_ttl = so_ttl opts,
            ss_secure = so_secure opts, ss_oidc_ttl = oidcTTL\<rparr>)"

definition sep :: char where "sep = CHR ''.''"

text \<open>\<open>time.Time.Unix\<close> rounds down to the second.\<close>

definition encode_session :: "session_store \<Rightarrow> session \<Rightarrow> string" where
  "encode_session st sess =
    (let payload = json_object [(''u'', json_string (se_user sess)),
           (''e'', show_int (se_expires sess div second))];
         p = raw_url_encode payload;
         sig = raw_url_encode (hmac_sha256 (ss_key st) p)
     in p @ [sep] @ sig)"

text \<open>The payload as a struct; \<open>null\<close> leaves the struct as it is.\<close>

definition session_payload :: "string \<Rightarrow> (string \<times> int) option" where
  "session_payload payload =
    (case parse_json payload of
       Some (JObj ms) \<Rightarrow>
         (case (string_field ''u'' ms, int64_field ''e'' ms) of
            (Some u, Some e) \<Rightarrow> Some (u, e)
          | _ \<Rightarrow> None)
     | Some JNull \<Rightarrow> Some ([], 0)
     | _ \<Rightarrow> None)"

definition decode_session :: "session_store \<Rightarrow> string \<Rightarrow> session option" where
  "decode_session st token =
    (case cut_at sep token of (payloadB64, sigB64, ok) \<Rightarrow>
       if \<not> ok \<or> payloadB64 = [] \<or> sigB64 = [] then None
       else (case raw_url_decode payloadB64 of
           None \<Rightarrow> None
         | Some payload \<Rightarrow>
            (case raw_url_decode sigB64 of
               None \<Rightarrow> None
             | Some sig \<Rightarrow>
                if sig \<noteq> hmac_sha256 (ss_key st) payloadB64 then None
                else (case session_payload payload of
                    None \<Rightarrow> None
                  | Some (u, e) \<Rightarrow>
                     if u = [] then None
                     else Some \<lparr>se_user = u, se_expires = e * second\<rparr>))))"

definition Issue :: "session_store \<Rightarrow> string \<Rightarrow> int \<Rightarrow> string" where
  "Issue st userID now = encode_session st \<lparr>se_user = userID, se_expires = now + ss_ttl st\<rparr>"

definition ValidateSession :: "session_store \<Rightarrow> string \<Rightarrow> int \<Rightarrow> session option" where
  "ValidateSession st token now =
    (case decode_session st token of
       None \<Rightarrow> None
     | Some sess \<Rightarrow> if se_expires sess \<le> now then None else Some sess)"

section \<open>Cookies\<close>

record cookie =
  ck_name :: string
  ck_value :: string
  ck_path :: string
  ck_http_only :: bool
  ck_secure :: bool
  ck_same_site :: string
  ck_max_age :: int

definition SessionCookie :: "session_store \<Rightarrow> string \<Rightarrow> int \<Rightarrow> cookie" where
  "SessionCookie st token maxAge =
    \<lparr>ck_name = ss_name st, ck_value = token, ck_path = ''/'', ck_http_only = True,
     ck_secure = ss_secure st, ck_same_site = ''Lax'', ck_max_age = quot maxAge second\<rparr>"

definition SetCookie :: "session_store \<Rightarrow> string \<Rightarrow> cookie" where
  "SetCookie st token = SessionCookie st token (ss_ttl st)"

definition ClearCookie :: "session_store \<Rightarrow> cookie" where
  "ClearCookie st = SessionCookie st [] (- 1)"

record oidc_state =
  os_state :: string
  os_nonce :: string

definition oidcStateCookieName :: string where
  "oidcStateCookieName = ''selfu_oidc_state''"

definition SetOIDCStateCookie :: "session_store \<Rightarrow> oidc_state \<Rightarrow> cookie" where
  "SetOIDCStateCookie st s =
    (let v = raw_url_encode (json_object [(''s'', json_string (os_state s)), (''n'', json_string (os_nonce s))])
     in \<lparr>ck_name = oidcStateCookieName, ck_value = v, ck_path = ''/api/v1/auth'', ck_http_only = True,
         ck_secure = ss_secure st, ck_same_site = ''Lax'', ck_max_age = quot (ss_oidc_ttl st) second\<rparr>)"

definition ClearOIDCStateCookie :: "session_store \<Rightarrow> cookie" where
  "ClearOIDCStateCookie st =
    \<lparr>ck_name = oidcStateCookieName, ck_value = [], ck_path = ''/api/v1/auth'', ck_http_only = True,
     ck_secure = ss_secure st, ck_same_site = ''Lax'', ck_max_age = - 1\<rparr>"

definition state_payload :: "string \<Rightarrow> oidc_state option" where
  "state_payload raw =
    (case parse_json raw of
       Some (JObj ms) \<Rightarrow>
         (case (string_field ''s'' ms, string_field ''n'' ms) of
            (Some s, Some n) \<Rightarrow> Some \<lparr>os_state = s, os_nonce = n\<rparr>
          | _ \<Rightarrow> None)
     | Some JNull \<Rightarrow> Some \<lparr>os_state = [], os_nonce = []\<rparr>
     | _ \<Rightarrow> None)"

text \<open>The request's cookies by name; the first one of a name counts.\<close>

definition GetOIDCStateCookie :: "(string \<times> string) list \<Rightarrow> oidc_state option" where
  "GetOIDCStateCookie cookies =
    (case map_of cookies oidcStateCookieName of
       None \<Rightarrow> None
     | Some v \<Rightarrow>
        (case raw_url_decode v of
           None \<Rightarrow> None
         | Some raw \<Rightarrow>
            (case state_payload raw of
               None \<Rightarrow> None
             | Some s \<Rightarrow> if os_state s = [] \<or> os_nonce s = [] then None else Some s)))"

section \<open>Issued tokens validate until they expire\<close>

lemma json_keys:
  "is_ascii ''u''" "is_ascii ''e''" "is_ascii ''s''" "is_ascii ''n''"
  by (simp_all add: is_ascii_def byte_def)

lemma key_is_simps:
  "key_is ''u'' ''u''" "key_is ''e'' ''e''" "\<not> key_is ''u'' ''e''" "\<not> key_is ''e'' ''u''"
  "key_is ''s'' ''s''" "key_is ''n'' ''n''" "\<not> key_is ''s'' ''n''" "\<not> key_is ''n'' ''s''"
  by (simp_all add: key_is_def fold_key_def runes_ascii is_ascii_def byte_def)

lemma session_payload_marshal:
  assumes "is_ascii u" and "- (2 ^ 63) \<le> e" and "e < 2 ^ 63"
  shows "session_payload (json_object [(''u'', json_string u), (''e'', show_int e)]) = Some (u, e)"
proof -
  have "parse_json (json_object [(''u'', json_string u), (''e'', show_int e)])
      = Some (JObj [(''u'', JStr u), (''e'', JNum (show_int e))])"
    by (rule parse_json_object) (simp_all add: scans_string scans_int assms(1) byte_def)
  with parse_show_int [OF assms(2,3)] show ?thesis
    by (simp add: session_payload_def string_field_def int64_field_def key_is_simps)
qed

lemma decode_encode_session:
  assumes "is_ascii (se_user s)" and "se_user s \<noteq> []"
    and "- (2 ^ 63) \<le> se_expires s div second" and "se_expires s div second < 2 ^ 63"
  shows "decode_session st (encode_session st s)
    = Some \<lparr>se_user = se_user s, se_expires = (se_expires s div second) * second\<rparr>"
proof -
  let ?p = "raw_url_encode (json_object [(''u'', json_string (se_user s)),
    (''e'', show_int (se_expires s div second))])"
  have cut: "cut_at sep (?p @ [sep] @ t) = (?p, t, True)" for t
    using raw_url_no_dot by (simp add: sep_def cut_at_found)
  have ne: "hmac_sha256 k m \<noteq> []" for k m
    using length_sha256 by (metis hmac_sha256_def length_0_conv zero_neq_numeral)
  have "?p \<noteq> []" by (simp add: json_object_def)
  with cut [of "raw_url_encode (hmac_sha256 (ss_key st) ?p)"] ne show ?thesis
    using session_payload_marshal [OF assms(1,3,4)] assms(2)
    by (simp add: decode_session_def encode_session_def Let_def)
qed

text \<open>C15: a session token issued for a user at one time validates at another exactly until the whole
  second in which its lifetime ends, and yields the user it was issued for (any user id of ASCII
  bytes, as uuids are).\<close>

theorem session_roundtrip:
  assumes "is_ascii u" and "u \<noteq> []"
    and "- (2 ^ 63) \<le> (now + ss_ttl st) div second" and "(now + ss_ttl st) div second < 2 ^ 63"
  shows "ValidateSession st (Issue st u now) later =
    (let expiry = (now + ss_ttl st) div second * second in
     if expiry \<le> later then None else Some \<lparr>se_user = u, se_expires = expiry\<rparr>)"
  using decode_encode_session [of "\<lparr>se_user = u, se_expires = now + ss_ttl st\<rparr>" st] assms
  by (simp add: ValidateSession_def Issue_def Let_def)

theorem session_roundtrip_witness:
  "\<forall>key. (let st = \<lparr>ss_name = ''selfu'', ss_key = key, ss_ttl = 3600 * second, ss_secure = True,
                   ss_oidc_ttl = 600 * second\<rparr> in
     ValidateSession st (Issue st ''alice'' 0) (60 * second)
       = Some \<lparr>se_user = ''alice'', se_expires = 3600 * second\<rparr>)"
proof
  fix key
  let ?st = "\<lparr>ss_name = ''selfu'', ss_key = key, ss_ttl = 3600 * second, ss_secure = True,
                   ss_oidc_ttl = 600 * second\<rparr>"
  have "is_ascii ''alice''" "''alice'' \<noteq> []" by (simp_all add: is_ascii_def byte_def)
  from session_roundtrip [OF this, of 0 ?st "60 * second"]
  show "let st = ?st in ValidateSession st (Issue st ''alice'' 0) (60 * second)
       = Some \<lparr>se_user = ''alice'', se_expires = 3600 * second\<rparr>"
    by (simp add: second_def)
qed

text \<open>A token validates only if it carries, under the key of the store, the HMAC of its own payload:
  nothing but the signed payload determines the session.\<close>

lemma signed_token:
  assumes "ValidateSession st token now = Some s"
  shows "\<exists>p sig payload e. token = p @ sep # sig \<and> raw_url_decode sig = Some (hmac_sha256 (ss_key st) p)
    \<and> raw_url_decode p = Some payload \<and> session_payload payload = Some (se_user s, e)
    \<and> se_expires s = e * second \<and> now < se_expires s \<and> se_user s \<noteq> []"
proof -
  obtain p sig ok where cut: "cut_at sep token = (p, sig, ok)" by (metis prod_cases3)
  with assms have "ok" by (auto simp: ValidateSession_def decode_session_def split: if_splits option.splits)
  with cut have "cut_at sep token = (p, sig, True)" by simp
  from cut_at_True [OF this] have "token = p @ sep # sig" by simp
  with assms cut show ?thesis
    by - (rule exI [of _ p], rule exI [of _ sig],
       auto simp: ValidateSession_def decode_session_def split: if_splits option.splits)
qed

text \<open>A token that the key of the store signs for a user, with an expiry after \<open>now\<close>.\<close>

definition signed_for :: "session_store \<Rightarrow> string \<Rightarrow> string \<Rightarrow> int \<Rightarrow> bool" where
  "signed_for st token user now \<longleftrightarrow> (\<exists>p sig payload e. token = p @ sep # sig
    \<and> raw_url_decode sig = Some (hmac_sha256 (ss_key st) p) \<and> raw_url_decode p = Some payload
    \<and> session_payload payload = Some (user, e) \<and> now < e * second)"

lemma ValidateSession_signed:
  "ValidateSession st token t = Some s \<Longrightarrow> now \<le> t \<Longrightarrow> signed_for st token (se_user s) now"
  using signed_token [of st token t s] unfolding signed_for_def by fastforce

lemma state_cookie:
  assumes "is_ascii (os_state s)" and "is_ascii (os_nonce s)" and "os_state s \<noteq> []" and "os_nonce s \<noteq> []"
  shows "GetOIDCStateCookie ((oidcStateCookieName, ck_value (SetOIDCStateCookie st s)) # cookies) = Some s"
proof -
  have "parse_json (json_object [(''s'', json_string (os_state s)), (''n'', json_string (os_nonce s))])
      = Some (JObj [(''s'', JStr (os_state s)), (''n'', JStr (os_nonce s))])"
    by (rule parse_json_object) (simp_all add: scans_string assms byte_def)
  then show ?thesis
    by (simp add: GetOIDCStateCookie_def SetOIDCStateCookie_def state_payload_def string_field_def
        key_is_simps assms Let_def)
qed

text \<open>The state and nonce of a login survive the round trip through their cookie, and a cookie
  without both is refused.\<close>

theorem oidc_state_roundtrip:
  assumes "is_ascii (os_state s)" and "is_ascii (os_nonce s)"
  shows "GetOIDCStateCookie [(ck_name (SetOIDCStateCookie st s), ck_value (SetOIDCStateCookie st s))]
    = (if os_state s = [] \<or> os_nonce s = [] then None else Some s)"
proof -
  have "parse_json (json_object [(''s'', json_string (os_state s)), (''n'', json_string (os_nonce s))])
      = Some (JObj [(''s'', JStr (os_state s)), (''n'', JStr (os_nonce s))])"
    by (rule parse_json_object) (simp_all add: scans_string assms byte_def)
  then show ?thesis
    by (simp add: GetOIDCStateCookie_def SetOIDCStateCookie_def state_payload_def string_field_def
        key_is_simps Let_def)
qed

theorem oidc_state_roundtrip_witness:
  "\<forall>st. GetOIDCStateCookie [(oidcStateCookieName,
     ck_value (SetOIDCStateCookie st \<lparr>os_state = ''abc'', os_nonce = ''xyz''\<rparr>))]
     = Some \<lparr>os_state = ''abc'', os_nonce = ''xyz''\<rparr>"
proof
  fix st
  have "is_ascii (os_state \<lparr>os_state = ''abc'', os_nonce = ''xyz''\<rparr>)"
    "is_ascii (os_nonce \<lparr>os_state = ''abc'', os_nonce = ''xyz''\<rparr>)"
    by (simp_all add: is_ascii_def byte_def)
  from oidc_state_roundtrip [OF this, of st]
  show "GetOIDCStateCookie [(oidcStateCookieName,
     ck_value (SetOIDCStateCookie st \<lparr>os_state = ''abc'', os_nonce = ''xyz''\<rparr>))]
     = Some \<lparr>os_state = ''abc'', os_nonce = ''xyz''\<rparr>"
    by (simp add: SetOIDCStateCookie_def Let_def)
qed

text \<open>The cookies that end a session and a login differ: clearing the login state expires its
  cookie, while clearing the session sets a session cookie without a lifetime, whose empty value
  stays in the browser; a \<open>Max-Age\<close> of zero means that the attribute is left out.\<close>

theorem clear_cookies:
  "ck_max_age (ClearOIDCStateCookie st) = - 1
   \<and> ClearCookie st = (SetCookie st [])\<lparr>ck_max_age := 0\<rparr>"
  by (simp add: ClearOIDCStateCookie_def ClearCookie_def SetCookie_def SessionCookie_def quot_def second_def)

end
