(* ===== verification/Http_Auth.thy ===== *)
theory Http_Auth
  imports Http_Users_Lemmas Auth_Session
begin

text \<open>
  Authentication: \<open>httpapi/authn.go\<close> (the session gateway in front of every protected route), the login
  flow of \<open>httpapi/handlers.go\<close> and the code exchange of \<open>auth/oidc.go\<close>. The OAuth client and the
  verifier of id tokens belong to libraries: they are the fields of \<open>oidc_client\<close>. An answer carries the
  cookies it sets, in order. The clock counts microseconds, sessions nanoseconds.
\<close>

section \<open>The code exchange\<close>

record oidc_claims =
  cl_email :: string
  cl_name :: string
  cl_preferred :: string

text \<open>A verified id token; its claims are \<open>None\<close> when they do not decode.\<close>

record id_token =
  it_nonce :: string
  it_subject :: string
  it_claims :: "oidc_claims option"

record oidc_identity =
  oi_subject :: string
  oi_email :: string
  oi_display_name :: string

text \<open>\<open>oc_exchange\<close> swaps a code for the raw id token (\<open>Some None\<close>: no id token in the response),
  \<open>oc_verify\<close> checks signature, issuer, audience and expiry.\<close>

record 'x oidc_client =
  oc_auth_code_url :: "string \<Rightarrow> string \<Rightarrow> string"
  oc_exchange :: "string \<Rightarrow> ('x, string option option) prog"
  oc_verify :: "string \<Rightarrow> ('x, id_token option) prog"

definition localPart :: "string \<Rightarrow> string" where
  "localPart email =
    (case index_byte email CHR ''@'' of
       Some i \<Rightarrow> if 0 < i then take i email else email
     | None \<Rightarrow> email)"

definition Exchange :: "'x oidc_client \<Rightarrow> string \<Rightarrow> string \<Rightarrow> ('x, oidc_identity option) prog" where
  "Exchange oc code expectedNonce = do {
     tok \<leftarrow> oc_exchange oc code;
     (case tok of
        None \<Rightarrow> ret None
      | Some None \<Rightarrow> ret None
      | Some (Some rawIDToken) \<Rightarrow> do {
          idt \<leftarrow> oc_verify oc rawIDToken;
          ret (case idt of
              None \<Rightarrow> None
            | Some idToken \<Rightarrow>
               if it_nonce idToken \<noteq> expectedNonce then None
               else (case it_claims idToken of
                   None \<Rightarrow> None
                 | Some claims \<Rightarrow>
                    if it_subject idToken = [] then None
                    else if cl_email claims = [] then None
                    else let n1 = cl_name claims;
                             n2 = (if n1 = [] then cl_preferred claims else n1);
                             n3 = (if n2 = [] then localPart (cl_email claims) else n2)
                         in Some \<lparr>oi_subject = it_subject idToken, oi_email = cl_email claims,
                                  oi_display_name = n3\<rparr>)) }) }"

section \<open>Requests, answers, dependencies\<close>

record incoming =
  ic_cookies :: "(string \<times> string) list"
  ic_query :: "string \<Rightarrow> string"
  ic_id :: string

datatype 'p answer = Reply "cookie list" "'p reply" | Redirect "cookie list" nat string

record 'x auth_deps =
  ad_sessions :: session_store
  ad_oidc :: "'x oidc_client"
  ad_issuer :: string
  ad_after_login :: string

primrec cookies_of :: "'p answer \<Rightarrow> cookie list" where
  "cookies_of (Reply cs rep) = cs"
| "cookies_of (Redirect cs code to) = cs"

section \<open>The session gateway\<close>

definition currentSessionUser :: "'x auth_deps \<Rightarrow> incoming \<Rightarrow> ('x world, user option) prog" where
  "currentSessionUser ad rq =
    (case map_of (ic_cookies rq) (ss_name (ad_sessions ad)) of
       None \<Rightarrow> ret None
     | Some token \<Rightarrow> do {
         now \<leftarrow> time_now;
         (case ValidateSession (ad_sessions ad) token (now * 1000) of
            None \<Rightarrow> ret None
          | Some sess \<Rightarrow> do {
              r \<leftarrow> GetByID (se_user sess);
              ret (case r of Inl e \<Rightarrow> None | Inr u \<Rightarrow> Some u) }) })"

definition authenticate :: "'x auth_deps \<Rightarrow> incoming \<Rightarrow> ('x world, user option) prog" where
  "authenticate ad rq = currentSessionUser ad rq"

definition unauthorized :: "'x auth_deps \<Rightarrow> 'p answer" where
  "unauthorized ad = Reply [ClearCookie (ad_sessions ad)]
     (Fail 401 ''unauthorized'' ''missing or invalid session'')"

definition requireAuth :: "'x auth_deps \<Rightarrow> (user \<Rightarrow> ('x world, 'p answer) prog) \<Rightarrow> incoming
    \<Rightarrow> ('x world, 'p answer) prog" where
  "requireAuth ad nxt rq = do {
     u \<leftarrow> authenticate ad rq;
     (case u of None \<Rightarrow> ret (unauthorized ad) | Some u \<Rightarrow> nxt u) }"

text \<open>\<open>authn\<close> puts the user into the request that the handler reads with \<open>rUser\<close>.\<close>

definition authn :: "'x auth_deps \<Rightarrow> (user \<Rightarrow> ('x world, 'p reply) prog) \<Rightarrow> incoming
    \<Rightarrow> ('x world, 'p answer) prog" where
  "authn ad nxt rq = do {
     u \<leftarrow> authenticate ad rq;
     (case u of
        None \<Rightarrow> ret (unauthorized ad)
      | Some u \<Rightarrow> do { rep \<leftarrow> nxt u; ret (Reply [] rep) }) }"

text \<open>\<open>uiAuth\<close>: the redirect it has written, or the user.\<close>

definition uiAuth :: "'x auth_deps \<Rightarrow> incoming \<Rightarrow> ('x world, 'p answer + user) prog" where
  "uiAuth ad rq = do {
     u \<leftarrow> authenticate ad rq;
     (case u of
        None \<Rightarrow> ret (Inl (Redirect [] 302 ''/api/v1/auth/login''))
      | Some u \<Rightarrow> do {
          r \<leftarrow> GetInstallation;
          ret (case r of
              Inr i \<Rightarrow> if \<not> Onboarded i then Inl (Redirect [] 302 ''/ui/setup'') else Inr u
            | Inl e \<Rightarrow> Inr u) }) }"

section \<open>The login flow\<close>

definition logout :: "'x auth_deps \<Rightarrow> unit answer" where
  "logout ad = Reply [ClearCookie (ad_sessions ad)] (Done 200 ())"

definition me :: "user \<Rightarrow> user answer" where
  "me u = Reply [] (Done 200 u)"

definition oidcLogin :: "'x auth_deps \<Rightarrow> ('x world, unit answer) prog" where
  "oidcLogin ad = do {
     s \<leftarrow> RandomToken 18;
     (case s of
        None \<Rightarrow> ret (Reply [] internalError)
      | Some state \<Rightarrow> do {
          n \<leftarrow> RandomToken 18;
          (case n of
             None \<Rightarrow> ret (Reply [] internalError)
           | Some nonce \<Rightarrow>
               ret (Redirect [SetOIDCStateCookie (ad_sessions ad) \<lparr>os_state = state, os_nonce = nonce\<rparr>]
                 302 (oc_auth_code_url (ad_oidc ad) state nonce))) }) }"

definition login_failed :: "incoming \<Rightarrow> string \<Rightarrow> ('x world, unit) prog" where
  "login_failed rq reason =
    audit (ic_id rq) (event None ''auth.oidc.failed'' [] [] [(''reason'', DStr reason)])"

text \<open>The last part of the callback: the session of a user who has been stored.\<close>

definition start_session :: "'x auth_deps \<Rightarrow> incoming \<Rightarrow> user \<Rightarrow> bool \<Rightarrow> bool \<Rightarrow> ('x world, unit answer) prog" where
  "start_session ad rq user created adminGranted = do {
     now \<leftarrow> time_now;
     (let st = ad_sessions ad; token = Issue st (u_id user) (now * 1000) in do {
        audit (ic_id rq) (event (Some (u_id user)) ''auth.login.succeeded'' ''user'' (u_id user)
          [(''created'', DBool created), (''admin_granted'', DBool adminGranted)]);
        (if adminGranted
         then audit (ic_id rq) (event (Some (u_id user)) ''user.admin_granted'' ''user'' (u_id user) [])
         else ret ());
        ret (Redirect [ClearOIDCStateCookie st, SetCookie st token] 302 (ad_after_login ad)) }) }"

definition oidcCallback :: "'x auth_deps \<Rightarrow> incoming \<Rightarrow> ('x world, unit answer) prog" where
  "oidcCallback ad rq =
    (let oidcErr = ic_query rq ''error''; code = ic_query rq ''code''; st = ad_sessions ad;
         cleared = ClearOIDCStateCookie st in
     if oidcErr \<noteq> [] then do {
       login_failed rq oidcErr;
       ret (Redirect [] 302 (ad_after_login ad)) }
     else if code = [] then ret (Reply [] (invalid_request ''missing authorization code''))
     else (case GetOIDCStateCookie (ic_cookies rq) of
         None \<Rightarrow> do {
           login_failed rq ''missing or invalid state cookie'';
           ret (Reply [] (Fail 400 ''invalid_state'' ''missing or invalid state cookie'')) }
       | Some s \<Rightarrow>
          if ic_query rq ''state'' \<noteq> os_state s then do {
            login_failed rq ''state mismatch'';
            ret (Reply [cleared] (Fail 400 ''state_mismatch'' ''state mismatch'')) }
          else do {
            x \<leftarrow> external (Exchange (ad_oidc ad) code (os_nonce s));
            (case x of
               None \<Rightarrow> do {
                 login_failed rq ''token exchange failed'';
                 ret (Reply [cleared] (Fail 401 ''authentication_failed'' ''login failed'')) }
             | Some identity \<Rightarrow> do {
                 r \<leftarrow> UpsertFromOIDC (ad_issuer ad) (oi_subject identity) (oi_email identity)
                        (oi_display_name identity);
                 (case r of
                    Inl e \<Rightarrow> ret (Reply [cleared] (Fail 500 ''internal_error'' ''could not create session''))
                  | Inr (user, created, adminGranted) \<Rightarrow>
                      start_session ad rq user created adminGranted) }) }))"

section \<open>The handlers keep what the statements keep\<close>

context table_invariant begin

lemma authenticate_keeps [keeps]: "keeps (on_db I) (authenticate ad rq)"
  unfolding authenticate_def currentSessionUser_def by (intro keeps)

lemma authn_keeps [keeps]: "(\<And>u. keeps (on_db I) (nxt u)) \<Longrightarrow> keeps (on_db I) (authn ad nxt rq)"
  unfolding authn_def by (intro keeps)

lemma login_keeps [keeps]: "keeps (on_db I) (oidcLogin ad)" "keeps (on_db I) (oidcCallback ad rq)"
  unfolding oidcLogin_def oidcCallback_def login_failed_def start_session_def Let_def
  by (intro keeps)+

end

end

