(* ===== verification/Http_Auth_Lemmas.thy ===== *)
theory Http_Auth_Lemmas
  imports Http_Auth Http_Frames
begin

text \<open>
  What the session gateway and the login flow guarantee: a protected handler runs only for the stored
  user whom a token signed by the platform names; a session starts only for the user stored under a
  verified identity; and what the gateway does not look at, the status of the user.
\<close>

section \<open>The gateway\<close>

lemma GetByID_Inr:
  assumes "run_state (GetByID i) w = (Inr u, w')"
  shows "u \<in> set (t_users (db w)) \<and> u_id u = i"
proof -
  from assms have "run_state (sql (getUserByIDSQL i)) w = (Inr u, w')"
    by (auto simp: GetByID_def run_sql_def split: prod.splits sum.splits)
  then obtain pg where "getUserByIDSQL i pg (db w) = Inr (u, db w')" by (rule sql_Inr)
  then show ?thesis by (auto simp: getUserByIDSQL_def dest: one_row_filter)
qed

lemma GetByID_reading [keeps]: "keeps (reading T D) (GetByID i)"
  unfolding GetByID_def getUserByIDSQL_def by (intro keeps)

lemma authenticate_reading [keeps]: "keeps (reading T D) (authenticate ad rq)"
  unfolding authenticate_def currentSessionUser_def by (intro keeps)

lemma authenticate_Some:
  fixes w :: "'x world"
  assumes "run_state (authenticate ad rq) w = (Some u, w')"
  shows "u \<in> set (t_users (db w)) \<and> (\<exists>token sess t. map_of (ic_cookies rq) (ss_name (ad_sessions ad)) = Some token
    \<and> ValidateSession (ad_sessions ad) token t = Some sess \<and> clock w * 1000 \<le> t \<and> u_id u = se_user sess)"
  using assms unfolding authenticate_def currentSessionUser_def
proof (elim run_elims)
  fix token now sess r and w1 w2 :: "'x world"
  assume c: "map_of (ic_cookies rq) (ss_name (ad_sessions ad)) = Some token"
    and now: "run_state time_now w = (now, w1)"
    and v: "ValidateSession (ad_sessions ad) token (now * 1000) = Some sess"
    and r: "run_state (GetByID (se_user sess)) w1 = (r, w2)"
    and u: "Some u = (case r of Inl e \<Rightarrow> None | Inr u \<Rightarrow> Some u)"
  from u have "r = Inr u" by (auto split: sum.splits)
  with GetByID_Inr r have "u \<in> set (t_users (db w1)) \<and> u_id u = se_user sess" by blast
  moreover have "db w1 = db w" "clock w \<le> now"
    using now clock_mono [of w] by (auto simp: time_now_def Let_def)
  ultimately show ?thesis using c v by (intro conjI exI) auto
qed auto

text \<open>C3: the gateway runs a protected handler only for a stored user whose id a token signed with the
  platform's key names, unexpired when the request came in, and hands it the tables unchanged;
  every other request is answered with 401 and leaves the tables alone.\<close>

theorem authn_gate:
  assumes "run_state (authn ad nxt rq) w = (a, w')"
  shows "(\<exists>u \<in> set (t_users (db w)). \<exists>token w1 rep.
        map_of (ic_cookies rq) (ss_name (ad_sessions ad)) = Some token
        \<and> signed_for (ad_sessions ad) token (u_id u) (clock w * 1000)
        \<and> db w1 = db w \<and> run_state (nxt u) w1 = (rep, w') \<and> a = Reply [] rep)
    \<or> (a = Reply [ClearCookie (ad_sessions ad)] (Fail 401 ''unauthorized'' ''missing or invalid session'')
        \<and> db w' = db w)"
  using assms unfolding authn_def
proof (elim run_elims)
  fix r w1
  assume r: "run_state (authenticate ad rq) w = (r, w1)" "r = None" and a: "a = unauthorized ad" "w' = w1"
  with run_reading(1) [OF authenticate_reading r(1)] show ?thesis by (simp add: unauthorized_def)
next
  fix r w1 u rep w2
  assume r: "run_state (authenticate ad rq) w = (r, w1)" "r = Some u"
    and n: "run_state (nxt u) w1 = (rep, w2)" and a: "a = Reply [] rep" "w' = w2"
  from run_reading(1) [OF authenticate_reading r(1)] have D: "db w1 = db w" .
  from r(1) [unfolded r(2)] obtain token sess t where u: "u \<in> set (t_users (db w))"
    "map_of (ic_cookies rq) (ss_name (ad_sessions ad)) = Some token"
    "ValidateSession (ad_sessions ad) token t = Some sess" "clock w * 1000 \<le> t" "u_id u = se_user sess"
    using authenticate_Some by blast
  from ValidateSession_signed [OF u(3,4)] u D n a show ?thesis
    by - (rule disjI1, rule bexI [of _ u], rule exI [of _ token], rule exI [of _ w1], rule exI [of _ rep], simp_all)
qed

section \<open>What the gateway does not look at\<close>

lemma authenticate_session:
  assumes q: "quiet T w" and uq: "uniq u_id (t_users (db w))" and u: "u \<in> set (t_users (db w))"
    and c: "map_of (ic_cookies rq) (ss_name (ad_sessions ad)) = Some token"
    and v: "ValidateSession (ad_sessions ad) token (T * 1000) = Some sess" "se_user sess = u_id u"
  shows "run_state (authenticate ad rq) w = (Some u, w)"
proof -
  have "filter (\<lambda>v. u_id v = u_id u) (t_users (db w)) = [u]" using uq u by (rule filter_uniq)
  then have "run_state (GetByID (u_id u)) w = (Inr u, w)"
    using q by (simp add: GetByID_def run_sql_def calm_sql quiet_def pass_time_still getUserByIDSQL_def
        query_def one_row_def)
  with c v q show ?thesis
    by (simp add: authenticate_def currentSessionUser_def time_now_def quiet_def pass_time_still)
qed

lemma Issue_valid:
  assumes "is_ascii u" and "u \<noteq> []"
    and "- (2 ^ 63) \<le> (now + ss_ttl st) div second" and "(now + ss_ttl st) div second < 2 ^ 63"
    and "later < (now + ss_ttl st) div second * second"
  shows "\<exists>s. ValidateSession st (Issue st u now) later = Some s \<and> se_user s = u"
  using decode_encode_session [of "\<lparr>se_user = u, se_expires = now + ss_ttl st\<rparr>" st] assms
  by (simp add: ValidateSession_def Issue_def)

text \<open>With a working database, a token issued for a stored user runs every protected handler until
  the token expires, whatever the status of the user: disabling a user ends no session.\<close>

theorem authn_any_status:
  assumes q: "quiet T w" and ok: "db_ok (db w)" and u: "u \<in> set (t_users (db w))"
    and id: "is_ascii (u_id u)" "u_id u \<noteq> []"
    and range: "- (2 ^ 63) \<le> (t0 + ss_ttl (ad_sessions ad)) div second"
      "(t0 + ss_ttl (ad_sessions ad)) div second < 2 ^ 63"
    and live: "T * 1000 < (t0 + ss_ttl (ad_sessions ad)) div second * second"
    and c: "map_of (ic_cookies rq) (ss_name (ad_sessions ad)) = Some (Issue (ad_sessions ad) (u_id u) t0)"
  shows "run_state (authn ad nxt rq) w = (case run_state (nxt u) w of (rep, w') \<Rightarrow> (Reply [] rep, w'))"
proof -
  obtain s where "ValidateSession (ad_sessions ad) (Issue (ad_sessions ad) (u_id u) t0) (T * 1000) = Some s"
    "se_user s = u_id u" using Issue_valid [OF id range live] by blast
  from authenticate_session [OF q _ u c this] ok
  have "run_state (authenticate ad rq) w = (Some u, w)" by (simp add: db_ok_def users_wf_def)
  then show ?thesis by (simp add: authn_def split: prod.splits)
qed

section \<open>Logging in\<close>

lemma upsertUserSQL_row:
  assumes "upsertUserSQL i email name provider subject pg d = Inr ((u, ins), d')"
  shows "u \<in> set (t_users d') \<and> user_identity u = (provider, subject) \<and> u_status u = ''active''"
  using assms
  by (auto simp: upsertUserSQL_def Let_def insert_stmt_Inr new_user_row_def user_identity_def
      set_put_row image_iff split: option.splits if_splits dest!: find_SomeD)

lemma grantAdminIfNoneSQL_row:
  "grantAdminIfNoneSQL i pg d = Inr (g, d') \<Longrightarrow>
    g \<and> t_users d' = put_row (\<lambda>u. u_id u = i) (\<lambda>u. u\<lparr>u_is_admin := True\<rparr>) (t_users d)"
  by (auto simp: grantAdminIfNoneSQL_def split: if_splits)

lemma UpsertFromOIDC_Inr:
  fixes w :: "'x world"
  assumes "run_state (UpsertFromOIDC provider subject email name) w = (Inr (u, created, granted), w')"
  shows "\<exists>v \<in> set (t_users (db w')). u_id v = u_id u \<and> user_identity v = (provider, subject)
    \<and> u_status v = ''active'' \<and> (granted \<longrightarrow> u_is_admin v)"
  using assms unfolding UpsertFromOIDC_def
proof (elim run_elims)
  fix user uid y stored ins g gr and r :: "pg_err + user \<times> bool" and w1 w2 w3 :: "'x world"
  assume new: "NewUser email name provider subject = Inr user"
    and r: "run_state (sql (upsertUserSQL uid (u_email user) (u_display_name user) (u_auth_provider user)
        (u_auth_identity user))) w1 = (r, w2)" "r = Inr y" "y = (stored, ins)"
    and g0: "run_state (sql (grantAdminIfNoneSQL (u_id stored))) w2 = (g, w3)" "g = Inr gr"
    and fin: "Inr (u, created, granted) = Inr (stored\<lparr>u_is_admin := gr\<rparr>, True, gr)" "w' = w3"
  from new have "u_auth_provider user = provider" "u_auth_identity user = subject"
    by (auto simp: NewUser_def Let_def split: if_splits)
  with r have stored: "stored \<in> set (t_users (db w2)) \<and> user_identity stored = (provider, subject)
      \<and> u_status stored = ''active''" using sql_Inr upsertUserSQL_row by metis
  from g0 have g: "run_state (sql (grantAdminIfNoneSQL (u_id stored))) w2 = (Inr gr, w3)" by simp
  from g obtain pg where "grantAdminIfNoneSQL (u_id stored) pg (db w2) = Inr (gr, db w3)"
    by (rule sql_Inr)
  from grantAdminIfNoneSQL_row [OF this] have "stored\<lparr>u_is_admin := True\<rparr> \<in> set (t_users (db w3))" "gr"
    using stored by (auto simp: set_put_row)
  with stored fin show ?thesis by (intro bexI [of _ "stored\<lparr>u_is_admin := True\<rparr>"]) (auto simp: user_identity_def)
next
  fix user uid y stored ins and r :: "pg_err + user \<times> bool" and w1 w2 :: "'x world"
  assume new: "NewUser email name provider subject = Inr user"
    and r: "run_state (sql (upsertUserSQL uid (u_email user) (u_display_name user) (u_auth_provider user)
        (u_auth_identity user))) w1 = (r, w2)" "r = Inr y" "y = (stored, ins)"
    and fin: "Inr (u, created, granted) = Inr (stored, False, False)" "w' = w2"
  from new have "u_auth_provider user = provider" "u_auth_identity user = subject"
    by (auto simp: NewUser_def Let_def split: if_splits)
  with r have "stored \<in> set (t_users (db w2)) \<and> user_identity stored = (provider, subject)
      \<and> u_status stored = ''active''" using sql_Inr upsertUserSQL_row by metis
  with fin show ?thesis by auto
qed auto

lemma Exchange_Some:
  assumes "run_state (Exchange oc code nonce) x = (Some identity, x')"
  shows "\<exists>raw x1 idt claims. run_state (oc_exchange oc code) x = (Some (Some raw), x1)
    \<and> run_state (oc_verify oc raw) x1 = (Some idt, x') \<and> it_nonce idt = nonce
    \<and> it_subject idt = oi_subject identity \<and> oi_subject identity \<noteq> []
    \<and> it_claims idt = Some claims \<and> cl_email claims = oi_email identity \<and> oi_email identity \<noteq> []"
  using assms unfolding Exchange_def
  by (auto simp: Let_def split: prod.splits option.splits if_splits)

text \<open>The cookies of an answer that carry a session.\<close>

definition starts_session :: "session_store \<Rightarrow> 'p answer \<Rightarrow> cookie \<Rightarrow> bool" where
  "starts_session st a c \<longleftrightarrow> c \<in> set (cookies_of a) \<and> ck_name c = ss_name st"

lemma start_session_run:
  fixes w :: "'x world"
  assumes "run_state (start_session ad rq user created granted) w = (a, w')"
  shows "\<exists>t \<ge> clock w. a = Redirect [ClearOIDCStateCookie (ad_sessions ad),
      SetCookie (ad_sessions ad) (Issue (ad_sessions ad) (u_id user) (t * 1000))] 302 (ad_after_login ad)
    \<and> t_users (db w') = t_users (db w)"
  using assms clock_mono [of w] unfolding start_session_def Let_def
  by (elim run_elims) (auto simp: time_now_def Let_def dest!: audit_frame)

lemma UpsertFromOIDC_quiet [keeps]: "keeps (quiet T) (UpsertFromOIDC provider subject email name)"
  unfolding UpsertFromOIDC_def by (intro keeps)

lemma start_session_quiet:
  assumes "run_state (start_session ad rq user created granted) w = (a, w')" and "quiet T w"
  shows "a = Redirect [ClearOIDCStateCookie (ad_sessions ad),
      SetCookie (ad_sessions ad) (Issue (ad_sessions ad) (u_id user) (T * 1000))] 302 (ad_after_login ad)
    \<and> t_users (db w') = t_users (db w)"
  using assms unfolding start_session_def Let_def
  by (elim run_elims) (auto simp: time_now_def Let_def quiet_def pass_time_still dest!: audit_frame)

lemma oidcCallback_steps:
  fixes w :: "'x world"
  assumes run: "run_state (oidcCallback ad rq) w = (a, w')"
    and c: "starts_session (ad_sessions ad) a c" and name: "ss_name (ad_sessions ad) \<noteq> oidcStateCookieName"
  obtains s identity user created granted and w1 w2 :: "'x world" where
    "GetOIDCStateCookie (ic_cookies rq) = Some s" "ic_query rq ''state'' = os_state s"
    "run_state (external (Exchange (ad_oidc ad) (ic_query rq ''code'') (os_nonce s))) w = (Some identity, w1)"
    "run_state (UpsertFromOIDC (ad_issuer ad) (oi_subject identity) (oi_email identity)
       (oi_display_name identity)) w1 = (Inr (user, created, granted), w2)"
    "run_state (start_session ad rq user created granted) w2 = (a, w')"
  using run c name unfolding oidcCallback_def Let_def
  by (elim run_elims)
    (auto simp: starts_session_def ClearOIDCStateCookie_def internalError_def)

text \<open>C6: the callback sets a session cookie only if the request carries the state of the login's cookie
  and its code was exchanged for a verified id token with the nonce of that cookie; the session is
  then for the user stored under the issuer and the subject of that token, who is active from then
  on (also if disabled before).\<close>

theorem oidcCallback_session:
  fixes w :: "'x world"
  assumes run: "run_state (oidcCallback ad rq) w = (a, w')"
    and c: "starts_session (ad_sessions ad) a c" and name: "ss_name (ad_sessions ad) \<noteq> oidcStateCookieName"
  shows "\<exists>s raw x1 idt x2 t. \<exists>u \<in> set (t_users (db w')). GetOIDCStateCookie (ic_cookies rq) = Some s
    \<and> ic_query rq ''state'' = os_state s
    \<and> run_state (oc_exchange (ad_oidc ad) (ic_query rq ''code'')) (ext w) = (Some (Some raw), x1)
    \<and> run_state (oc_verify (ad_oidc ad) raw) x1 = (Some idt, x2) \<and> it_nonce idt = os_nonce s
    \<and> user_identity u = (ad_issuer ad, it_subject idt) \<and> u_status u = ''active''
    \<and> c = SetCookie (ad_sessions ad) (Issue (ad_sessions ad) (u_id u) (t * 1000))"
  using run c name
proof (rule oidcCallback_steps)
  fix s identity user created granted and w1 w2 :: "'x world"
  assume st: "GetOIDCStateCookie (ic_cookies rq) = Some s" "ic_query rq ''state'' = os_state s"
    and ex: "run_state (external (Exchange (ad_oidc ad) (ic_query rq ''code'') (os_nonce s))) w
        = (Some identity, w1)"
    and up: "run_state (UpsertFromOIDC (ad_issuer ad) (oi_subject identity) (oi_email identity)
       (oi_display_name identity)) w1 = (Inr (user, created, granted), w2)"
    and fin: "run_state (start_session ad rq user created granted) w2 = (a, w')"
  from ex have "run_state (Exchange (ad_oidc ad) (ic_query rq ''code'') (os_nonce s)) (ext w)
      = (Some identity, ext w1)" by (auto simp: run_external prod_eq_iff)
  from Exchange_Some [OF this] obtain raw x1 idt where
    oc: "run_state (oc_exchange (ad_oidc ad) (ic_query rq ''code'')) (ext w) = (Some (Some raw), x1)"
    "run_state (oc_verify (ad_oidc ad) raw) x1 = (Some idt, ext w1)" "it_nonce idt = os_nonce s"
    "it_subject idt = oi_subject identity" by blast
  from UpsertFromOIDC_Inr [OF up] obtain v where v: "v \<in> set (t_users (db w2))" "u_id v = u_id user"
    "user_identity v = (ad_issuer ad, oi_subject identity)" "u_status v = ''active''" by blast
  from start_session_run [OF fin] obtain t where "a = Redirect [ClearOIDCStateCookie (ad_sessions ad),
      SetCookie (ad_sessions ad) (Issue (ad_sessions ad) (u_id user) (t * 1000))] 302 (ad_after_login ad)"
    and u: "t_users (db w') = t_users (db w2)" by blast
  with c name have "c = SetCookie (ad_sessions ad) (Issue (ad_sessions ad) (u_id user) (t * 1000))"
    by (auto simp: starts_session_def ClearOIDCStateCookie_def)
  with st oc v u show ?thesis
    by - (rule exI [of _ s], rule exI [of _ raw], rule exI [of _ x1], rule exI [of _ idt],
      rule exI [of _ "ext w1"], rule exI [of _ t], rule bexI [of _ v], simp_all)
qed

text \<open>C9: a login is the start of a session: with a working database, the cookie that the callback has set
  lets a later request pass the gateway as the user who logged in, until the token expires (for
  user ids of ASCII bytes, as uuids are, and a lifetime of at least a second).\<close>

theorem login_starts_session:
  fixes w :: "'x world"
  assumes ok: "db_ok (db w)" and q: "quiet T w" and run: "run_state (oidcCallback ad rq) w = (a, w')"
    and c: "starts_session (ad_sessions ad) a c" and name: "ss_name (ad_sessions ad) \<noteq> oidcStateCookieName"
    and ids: "\<forall>u \<in> set (t_users (db w')). is_ascii (u_id u) \<and> u_id u \<noteq> []"
    and T: "0 \<le> T" and ttl: "second \<le> ss_ttl (ad_sessions ad)"
    and range: "(T * 1000 + ss_ttl (ad_sessions ad)) div second < 2 ^ 63"
    and later: "db w2 = db w'" "quiet T2 w2" "T2 * 1000 < (T * 1000 + ss_ttl (ad_sessions ad)) div second * second"
    and cookie: "map_of (ic_cookies rq2) (ck_name c) = Some (ck_value c)"
  shows "\<exists>s identity x. \<exists>u \<in> set (t_users (db w')). GetOIDCStateCookie (ic_cookies rq) = Some s
    \<and> run_state (Exchange (ad_oidc ad) (ic_query rq ''code'') (os_nonce s)) (ext w) = (Some identity, x)
    \<and> user_identity u = (ad_issuer ad, oi_subject identity)
    \<and> run_state (authenticate ad rq2) w2 = (Some u, w2)"
  using run c name
proof (rule oidcCallback_steps)
  fix s identity user created granted and w3 w4 :: "'x world"
  assume st: "GetOIDCStateCookie (ic_cookies rq) = Some s"
    and ex: "run_state (external (Exchange (ad_oidc ad) (ic_query rq ''code'') (os_nonce s))) w
        = (Some identity, w3)"
    and up: "run_state (UpsertFromOIDC (ad_issuer ad) (oi_subject identity) (oi_email identity)
       (oi_display_name identity)) w3 = (Inr (user, created, granted), w4)"
    and fin: "run_state (start_session ad rq user created granted) w4 = (a, w')"
  from UpsertFromOIDC_Inr [OF up] obtain v where v: "v \<in> set (t_users (db w4))" "u_id v = u_id user"
    "user_identity v = (ad_issuer ad, oi_subject identity)" by blast
  have q4: "quiet T w4"
    using keeps_run [OF quiet_world(1) ex q] up by (rule keeps_run [OF UpsertFromOIDC_quiet, rotated])
  from start_session_quiet [OF fin q4] have "a = Redirect [ClearOIDCStateCookie (ad_sessions ad),
      SetCookie (ad_sessions ad) (Issue (ad_sessions ad) (u_id user) (T * 1000))] 302 (ad_after_login ad)"
    and u: "t_users (db w') = t_users (db w4)" by simp_all
  with c name have c': "c = SetCookie (ad_sessions ad) (Issue (ad_sessions ad) (u_id v) (T * 1000))"
    by (auto simp: starts_session_def ClearOIDCStateCookie_def v(2))
  have v': "v \<in> set (t_users (db w2))" "is_ascii (u_id v)" "u_id v \<noteq> []"
    using v(1) u ids later(1) by auto
  have "db_ok (db w')" using keeps_run [OF integrity.login_keeps(2) run] ok by (simp add: on_db_def)
  then have uq: "uniq u_id (t_users (db w2))" using later(1) by (simp add: db_ok_def users_wf_def)
  have "- (2 ^ 63) \<le> (T * 1000 + ss_ttl (ad_sessions ad)) div second"
    using T ttl by (simp add: second_def)
  from Issue_valid [OF v'(2,3) this range later(3)] obtain sess where
    "ValidateSession (ad_sessions ad) (Issue (ad_sessions ad) (u_id v) (T * 1000)) (T2 * 1000) = Some sess"
    "se_user sess = u_id v" by blast
  with authenticate_session [OF later(2) uq v'(1), of rq2 ad] cookie c'
  have "run_state (authenticate ad rq2) w2 = (Some v, w2)" by (simp add: SetCookie_def SessionCookie_def)
  with st ex v u show ?thesis
    by - (rule exI [of _ s], rule exI [of _ identity], rule exI [of _ "ext w3"], rule bexI [of _ v],
      auto simp: run_external prod_eq_iff)
qed

section \<open>A concrete run\<close>

definition small_sessions :: session_store where
  "small_sessions = \<lparr>ss_name = ''selfu_session'', ss_key = ''key'', ss_ttl = 3600 * second,
     ss_secure = True, ss_oidc_ttl = 600 * second\<rparr>"

definition alice_token :: id_token where
  "alice_token = \<lparr>it_nonce = ''xyz'', it_subject = ''1'',
     it_claims = Some \<lparr>cl_email = ''a@x.io'', cl_name = ''Alice'', cl_preferred = []\<rparr>\<rparr>"

definition small_auth :: "unit auth_deps" where
  "small_auth = \<lparr>ad_sessions = small_sessions,
     ad_oidc = \<lparr>oc_auth_code_url = (\<lambda>s n. ''https://id/''), oc_exchange = (\<lambda>c. ret (Some (Some ''jwt''))),
       oc_verify = (\<lambda>raw. ret (Some alice_token))\<rparr>,
     ad_issuer = ''authentik'', ad_after_login = ''/''\<rparr>"

definition callback :: incoming where
  "callback = \<lparr>ic_cookies = [(oidcStateCookieName,
       ck_value (SetOIDCStateCookie small_sessions \<lparr>os_state = ''abc'', os_nonce = ''xyz''\<rparr>))],
     ic_query = (\<lambda>k. if k = ''code'' then ''c'' else if k = ''state'' then ''abc'' else []), ic_id = []\<rparr>"

definition session_cookie :: cookie where
  "session_cookie = SetCookie small_sessions (Issue small_sessions ''alice'' 100000)"

definition with_session :: incoming where
  "with_session = \<lparr>ic_cookies = [(ck_name session_cookie, ck_value session_cookie)], ic_query = (\<lambda>k. []),
     ic_id = []\<rparr>"

lemma upsert_alice:
  "run_state (UpsertFromOIDC ''authentik'' ''1'' ''a@x.io'' ''Alice'') (sample_world sample_db ())
    = (Inr (alice, False, False), (sample_world sample_db ())\<lparr>uuid_ix := 1\<rparr>)"
proof -
  have t: "trim_space ''a@x.io'' = ''a@x.io''" "trim_space ''Alice'' = ''Alice''"
    "trim_space ''authentik'' = ''authentik''" "trim_space ''1'' = ''1''"
    by (rule trim_space_id, simp add: byte_def ascii_space_def)+
  have l: "to_lower ''a@x.io'' = ''a@x.io''"
    by (simp add: to_lower_def is_ascii_def byte_def ascii_lower_def ascii_range_def)
  have n: "NewUser ''a@x.io'' ''Alice'' ''authentik'' ''1'' = Inr (alice\<lparr>u_id := [], u_is_admin := False\<rparr>)"
    by (simp add: NewUser_def t l looksLikeEmail_def contains_any_def has_prefix_def
        UserStatusActive_def chr_tab alice_def)
  have up: "upsertUserSQL i ''a@x.io'' ''Alice'' ''authentik'' ''1'' pg sample_db = Inr ((alice, False), sample_db)"
    if "pg_lower pg = to_lower" for i and pg :: pg
    using that by (simp add: upsertUserSQL_def Let_def user_checks_def new_user_row_def l)
      (auto simp: sample_db_def alice_def put_row_def Let_def fresh_db_def)
  have [simp]: "u_email alice = ''a@x.io''" "u_display_name alice = ''Alice''"
    "u_auth_provider alice = ''authentik''" "u_auth_identity alice = ''1''"
    by (simp_all add: alice_def)
  show ?thesis
    by (simp add: UpsertFromOIDC_def n new_uuid_def calm_sql pass_time_still up pg_of_def)
qed

lemma callback_run:
  obtains w' where "run_state (oidcCallback small_auth callback) (sample_world sample_db ())
      = (Redirect [ClearOIDCStateCookie small_sessions, session_cookie] 302 ''/'', w')"
    "t_users (db w') = [alice]"
proof -
  let ?w = "(sample_world sample_db ())\<lparr>uuid_ix := 1\<rparr>"
  have st: "GetOIDCStateCookie (ic_cookies callback) = Some \<lparr>os_state = ''abc'', os_nonce = ''xyz''\<rparr>"
    unfolding callback_def incoming.simps by (rule state_cookie) (simp_all add: is_ascii_def byte_def)
  have ex: "run_state (external (Exchange (ad_oidc small_auth) ''c'' ''xyz'')) (sample_world sample_db ())
      = (Some \<lparr>oi_subject = ''1'', oi_email = ''a@x.io'', oi_display_name = ''Alice''\<rparr>, sample_world sample_db ())"
    by (simp add: run_external Exchange_def small_auth_def alice_token_def)
  have auth: "ad_sessions small_auth = small_sessions" "ad_issuer small_auth = ''authentik''"
    "ad_after_login small_auth = ''/''" by (simp_all add: small_auth_def)
  have cb: "ic_query callback ''error'' = []" "ic_query callback ''code'' = ''c''"
    "ic_query callback ''state'' = ''abc''" by (simp_all add: callback_def)
  obtain a w' where r: "run_state (start_session small_auth callback alice False False) ?w = (a, w')" by fastforce
  have "quiet 100 ?w" by (simp add: quiet_def)
  from start_session_quiet [OF r this]
  have "a = Redirect [ClearOIDCStateCookie small_sessions, session_cookie] 302 ''/''" "t_users (db w') = [alice]"
    by (simp_all add: auth session_cookie_def) (simp_all add: alice_def sample_db_def)
  moreover have "run_state (oidcCallback small_auth callback) (sample_world sample_db ()) = (a, w')"
    by (simp add: oidcCallback_def auth cb st ex upsert_alice r [simplified] Let_def)
  ultimately show ?thesis using that by simp
qed

lemma session_cookie_facts:
  "starts_session small_sessions (Redirect [ClearOIDCStateCookie small_sessions, session_cookie] 302 ''/'') session_cookie"
  "ss_name small_sessions \<noteq> oidcStateCookieName" "ad_sessions small_auth = small_sessions"
  "is_ascii (u_id alice)" "u_id alice \<noteq> []"
  by (simp_all add: starts_session_def session_cookie_def SetCookie_def SessionCookie_def small_sessions_def
      oidcStateCookieName_def small_auth_def alice_def is_ascii_def byte_def)

theorem oidcCallback_session_witness:
  "\<exists>t. session_cookie = SetCookie small_sessions (Issue small_sessions ''alice'' (t * 1000))"
proof -
  obtain w' where r: "run_state (oidcCallback small_auth callback) (sample_world sample_db ())
      = (Redirect [ClearOIDCStateCookie small_sessions, session_cookie] 302 ''/'', w')"
    and u: "t_users (db w') = [alice]" by (rule callback_run)
  from oidcCallback_session [OF r, of session_cookie] session_cookie_facts u show ?thesis
    by (auto simp: alice_def)
qed

theorem login_starts_session_witness:
  "\<exists>w. run_state (authenticate small_auth with_session) w = (Some alice, w)"
proof -
  obtain w' where r: "run_state (oidcCallback small_auth callback) (sample_world sample_db ())
      = (Redirect [ClearOIDCStateCookie small_sessions, session_cookie] 302 ''/'', w')"
    and u: "t_users (db w') = [alice]" by (rule callback_run)
  let ?w = "sample_world (db w') ()"
  have "\<exists>s identity x. \<exists>u \<in> set (t_users (db w')). GetOIDCStateCookie (ic_cookies callback) = Some s
    \<and> run_state (Exchange (ad_oidc small_auth) (ic_query callback ''code'') (os_nonce s))
        (ext (sample_world sample_db ())) = (Some identity, x)
    \<and> user_identity u = (ad_issuer small_auth, oi_subject identity)
    \<and> run_state (authenticate small_auth with_session) ?w = (Some u, ?w)"
    by (rule login_starts_session [OF _ _ r, of 100 session_cookie ?w 100])
       (use session_cookie_facts u sample_db_ok in \<open>simp_all add: quiet_def with_session_def\<close>,
         simp_all add: small_sessions_def second_def)
  with u show ?thesis by auto
qed

definition disabled_world :: "unit world" where
  "disabled_world = sample_world (sample_db\<lparr>t_users := [alice\<lparr>u_status := ''disabled''\<rparr>]\<rparr>) ()"

lemma disabled_world_facts:
  "quiet 100 disabled_world" "db_ok (db disabled_world)" "t_users (db disabled_world) = [alice\<lparr>u_status := ''disabled''\<rparr>]"
  using sample_db_ok
  by (simp_all add: disabled_world_def quiet_def db_ok_def wf_defs sample_db_def alice_def acme_def fresh_db_def
      uniq_def refs_def orefs_def user_identity_def sample_invite_def)

definition my_status :: "user \<Rightarrow> (unit world, string reply) prog" where
  "my_status u = ret (Done 200 (u_status u))"

theorem authn_any_status_witness:
  "fst (run_state (authn small_auth my_status with_session) disabled_world) = Reply [] (Done 200 ''disabled'')"
proof -
  have "run_state (authn small_auth my_status with_session) disabled_world
      = (case run_state (my_status (alice\<lparr>u_status := ''disabled''\<rparr>)) disabled_world of (rep, w') \<Rightarrow> (Reply [] rep, w'))"
    by (rule authn_any_status [OF disabled_world_facts(1,2), of _ 100000])
       (use session_cookie_facts in \<open>simp_all add: disabled_world_facts small_sessions_def second_def
         with_session_def session_cookie_def SetCookie_def SessionCookie_def alice_def\<close>)
  then show ?thesis by (simp add: my_status_def)
qed

lemma with_session_run:
  "run_state (authn small_auth my_status with_session) (sample_world sample_db ())
    = (Reply [] (Done 200 ''active''), sample_world sample_db ())"
proof -
  have q: "quiet 100 (sample_world sample_db ())" "uniq u_id (t_users (db (sample_world sample_db ())))"
    "alice \<in> set (t_users (db (sample_world sample_db ())))"
    by (simp_all add: quiet_def sample_db_def uniq_def)
  have "\<exists>s. ValidateSession small_sessions (Issue small_sessions (u_id alice) 100000) (100 * 1000) = Some s
      \<and> se_user s = u_id alice"
    by (rule Issue_valid) (use session_cookie_facts(4,5) in \<open>simp_all add: small_sessions_def second_def\<close>)
  then obtain s where "ValidateSession (ad_sessions small_auth) (Issue small_sessions (u_id alice) 100000) (100 * 1000)
      = Some s" "se_user s = u_id alice" by (auto simp: small_auth_def)
  from authenticate_session [OF q _ this, of with_session]
  have "run_state (authenticate small_auth with_session) (sample_world sample_db ())
      = (Some alice, sample_world sample_db ())"
    by (simp add: with_session_def session_cookie_def SetCookie_def SessionCookie_def small_auth_def alice_def)
  then show ?thesis by (simp add: authn_def my_status_def) (simp add: alice_def)
qed

theorem authn_gate_witness:
  "\<exists>u \<in> set (t_users sample_db). signed_for small_sessions (ck_value session_cookie) (u_id u) 100000"
  using authn_gate [OF with_session_run] by (auto simp: small_auth_def with_session_def session_cookie_def
      SetCookie_def SessionCookie_def)

end
