(* ===== verification/Provision_Mail.thy ===== *)
theory Provision_Mail
  imports Http_Frames
begin

text \<open>
  The controller of the mail server (the interface of \<open>internal/chasquid/chasquid.go\<close>) and package
  \<open>internal/provision\<close>: the sequence that makes a mailbox out of an address (secret, identity, credential,
  server account, sender policy) and the rotation of a credential. The server is external state.
\<close>

record dkim_info =
  dk_selector :: string
  dk_record :: string

record domain_state =
  ds_exists :: bool
  ds_users :: int
  ds_aliases :: int

record chasquid_status =
  cs_healthy :: bool
  cs_detail :: string

text \<open>\<open>ChasquidController\<close>: \<open>False\<close> or \<open>None\<close> is a returned error.\<close>

record 'x chasquid =
  cq_add_user :: "string \<Rightarrow> string \<Rightarrow> ('x, bool) prog"
  cq_remove_user :: "string \<Rightarrow> ('x, bool) prog"
  cq_change_password :: "string \<Rightarrow> string \<Rightarrow> ('x, bool) prog"
  cq_ensure_domain :: "string \<Rightarrow> ('x, bool) prog"
  cq_remove_domain :: "string \<Rightarrow> ('x, bool) prog"
  cq_ensure_alias :: "string \<Rightarrow> string \<Rightarrow> string list \<Rightarrow> ('x, bool) prog"
  cq_remove_alias :: "string \<Rightarrow> string \<Rightarrow> ('x, bool) prog"
  cq_ensure_sender_policy :: "string \<Rightarrow> string list \<Rightarrow> ('x, bool) prog"
  cq_ensure_dkim :: "string \<Rightarrow> ('x, dkim_info option) prog"
  cq_check_domain :: "string \<Rightarrow> ('x, domain_state option) prog"
  cq_user_exists :: "string \<Rightarrow> ('x, bool option) prog"
  cq_reload :: "('x, bool) prog"
  cq_restart :: "('x, bool) prog"
  cq_status :: "('x, chasquid_status option) prog"

text \<open>\<open>Mail\<close>, the part of the server that provisioning needs.\<close>

record 'x mta =
  mta_add_user :: "string \<Rightarrow> string \<Rightarrow> ('x, bool) prog"
  mta_sender_policy :: "string \<Rightarrow> string list \<Rightarrow> ('x, bool) prog"
  mta_change_password :: "string \<Rightarrow> string \<Rightarrow> ('x, bool) prog"

definition newSMTPSecret :: "('x world, string option) prog" where
  "newSMTPSecret = do {
     b \<leftarrow> rand_bytes 24;
     ret (case b of
         None \<Rightarrow> None
       | Some b \<Rightarrow> let s = raw_url_encode b in if length s < 24 then None else Some s) }"

definition fingerprint :: "string \<Rightarrow> string" where
  "fingerprint s = hex_encode (sha256 s)"

definition credential_for :: "mail_identity \<Rightarrow> string \<Rightarrow> mail_credential" where
  "credential_for idn secret = \<lparr>mc_id = [], mc_identity = mi_id idn, mc_fingerprint = fingerprint secret,
     mc_status = []\<rparr>"

text \<open>The identity as it is stored: the local part and the status are filled in.\<close>

definition with_defaults :: "mail_identity \<Rightarrow> mail_identity" where
  "with_defaults m =
    (let m1 = (if mi_local m = [] \<and> mi_address m \<noteq> []
               then m\<lparr>mi_local := fst (cut_at CHR ''@'' (mi_address m))\<rparr> else m)
     in if mi_status m1 = [] then m1\<lparr>mi_status := MailIdentityProvisioning\<rparr> else m1)"

text \<open>The steps after the identity and its credential are stored.\<close>

definition finish_mailbox :: "'x mta \<Rightarrow> mail_identity \<Rightarrow> mail_credential \<Rightarrow> string
    \<Rightarrow> ('x, mail_identity \<times> string \<times> string) op" where
  "finish_mailbox mta ident cred secret = do {
     a \<leftarrow> external (mta_add_user mta (mi_address ident) secret);
     (if \<not> a then do {
        ignore (SetMailIdentityStatus (mi_id ident) MailIdentityDeleted);
        ret (Inl ErrOther) }
      else do {
        p \<leftarrow> external (mta_sender_policy mta (mi_address ident) [mi_address ident]);
        ignore (CreateMailSubmissionPolicy \<lparr>mp_id = [], mp_identity = mi_id ident, mp_credential = mc_id cred,
          mp_from_addresses = [mi_address ident], mp_from_domains = [], mp_instance = None\<rparr>);
        ignore (SetMailIdentityStatus (mi_id ident) MailIdentityActive);
        ret (Inr (ident\<lparr>mi_status := MailIdentityActive\<rparr>, mc_id cred, secret)) }) }"

text \<open>\<open>Provisioner\<close>: the identity, the id of its credential, the secret. An error keeps only what the
  callers ask of it: whether it is \<open>ErrConflict\<close>.\<close>

definition Provisioner :: "'x mta \<Rightarrow> mail_identity \<Rightarrow> ('x, mail_identity \<times> string \<times> string) op" where
  "Provisioner mta m = do {
     s \<leftarrow> newSMTPSecret;
     (case s of
        None \<Rightarrow> ret (Inl ErrOther)
      | Some secret \<Rightarrow> do {
          i \<leftarrow> CreateMailIdentity (with_defaults m);
          (case i of
             Inl e \<Rightarrow> ret (Inl e)
           | Inr ident \<Rightarrow> do {
               c \<leftarrow> CreateMailCredential (credential_for ident secret);
               (case c of
                  Inl e \<Rightarrow> ret (Inl e)
                | Inr cred \<Rightarrow> finish_mailbox mta ident cred secret) }) }) }"

definition Rotate :: "'x mta \<Rightarrow> mail_identity \<Rightarrow> ('x, string \<times> string) op" where
  "Rotate mta idn = do {
     s \<leftarrow> newSMTPSecret;
     (case s of
        None \<Rightarrow> ret (Inl ErrOther)
      | Some secret \<Rightarrow> do {
          p \<leftarrow> external (mta_change_password mta (mi_username idn) secret);
          (if \<not> p then ret (Inl ErrOther)
           else do {
             r \<leftarrow> RevokeCredentialsByIdentity (mi_id idn);
             (case r of
                Inl e \<Rightarrow> ret (Inl e)
              | Inr u \<Rightarrow> do {
                  c \<leftarrow> CreateMailCredential (credential_for idn secret);
                  ret (case c of Inl e \<Rightarrow> Inl e | Inr cred \<Rightarrow> Inr (mc_id cred, secret)) }) }) }) }"

context table_invariant begin

lemma provision_keeps [keeps]:
  "keeps (on_db I) newSMTPSecret" "keeps (on_db I) (finish_mailbox mta ident cred secret)"
  "keeps (on_db I) (Rotate mta idn)"
  unfolding newSMTPSecret_def finish_mailbox_def Rotate_def by (intro keeps)+

lemma Provisioner_keeps [keeps]: "keeps (on_db I) (Provisioner mta m)"
  unfolding Provisioner_def by (intro keeps)

end

end
