(* ===== verification/Recon.thy ===== *)
theory Recon
  imports Provision_Mail
begin

text \<open>
  Package \<open>internal/recon\<close> and the loop body of \<open>cmd/worker\<close>: the periodic realignment of the mail
  server with the tables, and the record of which external objects still exist. Log lines are not
  modelled; a step that only logs its error goes on.
\<close>

section \<open>Mail (mail.go)\<close>

record mail_result =
  mr_domain :: string
  mr_aliases :: nat
  mr_group_aliases :: nat
  mr_missing :: "string list"

datatype alias_outcome = Skipped | GroupAlias | PlainAlias

text \<open>One alias: a group-bound one gets the addresses of the group's active members, in the table and at
  the server; a plain one is written to the server as it is.\<close>

definition reconcile_alias :: "'x chasquid \<Rightarrow> string \<Rightarrow> string \<Rightarrow> mail_alias \<Rightarrow> ('x world, alias_outcome) prog" where
  "reconcile_alias cq fqdn orgID a =
    (if ma_status a \<noteq> ''active'' then ret Skipped
     else (case ma_group a of
         Some g \<Rightarrow> do {
           ms \<leftarrow> ListGroupMembers g;
           (case ms of
              Inl e \<Rightarrow> ret Skipped
            | Inr members \<Rightarrow> do {
                ids \<leftarrow> ListMailIdentitiesByUsers orgID (map gu_user members);
                (case ids of
                   Inl e \<Rightarrow> ret Skipped
                 | Inr identities \<Rightarrow>
                    let dests = map mi_address identities in do {
                      ignore (UpdateMailAliasDestinations (ma_id a) dests);
                      ok \<leftarrow> external (cq_ensure_alias cq fqdn (ma_local a) dests);
                      ret (if ok then GroupAlias else Skipped) }) }) }
       | None \<Rightarrow> do {
           ok \<leftarrow> external (cq_ensure_alias cq fqdn (ma_local a) (ma_destinations a));
           ret (if ok then PlainAlias else Skipped) }))"

primrec reconcile_aliases :: "'x chasquid \<Rightarrow> string \<Rightarrow> string \<Rightarrow> mail_alias list \<Rightarrow> mail_result
    \<Rightarrow> ('x world, mail_result) prog" where
  "reconcile_aliases cq fqdn orgID [] res = ret res"
| "reconcile_aliases cq fqdn orgID (a # as) res = do {
     o1 \<leftarrow> reconcile_alias cq fqdn orgID a;
     reconcile_aliases cq fqdn orgID as (case o1 of
         Skipped \<Rightarrow> res
       | GroupAlias \<Rightarrow> res\<lparr>mr_group_aliases := Suc (mr_group_aliases res)\<rparr>
       | PlainAlias \<Rightarrow> res\<lparr>mr_aliases := Suc (mr_aliases res)\<rparr>) }"

text \<open>The audit event of the reconciler has neither an id nor a request id.\<close>

definition missing_event :: "mail_identity \<Rightarrow> audit_event" where
  "missing_event idn = event None ''mail.identity.reconciliation_failed'' ''mail_identity'' (mi_id idn)
     [(''address'', DStr (mi_address idn)), (''reason'', DStr ''chasquid user missing'')]"

text \<open>One identity: the address when the server does not know its account.\<close>

definition reconcile_identity :: "'x chasquid \<Rightarrow> mail_identity \<Rightarrow> ('x world, string option) prog" where
  "reconcile_identity cq idn =
    (if mi_status idn \<noteq> MailIdentityActive then ret None
     else do {
       ex \<leftarrow> external (cq_user_exists cq (mi_address idn));
       (if ex = Some False then do {
          ignore (SetMailIdentityStatus (mi_id idn) MailIdentitySuspended);
          ignore (CreateAuditEvent (missing_event idn));
          ret (Some (mi_address idn)) }
        else ret None) })"

primrec reconcile_identities :: "'x chasquid \<Rightarrow> mail_identity list \<Rightarrow> mail_result \<Rightarrow> ('x world, mail_result) prog" where
  "reconcile_identities cq [] res = ret res"
| "reconcile_identities cq (i # is) res = do {
     m \<leftarrow> reconcile_identity cq i;
     reconcile_identities cq is (case m of None \<Rightarrow> res
       | Some addr \<Rightarrow> res\<lparr>mr_missing := mr_missing res @ [addr]\<rparr>) }"

definition ReconcileDomain :: "'x chasquid \<Rightarrow> string \<Rightarrow> string \<Rightarrow> string \<Rightarrow> ('x, mail_result) op" where
  "ReconcileDomain cq domainID fqdn orgID =
    (let res0 = \<lparr>mr_domain = domainID, mr_aliases = 0, mr_group_aliases = 0, mr_missing = []\<rparr> in do {
       as \<leftarrow> ListMailAliasesByDomain domainID;
       (case as of
          Inl e \<Rightarrow> ret (Inl e)
        | Inr aliases \<Rightarrow> do {
            res1 \<leftarrow> reconcile_aliases cq fqdn orgID aliases res0;
            r \<leftarrow> external (cq_reload cq);
            is \<leftarrow> ListMailIdentitiesByDomain domainID;
            (case is of
               Inl e \<Rightarrow> ret (Inl e)
             | Inr identities \<Rightarrow> do {
                 res2 \<leftarrow> reconcile_identities cq identities res1;
                 ret (Inr res2) }) }) })"

text \<open>\<open>reconcileOnce\<close>: every active mail domain in turn; an error ends only its own domain.\<close>

primrec reconcile_domains :: "'x chasquid \<Rightarrow> active_mail_domain list \<Rightarrow> ('x world, unit) prog" where
  "reconcile_domains cq [] = ret ()"
| "reconcile_domains cq (md # mds) = do {
     ignore (ReconcileDomain cq (am_domain md) (am_fqdn md) (am_org md));
     reconcile_domains cq mds }"

definition reconcileOnce :: "'x chasquid option \<Rightarrow> ('x, unit) op" where
  "reconcileOnce controller = do {
     ds \<leftarrow> ListActiveMailDomains;
     (case ds of
        Inl e \<Rightarrow> ret (Inl e)
      | Inr domains \<Rightarrow>
         (case controller of
            None \<Rightarrow> ret (Inr ())
          | Some cq \<Rightarrow> do { reconcile_domains cq domains; ret (Inr ()) })) }"

section \<open>External objects (external.go)\<close>

definition observedHash :: "string \<Rightarrow> string \<Rightarrow> string" where
  "observedHash resourceType externalID = hex_encode (sha256 (resourceType @ '':'' @ externalID))"

definition ProviderFor :: "string \<Rightarrow> string" where
  "ProviderFor issuer = issuer"

text \<open>\<open>providerByObject\<close>: the last provider row of an object wins.\<close>

definition provider_by_object :: "external_resource list \<Rightarrow> string \<Rightarrow> string option" where
  "provider_by_object rows obj =
    map_option x_external (find (\<lambda>x. x_type x = ResTypeAuthentikProvider \<and> x_object x = obj) (rev rows))"

text \<open>What is looked up for a row: an application with a provider is looked up through it.\<close>

definition check_target :: "external_resource list \<Rightarrow> external_resource \<Rightarrow> string \<times> string" where
  "check_target rows res =
    (if x_type res = ResTypeAuthentikApplication
     then (case provider_by_object rows (x_object res) of
         Some pk \<Rightarrow> (ResTypeAuthentikProvider, pk)
       | None \<Rightarrow> (x_type res, x_external res))
     else (x_type res, x_external res))"

definition sync_row :: "(string \<Rightarrow> string \<Rightarrow> ('x, bool option) prog) \<Rightarrow> external_resource list
    \<Rightarrow> external_resource \<Rightarrow> ('x world, unit) prog" where
  "sync_row check rows res =
    (let hash = observedHash (x_type res) (x_external res) in
     case check_target rows res of (checkType, checkID) \<Rightarrow> do {
       r \<leftarrow> external (check checkType checkID);
       (case r of
          None \<Rightarrow> ret ()
        | Some ok \<Rightarrow> ignore (if ok then SetExternalObserved (x_id res) ExtActive hash []
            else SetExternalObserved (x_id res) ExtFailed hash ''resource missing in provider'')) })"

definition SyncExternal :: "(string \<Rightarrow> string \<Rightarrow> ('x, bool option) prog) \<Rightarrow> string \<Rightarrow> ('x, unit) op" where
  "SyncExternal check provider = do {
     r \<leftarrow> ListExternalResourcesByProvider provider;
     (case r of
        Inl e \<Rightarrow> ret (Inl e)
      | Inr rows \<Rightarrow> do { for_each (sync_row check rows) rows; ret (Inr ()) }) }"

text \<open>One cycle of the worker; its errors are logged.\<close>

definition worker_cycle :: "'x chasquid option \<Rightarrow> (string \<Rightarrow> string \<Rightarrow> ('x, bool option) prog) \<Rightarrow> string
    \<Rightarrow> ('x world, unit) prog" where
  "worker_cycle controller check issuer = do {
     ignore (reconcileOnce controller);
     ignore (SyncExternal check issuer) }"

section \<open>The reconcilers keep what the statements keep\<close>

context table_invariant begin

lemma reconcile_alias_keeps [keeps]: "keeps (on_db I) (reconcile_alias cq fqdn org a)"
  unfolding reconcile_alias_def Let_def by (intro keeps)

lemma reconcile_aliases_keeps [keeps]: "keeps (on_db I) (reconcile_aliases cq fqdn org as res)"
  by (induction as arbitrary: res) (simp, intro keeps, simp, intro keeps, auto)

lemma reconcile_identity_keeps [keeps]: "keeps (on_db I) (reconcile_identity cq idn)"
  unfolding reconcile_identity_def by (intro keeps)

lemma reconcile_identities_keeps [keeps]: "keeps (on_db I) (reconcile_identities cq is res)"
  by (induction "is" arbitrary: res) (simp, intro keeps, simp, intro keeps, auto)

lemma ReconcileDomain_keeps [keeps]: "keeps (on_db I) (ReconcileDomain cq did fqdn org)"
  unfolding ReconcileDomain_def Let_def by (intro keeps)

lemma reconcile_domains_keeps [keeps]: "keeps (on_db I) (reconcile_domains cq mds)"
  by (induction mds) (simp, intro keeps, simp, intro keeps, auto)

lemma recon_keeps [keeps]:
  "keeps (on_db I) (reconcileOnce controller)" "keeps (on_db I) (SyncExternal check provider)"
  unfolding reconcileOnce_def SyncExternal_def sync_row_def Let_def by (intro keeps)+

lemma worker_cycle_keeps [keeps]: "keeps (on_db I) (worker_cycle controller check issuer)"
  unfolding worker_cycle_def by (intro keeps)

end

end
