(* ===== verification/Http_Domains.thy ===== *)
theory Http_Domains
  imports Http_Frames
begin

text \<open>
  Domains and public hostnames: \<open>internal/httpapi/domain_handlers.go\<close> with the names and values of the
  verification record and the provider interface of \<open>internal/dns/dns.go\<close>. A domain is registered with a
  random token, verified by a TXT record that holds it, and may then back hostnames.
\<close>

section \<open>The verification record and the DNS provider\<close>

definition VerifyRecordName :: "string \<Rightarrow> string" where
  "VerifyRecordName fqdn = ''_platform-verification.'' @ trim_suffix fqdn ''.''"

definition TokenTXTValue :: "string \<Rightarrow> string" where
  "TokenTXTValue token = ''platform='' @ token"

text \<open>\<open>Provider\<close>: \<open>False\<close> is a returned error.\<close>

record 'x dns_provider =
  dns_name :: string
  dns_set_txt :: "string \<Rightarrow> string \<Rightarrow> ('x, bool) prog"
  dns_remove_txt :: "string \<Rightarrow> string \<Rightarrow> ('x, bool) prog"
  dns_set_addr :: "string \<Rightarrow> string \<Rightarrow> ('x, bool) prog"
  dns_remove_addr :: "string \<Rightarrow> string \<Rightarrow> ('x, bool) prog"

text \<open>\<open>ManualProvider\<close> never sets a record.\<close>

definition ManualProvider :: "'x dns_provider" where
  "ManualProvider = \<lparr>dns_name = ''manual'', dns_set_txt = (\<lambda>n v. ret False), dns_remove_txt = (\<lambda>n v. ret False),
     dns_set_addr = (\<lambda>n v. ret False), dns_remove_addr = (\<lambda>n v. ret False)\<rparr>"

text \<open>The dependencies of the domain handlers; a lookup gives an error text or the values of the records.\<close>

record 'x domain_deps =
  dd_dns :: "'x dns_provider option"
  dd_txt_lookup :: "(string \<Rightarrow> ('x, string + string list) prog) option"
  dd_to_ascii :: "string \<Rightarrow> string + string"

section \<open>The start of every handler on a domain\<close>

definition with_domain :: "'b request \<Rightarrow> org_role \<Rightarrow> (domain \<Rightarrow> ('x world, 'p reply) prog)
    \<Rightarrow> ('x world, 'p reply) prog" where
  "with_domain rq role k = do {
     r \<leftarrow> GetDomainByID (rq_path rq);
     (case r of
        Inl e \<Rightarrow> ret (Fail 404 ''not_found'' ''domain not found'')
      | Inr d \<Rightarrow> do {
          g \<leftarrow> requireOrgRole rq (d_org d) role;
          (case g of Some rep \<Rightarrow> ret rep | None \<Rightarrow> k d) }) }"

section \<open>Handlers\<close>

record txt_instructions =
  ti_name :: string
  ti_value :: string
  ti_automated :: bool

definition createDomain :: "'x domain_deps \<Rightarrow> string request \<Rightarrow> ('x world, (domain \<times> txt_instructions) reply) prog" where
  "createDomain dd rq = do {
     g \<leftarrow> requireOrgRole rq (rq_path rq) RoleAdmin;
     (case g of
        Some rep \<Rightarrow> ret rep
      | None \<Rightarrow>
         (case rq_body rq of
            Inl e \<Rightarrow> ret (invalid_request e)
          | Inr fqdn \<Rightarrow>
             (case NewDomain (dd_to_ascii dd) (rq_path rq) fqdn of
                Inl e \<Rightarrow> ret (invalid_request e)
              | Inr d \<Rightarrow> do {
                  c \<leftarrow> CreateDomain d;
                  (case c of
                     Inl e \<Rightarrow> ret (if e = ErrConflict
                       then Fail 409 ''conflict'' ''domain already registered for this organization''
                       else internalError)
                   | Inr created \<Rightarrow>
                      let recordName = VerifyRecordName (d_fqdn created);
                          recordValue = TokenTXTValue (d_token created) in do {
                        automated \<leftarrow> (case dd_dns dd of
                          None \<Rightarrow> ret False
                        | Some p \<Rightarrow> external (dns_set_txt p recordName recordValue));
                        audit (rq_id rq) (event (Some (u_id (rq_user rq))) ''domain.created'' ''domain''
                          (d_id created) [(''fqdn'', DStr (d_fqdn created))]);
                        ret (Done 201 (created, \<lparr>ti_name = recordName, ti_value = recordValue,
                          ti_automated = automated\<rparr>)) }) }))) }"

definition listDomains :: "'b request \<Rightarrow> ('x world, domain list reply) prog" where
  "listDomains rq = do {
     g \<leftarrow> requireOrgRole rq (rq_path rq) RoleMember;
     (case g of
        Some rep \<Rightarrow> ret rep
      | None \<Rightarrow> do {
          r \<leftarrow> ListDomainsByOrg (rq_path rq);
          ret (case r of Inl e \<Rightarrow> internalError | Inr ds \<Rightarrow> Done 200 ds) }) }"

text \<open>The answer to a verification: the status, and the hint when the record was not found.\<close>

definition conclude_verification :: "'b request \<Rightarrow> domain \<Rightarrow> string list \<Rightarrow>
    ('x world, (status \<times> string option) reply) prog" where
  "conclude_verification rq d txts =
    (let recordName = VerifyRecordName (d_fqdn d); recordValue = TokenTXTValue (d_token d) in
     if list_ex (\<lambda>t. t = recordValue) txts then do {
       now \<leftarrow> time_now;
       s \<leftarrow> SetDomainStatus (d_id d) DomainVerified (Some now);
       (case s of
          Inl e \<Rightarrow> ret internalError
        | Inr u \<Rightarrow> do {
            ignore (LogVerification (d_id d) (d_method d) ''verified'' True);
            audit (rq_id rq) (event (Some (u_id (rq_user rq))) ''domain.verified'' ''domain'' (d_id d)
              [(''fqdn'', DStr (d_fqdn d))]);
            ret (Done 200 (DomainVerified, None)) }) }
     else do {
       ignore (LogVerification (d_id d) (d_method d) ''record not found'' False);
       ret (Done 200 (d_status d, Some (''set TXT '' @ recordName @ '' to '' @ recordValue))) })"

definition verifyDomain :: "'x domain_deps \<Rightarrow> 'b request \<Rightarrow> ('x world, (status \<times> string option) reply) prog" where
  "verifyDomain dd rq = with_domain rq RoleAdmin (\<lambda>d.
     (case dd_txt_lookup dd of
        None \<Rightarrow> ret (Fail 500 ''internal_error'' ''DNS lookup unavailable'')
      | Some lookup \<Rightarrow> do {
          t \<leftarrow> external (lookup (VerifyRecordName (d_fqdn d)));
          (case t of
             Inl err \<Rightarrow> do {
               ignore (LogVerification (d_id d) (d_method d) err False);
               ret (Fail 422 ''lookup_failed'' ''could not query DNS for the verification record'') }
           | Inr txts \<Rightarrow> conclude_verification rq d txts) }))"

definition deleteDomain :: "'b request \<Rightarrow> ('x world, unit reply) prog" where
  "deleteDomain rq = with_domain rq RoleAdmin (\<lambda>d. do {
     r \<leftarrow> DeleteDomain (rq_path rq);
     (case r of
        Inl e \<Rightarrow> ret (if e = ErrHasDependents
            then Fail 409 ''dependents'' ''domain has application hostnames; remove them first''
          else if e = ErrNotFound then Fail 404 ''not_found'' ''domain not found''
          else internalError)
      | Inr u \<Rightarrow> do {
          audit (rq_id rq) (event (Some (u_id (rq_user rq))) ''domain.deleted'' ''domain'' (rq_path rq) []);
          ret (Done 200 ()) }) })"

definition addHostname :: "'x domain_deps \<Rightarrow> string request \<Rightarrow> ('x world, hostname reply) prog" where
  "addHostname dd rq = with_domain rq RoleAdmin (\<lambda>d.
     (case rq_body rq of
        Inl e \<Rightarrow> ret (invalid_request e)
      | Inr name \<Rightarrow>
         if name = [] then ret (invalid_request ''hostname is required'')
         else if d_status d \<noteq> DomainVerified
         then ret (Fail 409 ''domain_not_verified'' ''domain must be verified before binding hostnames'')
         else if \<not> HostnameWithinDomain name (d_fqdn d)
         then ret (Fail 400 ''not_within_domain'' ''hostname is not contained within the verified domain'')
         else (case NormalizeDomain (dd_to_ascii dd) name of
             Inl e \<Rightarrow> ret (invalid_request e)
           | Inr norm \<Rightarrow> do {
               c \<leftarrow> AddHostname \<lparr>h_id = [], h_domain = d_id d, h_instance = None, h_hostname = norm, h_status = []\<rparr>;
               (case c of
                  Inl e \<Rightarrow> ret (if e = ErrConflict
                    then Fail 409 ''conflict'' ''hostname already bound to this domain'' else internalError)
                | Inr created \<Rightarrow> do {
                    audit (rq_id rq) (event (Some (u_id (rq_user rq))) ''hostname.created'' ''hostname''
                      (h_id created) [(''hostname'', DStr norm)]);
                    ret (Done 201 created) }) })))"

definition listHostnames :: "'b request \<Rightarrow> ('x world, hostname list reply) prog" where
  "listHostnames rq = with_domain rq RoleMember (\<lambda>d. do {
     r \<leftarrow> ListHostnamesByDomain (rq_path rq);
     ret (case r of Inl e \<Rightarrow> internalError | Inr hs \<Rightarrow> Done 200 hs) })"

section \<open>The handlers keep what the statements keep\<close>

context table_invariant begin

lemma with_domain_keeps [keeps]: "(\<And>d. keeps (on_db I) (k d)) \<Longrightarrow> keeps (on_db I) (with_domain rq role k)"
  unfolding with_domain_def by (intro keeps)

lemma domain_handlers_keep [keeps]:
  "keeps (on_db I) (createDomain dd rq)" "keeps (on_db I) (verifyDomain dd rq)"
  "keeps (on_db I) (deleteDomain rq)" "keeps (on_db I) (addHostname dd rq)"
  unfolding createDomain_def verifyDomain_def deleteDomain_def addHostname_def conclude_verification_def Let_def
  by (intro keeps)+

end

end
