(* ===== verification/Http_Domains_Lemmas.thy ===== *)
theory Http_Domains_Lemmas
  imports Http_Domains
begin

text \<open>
  What the domain handlers guarantee: a domain becomes verified only on the evidence of its own token,
  for a caller who administers its organization, and hostnames are bound only inside verified domains.
\<close>

section \<open>Passing the guard\<close>

lemma GetDomainByID_Inr:
  assumes "run_state (GetDomainByID i) w = (Inr d, w')"
  shows "d \<in> set (t_domains (db w))" and "d_id d = i"
  using run_query_Inr(1) [OF assms [unfolded GetDomainByID_def domainByIDSQL_def]]
  by (auto dest: one_row_filter)

lemma GetDomainByID_frame:
  assumes "run_state (GetDomainByID i) w = (r, w')"
  shows "db w' = db w" and "ext w' = ext w"
proof -
  note q = assms [unfolded GetDomainByID_def domainByIDSQL_def]
  show "db w' = db w" by (rule run_query_db [OF q])
  show "ext w' = ext w" by (rule run_ext [OF ext_run_sql(1) q])
qed

lemma with_domain_run:
  fixes w :: "'x world" and k :: "domain \<Rightarrow> ('x world, 'p reply) prog"
  assumes "run_state (with_domain rq role k) w = (rep, w')"
  obtains (refused) c kk msg where "rep = Fail c kk msg" "db w' = db w" "ext w' = ext w"
  | (passed) d and w1 :: "'x world" where "d \<in> set (t_domains (db w))" "d_id d = rq_path rq"
    "may_manage (db w) (rq_user rq) (d_org d) role" "db w1 = db w" "ext w1 = ext w"
    "run_state (k d) w1 = (rep, w')"
  using assms unfolding with_domain_def
proof (elim run_elims)
  fix r w1 e
  assume r: "run_state (GetDomainByID (rq_path rq)) w = (r, w1)"
    and "rep = Fail 404 ''not_found'' ''domain not found''" "w' = w1"
  with GetDomainByID_frame [OF r] show thesis by (intro refused) simp_all
next
  fix r w1 d g w2
  assume r: "run_state (GetDomainByID (rq_path rq)) w = (r, w1)" "r = Inr d"
    and g: "run_state (requireOrgRole rq (d_org d) role) w1 = (g, w2)" "g = None"
    and k: "run_state (k d) w2 = (rep, w')"
  note d = GetDomainByID_Inr [OF r(1) [unfolded r(2)]] and f = GetDomainByID_frame [OF r(1)]
  show thesis
    by (rule passed [OF d _ _ _ k])
       (use f requireOrgRole_pass [OF g(1) [unfolded g(2)]] requireOrgRole_run_db [OF g(1)]
         run_ext [OF ext_guard g(1)] in simp_all)
next
  fix r w1 d g w2 a
  assume r: "run_state (GetDomainByID (rq_path rq)) w = (r, w1)"
    and g: "run_state (requireOrgRole rq (d_org d) role) w1 = (g, w2)" "g = Some a" and fin: "rep = a" "w' = w2"
  from requireOrgRole_Fail [of rq "d_org d" role w1 a] g obtain c kk msg where "a = Fail c kk msg" by auto
  then show thesis
    using refused GetDomainByID_frame [OF r] requireOrgRole_run_db [OF g(1)] run_ext [OF ext_guard g(1)] fin
    by simp
qed

section \<open>Verification\<close>

definition domains_are :: "domain list \<Rightarrow> db \<Rightarrow> bool" where
  "domains_are X d \<longleftrightarrow> t_domains d = X"

lemma domains_are_stmts [keeps]:
  "stmt_keeps (domains_are X) (insertVerificationSQL i d m s t)" "stmt_keeps (domains_are X) (insertAuditEventSQL ev)"
  by (auto intro!: stmt_keepsI simp: domains_are_def insertVerificationSQL_def insertAuditEventSQL_def Let_def
      insert_stmt_Inr)

lemma domains_are_methods [keeps]:
  "keeps (on_db (domains_are X)) (LogVerification d m s b)" "keeps (on_db (domains_are X)) (audit i ev)"
  unfolding LogVerification_def audit_def CreateAuditEvent_def by (intro keeps)+

lemma run_domains:
  "keeps (on_db (domains_are (t_domains (db w)))) m \<Longrightarrow> run_state m w = (r, w') \<Longrightarrow> t_domains (db w') = t_domains (db w)"
  by (drule run_on_db) (simp_all add: domains_are_def)

lemma SetDomainStatus_rows:
  assumes "run_state (SetDomainStatus i st at) w = (r, w')"
  shows "t_domains (db w') = t_domains (db w) \<or>
    t_domains (db w') = put_row (\<lambda>x. d_id x = i) (\<lambda>x. x\<lparr>d_status := st, d_verified_at := at\<rparr>) (t_domains (db w))"
proof (cases "domain_status_valid st")
  case True
  with assms have "run_state (exec_some (setDomainStatusSQL st at i)) w = (r, w')"
    by (simp add: SetDomainStatus_def)
  from exec_some_step [OF this] show ?thesis
  proof (elim disjE exE)
    fix pg n assume "setDomainStatusSQL st at i pg (db w) = Inr (n, db w')"
    then have "db w' = (db w)\<lparr>t_domains := put_row (\<lambda>x. d_id x = i)
        (\<lambda>x. x\<lparr>d_status := st, d_verified_at := at\<rparr>) (t_domains (db w))\<rparr>"
      by (simp add: setDomainStatusSQL_def update_stmt_Inr)
    then show ?thesis by simp
  qed simp
qed (use assms in \<open>simp add: SetDomainStatus_def\<close>)

lemma conclude_verification_rows:
  fixes w :: "'x world"
  assumes "run_state (conclude_verification rq d txts) w = (rep, w')"
  shows "t_domains (db w') = t_domains (db w) \<or> (TokenTXTValue (d_token d) \<in> set txts \<and> (\<exists>t.
    t_domains (db w') = put_row (\<lambda>x. d_id x = d_id d) (\<lambda>x. x\<lparr>d_status := ''verified'', d_verified_at := Some t\<rparr>)
      (t_domains (db w))))"
proof (cases "TokenTXTValue (d_token d) \<in> set txts")
  case True
  then have "list_ex (\<lambda>t. t = TokenTXTValue (d_token d)) txts" by (simp add: list_ex_iff)
  then show ?thesis
    using assms True unfolding conclude_verification_def Let_def if_P [OF \<open>list_ex _ txts\<close>]
  proof (elim run_elims)
    fix now s and w1 w2 :: "'x world" and e
    assume now: "run_state time_now w = (now, w1)"
      and s: "run_state (SetDomainStatus (d_id d) DomainVerified (Some now)) w1 = (s, w2)" and fin: "w' = w2"
    have "db w1 = db w" using now by (auto simp: time_now_def Let_def)
    with SetDomainStatus_rows [OF s] fin True show ?thesis by (auto simp: DomainVerified_def)
  next
    fix now s and w1 w2 w3 w4 :: "'x world" and u x v
    assume now: "run_state time_now w = (now, w1)"
      and s: "run_state (SetDomainStatus (d_id d) DomainVerified (Some now)) w1 = (s, w2)"
      and l: "run_state (LogVerification (d_id d) (d_method d) ''verified'' True) w2 = (x, w3)"
      and au: "run_state (audit (rq_id rq) (event (Some (u_id (rq_user rq))) ''domain.verified'' ''domain'' (d_id d)
        [(''fqdn'', DStr (d_fqdn d))])) w3 = (v, w4)" and fin: "w' = w4"
    have "db w1 = db w" using now by (auto simp: time_now_def Let_def)
    with SetDomainStatus_rows [OF s] fin True run_domains [OF domains_are_methods(1) l]
      run_domains [OF domains_are_methods(2) au] show ?thesis by (auto simp: DomainVerified_def)
  qed
next
  case False
  then have n: "\<not> list_ex (\<lambda>t. t = TokenTXTValue (d_token d)) txts" by (simp add: list_ex_iff)
  from assms show ?thesis
    unfolding conclude_verification_def Let_def if_not_P [OF n]
    by (elim run_elims) (auto dest!: run_domains [OF domains_are_methods(1)])
qed

text \<open>C18: a domain is verified on evidence only: after a verification request, a row of the table of
  domains either was there before, or it is the requested domain, marked verified because the TXT lookup
  of its own record name returned the value of its own token, for a caller who administers the
  organization that owns it.\<close>

theorem verifyDomain_evidence:
  fixes w :: "'x world"
  assumes ok: "db_ok (db w)" and run: "run_state (verifyDomain dd rq) w = (rep, w')"
    and x: "x \<in> set (t_domains (db w'))" "x \<notin> set (t_domains (db w))"
  shows "\<exists>d \<in> set (t_domains (db w)). \<exists>lookup txts e t. d_id d = rq_path rq
    \<and> may_manage (db w) (rq_user rq) (d_org d) RoleAdmin
    \<and> x = d\<lparr>d_status := ''verified'', d_verified_at := Some t\<rparr> \<and> dd_txt_lookup dd = Some lookup
    \<and> run_state (lookup (VerifyRecordName (d_fqdn d))) (ext w) = (Inr txts, e)
    \<and> TokenTXTValue (d_token d) \<in> set txts"
  using run unfolding verifyDomain_def
proof (cases rule: with_domain_run)
  case refused
  with x show ?thesis by simp
next
  case (passed d w1)
  from passed(6) show ?thesis
  proof (elim run_elims)
    assume "w' = w1"
    with x passed show ?thesis by simp
  next
    fix lookup t w2 err y w3
    assume t: "run_state (external (lookup (VerifyRecordName (d_fqdn d)))) w1 = (t, w2)"
      and l: "run_state (LogVerification (d_id d) (d_method d) err False) w2 = (y, w3)" and fin: "w' = w3"
    from run_domains [OF domains_are_methods(1) l] external_db [OF t] passed(4) fin x show ?thesis by simp
  next
    fix lookup t w2 txts
    assume lk: "dd_txt_lookup dd = Some lookup"
      and t: "run_state (external (lookup (VerifyRecordName (d_fqdn d)))) w1 = (t, w2)" "t = Inr txts"
      and c: "run_state (conclude_verification rq d txts) w2 = (rep, w')"
    from conclude_verification_rows [OF c] external_db [OF t(1)] passed(4) x obtain at where
      tok: "TokenTXTValue (d_token d) \<in> set txts"
      and rows: "x \<in> set (put_row (\<lambda>x. d_id x = d_id d) (\<lambda>x. x\<lparr>d_status := ''verified'', d_verified_at := Some at\<rparr>)
        (t_domains (db w)))" by auto
    from rows x(2) obtain d' where d': "d' \<in> set (t_domains (db w))" "d_id d' = d_id d"
      "x = d'\<lparr>d_status := ''verified'', d_verified_at := Some at\<rparr>"
      by (auto simp: set_put_row split: if_splits)
    have "d' = d" using d' passed(1) ok by (auto simp: db_ok_def domains_wf_def uniq_def distinct_map inj_on_def)
    moreover have "run_state (lookup (VerifyRecordName (d_fqdn d))) (ext w) = (Inr txts, ext w2)"
      using t passed(5) by (auto simp: run_external prod_eq_iff)
    ultimately show ?thesis using d' passed lk tok
      by - (rule bexI [of _ d], rule exI [of _ lookup], rule exI [of _ txts], rule exI [of _ "ext w2"],
        rule exI [of _ at], simp_all)
  qed
qed

section \<open>Hostnames\<close>

lemma AddHostname_Inr:
  assumes "run_state (AddHostname h) w = (Inr h', w')"
  shows "h_domain h' = h_domain h \<and> h_hostname h' = h_hostname h \<and> h_status h' = ''active'' \<and> h_instance h' = None
    \<and> t_hostnames (db w') = t_hostnames (db w) @ [h'] \<and> t_domains (db w') = t_domains (db w)"
proof -
  from assms obtain i w1 where i: "run_state (fresh_id (h_id h)) w = (i, w1)"
    and c: "run_state (run_sql conflict_or (insertHostnameSQL i (h_domain h) (h_hostname h) ''active'')) w1 = (Inr h', w')"
    unfolding AddHostname_def by (rule run_bindE)
  have "db w1 = db w" using i by (auto simp: fresh_id_def new_uuid_def split: if_splits)
  with run_sql_Inr [OF c] show ?thesis by (auto simp: insertHostnameSQL_def Let_def insert_stmt_Inr)
qed

text \<open>Binding a hostname succeeds only for an administrator of the organization that owns the domain,
  only on a verified domain and only for a name contained in it; it then adds exactly that hostname, in
  normal form, to the hostnames of the domain, and no other row changes.\<close>

theorem addHostname_verified:
  fixes w :: "'x world"
  assumes run: "run_state (addHostname dd rq) w = (Done c h, w')"
  shows "\<exists>d \<in> set (t_domains (db w)). \<exists>name. rq_body rq = Inr name \<and> d_id d = rq_path rq
    \<and> may_manage (db w) (rq_user rq) (d_org d) RoleAdmin \<and> d_status d = ''verified''
    \<and> HostnameWithinDomain name (d_fqdn d) \<and> NormalizeDomain (dd_to_ascii dd) name = Inr (h_hostname h)
    \<and> h_domain h = d_id d \<and> t_hostnames (db w') = t_hostnames (db w) @ [h]"
  using run unfolding addHostname_def
proof (cases rule: with_domain_run)
  case (passed d w1)
  show ?thesis
    using passed(6)
  proof (elim run_elims)
    fix name norm and r :: "store_err + hostname" and w2 w3 :: "'x world" and h1 u
    assume body: "rq_body rq = Inr name" and v: "\<not> d_status d \<noteq> DomainVerified"
      "\<not> \<not> HostnameWithinDomain name (d_fqdn d)" and n: "NormalizeDomain (dd_to_ascii dd) name = Inr norm"
      and a: "run_state (AddHostname \<lparr>h_id = [], h_domain = d_id d, h_instance = None, h_hostname = norm,
        h_status = []\<rparr>) w1 = (r, w2)" "r = Inr h1"
      and au: "run_state (audit (rq_id rq) (event (Some (u_id (rq_user rq))) ''hostname.created'' ''hostname''
        (h_id h1) [(''hostname'', DStr norm)])) w2 = (u, w3)" and fin: "Done c h = Done 201 h1" "w' = w3"
    have "t_hostnames (db w') = t_hostnames (db w2)" using audit_frame [OF au] fin by auto
    with AddHostname_Inr [OF a(1) [unfolded a(2)]] passed body v n fin show ?thesis
      by (intro bexI [of _ d] exI [of _ name]) (simp_all add: DomainVerified_def)
  qed (auto simp: internalError_def split: if_splits)
qed auto

section \<open>A concrete domain\<close>

definition acme_domain :: domain where
  "acme_domain = \<lparr>d_id = ''dom'', d_org = ''acme'', d_fqdn = ''acme.io'', d_status = ''verified'',
     d_method = ''dns_txt'', d_token = ''tok'', d_verified_at = Some 1, d_web_enabled = False,
     d_mail_enabled = False\<rparr>"

definition domain_db :: "status \<Rightarrow> db" where
  "domain_db st = sample_db\<lparr>t_domains := [acme_domain\<lparr>d_status := st\<rparr>]\<rparr>"

lemma domain_db_ok: "db_ok (domain_db ''pending'')"
  by (simp add: domain_db_def db_ok_def wf_defs sample_db_def fresh_db_def alice_def acme_def
      sample_invite_def uniq_def refs_def orefs_def role_checks_def provider_checks_def user_identity_def
      acme_domain_def domain_checks_def domain_key_def)

definition lookup_deps :: "unit domain_deps" where
  "lookup_deps = \<lparr>dd_dns = None, dd_txt_lookup = Some (\<lambda>n. ret (Inr [''v=spf1'', ''platform=tok''])),
     dd_to_ascii = Inr\<rparr>"

definition on_domain :: "string \<Rightarrow> string request" where
  "on_domain body = \<lparr>rq_user = alice, rq_id = [], rq_path = ''dom'', rq_body = Inr body\<rparr>"

lemma domain_guard_run:
  "run_state (with_domain (on_domain body) role k) (sample_world (domain_db st) ())
    = run_state (k (acme_domain\<lparr>d_status := st\<rparr>)) (sample_world (domain_db st) ())"
proof -
  have "run_state (GetDomainByID ''dom'') (sample_world (domain_db st) ())
      = (Inr (acme_domain\<lparr>d_status := st\<rparr>), sample_world (domain_db st) ())"
    by (simp add: GetDomainByID_def run_sql_def sample_sql domainByIDSQL_def query_def one_row_def
        domain_db_def acme_domain_def)
  moreover have "rq_path (on_domain body) = ''dom''" "u_is_admin (rq_user (on_domain body))"
    by (simp_all add: on_domain_def alice_def)
  ultimately show ?thesis by (simp add: with_domain_def alice_guard)
qed

lemma sample_world_ext: "(sample_world D ())\<lparr>ext := ()\<rparr> = sample_world D ()"
  by (simp add: sample_world_def)

lemma verify_run:
  "t_domains (db (snd (run_state (verifyDomain lookup_deps (on_domain [])) (sample_world (domain_db ''pending'') ()))))
    = [acme_domain\<lparr>d_status := ''verified'', d_verified_at := Some 100\<rparr>]"
proof -
  let ?d = "acme_domain\<lparr>d_status := ''pending''\<rparr>"
  let ?w = "sample_world ((domain_db ''pending'')\<lparr>t_domains := [?d\<lparr>d_status := ''verified'', d_verified_at := Some 100\<rparr>]\<rparr>) ()"
  have set: "run_state (SetDomainStatus ''dom'' DomainVerified (Some 100)) (sample_world (domain_db ''pending'') ())
      = (Inr (), ?w)"
    by (simp add: SetDomainStatus_def domain_status_valid_def DomainVerified_def exec_some_def sample_sql
        setDomainStatusSQL_def update_stmt_def count_rows_def domain_checks_def domain_db_def acme_domain_def)
  have tok: "TokenTXTValue (d_token ?d) = ''platform=tok''" by (simp add: TokenTXTValue_def acme_domain_def)
  obtain x w3 where l: "run_state (LogVerification ''dom'' (d_method ?d) ''verified'' True) ?w = (x, w3)"
    by (rule prod.exhaust)
  obtain v w4 where au: "run_state (audit (rq_id (on_domain [])) (event (Some (u_id (rq_user (on_domain []))))
      ''domain.verified'' ''domain'' ''dom'' [(''fqdn'', DStr (d_fqdn ?d))])) w3 = (v, w4)" by (rule prod.exhaust)
  have id: "d_id ?d = ''dom''" by (simp add: acme_domain_def)
  have "run_state (conclude_verification (on_domain []) ?d [''v=spf1'', ''platform=tok'']) (sample_world (domain_db ''pending'') ())
      = (Done 200 (DomainVerified, None), w4)"
    unfolding conclude_verification_def Let_def tok id
    using l au by (simp add: sample_time set run_ignore id)
  then have "snd (run_state (verifyDomain lookup_deps (on_domain [])) (sample_world (domain_db ''pending'') ())) = w4"
    unfolding verifyDomain_def domain_guard_run
    by (simp add: lookup_deps_def run_external sample_world_ext)
  with run_domains [OF domains_are_methods(1) l] run_domains [OF domains_are_methods(2) au]
  show ?thesis by simp
qed

theorem verifyDomain_evidence_witness:
  "\<exists>d \<in> set (t_domains (domain_db ''pending'')). \<exists>lookup txts e t. d_id d = ''dom''
    \<and> may_manage (domain_db ''pending'') alice (d_org d) RoleAdmin
    \<and> acme_domain\<lparr>d_status := ''verified'', d_verified_at := Some 100\<rparr>
      = d\<lparr>d_status := ''verified'', d_verified_at := Some t\<rparr> \<and> dd_txt_lookup lookup_deps = Some lookup
    \<and> run_state (lookup (VerifyRecordName (d_fqdn d))) () = (Inr txts, e) \<and> TokenTXTValue (d_token d) \<in> set txts"
proof -
  let ?w = "sample_world (domain_db ''pending'') ()"
  obtain rep w' where run: "run_state (verifyDomain lookup_deps (on_domain [])) ?w = (rep, w')"
    by (rule prod.exhaust)
  have ok: "db_ok (db ?w)" using domain_db_ok by simp
  have x: "acme_domain\<lparr>d_status := ''verified'', d_verified_at := Some 100\<rparr> \<in> set (t_domains (db w'))"
    using verify_run run by simp
  have n: "acme_domain\<lparr>d_status := ''verified'', d_verified_at := Some 100\<rparr> \<notin> set (t_domains (db ?w))"
    by (simp add: domain_db_def acme_domain_def)
  from verifyDomain_evidence [OF ok run x n] show ?thesis by (simp add: on_domain_def)
qed

lemma bind_run:
  "\<exists>c h w'. run_state (addHostname lookup_deps (on_domain ''git.acme.io'')) (sample_world (domain_db ''verified'') ())
    = (Done c h, w') \<and> h_hostname h = ''git.acme.io''"
proof -
  have n: "NormalizeDomain Inr ''git.acme.io'' = Inr ''git.acme.io''" by code_simp
  have h: "HostnameWithinDomain ''git.acme.io'' ''acme.io''" by code_simp
  show ?thesis
    unfolding addHostname_def domain_guard_run
    by (simp add: on_domain_def acme_domain_def lookup_deps_def DomainVerified_def n h AddHostname_def
        fresh_id_def new_uuid_def run_sql_def calm_sql pass_time_still insertHostnameSQL_def Let_def insert_stmt_def
        domain_db_def fresh_key_def sample_db_def fresh_db_def split: prod.split)
qed

theorem addHostname_verified_witness:
  "\<exists>h :: hostname. \<exists>d \<in> set (t_domains (domain_db ''verified'')). \<exists>name. name = ''git.acme.io'' \<and> d_id d = ''dom''
    \<and> may_manage (domain_db ''verified'') alice (d_org d) RoleAdmin \<and> d_status d = ''verified''
    \<and> HostnameWithinDomain name (d_fqdn d) \<and> NormalizeDomain Inr name = Inr (h_hostname h) \<and> h_domain h = d_id d"
proof -
  from bind_run obtain c h w' where run: "run_state (addHostname lookup_deps (on_domain ''git.acme.io''))
      (sample_world (domain_db ''verified'') ()) = (Done c h, w')" by blast
  from addHostname_verified [OF run] show ?thesis
    by - (rule exI [of _ h], fastforce simp: on_domain_def lookup_deps_def)
qed

end
