(* ===== verification/Recon_Lemmas.thy ===== *)
theory Recon_Lemmas
  imports Recon Http_Domains_Lemmas
begin

text \<open>
  What the reconcilers may do to the tables: they insert and delete nothing. A mail pass touches the
  destinations of group-bound aliases and suspends active identities of its own domain; the sync of
  external objects touches the observations of the rows of its own provider.
\<close>

section \<open>Rows before and after\<close>

definition alias_drift :: "db \<Rightarrow> string \<Rightarrow> string \<Rightarrow> mail_alias \<Rightarrow> mail_alias \<Rightarrow> bool" where
  "alias_drift D did org a b \<longleftrightarrow> a = b \<or>
     (\<exists>g ds. ma_domain a = did \<and> ma_status a = ''active'' \<and> ma_group a = Some g \<and> b = a\<lparr>ma_destinations := ds\<rparr>
       \<and> set ds = mi_address ` {m \<in> set (t_identities D). mi_org m = org \<and> mi_status m = ''active''
           \<and> (\<exists>x \<in> set (t_gmembers D). gm_group x = g \<and> gm_user x \<in> u_id ` set (t_users D)
                \<and> mi_user m = Some (gm_user x))})"

definition identity_drift :: "string \<Rightarrow> mail_identity \<Rightarrow> mail_identity \<Rightarrow> bool" where
  "identity_drift did m n \<longleftrightarrow> m = n \<or>
     (mi_domain m = did \<and> mi_status m = ''active'' \<and> n = m\<lparr>mi_status := ''suspended''\<rparr>)"

definition mail_drift :: "db \<Rightarrow> string \<Rightarrow> string \<Rightarrow> db \<Rightarrow> bool" where
  "mail_drift D did org d \<longleftrightarrow> (\<exists>as is. d = D\<lparr>t_aliases := as, t_identities := is\<rparr>
     \<and> list_all2 (alias_drift D did org) (t_aliases D) as
     \<and> list_all2 (identity_drift did) (t_identities D) is)"

lemma set_order_by [simp]: "set (order_by pg k rs) = set rs"
  by (simp add: order_by_def)

lemma list_all2_put_row:
  assumes "list_all2 R xs ys" and "\<And>x y. x \<in> set xs \<Longrightarrow> R x y \<Longrightarrow> p y \<Longrightarrow> R x (f y)"
  shows "list_all2 R xs (put_row p f ys)"
  using assms by (induction xs ys rule: list_all2_induct) auto

definition alias_phase :: "db \<Rightarrow> string \<Rightarrow> string \<Rightarrow> db \<Rightarrow> bool" where
  "alias_phase D did org d \<longleftrightarrow>
     (\<exists>as. d = D\<lparr>t_aliases := as\<rparr> \<and> list_all2 (alias_drift D did org) (t_aliases D) as)"

lemma alias_phase_refl: "alias_phase D did org D"
  unfolding alias_phase_def
  by (intro exI [of _ "t_aliases D"]) (simp add: list_all2_refl alias_drift_def)

lemma alias_phase_mail_drift: "alias_phase D did org d \<Longrightarrow> mail_drift D did org d"
  by (auto simp: alias_phase_def mail_drift_def identity_drift_def list_all2_refl
      intro!: exI [of _ "t_identities D"])

lemma alias_phase_fields:
  assumes "alias_phase D did org d"
  shows "t_identities d = t_identities D" "t_gmembers d = t_gmembers D" "t_users d = t_users D"
  using assms by (auto simp: alias_phase_def)

section \<open>Aliases\<close>

lemma alias_update:
  assumes ph: "alias_phase D did org (db w)" and a: "a \<in> set (t_aliases D)" and uq: "uniq ma_id (t_aliases D)"
    and dr: "alias_drift D did org a (a\<lparr>ma_destinations := ds\<rparr>)"
    and run: "run_state (UpdateMailAliasDestinations (ma_id a) ds) w = (r, w')"
  shows "alias_phase D did org (db w')"
proof -
  from run exec_sql_step consider "db w' = db w"
    | pg n where "updateMailAliasDestsSQL ds (ma_id a) pg (db w) = Inr (n, db w')"
    unfolding UpdateMailAliasDestinations_def by metis
  then show ?thesis
  proof cases
    case 1
    with ph show ?thesis by simp
  next
    case 2
    then have d': "db w' = (db w)\<lparr>t_aliases := put_row (\<lambda>a'. ma_id a' = ma_id a)
        (\<lambda>a. a\<lparr>ma_destinations := ds\<rparr>) (t_aliases (db w))\<rparr>"
      by (simp add: updateMailAliasDestsSQL_def update_stmt_Inr)
    from ph obtain as where as: "db w = D\<lparr>t_aliases := as\<rparr>" "list_all2 (alias_drift D did org) (t_aliases D) as"
      by (auto simp: alias_phase_def)
    have "list_all2 (alias_drift D did org) (t_aliases D)
        (put_row (\<lambda>a'. ma_id a' = ma_id a) (\<lambda>a. a\<lparr>ma_destinations := ds\<rparr>) as)"
      using as(2)
    proof (rule list_all2_put_row)
      fix x y assume x: "x \<in> set (t_aliases D)" "alias_drift D did org x y" "ma_id y = ma_id a"
      then have "x = a" using uq a by (auto simp: alias_drift_def uniq_def distinct_map inj_on_def)
      with x(2) dr show "alias_drift D did org x (y\<lparr>ma_destinations := ds\<rparr>)"
        by (auto simp: alias_drift_def)
    qed
    with as d' show ?thesis by (auto simp: alias_phase_def)
  qed
qed

lemma list_reads:
  "run_state (ListGroupMembers g) w = (r, w') \<Longrightarrow> db w' = db w"
  "run_state (ListMailIdentitiesByUsers org us) w = (r', w') \<Longrightarrow> db w' = db w"
  by (auto simp: ListGroupMembers_def listGroupMembersSQL_def ListMailIdentitiesByUsers_def
      listMailIdentitiesByUsersSQL_def split: if_splits dest: run_query_db)

lemma keys_of_selection:
  assumes "\<And>i. h ` set (F i) = {i} \<inter> I"
  shows "h ` set (concat (map (\<lambda>x. if p x then F (k x) else []) ms)) = {u \<in> I. \<exists>x \<in> set ms. p x \<and> k x = u}"
proof (induction ms)
  case (Cons m ms)
  show ?case
  proof (cases "p m")
    case True
    have "h ` set (concat (map (\<lambda>x. if p x then F (k x) else []) (m # ms)))
        = {k m} \<inter> I \<union> {u \<in> I. \<exists>x \<in> set ms. p x \<and> k x = u}"
      using Cons True assms by (simp only: list.map concat.simps if_True set_append image_Un)
    with True show ?thesis by auto
  qed (use Cons in auto)
qed simp

lemma group_users:
  "gu_user ` set [\<lparr>gu_user = u_id u, gu_email = u_email u, gu_name = u_display_name u\<rparr>.
      x \<leftarrow> ms, gm_group x = g, u \<leftarrow> us, u_id u = gm_user x]
    = {u \<in> u_id ` set us. \<exists>x \<in> set ms. gm_group x = g \<and> gm_user x = u}"
proof -
  have "gu_user ` set (concat (map (\<lambda>u. if u_id u = i
      then [\<lparr>gu_user = u_id u, gu_email = u_email u, gu_name = u_display_name u\<rparr>] else []) us))
    = {i} \<inter> u_id ` set us" for i
    by (induction us) auto
  from keys_of_selection [of gu_user, OF this] show ?thesis .
qed

lemma select_by_key:
  "{m \<in> S. P m \<and> f m \<in> Some ` {u \<in> I. \<exists>x \<in> G. q x \<and> k x = u} \<and> R m}
    = {m \<in> S. P m \<and> R m \<and> (\<exists>x \<in> G. q x \<and> k x \<in> I \<and> f m = Some (k x))}"
  by auto

lemma group_destinations:
  assumes ms: "run_state (ListGroupMembers g) w = (Inr members, w1)"
    and ids: "run_state (ListMailIdentitiesByUsers org (map gu_user members)) w1 = (Inr identities, w2)"
  shows "db w2 = db w" and "set (map mi_address identities) = mi_address ` {m \<in> set (t_identities (db w)).
      mi_org m = org \<and> mi_status m = ''active'' \<and> (\<exists>x \<in> set (t_gmembers (db w)). gm_group x = g
        \<and> gm_user x \<in> u_id ` set (t_users (db w)) \<and> mi_user m = Some (gm_user x))}"
proof -
  note q = run_query_Inr [OF ms [unfolded ListGroupMembers_def listGroupMembersSQL_def]]
  from q(1) obtain pg where "members = order_by pg gu_email
      [\<lparr>gu_user = u_id u, gu_email = u_email u, gu_name = u_display_name u\<rparr>.
        x \<leftarrow> t_gmembers (db w), gm_group x = g, u \<leftarrow> t_users (db w), u_id u = gm_user x]" by auto
  then have us: "gu_user ` set members = {u \<in> u_id ` set (t_users (db w)). \<exists>x \<in> set (t_gmembers (db w)).
      gm_group x = g \<and> gm_user x = u}" by (simp only: set_order_by group_users)
  have "db w2 = db w1 \<and> set identities = {m \<in> set (t_identities (db w1)). mi_org m = org
      \<and> mi_user m \<in> Some ` gu_user ` set members \<and> mi_status m = ''active''}"
  proof (cases "members = []")
    case True
    with ids show ?thesis by (auto simp: ListMailIdentitiesByUsers_def)
  next
    case False
    with ids have "run_state (run_sql wrap_err (listMailIdentitiesByUsersSQL org (map gu_user members))) w1
        = (Inr identities, w2)" by (simp add: ListMailIdentitiesByUsers_def)
    from run_query_Inr [OF this [unfolded listMailIdentitiesByUsersSQL_def]] show ?thesis by auto
  qed
  note ids = this
  with q(2) show "db w2 = db w" by simp
  have "set identities = {m \<in> set (t_identities (db w)).
      mi_org m = org \<and> mi_status m = ''active'' \<and> (\<exists>x \<in> set (t_gmembers (db w)). gm_group x = g
        \<and> gm_user x \<in> u_id ` set (t_users (db w)) \<and> mi_user m = Some (gm_user x))}"
    unfolding conjunct2 [OF ids] us q(2) by (rule select_by_key)
  then show "set (map mi_address identities) = mi_address ` {m \<in> set (t_identities (db w)).
      mi_org m = org \<and> mi_status m = ''active'' \<and> (\<exists>x \<in> set (t_gmembers (db w)). gm_group x = g
        \<and> gm_user x \<in> u_id ` set (t_users (db w)) \<and> mi_user m = Some (gm_user x))}" by simp
qed

lemma reconcile_alias_phase:
  assumes ph: "alias_phase D did org (db w)" and a: "b \<in> set (t_aliases D)" "ma_domain b = did"
    and uq: "uniq ma_id (t_aliases D)"
    and run: "run_state (reconcile_alias cq fqdn org b) w = (o1, w')"
  shows "alias_phase D did org (db w')"
  using run unfolding reconcile_alias_def Let_def
proof (elim run_elims)
  fix g ms w1 members ids w2 identities x w3 ok w4 u
  assume act: "\<not> ma_status b \<noteq> ''active''" and g: "ma_group b = Some g"
    and ms: "run_state (ListGroupMembers g) w = (ms, w1)" "ms = Inr members"
    and ids: "run_state (ListMailIdentitiesByUsers org (map gu_user members)) w1 = (ids, w2)" "ids = Inr identities"
    and up: "run_state (UpdateMailAliasDestinations (ma_id b) (map mi_address identities)) w2 = (u, w3)"
    and ex: "run_state (external (cq_ensure_alias cq fqdn (ma_local b) (map mi_address identities))) w3 = (ok, w4)"
    and fin: "w' = w4"
  note d = group_destinations [OF ms(1) [unfolded ms(2)] ids(1) [unfolded ids(2)]]
  have "alias_drift D did org b (b\<lparr>ma_destinations := map mi_address identities\<rparr>)"
    unfolding alias_drift_def
    by (rule disjI2, rule exI [of _ g], rule exI [of _ "map mi_address identities"])
       (use act a g d(2) alias_phase_fields [OF ph] in simp)
  moreover have "alias_phase D did org (db w2)" using ph d(1) by simp
  ultimately have "alias_phase D did org (db w3)" using alias_update [OF _ a(1) uq _ up] by blast
  with external_db [OF ex] fin show ?thesis by simp
qed (use ph in \<open>auto dest!: external_db list_reads\<close>)

lemma reconcile_aliases_phase:
  assumes "alias_phase D did org (db w)" and "uniq ma_id (t_aliases D)"
    and "\<forall>a \<in> set as. a \<in> set (t_aliases D) \<and> ma_domain a = did"
    and "run_state (reconcile_aliases cq fqdn org as res) w = (res', w')"
  shows "alias_phase D did org (db w')"
  using assms
proof (induction as arbitrary: res w)
  case (Cons a as)
  from Cons.prems(4) obtain o1 w1 res1 where a: "run_state (reconcile_alias cq fqdn org a) w = (o1, w1)"
    and as: "run_state (reconcile_aliases cq fqdn org as res1) w1 = (res', w')"
    by (simp only: reconcile_aliases.simps) (erule run_bindE, blast)
  have "alias_phase D did org (db w1)"
    using reconcile_alias_phase [OF Cons.prems(1) _ _ Cons.prems(2) a] Cons.prems(3) by simp
  from Cons.IH [OF this Cons.prems(2) _ as] Cons.prems(3) show ?case by simp
qed simp

section \<open>Identities\<close>

lemma missing_event_lost:
  assumes "run_state (CreateAuditEvent (missing_event idn)) w = (r, w')"
  shows "db w' = db w"
proof (cases "audit_valid (missing_event idn)")
  case True
  with assms have "run_state (exec_sql wrap_err (insertAuditEventSQL (missing_event idn))) w = (r, w')"
    by (simp add: CreateAuditEvent_def)
  from exec_sql_step [OF this] show ?thesis
    by (auto simp: insertAuditEventSQL_def missing_event_def event_def insert_stmt_Inr)
qed (use assms in \<open>simp add: CreateAuditEvent_def\<close>)

lemma suspend_drift:
  assumes dr: "mail_drift D did org (db w)" and i: "i \<in> set (t_identities D)" "mi_domain i = did"
    "mi_status i = ''active''" and uq: "uniq mi_id (t_identities D)"
    and run: "run_state (SetMailIdentityStatus (mi_id i) MailIdentitySuspended) w = (r, w')"
  shows "mail_drift D did org (db w')"
proof -
  from run exec_sql_step consider "db w' = db w"
    | pg n where "setMailIdentityStatusSQL MailIdentitySuspended (mi_id i) pg (db w) = Inr (n, db w')"
    unfolding SetMailIdentityStatus_def by metis
  then show ?thesis
  proof cases
    case 1
    with dr show ?thesis by simp
  next
    case 2
    then have d': "db w' = (db w)\<lparr>t_identities := put_row (\<lambda>m. mi_id m = mi_id i)
        (\<lambda>m. m\<lparr>mi_status := MailIdentitySuspended\<rparr>) (t_identities (db w))\<rparr>"
      by (simp add: setMailIdentityStatusSQL_def update_stmt_Inr)
    from dr obtain as ids where d: "db w = D\<lparr>t_aliases := as, t_identities := ids\<rparr>"
      "list_all2 (alias_drift D did org) (t_aliases D) as" "list_all2 (identity_drift did) (t_identities D) ids"
      by (auto simp: mail_drift_def)
    have "list_all2 (identity_drift did) (t_identities D)
        (put_row (\<lambda>m. mi_id m = mi_id i) (\<lambda>m. m\<lparr>mi_status := MailIdentitySuspended\<rparr>) ids)"
      using d(3)
    proof (rule list_all2_put_row)
      fix x y assume x: "x \<in> set (t_identities D)" "identity_drift did x y" "mi_id y = mi_id i"
      then have "x = i" using uq i(1) by (auto simp: identity_drift_def uniq_def distinct_map inj_on_def)
      with x(2) i show "identity_drift did x (y\<lparr>mi_status := MailIdentitySuspended\<rparr>)"
        by (auto simp: identity_drift_def MailIdentitySuspended_def)
    qed
    with d d' show ?thesis unfolding mail_drift_def
      by (intro exI [of _ as] exI [of _ "put_row (\<lambda>m. mi_id m = mi_id i)
        (\<lambda>m. m\<lparr>mi_status := MailIdentitySuspended\<rparr>) ids"]) simp
  qed
qed

lemma reconcile_identity_drift:
  assumes dr: "mail_drift D did org (db w)" and i: "i \<in> set (t_identities D)" "mi_domain i = did"
    and uq: "uniq mi_id (t_identities D)"
    and run: "run_state (reconcile_identity cq i) w = (m, w')"
  shows "mail_drift D did org (db w')"
  using run unfolding reconcile_identity_def
proof (elim run_elims)
  fix ex w1 x w2 y w3
  assume act: "\<not> mi_status i \<noteq> MailIdentityActive"
    and ex: "run_state (external (cq_user_exists cq (mi_address i))) w = (ex, w1)"
    and set: "run_state (SetMailIdentityStatus (mi_id i) MailIdentitySuspended) w1 = (x, w2)"
    and au: "run_state (CreateAuditEvent (missing_event i)) w2 = (y, w3)" and fin: "w' = w3"
  have "mail_drift D did org (db w1)" using dr external_db [OF ex] by simp
  from suspend_drift [OF this i _ uq set] act have "mail_drift D did org (db w2)"
    by (simp add: MailIdentityActive_def)
  with missing_event_lost [OF au] fin show ?thesis by simp
qed (use dr in \<open>auto dest!: external_db\<close>)

lemma reconcile_identities_drift:
  assumes "mail_drift D did org (db w)" and "uniq mi_id (t_identities D)"
    and "\<forall>i \<in> set is. i \<in> set (t_identities D) \<and> mi_domain i = did"
    and "run_state (reconcile_identities cq is res) w = (res', w')"
  shows "mail_drift D did org (db w')"
  using assms
proof (induction "is" arbitrary: res w)
  case (Cons i ids)
  from Cons.prems(4) obtain m w1 res1 where i: "run_state (reconcile_identity cq i) w = (m, w1)"
    and ids: "run_state (reconcile_identities cq ids res1) w1 = (res', w')"
    by (simp only: reconcile_identities.simps) (erule run_bindE, blast)
  have "mail_drift D did org (db w1)"
    using reconcile_identity_drift [OF Cons.prems(1) _ _ Cons.prems(2) i] Cons.prems(3) by simp
  from Cons.IH [OF this Cons.prems(2) _ ids] Cons.prems(3) show ?case by simp
qed simp

section \<open>A pass over a domain\<close>

lemma alias_list:
  assumes "run_state (ListMailAliasesByDomain did) w = (r, w')"
  shows "db w' = db w" and "r = Inr as \<Longrightarrow> set as = {a \<in> set (t_aliases (db w)). ma_domain a = did}"
proof -
  note q = assms [unfolded ListMailAliasesByDomain_def listMailAliasesSQL_def]
  show "db w' = db w" by (rule run_query_db [OF q])
  show "set as = {a \<in> set (t_aliases (db w)). ma_domain a = did}" if "r = Inr as"
    using run_query_Inr(1) [OF q [unfolded that]] by auto
qed

lemma identity_list:
  assumes "run_state (ListMailIdentitiesByDomain did) w = (r, w')"
  shows "db w' = db w" and "r = Inr ids \<Longrightarrow> set ids = {i \<in> set (t_identities (db w)). mi_domain i = did}"
proof -
  note q = assms [unfolded ListMailIdentitiesByDomain_def listMailIdentitiesSQL_def]
  show "db w' = db w" by (rule run_query_db [OF q])
  show "set ids = {i \<in> set (t_identities (db w)). mi_domain i = did}" if "r = Inr ids"
    using run_query_Inr(1) [OF q [unfolded that]] by auto
qed

text \<open>C21: a pass over a mail domain is conservative: no row of any table is inserted or deleted; it only
  sets the destinations of active group-bound aliases of the domain, to exactly the addresses of the
  active mailboxes of the group's members, and suspends active identities of the domain. Every other
  table stays as it is, the audit log included: the event about a suspended identity has no id and
  is never stored.\<close>

theorem ReconcileDomain_conservative:
  assumes ok: "db_ok (db w)" and run: "run_state (ReconcileDomain cq did fqdn org) w = (r, w')"
  shows "mail_drift (db w) did org (db w')"
proof -
  let ?D = "db w"
  let ?res = "\<lparr>mr_domain = did, mr_aliases = 0, mr_group_aliases = 0, mr_missing = []\<rparr>"
  have uq: "uniq ma_id (t_aliases ?D)" "uniq mi_id (t_identities ?D)"
    using ok by (simp_all add: db_ok_def aliases_wf_def identities_wf_def)
  show ?thesis
    using run unfolding ReconcileDomain_def Let_def
  proof (elim run_elims)
    fix as w1 e
    assume as: "run_state (ListMailAliasesByDomain did) w = (as, w1)" and fin: "w' = w1"
    show ?thesis using alias_list(1) [OF as] fin alias_phase_mail_drift [OF alias_phase_refl, of ?D did org] by simp
  next
    fix as w1 aliases res1 w2 b w3 ids w4 e
    assume as: "run_state (ListMailAliasesByDomain did) w = (as, w1)" "as = Inr aliases"
      and loop: "run_state (reconcile_aliases cq fqdn org aliases ?res) w1 = (res1, w2)"
      and rel: "run_state (external (cq_reload cq)) w2 = (b, w3)"
      and ids: "run_state (ListMailIdentitiesByDomain did) w3 = (ids, w4)" and fin: "w' = w4"
    have "alias_phase ?D did org (db w2)"
      by (rule reconcile_aliases_phase [OF _ uq(1) _ loop])
         (use alias_list [OF as(1)] as(2) alias_phase_refl in auto)
    then show ?thesis using external_db [OF rel] identity_list(1) [OF ids] fin
      by (simp add: alias_phase_mail_drift)
  next
    fix as w1 aliases res1 w2 b w3 ids w4 identities res2 w5
    assume as: "run_state (ListMailAliasesByDomain did) w = (as, w1)" "as = Inr aliases"
      and loop: "run_state (reconcile_aliases cq fqdn org aliases ?res) w1 = (res1, w2)"
      and rel: "run_state (external (cq_reload cq)) w2 = (b, w3)"
      and ids: "run_state (ListMailIdentitiesByDomain did) w3 = (ids, w4)" "ids = Inr identities"
      and loop2: "run_state (reconcile_identities cq identities res1) w4 = (res2, w5)" and fin: "w' = w5"
    have ph: "alias_phase ?D did org (db w2)"
      by (rule reconcile_aliases_phase [OF _ uq(1) _ loop])
         (use alias_list [OF as(1)] as(2) alias_phase_refl in auto)
    have D: "db w3 = db w2" "db w4 = db w3" by (rule external_db [OF rel], rule identity_list(1) [OF ids(1)])
    have "mail_drift ?D did org (db w5)"
      by (rule reconcile_identities_drift [OF _ uq(2) _ loop2])
         (use identity_list(2) [OF ids(1,2)] alias_phase_mail_drift [OF ph] alias_phase_fields(1) [OF ph] D in auto)
    with fin show ?thesis by simp
  qed
qed

section \<open>External objects\<close>

definition observed :: "status \<Rightarrow> string \<Rightarrow> external_row \<Rightarrow> external_row" where
  "observed s e x = x\<lparr>x_status := s, x_observed := observedHash (x_type x) (x_external x), x_last_error := e\<rparr>"

definition observation :: "string \<Rightarrow> external_row \<Rightarrow> external_row \<Rightarrow> bool" where
  "observation provider x y \<longleftrightarrow> y = x \<or> (x_provider x = provider
     \<and> (y = observed ExtActive [] x \<or> y = observed ExtFailed ''resource missing in provider'' x))"

definition sync_drift :: "db \<Rightarrow> string \<Rightarrow> db \<Rightarrow> bool" where
  "sync_drift D provider d \<longleftrightarrow>
     (\<exists>xs. d = D\<lparr>t_externals := xs\<rparr> \<and> list_all2 (observation provider) (t_externals D) xs)"

lemma observe_drift:
  assumes dr: "sync_drift D provider (db w)" and x: "x \<in> set (t_externals D)" "x_provider x = provider"
    and uq: "uniq x_id (t_externals D)" and s: "s = ExtActive \<and> e = [] \<or> s = ExtFailed \<and> e = ''resource missing in provider''"
    and run: "run_state (SetExternalObserved (x_id x) s (observedHash (x_type x) (x_external x)) e) w = (r, w')"
  shows "sync_drift D provider (db w')"
proof -
  let ?f = "\<lambda>y. y\<lparr>x_status := s, x_observed := observedHash (x_type x) (x_external x), x_last_error := e\<rparr>"
  from run exec_sql_step consider "db w' = db w"
    | pg n where "setExternalObservedSQL s (observedHash (x_type x) (x_external x)) e (x_id x) pg (db w) = Inr (n, db w')"
    unfolding SetExternalObserved_def by metis
  then show ?thesis
  proof cases
    case 1
    with dr show ?thesis by simp
  next
    case 2
    then have d': "db w' = (db w)\<lparr>t_externals := put_row (\<lambda>y. x_id y = x_id x) ?f (t_externals (db w))\<rparr>"
      by (simp add: setExternalObservedSQL_def update_stmt_Inr)
    from dr obtain xs where d: "db w = D\<lparr>t_externals := xs\<rparr>" "list_all2 (observation provider) (t_externals D) xs"
      by (auto simp: sync_drift_def)
    have "list_all2 (observation provider) (t_externals D) (put_row (\<lambda>y. x_id y = x_id x) ?f xs)"
      using d(2)
    proof (rule list_all2_put_row)
      fix a b assume a: "a \<in> set (t_externals D)" "observation provider a b" "x_id b = x_id x"
      then have "a = x" using uq x(1) by (auto simp: observation_def observed_def uniq_def distinct_map inj_on_def)
      with a(2) x s show "observation provider a (?f b)" by (auto simp: observation_def observed_def)
    qed
    with d d' show ?thesis by (auto simp: sync_drift_def)
  qed
qed

lemma provider_list:
  assumes "run_state (ListExternalResourcesByProvider provider) w = (r, w')"
  shows "db w' = db w" and "r = Inr rows \<Longrightarrow> set rows = external_resource.truncate ` {x \<in> set (t_externals (db w)). x_provider x = provider}"
proof -
  note q = assms [unfolded ListExternalResourcesByProvider_def listExternalByProviderSQL_def]
  show "db w' = db w" by (rule run_query_db [OF q])
  show "set rows = external_resource.truncate ` {x \<in> set (t_externals (db w)). x_provider x = provider}" if "r = Inr rows"
    using run_query_Inr(1) [OF q [unfolded that]] by auto
qed

lemma sync_row_drift:
  assumes dr: "sync_drift D provider (db w)" and x: "x \<in> set (t_externals D)" "x_provider x = provider"
    and uq: "uniq x_id (t_externals D)"
    and run: "run_state (sync_row check rows (external_resource.truncate x)) w = (u, w')"
  shows "sync_drift D provider (db w')"
proof -
  have t [simp]: "x_id (external_resource.truncate x) = x_id x" "x_type (external_resource.truncate x) = x_type x"
    "x_external (external_resource.truncate x) = x_external x"
    by (simp_all add: external_resource.truncate_def)
  show ?thesis
    using run unfolding sync_row_def Let_def
  proof (elim run_elims)
    fix ct ci r w1 ok y
    assume ex: "run_state (external (check ct ci)) w = (r, w1)"
      and set: "run_state (SetExternalObserved (x_id (external_resource.truncate x)) ExtActive
          (observedHash (x_type (external_resource.truncate x)) (x_external (external_resource.truncate x))) []) w1
          = (y, w')"
    have "sync_drift D provider (db w1)" using dr external_db [OF ex] by simp
    from observe_drift [OF this x uq _ set [unfolded t]] show ?thesis by simp
  next
    fix ct ci r w1 ok y
    assume ex: "run_state (external (check ct ci)) w = (r, w1)"
      and set: "run_state (SetExternalObserved (x_id (external_resource.truncate x)) ExtFailed
          (observedHash (x_type (external_resource.truncate x)) (x_external (external_resource.truncate x)))
          ''resource missing in provider'') w1 = (y, w')"
    have "sync_drift D provider (db w1)" using dr external_db [OF ex] by simp
    from observe_drift [OF this x uq _ set [unfolded t]] show ?thesis by simp
  qed (use dr in \<open>auto dest!: external_db\<close>)
qed

lemma sync_rows_drift:
  assumes "sync_drift D provider (db w)" and "uniq x_id (t_externals D)"
    and "set res \<subseteq> external_resource.truncate ` {x \<in> set (t_externals D). x_provider x = provider}"
    and "run_state (for_each (sync_row check rows) res) w = (u, w')"
  shows "sync_drift D provider (db w')"
  using assms
proof (induction res arbitrary: w)
  case (Cons r res)
  from Cons.prems(4) obtain v w1 where r: "run_state (sync_row check rows r) w = (v, w1)"
    and res: "run_state (for_each (sync_row check rows) res) w1 = (u, w')"
    by (simp only: for_each.simps) (erule run_bindE, blast)
  from Cons.prems(3) obtain x where "r = external_resource.truncate x" "x \<in> set (t_externals D)"
    "x_provider x = provider" by auto
  with sync_row_drift [OF Cons.prems(1) _ _ Cons.prems(2)] r have "sync_drift D provider (db w1)" by blast
  from Cons.IH [OF this Cons.prems(2) _ res] Cons.prems(3) show ?case by simp
qed simp

text \<open>The sync of external objects never removes or adds a mapping and never changes what it maps: it
  records, for rows of its own provider only, the hash of the mapping and one of two outcomes, active
  without an error or failed with the reason; every other table stays as it is.\<close>

theorem SyncExternal_conservative:
  assumes ok: "db_ok (db w)" and run: "run_state (SyncExternal check provider) w = (r, w')"
  shows "sync_drift (db w) provider (db w')"
proof -
  have uq: "uniq x_id (t_externals (db w))" using ok by (simp add: db_ok_def externals_wf_def)
  have refl: "sync_drift (db w) provider (db w)"
    unfolding sync_drift_def by (intro exI [of _ "t_externals (db w)"]) (simp add: list_all2_refl observation_def)
  show ?thesis
    using run unfolding SyncExternal_def
  proof (elim run_elims)
    fix rs w1 rows u w2
    assume l: "run_state (ListExternalResourcesByProvider provider) w = (rs, w1)" "rs = Inr rows"
      and loop: "run_state (for_each (sync_row check rows) rows) w1 = (u, w2)" and fin: "w' = w2"
    from refl provider_list(1) [OF l(1)] have "sync_drift (db w) provider (db w1)" by simp
    from sync_rows_drift [OF this uq _ loop] provider_list(2) [OF l] fin show ?thesis by simp
  qed (use refl in \<open>auto dest!: provider_list(1)\<close>)
qed

section \<open>A concrete pass\<close>

text \<open>The organization of the sample world with a mail domain, Alice's mailbox, a group and its alias; the
  server has lost the mailbox.\<close>

definition alice_box :: mail_identity where
  "alice_box = \<lparr>mi_id = ''box'', mi_org = ''acme'', mi_user = Some ''alice'', mi_domain = ''dom'',
     mi_local = ''alice'', mi_address = ''alice@acme.io'', mi_username = ''alice@acme.io'', mi_status = ''active''\<rparr>"

definition team_alias :: mail_alias where
  "team_alias = \<lparr>ma_id = ''al'', ma_org = ''acme'', ma_domain = ''dom'', ma_group = Some ''team'',
     ma_local = ''team'', ma_address = ''team@acme.io'', ma_destinations = [], ma_status = ''active''\<rparr>"

definition mail_db :: db where
  "mail_db = sample_db\<lparr>t_domains := [acme_domain],
     t_mdomains := [\<lparr>md_id = ''md'', md_domain = ''dom'', md_status = ''active'', md_inbound = [], md_outbound = [],
       md_tls = [], md_dkim = [], md_selector = [], md_dns_record = []\<rparr>],
     t_identities := [alice_box],
     t_creds := [\<lparr>mc_id = ''cred'', mc_identity = ''box'', mc_fingerprint = ''f'', mc_status = ''active''\<rparr>],
     t_groups := [\<lparr>g_id = ''team'', g_org = ''acme'', g_name = ''Team'', g_slug = ''team'', g_description = []\<rparr>],
     t_gmembers := [\<lparr>gm_group = ''team'', gm_user = ''alice''\<rparr>], t_aliases := [team_alias],
     t_externals := [\<lparr>x_id = ''e'', x_type = ResTypeAuthentikUser, x_object = ''alice'', x_provider = ''authentik'',
       x_external = ''7'', x_status = ''active'', x_observed = [], x_last_error = []\<rparr>]\<rparr>"

lemma mail_db_ok: "db_ok mail_db"
  by (simp add: mail_db_def db_ok_def wf_defs sample_db_def fresh_db_def alice_def acme_def
      sample_invite_def uniq_def refs_def orefs_def role_checks_def provider_checks_def user_identity_def
      acme_domain_def alice_box_def team_alias_def domain_checks_def mail_domain_checks_def
      identity_checks_def external_checks_def external_key_def domain_key_def identity_key_def alias_key_def)

definition empty_server :: "unit chasquid" where
  "empty_server = \<lparr>cq_add_user = (\<lambda>a p. ret True), cq_remove_user = (\<lambda>a. ret True),
     cq_change_password = (\<lambda>a p. ret True), cq_ensure_domain = (\<lambda>d. ret True), cq_remove_domain = (\<lambda>d. ret True),
     cq_ensure_alias = (\<lambda>d l ds. ret True), cq_remove_alias = (\<lambda>d l. ret True),
     cq_ensure_sender_policy = (\<lambda>u fs. ret True), cq_ensure_dkim = (\<lambda>d. ret None), cq_check_domain = (\<lambda>d. ret None),
     cq_user_exists = (\<lambda>a. ret (Some False)), cq_reload = ret True, cq_restart = ret True, cq_status = ret None\<rparr>"

theorem ReconcileDomain_conservative_witness:
  "mail_drift mail_db ''dom'' ''acme''
     (db (snd (run_state (ReconcileDomain empty_server ''dom'' ''acme.io'' ''acme'') (sample_world mail_db ()))))"
proof -
  obtain r w' where run: "run_state (ReconcileDomain empty_server ''dom'' ''acme.io'' ''acme'') (sample_world mail_db ())
      = (r, w')" by fastforce
  with ReconcileDomain_conservative [OF _ run] mail_db_ok show ?thesis by simp
qed

theorem SyncExternal_conservative_witness:
  "sync_drift mail_db ''authentik''
     (db (snd (run_state (SyncExternal (\<lambda>t i. ret (Some False)) ''authentik'') (sample_world mail_db ()))))"
proof -
  obtain r w' where run: "run_state (SyncExternal (\<lambda>t i. ret (Some False)) ''authentik'') (sample_world mail_db ())
      = (r, w')" by fastforce
  with SyncExternal_conservative [OF _ run] mail_db_ok show ?thesis by simp
qed

end
