(* ===== verification/Provision_Mail_Lemmas.thy ===== *)
theory Provision_Mail_Lemmas
  imports Recon_Lemmas
begin

text \<open>
  What provisioning leaves behind: a rotation leaves one valid credential, the one the server was given; a
  failed mailbox keeps its address for good.
\<close>

section \<open>Credentials\<close>

definition active_creds :: "string \<Rightarrow> db \<Rightarrow> mail_credential list" where
  "active_creds i d = filter (\<lambda>c. mc_identity c = i \<and> mc_status c = ''active'') (t_creds d)"

definition other_creds :: "string \<Rightarrow> db \<Rightarrow> mail_credential list" where
  "other_creds i d = filter (\<lambda>c. mc_identity c \<noteq> i) (t_creds d)"

lemma newSMTPSecret_frame:
  "run_state newSMTPSecret w = (r, w') \<Longrightarrow> db w' = db w \<and> ext w' = ext w"
  by (auto simp: newSMTPSecret_def rand_bytes_def)

lemma fresh_id_frame: "run_state (fresh_id i) w = (r, w') \<Longrightarrow> db w' = db w \<and> ext w' = ext w"
  by (auto simp: fresh_id_def new_uuid_def split: if_splits)

lemma revoke_none:
  "filter (\<lambda>c. mc_identity c = i \<and> mc_status c = ''active'')
     (put_row (\<lambda>c. mc_identity c = i \<and> mc_status c = ''active'') (\<lambda>c. c\<lparr>mc_status := ''revoked''\<rparr>) cs) = []"
  "filter (\<lambda>c. mc_identity c \<noteq> i)
     (put_row (\<lambda>c. mc_identity c = i \<and> mc_status c = ''active'') (\<lambda>c. c\<lparr>mc_status := ''revoked''\<rparr>) cs)
    = filter (\<lambda>c. mc_identity c \<noteq> i) cs"
  by (induction cs) auto

lemma RevokeCredentials_Inr:
  assumes "run_state (RevokeCredentialsByIdentity i) w = (Inr u, w')"
  shows "active_creds i (db w') = [] \<and> other_creds i (db w') = other_creds i (db w)"
proof -
  from exec_sql_Inr [OF assms [unfolded RevokeCredentialsByIdentity_def]]
  have "t_creds (db w') = put_row (\<lambda>c. mc_identity c = i \<and> mc_status c = ''active'')
      (\<lambda>c. c\<lparr>mc_status := ''revoked''\<rparr>) (t_creds (db w))"
    by (auto simp: revokeCredentialsSQL_def update_stmt_Inr)
  then show ?thesis by (simp add: active_creds_def other_creds_def revoke_none)
qed

lemma CreateMailCredential_Inr:
  assumes "run_state (CreateMailCredential c) w = (Inr cr, w')"
  shows "mc_identity cr = mc_identity c \<and> mc_fingerprint cr = mc_fingerprint c \<and> mc_status cr = ''active''
    \<and> t_creds (db w') = t_creds (db w) @ [cr] \<and> t_identities (db w') = t_identities (db w)"
proof -
  from assms obtain i w1 where i: "run_state (fresh_id (mc_id c)) w = (i, w1)"
    and r: "run_state (run_sql wrap_err (insertMailCredentialSQL i (mc_identity c) (mc_fingerprint c))) w1 = (Inr cr, w')"
    unfolding CreateMailCredential_def by (rule run_bindE)
  from run_sql_Inr [OF r] fresh_id_frame [OF i] show ?thesis
    by (auto simp: insertMailCredentialSQL_def Let_def insert_stmt_Inr)
qed

lemma ext_provision [keeps]:
  "keeps (\<lambda>w. ext w = e) (CreateMailIdentity m)" "keeps (\<lambda>w. ext w = e) (CreateMailCredential c)"
  "keeps (\<lambda>w. ext w = e) (RevokeCredentialsByIdentity i)" "keeps (\<lambda>w. ext w = e) newSMTPSecret"
  unfolding CreateMailIdentity_def CreateMailCredential_def RevokeCredentialsByIdentity_def newSMTPSecret_def
  by (intro keeps)+

text \<open>C19: a successful rotation leaves exactly one active credential of the identity: the one it returns,
  which holds the fingerprint of the secret that the mail server took as the account's new password; the
  credentials of other identities are as they were.\<close>

theorem Rotate_single_credential:
  fixes w :: "'x world"
  assumes run: "run_state (Rotate mta idn) w = (Inr (cid, secret), w')"
  shows "run_state (mta_change_password mta (mi_username idn) secret) (ext w) = (True, ext w')
    \<and> map mc_id (active_creds (mi_id idn) (db w')) = [cid]
    \<and> map mc_fingerprint (active_creds (mi_id idn) (db w')) = [fingerprint secret]
    \<and> other_creds (mi_id idn) (db w') = other_creds (mi_id idn) (db w)"
  using run unfolding Rotate_def
proof (elim run_elims)
  fix s w1 sec p w2 r w3 u c w4
  assume s: "run_state newSMTPSecret w = (s, w1)"
    and p: "run_state (external (mta_change_password mta (mi_username idn) sec)) w1 = (p, w2)" "\<not> \<not> p"
    and r: "run_state (RevokeCredentialsByIdentity (mi_id idn)) w2 = (r, w3)" "r = Inr u"
    and c: "run_state (CreateMailCredential (credential_for idn sec)) w3 = (c, w4)"
    and fin: "Inr (cid, secret) = (case c of Inl e \<Rightarrow> Inl e | Inr cred \<Rightarrow> Inr (mc_id cred, sec))" "w' = w4"
  from fin obtain cr where cr: "c = Inr cr" "cid = mc_id cr" "secret = sec" by (auto split: sum.splits)
  note rv = RevokeCredentials_Inr [OF r(1) [unfolded r(2)]]
    and cc = CreateMailCredential_Inr [OF c [unfolded cr(1)]]
  have e: "ext w4 = ext w2"
    using run_ext [OF ext_provision(2) c] run_ext [OF ext_provision(3) r(1)] by simp
  have "run_state (mta_change_password mta (mi_username idn) sec) (ext w) = (True, ext w4)"
    using p newSMTPSecret_frame [OF s] e by (auto simp: run_external prod_eq_iff)
  moreover have "active_creds (mi_id idn) (db w4) = [cr]" "other_creds (mi_id idn) (db w4) = other_creds (mi_id idn) (db w3)"
    using rv cc by (simp_all add: active_creds_def other_creds_def credential_for_def)
  moreover have "db w2 = db w" using external_db [OF p(1)] newSMTPSecret_frame [OF s] by simp
  ultimately show ?thesis using cr cc rv fin(2) by (simp add: credential_for_def)
qed auto

section \<open>Addresses in use\<close>

definition holds_address :: "string \<Rightarrow> db \<Rightarrow> bool" where
  "holds_address a d \<longleftrightarrow> a \<in> mi_address ` set (t_identities d)"

lemma put_row_address: "mi_address ` set (put_row p (\<lambda>m. m\<lparr>mi_status := st\<rparr>) ms) = mi_address ` set ms"
  by (induction ms) auto

lemma holds_stmts [keeps]:
  "stmt_keeps (holds_address a) (setMailIdentityStatusSQL st i)"
  "stmt_keeps (holds_address a) (insertMailCredentialSQL i idn fp)"
  "stmt_keeps (holds_address a) (insertMailPolicySQL p)"
  "stmt_keeps (holds_address a) (insertMailIdentitySQL m)"
  by (auto intro!: stmt_keepsI simp: holds_address_def setMailIdentityStatusSQL_def update_stmt_Inr put_row_address
      insertMailCredentialSQL_def insertMailPolicySQL_def insertMailIdentitySQL_def Let_def insert_stmt_Inr)

lemma holds_methods [keeps]:
  "keeps (on_db (holds_address a)) (SetMailIdentityStatus i st)"
  "keeps (on_db (holds_address a)) (CreateMailCredential c)"
  "keeps (on_db (holds_address a)) (CreateMailSubmissionPolicy p)"
  "keeps (on_db (holds_address a)) (CreateMailIdentity m)"
  unfolding SetMailIdentityStatus_def CreateMailCredential_def CreateMailSubmissionPolicy_def CreateMailIdentity_def
  by (intro keeps)+

lemma holds_finish [keeps]: "keeps (on_db (holds_address a)) (finish_mailbox mta ident cred secret)"
  unfolding finish_mailbox_def by (intro keeps)

lemma CreateMailIdentity_step:
  assumes "run_state (CreateMailIdentity m) w = (r, w')"
  shows "(db w' = db w \<and> (\<exists>e. r = Inl e)) \<or> holds_address (mi_address m) (db w') \<and> \<not> holds_address (mi_address m) (db w)"
proof -
  from assms obtain i w1 r0 where i: "run_state (fresh_id (mi_id m)) w = (i, w1)"
    and r: "run_state (sql (insertMailIdentitySQL (m\<lparr>mi_id := i\<rparr>))) w1 = (r0, w')"
      "r = (case r0 of Inl e \<Rightarrow> Inl (conflict_or e) | Inr x \<Rightarrow> Inr x)"
    unfolding CreateMailIdentity_def run_sql_def by (auto elim!: run_bindE split: prod.splits)
  from r(1) show ?thesis
    by (rule sql_result) (use r(2) fresh_id_frame [OF i] in \<open>auto simp: insertMailIdentitySQL_def Let_def
      insert_stmt_Inr holds_address_def fresh_key_def\<close>)
qed


section \<open>A concrete mailbox\<close>

definition bob_box :: mail_identity where
  "bob_box = \<lparr>mi_id = [], mi_org = ''acme'', mi_user = None, mi_domain = ''dom'', mi_local = [],
     mi_address = ''bob@acme.io'', mi_username = ''bob@acme.io'', mi_status = []\<rparr>"

text \<open>A server that takes every password and refuses every account.\<close>

definition refusing_mta :: "unit mta" where
  "refusing_mta = \<lparr>mta_add_user = (\<lambda>a p. ret False), mta_sender_policy = (\<lambda>a fs. ret False),
     mta_change_password = (\<lambda>a p. ret True)\<rparr>"

lemma unit_ext [simp]: "(w :: unit world)\<lparr>ext := ()\<rparr> = w"
  by simp

lemma secret_run:
  "\<exists>sec. run_state newSMTPSecret (sample_world D x) = (Some sec, (sample_world D x)\<lparr>rand_ix := Suc 0\<rparr>)"
proof -
  have "length (raw_url_encode (replicate 24 CHR ''s'')) = 32" by code_simp
  then show ?thesis by (simp add: newSMTPSecret_def rand_bytes_def Let_def)
qed

theorem Rotate_single_credential_witness:
  "\<exists>cid secret w'. run_state (Rotate refusing_mta alice_box) (sample_world mail_db ()) = (Inr (cid, secret), w')
    \<and> map mc_id (active_creds ''box'' (db w')) = [cid]
    \<and> map mc_fingerprint (active_creds ''box'' (db w')) = [fingerprint secret]"
proof -
  let ?w = "sample_world mail_db ()"
  have i: "mi_id alice_box = ''box''" by (simp add: alice_box_def)
  obtain sec where s: "run_state newSMTPSecret ?w = (Some sec, ?w\<lparr>rand_ix := Suc 0\<rparr>)"
    by (rule exE [OF secret_run])
  obtain u v where r: "run_state (RevokeCredentialsByIdentity ''box'') (?w\<lparr>rand_ix := Suc 0\<rparr>) = (Inr u, v)"
    and v: "fates v = []" "delays v = []" "t_creds (db v) = [\<lparr>mc_id = ''cred'', mc_identity = ''box'',
      mc_fingerprint = ''f'', mc_status = ''revoked''\<rparr>]" "t_identities (db v) = [alice_box]"
      "uuid_src v (uuid_ix v) = ''uuid-''"
    by (auto simp: RevokeCredentialsByIdentity_def exec_sql_def calm_sql pass_time_still revokeCredentialsSQL_def
        update_stmt_def mail_db_def)
  obtain c v' where c: "run_state (CreateMailCredential (credential_for alice_box sec)) v = (Inr c, v')"
    using v i by (auto simp: CreateMailCredential_def fresh_id_def new_uuid_def run_sql_def calm_sql pass_time_still
        insertMailCredentialSQL_def Let_def insert_stmt_def fresh_key_def credential_for_def)
  have run: "run_state (Rotate refusing_mta alice_box) ?w = (Inr (mc_id c, sec), v')"
    using r c i by (simp add: Rotate_def s run_external refusing_mta_def)
  note rot = Rotate_single_credential [OF run, unfolded i]
  show ?thesis
    by (intro exI conjI) (rule run, use rot in simp_all)
qed


end
