(* ===== verification/Http_Mail.thy ===== *)
theory Http_Mail
  imports Http_Domains Recon
begin

text \<open>
  Mail: the handlers of \<open>internal/httpapi/mail_handlers.go\<close>. A verified domain is enabled for mail, gets
  mailboxes and aliases, and is reconciled on demand. The API is wired with one controller of the mail
  server, which is both \<open>Deps.Chasquid\<close> and \<open>Deps.MailProvision\<close> (\<open>cmd/api/main.go\<close>); \<open>None\<close> is the
  unconfigured one.
\<close>

record 'x mail_deps =
  ml_chasquid :: "'x chasquid option"
  ml_to_ascii :: "string \<Rightarrow> string + string"

definition mta_of :: "'x chasquid \<Rightarrow> 'x mta" where
  "mta_of cq = \<lparr>mta_add_user = cq_add_user cq, mta_sender_policy = cq_ensure_sender_policy cq,
     mta_change_password = cq_change_password cq\<rparr>"

definition optionalStringPtr :: "string \<Rightarrow> string option" where
  "optionalStringPtr s = (if s = [] then None else Some s)"

definition localPartOf :: "string \<Rightarrow> string" where
  "localPartOf addr = fst (cut_at CHR ''@'' addr)"

abbreviation mail_unavailable :: "'p reply" where
  "mail_unavailable \<equiv> Fail 422 ''mail_unavailable'' ''mail provisioning is not configured''"

abbreviation mail_not_enabled :: "'p reply" where
  "mail_not_enabled \<equiv> Fail 404 ''not_found'' ''mail not enabled for this domain''"

section \<open>Mail domains\<close>

text \<open>The provisioning of a mail domain whose row exists.\<close>

definition provision_mail_domain :: "'x chasquid \<Rightarrow> 'b request \<Rightarrow> domain \<Rightarrow> mail_domain
    \<Rightarrow> ('x world, mail_domain reply) prog" where
  "provision_mail_domain cq rq d md = do {
     ok \<leftarrow> external (cq_ensure_domain cq (d_fqdn d));
     (if \<not> ok then do {
        ignore (SetMailDomainStatus (md_id md) MailDomainDisabled);
        ret (Fail 422 ''provisioning_failed'' ''could not provision the mail domain'') }
      else do {
        r \<leftarrow> external (cq_restart cq);
        dk \<leftarrow> external (cq_ensure_dkim cq (d_fqdn d));
        (case dk of
           None \<Rightarrow> ret ()
         | Some k \<Rightarrow> ignore (SetMailDomainDKIM (md_id md) (dk_selector k) (dk_record k)));
        ignore (SetMailDomainStatus (md_id md) MailDomainActive);
        audit (rq_id rq) (event (Some (u_id (rq_user rq))) ''mail.domain.enabled'' ''domain'' (d_id d)
          [(''fqdn'', DStr (d_fqdn d))]);
        ret (Done 201 md) }) }"

definition enableMail :: "'x mail_deps \<Rightarrow> 'b request \<Rightarrow> ('x world, mail_domain reply) prog" where
  "enableMail ml rq = with_domain rq RoleAdmin (\<lambda>d.
     if d_status d \<noteq> DomainVerified
     then ret (Fail 409 ''domain_not_verified'' ''only verified domains can enable mail'')
     else (case ml_chasquid ml of
         None \<Rightarrow> ret mail_unavailable
       | Some cq \<Rightarrow> do {
           m \<leftarrow> GetMailDomainByDomainID (d_id d);
           (case m of
              Inr md \<Rightarrow> ret (Fail 409 ''conflict'' ''mail already enabled for this domain'')
            | Inl e \<Rightarrow> do {
                c \<leftarrow> CreateMailDomain (d_id d);
                (case c of
                   Inl e \<Rightarrow> ret (if e = ErrConflict
                     then Fail 409 ''conflict'' ''mail already enabled for this domain'' else internalError)
                 | Inr md \<Rightarrow> provision_mail_domain cq rq d md) }) }))"

definition mailStatus :: "'x mail_deps \<Rightarrow> 'b request
    \<Rightarrow> ('x world, (mail_domain \<times> chasquid_status option \<times> domain_state option) reply) prog" where
  "mailStatus ml rq = with_domain rq RoleMember (\<lambda>d. do {
     m \<leftarrow> GetMailDomainByDomainID (d_id d);
     (case m of
        Inl e \<Rightarrow> ret mail_not_enabled
      | Inr md \<Rightarrow>
         (case ml_chasquid ml of
            None \<Rightarrow> ret (Done 200 (md, None, None))
          | Some cq \<Rightarrow> do {
              st \<leftarrow> external (cq_status cq);
              state \<leftarrow> external (cq_check_domain cq (d_fqdn d));
              ret (Done 200 (md, st, state)) })) })"

text \<open>The answer: the number of aliases restored and the addresses of the missing identities.\<close>

definition reconcileMail :: "'x mail_deps \<Rightarrow> 'b request \<Rightarrow> ('x world, (nat \<times> string list) reply) prog" where
  "reconcileMail ml rq = with_domain rq RoleAdmin (\<lambda>d. do {
     m \<leftarrow> GetMailDomainByDomainID (d_id d);
     (case m of
        Inl e \<Rightarrow> ret mail_not_enabled
      | Inr md \<Rightarrow>
         (case ml_chasquid ml of
            None \<Rightarrow> ret mail_unavailable
          | Some cq \<Rightarrow> do {
              r \<leftarrow> ReconcileDomain cq (d_id d) (d_fqdn d) (d_org d);
              (case r of
                 Inl e \<Rightarrow> ret internalError
               | Inr res \<Rightarrow>
                  let restored = mr_aliases res + mr_group_aliases res in do {
                    audit (rq_id rq) (event (Some (u_id (rq_user rq))) ''mail.reconciliation'' ''domain'' (d_id d)
                      [(''aliases_restored'', DInt (int restored)),
                       (''identities_missing'', DInt (int (length (mr_missing res))))]);
                    ret (Done 200 (restored, mr_missing res)) }) })) })"

definition disableMail :: "'b request \<Rightarrow> ('x world, unit reply) prog" where
  "disableMail rq = with_domain rq RoleAdmin (\<lambda>d. do {
     m \<leftarrow> GetMailDomainByDomainID (d_id d);
     (case m of
        Inl e \<Rightarrow> ret mail_not_enabled
      | Inr md \<Rightarrow> do {
          r \<leftarrow> SetMailDomainStatus (md_id md) MailDomainDisabled;
          (case r of
             Inl e \<Rightarrow> ret internalError
           | Inr u \<Rightarrow> do {
               audit (rq_id rq) (event (Some (u_id (rq_user rq))) ''mail.domain.disabled'' ''domain'' (d_id d) []);
               ret (Done 200 ()) }) }) })"

section \<open>Mailboxes\<close>

record create_identity_req =
  cm_local :: string
  cm_user :: string

definition new_box :: "string \<Rightarrow> string option \<Rightarrow> string \<Rightarrow> string \<Rightarrow> mail_identity" where
  "new_box org user did addr = \<lparr>mi_id = [], mi_org = org, mi_user = user, mi_domain = did, mi_local = [],
     mi_address = addr, mi_username = addr, mi_status = []\<rparr>"

text \<open>The user named by the request must be a member; no name stands for no user.\<close>

definition check_member :: "string \<Rightarrow> string \<Rightarrow> ('x world, bool) prog" where
  "check_member org user =
    (if user = [] then ret True
     else do {
       r \<leftarrow> GetMembershipRole org user;
       ret (case r of Inl e \<Rightarrow> False | Inr role \<Rightarrow> True) })"

definition create_box :: "'x chasquid \<Rightarrow> 'b request \<Rightarrow> domain \<Rightarrow> string \<Rightarrow> string
    \<Rightarrow> ('x world, (mail_identity \<times> string \<times> string) reply) prog" where
  "create_box cq rq d user addr = do {
     member \<leftarrow> check_member (d_org d) user;
     (if \<not> member then ret (invalid_request ''user is not a member of this organization'')
      else do {
        p \<leftarrow> Provisioner (mta_of cq) (new_box (d_org d) (optionalStringPtr user) (d_id d) addr);
        (case p of
           Inl e \<Rightarrow> ret (if e = ErrConflict then Fail 409 ''conflict'' ''address already in use''
             else Fail 422 ''provisioning_failed'' ''could not provision the mailbox'')
         | Inr (ident, credID, secret) \<Rightarrow> do {
             audit (rq_id rq) (event (Some (u_id (rq_user rq))) ''mail.identity.created'' ''mail_identity''
               (mi_id ident) [(''address'', DStr addr)]);
             ret (Done 201 (ident, credID, secret)) }) }) }"

definition createMailIdentity :: "'x mail_deps \<Rightarrow> create_identity_req request
    \<Rightarrow> ('x world, (mail_identity \<times> string \<times> string) reply) prog" where
  "createMailIdentity ml rq = with_domain rq RoleAdmin (\<lambda>d. do {
     m \<leftarrow> GetMailDomainByDomainID (d_id d);
     (if \<not> (case m of Inl e \<Rightarrow> False | Inr md \<Rightarrow> md_status md = MailDomainActive)
      then ret (Fail 409 ''mail_not_active'' ''mail must be enabled and active for this domain'')
      else (case rq_body rq of
          Inl e \<Rightarrow> ret (invalid_request e)
        | Inr req \<Rightarrow>
           (case ml_chasquid ml of
              None \<Rightarrow> ret mail_unavailable
            | Some cq \<Rightarrow>
               (case BuildAddress (ml_to_ascii ml) (cm_local req) (d_fqdn d) of
                  Inl e \<Rightarrow> ret (invalid_request ''invalid address'')
                | Inr addr \<Rightarrow> create_box cq rq d (cm_user req) addr)))) })"

definition rotateMailCredential :: "'x mail_deps \<Rightarrow> 'b request \<Rightarrow> ('x world, (string \<times> string) reply) prog" where
  "rotateMailCredential ml rq = do {
     i \<leftarrow> GetMailIdentity (rq_path rq);
     (case i of
        Inl e \<Rightarrow> ret (Fail 404 ''not_found'' ''mail identity not found'')
      | Inr ident \<Rightarrow> do {
          g \<leftarrow> requireOrgRole rq (mi_org ident) RoleAdmin;
          (case g of
             Some rep \<Rightarrow> ret rep
           | None \<Rightarrow>
              (case ml_chasquid ml of
                 None \<Rightarrow> ret mail_unavailable
               | Some cq \<Rightarrow> do {
                   r \<leftarrow> Rotate (mta_of cq) ident;
                   (case r of
                      Inl e \<Rightarrow> ret (Fail 422 ''rotation_failed'' ''could not rotate the credential'')
                    | Inr (credID, secret) \<Rightarrow> do {
                        audit (rq_id rq) (event (Some (u_id (rq_user rq))) ''mail.identity.credential_rotated''
                          ''mail_identity'' (mi_id ident) []);
                        ret (Done 200 (credID, secret)) }) })) }) }"

definition listMailIdentities :: "'b request \<Rightarrow> ('x world, mail_identity list reply) prog" where
  "listMailIdentities rq = with_domain rq RoleMember (\<lambda>d. do {
     r \<leftarrow> ListMailIdentitiesByDomain (d_id d);
     ret (case r of Inl e \<Rightarrow> internalError | Inr is \<Rightarrow> Done 200 is) })"

section \<open>Aliases\<close>

record create_alias_req =
  al_local :: string
  al_dests :: "string list"
  al_group :: "string option"

text \<open>The destinations: those of the request, or of the members of its group.\<close>

definition alias_destinations :: "domain \<Rightarrow> create_alias_req \<Rightarrow> ('x world, 'p reply + string list) prog" where
  "alias_destinations d req =
    (case al_group req of
       None \<Rightarrow> ret (Inr (al_dests req))
     | Some gid \<Rightarrow> do {
         g \<leftarrow> GetGroupByID gid;
         (if \<not> (case g of Inl e \<Rightarrow> False | Inr g \<Rightarrow> g_org g = d_org d)
          then ret (Inl (Fail 400 ''invalid_group'' ''group does not belong to this organization''))
          else do {
            ms \<leftarrow> ListGroupMembers gid;
            (case ms of
               Inl e \<Rightarrow> ret (Inl internalError)
             | Inr members \<Rightarrow> do {
                 is \<leftarrow> ListMailIdentitiesByUsers (d_org d) (map gu_user members);
                 ret (case is of Inl e \<Rightarrow> Inl internalError
                      | Inr identities \<Rightarrow> Inr (map mi_address identities)) }) }) })"

text \<open>The checked alias is written to the server first, then to the table.\<close>

definition create_alias :: "'x chasquid \<Rightarrow> 'b request \<Rightarrow> domain \<Rightarrow> string option \<Rightarrow> string \<Rightarrow> string list
    \<Rightarrow> ('x world, mail_alias reply) prog" where
  "create_alias cq rq d grp addr dests = do {
     ok \<leftarrow> external (cq_ensure_alias cq (d_fqdn d) (localPartOf addr) dests);
     (if \<not> ok then ret (Fail 422 ''provisioning_failed'' ''could not provision the alias'')
      else do {
        c \<leftarrow> CreateMailAlias \<lparr>ma_id = [], ma_org = d_org d, ma_domain = d_id d, ma_group = grp,
               ma_local = localPartOf addr, ma_address = addr, ma_destinations = dests, ma_status = []\<rparr>;
        (case c of
           Inl e \<Rightarrow> ret (if e = ErrConflict then Fail 409 ''conflict'' ''alias already exists'' else internalError)
         | Inr al \<Rightarrow> do {
             audit (rq_id rq) (event (Some (u_id (rq_user rq))) ''mail.alias.created'' ''mail_alias'' (ma_id al)
               [(''address'', DStr addr), (''destinations'', DList dests)]);
             ret (Done 201 al) }) }) }"

definition createMailAlias :: "'x mail_deps \<Rightarrow> create_alias_req request \<Rightarrow> ('x world, mail_alias reply) prog" where
  "createMailAlias ml rq = with_domain rq RoleAdmin (\<lambda>d.
     (case rq_body rq of
        Inl e \<Rightarrow> ret (invalid_request e)
      | Inr req \<Rightarrow> do {
          ds \<leftarrow> alias_destinations d req;
          (case ds of
             Inl rep \<Rightarrow> ret rep
           | Inr dests \<Rightarrow>
              if dests = [] \<and> al_group req = None
              then ret (invalid_request ''at least one destination is required'')
              else (case BuildAddress (ml_to_ascii ml) (al_local req) (d_fqdn d) of
                  Inl e \<Rightarrow> ret (invalid_request ''invalid address'')
                | Inr addr \<Rightarrow> do {
                    v \<leftarrow> ValidateAliasDestinations (d_org d) dests;
                    (case v of
                       Inl e \<Rightarrow> ret (Fail 400 ''invalid_destination''
                         ''destination is not a mail identity of this organization (cross-organization routing is disabled)'')
                     | Inr u \<Rightarrow>
                        (case ml_chasquid ml of
                           None \<Rightarrow> ret mail_unavailable
                         | Some cq \<Rightarrow> create_alias cq rq d (al_group req) addr dests)) })) }))"

definition listMailAliases :: "'b request \<Rightarrow> ('x world, mail_alias list reply) prog" where
  "listMailAliases rq = with_domain rq RoleMember (\<lambda>d. do {
     r \<leftarrow> ListMailAliasesByDomain (d_id d);
     ret (case r of Inl e \<Rightarrow> internalError | Inr as \<Rightarrow> Done 200 as) })"

section \<open>The handlers keep what the statements keep\<close>

context table_invariant begin

lemma mail_domain_handlers_keep [keeps]:
  "keeps (on_db I) (enableMail ml rq)" "keeps (on_db I) (disableMail rq)" "keeps (on_db I) (reconcileMail ml rq)"
  unfolding enableMail_def provision_mail_domain_def disableMail_def reconcileMail_def Let_def
  by (intro keeps)+

lemma mailbox_handlers_keep [keeps]:
  "keeps (on_db I) (createMailIdentity ml rq1)" "keeps (on_db I) (rotateMailCredential ml rq)"
  unfolding createMailIdentity_def create_box_def check_member_def rotateMailCredential_def
  by (intro keeps)+

lemma alias_handlers_keep [keeps]: "keeps (on_db I) (createMailAlias ml rq)"
  unfolding createMailAlias_def alias_destinations_def create_alias_def by (intro keeps)

end

end
