(* ===== verification/Http_Onboard.thy ===== *)
theory Http_Onboard
  imports Http_Mail Http_Invites
begin

text \<open>
  The composite handler of \<open>internal/httpapi/onboard_handlers.go\<close>: one call that makes a user, the membership,
  the group membership and the mailbox. Its inline creation of the user is that of
  \<open>ensurePlatformUser\<close> step by step; a conflict is answered separately.
\<close>

record onboard_req =
  ob_email :: string
  ob_display_name :: string
  ob_role :: org_role
  ob_group :: string
  ob_mailbox :: bool
  ob_local :: string

text \<open>The credential: its id and the secret shown once.\<close>

record onboard_resp =
  or_user :: user
  or_membership :: membership
  or_group :: "group option"
  or_box :: "mail_identity option"
  or_cred :: "(string \<times> string) option"

primrec first_active_mail :: "domain list \<Rightarrow> ('x world, (domain \<times> mail_domain) option) prog" where
  "first_active_mail [] = ret None"
| "first_active_mail (d # ds) =
    (if d_status d \<noteq> DomainVerified then first_active_mail ds
     else do {
       m \<leftarrow> GetMailDomainByDomainID (d_id d);
       (case m of
          Inl e \<Rightarrow> first_active_mail ds
        | Inr md \<Rightarrow> if md_status md \<noteq> MailDomainActive then first_active_mail ds else ret (Some (d, md))) })"

definition activeOrgMailDomain :: "string \<Rightarrow> ('x world, (domain \<times> mail_domain) option) prog" where
  "activeOrgMailDomain orgID = do {
     r \<leftarrow> ListDomainsByOrg orgID;
     (case r of Inl e \<Rightarrow> ret None | Inr domains \<Rightarrow> first_active_mail domains) }"

text \<open>The target of the mailbox: the domain, the address and the identity that already has it.\<close>

definition mailbox_target :: "'x mail_deps \<Rightarrow> string \<Rightarrow> string \<Rightarrow> string
    \<Rightarrow> ('x world, 'p reply + ('x chasquid \<times> domain \<times> string \<times> mail_identity option)) prog" where
  "mailbox_target ml orgID email local = do {
     m \<leftarrow> activeOrgMailDomain orgID;
     (case m of
        None \<Rightarrow> ret (Inl (Fail 422 ''no_mail_domain''
          ''organization has no verified domain with active mail; enable mail on a verified domain first''))
      | Some (d, md) \<Rightarrow>
         (case ml_chasquid ml of
            None \<Rightarrow> ret (Inl mail_unavailable)
          | Some cq \<Rightarrow>
             (case BuildAddress (ml_to_ascii ml) (if local = [] then localPartOf email else local) (d_fqdn d) of
                Inl e \<Rightarrow> ret (Inl (invalid_request ''invalid address''))
              | Inr addr \<Rightarrow> do {
                  i \<leftarrow> GetMailIdentityByAddress addr;
                  ret (Inr (cq, d, addr, case i of Inl e \<Rightarrow> None | Inr ident \<Rightarrow> Some ident)) }))) }"

definition join_group :: "string \<Rightarrow> string \<Rightarrow> string \<Rightarrow> ('x world, 'p reply + group option) prog" where
  "join_group orgID gid user =
    (if gid = [] then ret (Inr None)
     else do {
       r \<leftarrow> GetGroupByID gid;
       (case r of
          Inl e \<Rightarrow> ret (Inl (Fail 400 ''invalid_group'' ''group does not belong to this organization''))
        | Inr g \<Rightarrow>
           if g_org g \<noteq> orgID
           then ret (Inl (Fail 400 ''invalid_group'' ''group does not belong to this organization''))
           else do {
             a \<leftarrow> AddGroupMember (g_id g) user;
             ret (case a of Inl e \<Rightarrow> Inl internalError | Inr u \<Rightarrow> Inr (Some g)) }) })"

definition give_mailbox :: "string \<Rightarrow> string \<Rightarrow> ('x chasquid \<times> domain \<times> string \<times> mail_identity option) option
    \<Rightarrow> ('x world, 'p reply + (mail_identity option \<times> (string \<times> string) option)) prog" where
  "give_mailbox orgID user target =
    (case target of
       None \<Rightarrow> ret (Inr (None, None))
     | Some (cq, d, addr, Some ident) \<Rightarrow> ret (Inr (Some ident, None))
     | Some (cq, d, addr, None) \<Rightarrow> do {
         p \<leftarrow> Provisioner (mta_of cq) ((new_box orgID (Some user) (d_id d) addr)\<lparr>mi_local := localPartOf addr\<rparr>);
         ret (case p of
             Inl e \<Rightarrow> Inl (if e = ErrConflict then Fail 409 ''conflict'' ''address already in use''
               else Fail 422 ''provisioning_failed''
                 ''mailbox provisioning failed; the user and membership were created'')
           | Inr (ident, credID, secret) \<Rightarrow> Inr (Some ident, Some (credID, secret))) })"

text \<open>The steps after the mailbox target is known.\<close>

definition onboard_steps :: "'x deps \<Rightarrow> onboard_req request \<Rightarrow> onboard_req \<Rightarrow> string \<Rightarrow> org_role
    \<Rightarrow> ('x chasquid \<times> domain \<times> string \<times> mail_identity option) option \<Rightarrow> ('x world, onboard_resp reply) prog" where
  "onboard_steps d rq req email role target =
    (let orgID = rq_path rq in do {
       u \<leftarrow> ensurePlatformUser d email (ob_display_name req);
       (case u of
          Inl e \<Rightarrow> ret (if e = ErrConflict then Fail 409 ''conflict'' ''user already exists'' else internalError)
        | Inr (user, created) \<Rightarrow> do {
            m \<leftarrow> SetMembership orgID (u_id user) role;
            (case m of
               Inl e \<Rightarrow> ret internalError
             | Inr membership \<Rightarrow> do {
                 g \<leftarrow> join_group orgID (ob_group req) (u_id user);
                 (case g of
                    Inl rep \<Rightarrow> ret rep
                  | Inr grp \<Rightarrow> do {
                      b \<leftarrow> give_mailbox orgID (u_id user) target;
                      (case b of
                         Inl rep \<Rightarrow> ret rep
                       | Inr (ident, cred) \<Rightarrow> do {
                           audit (rq_id rq) (event (Some (u_id (rq_user rq))) ''user.onboarded'' ''organization'' orgID
                             [(''email'', DStr (u_email user)), (''user_id'', DStr (u_id user)),
                              (''role'', DStr role), (''user_created'', DBool created),
                              (''group_id'', DStr (ob_group req)),
                              (''mailbox_provisioned'', DBool (ob_mailbox req))]);
                           ret (Done 200 \<lparr>or_user = user, or_membership = membership, or_group = grp,
                             or_box = ident, or_cred = cred\<rparr>) }) }) }) }) })"

text \<open>The guard on the owner role is \<open>may_invite_as\<close>, the same lines as in the invitation handler.\<close>

definition onboardUser :: "'x deps \<Rightarrow> 'x mail_deps \<Rightarrow> onboard_req request \<Rightarrow> ('x world, onboard_resp reply) prog" where
  "onboardUser d ml rq = do {
     g \<leftarrow> requireOrgRole rq (rq_path rq) RoleAdmin;
     (case g of
        Some rep \<Rightarrow> ret rep
      | None \<Rightarrow>
         (case rq_body rq of
            Inl e \<Rightarrow> ret (invalid_request e)
          | Inr req \<Rightarrow>
             let email = to_lower (trim_space (ob_email req));
                 role = (if ob_role req = [] then RoleMember else ob_role req) in
             if email = [] then ret (invalid_request ''email is required'')
             else if \<not> role_valid role then ret (invalid_request ''invalid role'')
             else do {
               may \<leftarrow> may_invite_as rq role;
               (if \<not> may then ret (forbidden ''only an owner can onboard with the owner role'')
                else if ob_mailbox req then do {
                  t \<leftarrow> mailbox_target ml (rq_path rq) email (ob_local req);
                  (case t of
                     Inl rep \<Rightarrow> ret rep
                   | Inr target \<Rightarrow> onboard_steps d rq req email role (Some target)) }
                else onboard_steps d rq req email role None) })) }"

context table_invariant begin

lemma first_active_mail_keeps [keeps]: "keeps (on_db I) (first_active_mail ds)"
  by (induction ds) (auto intro!: keeps)

lemma onboard_parts_keep [keeps]:
  "keeps (on_db I) (mailbox_target ml org email local)" "keeps (on_db I) (join_group org gid user)"
  "keeps (on_db I) (give_mailbox org user target)"
  unfolding mailbox_target_def activeOrgMailDomain_def join_group_def give_mailbox_def by (intro keeps)+

lemma onboard_steps_keeps [keeps]: "keeps (on_db I) (onboard_steps d rq req email role target)"
  unfolding onboard_steps_def Let_def by (intro keeps)

lemma onboardUser_keeps [keeps]: "keeps (on_db I) (onboardUser d ml rq)"
  unfolding onboardUser_def Let_def by (intro keeps)

end

end
