(* ===== verification/Http_Apps.thy ===== *)
theory Http_Apps
  imports Http_Mail Deploy_Model
begin

text \<open>
  Applications: the handlers of \<open>internal/httpapi/apps_handlers.go\<close>. Installing an application stores the
  instance and its hostname, registers it at the identity provider, makes its mailbox and returns the labels of
  its route. The YAML decoder is an argument, as for \<open>Parse\<close>.
\<close>

section \<open>The catalog\<close>

definition listCatalog :: "'b request \<Rightarrow> ('x world, catalog_app list reply) prog" where
  "listCatalog rq =
    (if \<not> u_is_admin (rq_user rq) then ret (forbidden ''platform admin required'')
     else do {
       r \<leftarrow> ListCatalogApps;
       ret (case r of Inl e \<Rightarrow> internalError | Inr apps \<Rightarrow> Done 200 apps) })"

definition registerCatalog :: "(string \<Rightarrow> string + manifest) \<Rightarrow> string request
    \<Rightarrow> ('x world, (string \<times> string \<times> string) reply) prog" where
  "registerCatalog decode rq =
    (if \<not> u_is_admin (rq_user rq) then ret (forbidden ''platform admin required'')
     else (case rq_body rq of
         Inl e \<Rightarrow> ret (invalid_request e)
       | Inr yaml \<Rightarrow>
          (case Parse decode yaml of
             Inl e \<Rightarrow> ret (Fail 400 ''invalid_manifest'' ''invalid manifest'')
           | Inr m \<Rightarrow> do {
               r \<leftarrow> CreateCatalogApp m;
               ret (case r of
                   Inl e \<Rightarrow> if e = ErrConflict then Fail 409 ''conflict'' ''catalog entry already exists''
                     else internalError
                 | Inr i \<Rightarrow> Done 201 (i, mf_id m, mf_version m)) })))"

section \<open>Installing an application\<close>

record create_app_req =
  cr_catalog :: string
  cr_hostname :: string
  cr_name :: string
  cr_groups :: "string list"

record app_resp =
  ar_instance :: string
  ar_name :: string
  ar_hostname :: string
  ar_labels :: "label list"
  ar_oidc :: "(string \<times> string \<times> string) option"
  ar_forward_auth :: bool
  ar_smtp :: "(string \<times> string \<times> string) option"

definition slugifyInstance :: "string \<Rightarrow> string" where
  "slugifyInstance name = (let s = Slugify name in if s = [] \<or> s = ''org'' then ''app'' else s)"

definition shortID :: "string \<Rightarrow> string" where
  "shortID i = (if 6 < length i then take 6 i else i)"

definition findVerifiedOrgDomain :: "(string \<Rightarrow> string + string) \<Rightarrow> string \<Rightarrow> string
    \<Rightarrow> ('x world, (domain \<times> string) option) prog" where
  "findVerifiedOrgDomain to_ascii orgID name = do {
     r \<leftarrow> ListDomainsByOrg orgID;
     ret (case r of
         Inl e \<Rightarrow> None
       | Inr domains \<Rightarrow>
          (case NormalizeDomain to_ascii name of
             Inl e \<Rightarrow> None
           | Inr norm \<Rightarrow>
              map_option (\<lambda>d. (d, norm))
                (find (\<lambda>d. d_status d = DomainVerified \<and> HostnameWithinDomain norm (d_fqdn d)) domains))) }"

text \<open>The rows that map an instance to its provider and application.\<close>

definition record_app_objects :: "'x deps \<Rightarrow> string \<Rightarrow> app_oidc \<Rightarrow> ('x world, unit) prog" where
  "record_app_objects d instanceID o1 = do {
     ignore (UpsertExternalResource (external_row_for d ResTypeAuthentikProvider instanceID (ao_provider_pk o1)));
     ignore (UpsertExternalResource (external_row_for d ResTypeAuthentikApplication instanceID (ao_app_pk o1))) }"

text \<open>Registration at the identity provider: the client of an OIDC application, and whether forward
  authentication is configured.\<close>

definition register_auth :: "'x deps \<Rightarrow> manifest \<Rightarrow> string \<Rightarrow> string \<Rightarrow> string \<Rightarrow> string
    \<Rightarrow> ('x world, (string \<times> string \<times> string) option \<times> bool) prog" where
  "register_auth d m instanceID name slug host =
    (case dp_identity d of
       None \<Rightarrow> ret (None, False)
     | Some p \<Rightarrow>
        if mf_auth_mode m = AuthOIDC then
          (let redirect = ''https://'' @ host @ ''.*'' in do {
             r \<leftarrow> external (ip_app_oidc p name slug redirect);
             (case r of
                None \<Rightarrow> ret (None, False)
              | Some o1 \<Rightarrow> do {
                  record_app_objects d instanceID o1;
                  ret (Some (ao_client_id o1, ao_client_secret o1, redirect), False) }) })
        else if mf_auth_mode m = AuthForwardAuth then do {
          r \<leftarrow> external (ip_forward_auth p name slug (''https://'' @ host));
          (case r of
             None \<Rightarrow> ret (None, False)
           | Some fa \<Rightarrow> do { record_app_objects d instanceID fa; ret (None, True) }) }
        else ret (None, False))"

definition provisionAppIdentity :: "'x chasquid \<Rightarrow> string \<Rightarrow> string \<Rightarrow> string \<Rightarrow> string
    \<Rightarrow> ('x, string \<times> string) op" where
  "provisionAppIdentity cq orgID domID instanceID addr = do {
     p \<leftarrow> Provisioner (mta_of cq) (new_box orgID None domID addr);
     (case p of
        Inl e \<Rightarrow> ret (Inl e)
      | Inr (ident, credID, secret) \<Rightarrow> do {
          ignore (CreateMailSubmissionPolicy \<lparr>mp_id = [], mp_identity = mi_id ident, mp_credential = credID,
            mp_from_addresses = [addr], mp_from_domains = [], mp_instance = Some instanceID\<rparr>);
          ret (Inr (credID, secret)) }) }"

definition app_mailbox :: "'x mail_deps \<Rightarrow> manifest \<Rightarrow> string \<Rightarrow> domain \<Rightarrow> string
    \<Rightarrow> ('x world, (string \<times> string \<times> string) option) prog" where
  "app_mailbox ml m orgID dom1 instanceID =
    (case (mf_email m, ml_chasquid ml) of
       (Some em, Some cq) \<Rightarrow>
         if em_required em then
           (let local = (if em_sender_local_part em = [] then ''notifications'' else em_sender_local_part em);
                addr = local @ ''-'' @ shortID instanceID @ ''@'' @ d_fqdn dom1 in do {
              r \<leftarrow> provisionAppIdentity cq orgID (d_id dom1) instanceID addr;
              ret (case r of Inl e \<Rightarrow> None | Inr (credID, secret) \<Rightarrow> Some (addr, credID, secret)) })
         else ret None
     | _ \<Rightarrow> ret None)"

text \<open>The steps after the instance and its hostname are stored.\<close>

definition finish_app :: "'x deps \<Rightarrow> 'x mail_deps \<Rightarrow> create_app_req request \<Rightarrow> create_app_req \<Rightarrow> manifest
    \<Rightarrow> domain \<Rightarrow> string \<Rightarrow> string \<Rightarrow> string \<Rightarrow> ('x world, app_resp reply) prog" where
  "finish_app d ml rq req m dom1 host name instanceID =
    (let slug = slugifyInstance name;
         port = (case mf_http_port m of None \<Rightarrow> 80 | Some p \<Rightarrow> p);
         labels = RouteLabels instanceID host port (mf_auth_mode m = AuthForwardAuth) in do {
       for_each (\<lambda>g. ignore (AddInstanceAccessGroup instanceID g)) (cr_groups req);
       a \<leftarrow> register_auth d m instanceID name slug host;
       smtp \<leftarrow> app_mailbox ml m (rq_path rq) dom1 instanceID;
       ignore (SetInstanceStatus instanceID ''active'');
       audit (rq_id rq) (event (Some (u_id (rq_user rq))) ''application.installed'' ''application_instance''
         instanceID [(''catalog'', DStr (mf_id m)), (''hostname'', DStr host)]);
       ret (Done 201 \<lparr>ar_instance = instanceID, ar_name = name, ar_hostname = host, ar_labels = labels,
         ar_oidc = fst a, ar_forward_auth = snd a, ar_smtp = smtp\<rparr>) })"

definition createApplication :: "'x deps \<Rightarrow> 'x mail_deps \<Rightarrow> create_app_req request
    \<Rightarrow> ('x world, app_resp reply) prog" where
  "createApplication d ml rq = do {
     g \<leftarrow> requireOrgRole rq (rq_path rq) RoleAdmin;
     (case g of
        Some rep \<Rightarrow> ret rep
      | None \<Rightarrow>
         (case rq_body rq of
            Inl e \<Rightarrow> ret (invalid_request e)
          | Inr req \<Rightarrow> do {
              c \<leftarrow> GetCatalogAppByID (cr_catalog req);
              (case c of
                 Inl e \<Rightarrow> ret (Fail 400 ''invalid_catalog'' ''catalog entry not found'')
               | Inr app \<Rightarrow> do {
                   v \<leftarrow> findVerifiedOrgDomain (dp_to_ascii d) (rq_path rq) (cr_hostname req);
                   (case v of
                      None \<Rightarrow> ret (Fail 400 ''hostname_not_available''
                        ''hostname must be within a verified domain of this organization'')
                    | Some (dom1, host) \<Rightarrow>
                       let name = (if cr_name req = [] then mf_name (ca_manifest app) else cr_name req) in do {
                         i \<leftarrow> CreateApplicationInstance (rq_path rq) (ca_id app) name (slugifyInstance name);
                         (case i of
                            Inl e \<Rightarrow> ret internalError
                          | Inr instanceID \<Rightarrow> do {
                              h \<leftarrow> AddInstanceHostname instanceID host;
                              (case h of
                                 Inl e \<Rightarrow> ret (if e = ErrConflict
                                   then Fail 409 ''conflict'' ''hostname already bound'' else internalError)
                               | Inr u \<Rightarrow> finish_app d ml rq req (ca_manifest app) dom1 host name instanceID) }) }) }) })) }"

definition listApplications :: "'b request \<Rightarrow> ('x world, instance_row list reply) prog" where
  "listApplications rq = do {
     g \<leftarrow> requireOrgRole rq (rq_path rq) RoleMember;
     (case g of
        Some rep \<Rightarrow> ret rep
      | None \<Rightarrow> do {
          r \<leftarrow> ListInstancesByOrg (rq_path rq);
          ret (case r of Inl e \<Rightarrow> internalError | Inr is \<Rightarrow> Done 200 is) }) }"

context table_invariant begin

lemma app_parts_keep [keeps]:
  "keeps (on_db I) (findVerifiedOrgDomain f org name)" "keeps (on_db I) (record_app_objects d i o1)"
  "keeps (on_db I) (provisionAppIdentity cq org did i addr)"
  unfolding findVerifiedOrgDomain_def record_app_objects_def provisionAppIdentity_def by (intro keeps)+

lemma app_steps_keep [keeps]:
  "keeps (on_db I) (register_auth d m i name slug host)" "keeps (on_db I) (app_mailbox ml m org dom1 i)"
  unfolding register_auth_def app_mailbox_def Let_def by (intro keeps)+

lemma app_handlers_keep [keeps]:
  "keeps (on_db I) (registerCatalog decode rq)" "keeps (on_db I) (createApplication d ml rq1)"
  unfolding registerCatalog_def createApplication_def finish_app_def Let_def by (intro keeps)+

end

end
