(* ===== verification/Go_HTTP.thy ===== *)
theory Go_HTTP
  imports Go_JSON Selfu_Prelude
begin

text \<open>
  What the clients of the platform use of Go's \<open>net/http\<close> and \<open>net/url\<close>: requests with their headers and
  bodies, the escaping of query and path segments, and the decoding of JSON answers into structs. Sending a
  request is the \<open>hc_do\<close> of a client: the text of an error, or the status and the body of the answer.
\<close>

record http_request =
  hr_method :: string
  hr_url :: string
  hr_headers :: "(string \<times> string) list"
  hr_body :: "string option"

text \<open>\<open>hc_decode_error\<close> is the message of \<open>encoding/json\<close> or \<open>encoding/xml\<close> for a body they cannot decode.\<close>

record 'x http_client =
  hc_do :: "http_request \<Rightarrow> ('x, string + (nat \<times> string)) prog"
  hc_decode_error :: "string \<Rightarrow> string"

definition content_type :: "string option \<Rightarrow> (string \<times> string) list" where
  "content_type body = (case body of None \<Rightarrow> [] | Some b \<Rightarrow> [(''Content-Type'', ''application/json'')])"

section \<open>Escaping (net/url)\<close>

definition url_unreserved :: "char \<Rightarrow> bool" where
  "url_unreserved c \<longleftrightarrow> (let b = byte c in (97 \<le> b \<and> b \<le> 122) \<or> (65 \<le> b \<and> b \<le> 90) \<or> (48 \<le> b \<and> b \<le> 57)
     \<or> b \<in> {45, 95, 46, 126})"

definition upper_hex :: "nat \<Rightarrow> char" where
  "upper_hex n = chr_of (if n < 10 then 48 + n else 55 + n)"

definition percent :: "char \<Rightarrow> string" where
  "percent c = [CHR ''%'', upper_hex (byte c div 16), upper_hex (byte c mod 16)]"

text \<open>\<open>url.QueryEscape\<close> and \<open>url.PathEscape\<close>: a path segment keeps \<open>$ & + = : @\<close> too.\<close>

definition query_escape :: "string \<Rightarrow> string" where
  "query_escape s = concat (map (\<lambda>c. if url_unreserved c then [c] else if byte c = 32 then ''+'' else percent c) s)"

definition path_escape :: "string \<Rightarrow> string" where
  "path_escape s = concat (map (\<lambda>c. if url_unreserved c \<or> byte c \<in> {36, 38, 43, 61, 58, 64} then [c]
     else percent c) s)"

text \<open>\<open>Values.Encode\<close> of single values, given in the order of their keys.\<close>

definition encode_query :: "(string \<times> string) list \<Rightarrow> string" where
  "encode_query kvs = join_with ''&'' (map (\<lambda>(k, v). query_escape k @ ''='' @ query_escape v) kvs)"

section \<open>Struct fields of answers\<close>

text \<open>\<open>Decoder.Decode\<close>: the first value of the body. \<open>null\<close> leaves a struct as it is.\<close>

definition first_value :: "string \<Rightarrow> json option" where
  "first_value s = map_option fst (scan_value (json_fuel s) 0 s)"

fun members_of :: "json \<Rightarrow> (string \<times> json) list option" where
  "members_of (JObj ms) = Some ms"
| "members_of JNull = Some []"
| "members_of _ = None"

definition bool_field :: "string \<Rightarrow> (string \<times> json) list \<Rightarrow> bool option" where
  "bool_field name ms =
    fold (\<lambda>(k, v) acc. if key_is name k
        then (case (v, acc) of (JBool b, Some _) \<Rightarrow> Some b | (JNull, _) \<Rightarrow> acc | _ \<Rightarrow> None)
        else acc) ms (Some False)"

text \<open>A nested struct takes the members of every occurrence of its key, in order.\<close>

definition struct_field :: "string \<Rightarrow> (string \<times> json) list \<Rightarrow> (string \<times> json) list option" where
  "struct_field name ms =
    fold (\<lambda>(k, v) acc. if key_is name k
        then (case (v, acc) of (JObj m, Some a) \<Rightarrow> Some (a @ m) | (JNull, _) \<Rightarrow> acc | _ \<Rightarrow> None)
        else acc) ms (Some [])"

text \<open>A slice: \<open>null\<close> empties it, the last occurrence of its key wins.\<close>

definition list_field :: "string \<Rightarrow> (string \<times> json) list \<Rightarrow> json list option" where
  "list_field name ms =
    fold (\<lambda>(k, v) acc. if key_is name k
        then (case (v, acc) of (JArr vs, Some _) \<Rightarrow> Some vs | (JNull, Some _) \<Rightarrow> Some [] | _ \<Rightarrow> None)
        else acc) ms (Some [])"

text \<open>A pointer to an integer.\<close>

definition int_ptr_field :: "string \<Rightarrow> (string \<times> json) list \<Rightarrow> int option option" where
  "int_ptr_field name ms =
    fold (\<lambda>(k, v) acc. if key_is name k
        then (case (v, acc) of
            (JNum n, Some _) \<Rightarrow> map_option Some (parse_int64 n)
          | (JNull, Some _) \<Rightarrow> Some None
          | _ \<Rightarrow> None)
        else acc) ms (Some None)"

text \<open>The elements of a slice of structs, each read by \<open>f\<close>.\<close>

definition structs :: "((string \<times> json) list \<Rightarrow> 'a option) \<Rightarrow> json list \<Rightarrow> 'a list option" where
  "structs f vs = those (map (\<lambda>v. Option.bind (members_of v) f) vs)"

text \<open>A slice of strings; a \<open>null\<close> element is the empty text.\<close>

definition strings_of :: "json list \<Rightarrow> string list option" where
  "strings_of vs = those (map (\<lambda>v. case v of JStr s \<Rightarrow> Some s | JNull \<Rightarrow> Some [] | _ \<Rightarrow> None) vs)"

definition strings_field :: "string \<Rightarrow> (string \<times> json) list \<Rightarrow> string list option" where
  "strings_field name ms = Option.bind (list_field name ms) strings_of"

text \<open>A pointer to a string: \<open>null\<close> makes it nil.\<close>

definition string_ptr_field :: "string \<Rightarrow> (string \<times> json) list \<Rightarrow> string option option" where
  "string_ptr_field name ms =
    fold (\<lambda>(k, v) acc. if key_is name k
        then (case (v, acc) of (JStr t, Some _) \<Rightarrow> Some (Some t) | (JNull, Some _) \<Rightarrow> Some None | _ \<Rightarrow> None)
        else acc) ms (Some None)"

section \<open>Rendering of bodies\<close>

definition json_array :: "string list \<Rightarrow> string" where
  "json_array ts = ''['' @ join_with '','' ts @ '']''"

definition json_bool :: "bool \<Rightarrow> string" where
  "json_bool b = (if b then ''true'' else ''false'')"

text \<open>A slice of strings: nil is \<open>null\<close>; the model does not tell nil from empty where the code does not.\<close>

definition json_strings :: "string list \<Rightarrow> string" where
  "json_strings ss = json_array (map json_string ss)"

text \<open>The clients cut long bodies for their messages.\<close>

definition cut_text :: "string \<Rightarrow> nat \<Rightarrow> string" where
  "cut_text s n = (if length s \<le> n then s else take n s @ ''...'')"

end
