(* ===== verification/Dns_Cloudflare.thy ===== *)
theory Dns_Cloudflare
  imports Go_HTTP Http_Domains
begin

text \<open>
  The Cloudflare client of \<open>internal/dns/dns.go\<close> and the resolver of \<open>internal/dns/resolver.go\<close>. An error is its
  message (\<open>Inl\<close>), because the setup wizard shows it; the time-out of a request is an error of the client.
\<close>

record cf_config =
  cf_token :: string
  cf_zone :: string
  cf_base :: string

definition cf_default :: string where
  "cf_default = ''https://api.cloudflare.com/client/v4''"

text \<open>\<open>do\<close> up to the decoding of the answer: the body of an answer below 300.\<close>

definition cf_do :: "'x http_client \<Rightarrow> cf_config \<Rightarrow> string \<Rightarrow> string \<Rightarrow> string option \<Rightarrow> ('x, string + string) prog" where
  "cf_do hc cfg meth path body =
    (let u = cf_base cfg @ path;
         url = (if u = [] \<or> \<not> has_prefix u ''http'' then cf_default @ path else u) in do {
       r \<leftarrow> hc_do hc \<lparr>hr_method = meth, hr_url = url,
         hr_headers = (''Authorization'', ''Bearer '' @ cf_token cfg) # content_type body, hr_body = body\<rparr>;
       ret (case r of
           Inl e \<Rightarrow> Inl e
         | Inr (status, data) \<Rightarrow>
             if 300 \<le> status
             then Inl (''cloudflare '' @ meth @ '' '' @ path @ '': status '' @ show_nat status)
             else Inr data) })"

section \<open>Answers\<close>

text \<open>The part of an answer that every call reads: success and the messages of its errors.\<close>

definition cf_status :: "(string \<times> json) list \<Rightarrow> (bool \<times> string list) option" where
  "cf_status ms =
    (case (bool_field ''success'' ms, Option.bind (list_field ''errors'' ms) (structs (string_field ''Message''))) of
       (Some ok, Some es) \<Rightarrow> Some (ok, es) | _ \<Rightarrow> None)"

definition cf_errors :: "string list \<Rightarrow> string" where
  "cf_errors es = ''['' @ join_with '' '' (map (\<lambda>e. ''{'' @ e @ ''}'') es) @ '']''"

text \<open>A list of results: each with the fields named.\<close>

definition cf_item :: "string \<Rightarrow> (string \<times> json) list \<Rightarrow> (string \<times> string) option" where
  "cf_item name ms =
    (case (string_field ''id'' ms, string_field name ms) of (Some i, Some c) \<Rightarrow> Some (i, c) | _ \<Rightarrow> None)"

definition cf_decode :: "'x http_client \<Rightarrow> string \<Rightarrow> ((string \<times> json) list \<Rightarrow> 'a option)
    \<Rightarrow> string + (bool \<times> string list \<times> 'a)" where
  "cf_decode hc data f =
    (case Option.bind (first_value data) members_of of
       None \<Rightarrow> Inl (hc_decode_error hc data)
     | Some ms \<Rightarrow>
        (case (cf_status ms, f ms) of
           (Some (ok, es), Some x) \<Rightarrow> Inr (ok, es, x)
         | _ \<Rightarrow> Inl (hc_decode_error hc data)))"

definition cf_list :: "((string \<times> json) list \<Rightarrow> 'a option) \<Rightarrow> (string \<times> json) list \<Rightarrow> 'a list option" where
  "cf_list f ms = Option.bind (list_field ''result'' ms) (structs f)"

definition cf_get :: "'x http_client \<Rightarrow> cf_config \<Rightarrow> string \<Rightarrow> ((string \<times> json) list \<Rightarrow> 'a option)
    \<Rightarrow> ('x, string + (bool \<times> string list \<times> 'a)) prog" where
  "cf_get hc cfg path f = do {
     r \<leftarrow> cf_do hc cfg ''GET'' path None;
     ret (case r of Inl e \<Rightarrow> Inl e | Inr data \<Rightarrow> cf_decode hc data f) }"

section \<open>Zones\<close>

text \<open>\<open>ZoneExists\<close>: \<open>None\<close> is success.\<close>

definition ZoneExists :: "'x http_client \<Rightarrow> cf_config \<Rightarrow> ('x, string option) prog" where
  "ZoneExists hc cfg = do {
     r \<leftarrow> cf_get hc cfg (''/zones/'' @ cf_zone cfg)
            (\<lambda>ms. Option.bind (struct_field ''result'' ms) (cf_item ''name''));
     ret (case r of
         Inl e \<Rightarrow> Some e
       | Inr (ok, es, i, n) \<Rightarrow>
           if \<not> ok then Some (''cloudflare zone check: '' @ cf_errors es)
           else if i = [] then Some (''cloudflare zone '' @ cf_zone cfg @ '' not found'')
           else None) }"

text \<open>\<open>strings.EqualFold\<close>, exact when one of the texts is ASCII, as domain names in normal form are.\<close>

definition equal_fold :: "string \<Rightarrow> string \<Rightarrow> bool" where
  "equal_fold s t \<longleftrightarrow> fold_key s = fold_key t"

definition ZoneIDByDomain :: "'x http_client \<Rightarrow> cf_config \<Rightarrow> string \<Rightarrow> ('x, string + string) prog" where
  "ZoneIDByDomain hc cfg name =
    (let want = trim_suffix name ''.'' in do {
       r \<leftarrow> cf_get hc cfg (''/zones?name='' @ query_escape want) (cf_list (cf_item ''name''));
       ret (case r of
           Inl e \<Rightarrow> Inl e
         | Inr (ok, es, zs) \<Rightarrow>
             if \<not> ok then Inl (''cloudflare zone lookup: '' @ cf_errors es)
             else (case find (\<lambda>z. equal_fold (snd z) want) zs of
                 Some z \<Rightarrow> Inr (fst z)
               | None \<Rightarrow> Inl (''no cloudflare zone found for '' @ name
                   @ '' (is the domain on this account?)''))) })"

section \<open>Records\<close>

definition cf_record :: "string \<Rightarrow> string \<Rightarrow> string \<Rightarrow> string" where
  "cf_record ty fqdn value = json_object [(''content'', json_string value), (''name'', json_string fqdn),
     (''ttl'', show_nat 120), (''type'', json_string ty)]"

definition cf_records_path :: "cf_config \<Rightarrow> string" where
  "cf_records_path cfg = ''/zones/'' @ cf_zone cfg @ ''/dns_records''"

text \<open>\<open>ensureRecord\<close> and \<open>SetAddr\<close> are the same code for the types TXT and A.\<close>

definition cf_ensure :: "'x http_client \<Rightarrow> cf_config \<Rightarrow> string \<Rightarrow> string \<Rightarrow> string \<Rightarrow> ('x, string option) prog" where
  "cf_ensure hc cfg ty fqdn value = do {
     r \<leftarrow> cf_get hc cfg (cf_records_path cfg @ ''?type='' @ ty @ ''&name='' @ fqdn) (cf_list (string_field ''content''));
     (case r of
        Inl e \<Rightarrow> ret (Some e)
      | Inr (ok, es, cs) \<Rightarrow>
          if ok \<and> value \<in> set cs then ret None
          else do {
            p \<leftarrow> cf_do hc cfg ''POST'' (cf_records_path cfg) (Some (cf_record ty fqdn value));
            ret (case p of Inl e \<Rightarrow> Some e | Inr d \<Rightarrow> None) }) }"

text \<open>\<open>RemoveTXT\<close> and \<open>RemoveAddr\<close>: the first matching record only.\<close>

definition cf_remove :: "'x http_client \<Rightarrow> cf_config \<Rightarrow> string \<Rightarrow> string \<Rightarrow> string \<Rightarrow> ('x, string option) prog" where
  "cf_remove hc cfg ty fqdn value = do {
     r \<leftarrow> cf_get hc cfg (cf_records_path cfg @ ''?type='' @ ty @ ''&name='' @ fqdn) (cf_list (cf_item ''content''));
     (case r of
        Inl e \<Rightarrow> ret (Some e)
      | Inr (ok, es, items) \<Rightarrow>
          if \<not> ok then ret (Some (''cloudflare list: '' @ cf_errors es))
          else (case find (\<lambda>i. snd i = value) items of
              None \<Rightarrow> ret None
            | Some i \<Rightarrow> do {
                d \<leftarrow> cf_do hc cfg ''DELETE'' (cf_records_path cfg @ ''/'' @ fst i) None;
                ret (case d of Inl e \<Rightarrow> Some e | Inr b \<Rightarrow> None) })) }"

definition succeeds :: "('x, string option) prog \<Rightarrow> ('x, bool) prog" where
  "succeeds m = do { e \<leftarrow> m; ret (e = None) }"

definition CloudflareProvider :: "'x http_client \<Rightarrow> cf_config \<Rightarrow> 'x dns_provider" where
  "CloudflareProvider hc cfg = \<lparr>dns_name = ''cloudflare'',
     dns_set_txt = (\<lambda>n v. succeeds (cf_ensure hc cfg ''TXT'' n v)),
     dns_remove_txt = (\<lambda>n v. succeeds (cf_remove hc cfg ''TXT'' n v)),
     dns_set_addr = (\<lambda>n v. succeeds (cf_ensure hc cfg ''A'' n v)),
     dns_remove_addr = (\<lambda>n v. succeeds (cf_remove hc cfg ''A'' n v))\<rparr>"

section \<open>Resolvers (resolver.go)\<close>

text \<open>\<open>NewTXTLookup\<close>: each server in turn, the error of the last one (\<open>None\<close>: nil, when there is no server).
  A lookup at one server is \<open>look\<close>.\<close>

primrec try_servers :: "(string \<Rightarrow> string \<Rightarrow> ('x, string + string list) prog) \<Rightarrow> string \<Rightarrow> string option
    \<Rightarrow> string list \<Rightarrow> ('x, string list \<times> string option) prog" where
  "try_servers look fqdn lastErr [] = ret ([], lastErr)"
| "try_servers look fqdn lastErr (s # ss) = do {
     r \<leftarrow> look s fqdn;
     (case r of
        Inr txts \<Rightarrow> ret (txts, None)
      | Inl e \<Rightarrow> try_servers look fqdn (Some e) ss) }"

definition NewTXTLookup :: "(string \<Rightarrow> string \<Rightarrow> ('x, string + string list) prog) \<Rightarrow> string list \<Rightarrow> string
    \<Rightarrow> ('x, string + string list) prog" where
  "NewTXTLookup look servers fqdn = do {
     r \<leftarrow> try_servers look fqdn None servers;
     ret (case snd r of None \<Rightarrow> Inr (fst r) | Some e \<Rightarrow> Inl e) }"

end
