(* ===== verification/Access_Providers.thy ===== *)
theory Access_Providers
  imports Dns_Cloudflare Go_Crypto
begin

text \<open>
  Package \<open>internal/access\<close>: the provider of DNS records and of the ACME challenge, by hand, at Cloudflare or at
  AWS Route 53. The Route 53 client builds, signs (Signature Version 4) and sends its requests itself; what
  \<open>encoding/xml\<close> reads from an answer is an argument, the time and the environment come from outside.
\<close>

section \<open>The interface (access.go)\<close>

record 'x access_provider =
  ap_name :: string
  ap_dns :: "'x dns_provider"
  ap_acme :: string
  ap_automated :: bool
  ap_resolve_zone :: "string \<Rightarrow> ('x, string + string) prog"
  ap_validate :: "('x, string option) prog"

record access_config =
  ac_token :: string
  ac_zone :: string
  ac_access_key :: string
  ac_secret_key :: string
  ac_session_token :: string
  ac_region :: string

definition ACMEChallengeFor :: "string \<Rightarrow> access_config \<Rightarrow> string" where
  "ACMEChallengeFor name cfg =
    (if name = ''cloudflare'' then ''dnschallenge.provider=cloudflare''
     else if name = ''route53'' then ''dnschallenge.provider=route53''
     else [])"

section \<open>By hand (access.go, manual.go)\<close>

definition manualDNS :: "'x dns_provider" where
  "manualDNS = \<lparr>dns_name = ''manual'', dns_set_txt = (\<lambda>n v. ret False), dns_remove_txt = (\<lambda>n v. ret False),
     dns_set_addr = (\<lambda>n v. ret False), dns_remove_addr = (\<lambda>n v. ret False)\<rparr>"

definition NewManual :: "'x access_provider" where
  "NewManual = \<lparr>ap_name = ''manual'', ap_dns = manualDNS, ap_acme = [], ap_automated = False,
     ap_resolve_zone = (\<lambda>name. ret (Inr [])), ap_validate = ret None\<rparr>"

section \<open>Cloudflare (cloudflare.go)\<close>

definition NewCloudflare :: "'x http_client \<Rightarrow> access_config \<Rightarrow> 'x access_provider" where
  "NewCloudflare hc cfg =
    (let cf = \<lparr>cf_token = ac_token cfg, cf_zone = ac_zone cfg, cf_base = []\<rparr> in
     \<lparr>ap_name = ''cloudflare'', ap_dns = CloudflareProvider hc cf, ap_acme = ACMEChallengeFor ''cloudflare'' cfg,
      ap_automated = True, ap_resolve_zone = ZoneIDByDomain hc cf, ap_validate = ZoneExists hc cf\<rparr>)"

section \<open>Route 53: change batches (route53.go)\<close>

record rr_change =
  rc_action :: string
  rc_name :: string
  rc_type :: string
  rc_ttl :: nat
  rc_values :: "string list"

record rr_batch =
  rb_comment :: string
  rb_changes :: "rr_change list"

definition ensureTrailingDot :: "string \<Rightarrow> string" where
  "ensureTrailingDot name = trim_suffix name ''.'' @ ''.''"

definition newRoute53Change :: "string \<Rightarrow> string \<Rightarrow> string \<Rightarrow> string \<Rightarrow> rr_change" where
  "newRoute53Change action name rrtype value =
    \<lparr>rc_action = action, rc_name = ensureTrailingDot name, rc_type = rrtype, rc_ttl = 300,
     rc_values = [if rrtype = ''TXT'' then [dquote] @ value @ [dquote] else value]\<rparr>"

text \<open>\<open>route53API\<close>: the text of an error, or the result.\<close>

record 'x route53API =
  r53_change :: "string \<Rightarrow> rr_batch \<Rightarrow> ('x, string option) prog"
  r53_zone :: "string \<Rightarrow> ('x, string + string) prog"
  r53_find :: "string \<Rightarrow> ('x, string + string) prog"

definition rr_submit :: "'x route53API \<Rightarrow> string \<Rightarrow> string \<Rightarrow> string \<Rightarrow> string \<Rightarrow> string
    \<Rightarrow> ('x, string option) prog" where
  "rr_submit api zone action fqdn rrtype value =
    r53_change api zone \<lparr>rb_comment = ''managed by selfu'',
      rb_changes = [newRoute53Change action fqdn rrtype value]\<rparr>"

definition Route53DNS :: "'x route53API \<Rightarrow> string \<Rightarrow> 'x dns_provider" where
  "Route53DNS api zone = \<lparr>dns_name = ''route53'',
     dns_set_txt = (\<lambda>n v. succeeds (rr_submit api zone ''UPSERT'' n ''TXT'' v)),
     dns_remove_txt = (\<lambda>n v. succeeds (rr_submit api zone ''DELETE'' n ''TXT'' v)),
     dns_set_addr = (\<lambda>n v. succeeds (rr_submit api zone ''UPSERT'' n ''A'' v)),
     dns_remove_addr = (\<lambda>n v. succeeds (rr_submit api zone ''DELETE'' n ''A'' v))\<rparr>"

section \<open>Route 53: the XML of a batch\<close>

definition xml_rune :: "nat \<Rightarrow> string" where
  "xml_rune r =
    (if r = 34 then ''&#34;'' else if r = 39 then ''&#39;'' else if r = 38 then ''&amp;''
     else if r = 60 then ''&lt;'' else if r = 62 then ''&gt;'' else if r = 9 then ''&#x9;''
     else if r = 10 then ''&#xA;'' else if r = 13 then ''&#xD;''
     else if (32 \<le> r \<and> r \<le> 55295) \<or> (57344 \<le> r \<and> r \<le> 65533) \<or> (65536 \<le> r \<and> r \<le> 1114111)
     then encode_rune r else encode_rune rune_error)"

definition xml_text :: "string \<Rightarrow> string" where
  "xml_text s = concat (map xml_rune (runes s))"

definition xml_tag :: "string \<Rightarrow> string \<Rightarrow> string" where
  "xml_tag name body = ''<'' @ name @ ''>'' @ body @ ''</'' @ name @ ''>''"

definition xml_parent :: "string \<Rightarrow> string list \<Rightarrow> string" where
  "xml_parent name items = (if items = [] then [] else xml_tag name (concat items))"

definition xml_change :: "rr_change \<Rightarrow> string" where
  "xml_change c = xml_tag ''Change'' (xml_tag ''Action'' (xml_text (rc_action c))
     @ xml_tag ''ResourceRecordSet'' (xml_tag ''Name'' (xml_text (rc_name c))
       @ xml_tag ''Type'' (xml_text (rc_type c)) @ xml_tag ''TTL'' (show_nat (rc_ttl c))
       @ xml_parent ''ResourceRecords'' (map (\<lambda>v. xml_tag ''ResourceRecord'' (xml_tag ''Value'' (xml_text v)))
           (rc_values c))))"

definition route53XMLChangeBatch :: "rr_batch \<Rightarrow> string" where
  "route53XMLChangeBatch b =
    ''<ChangeResourceRecordSetsRequest xmlns='' @ [dquote]
    @ ''https://route53.amazonaws.com/doc/2013-04-01/'' @ [dquote] @ ''>''
    @ xml_tag ''ChangeBatch'' (xml_tag ''Comment'' (xml_text (rb_comment b))
        @ xml_parent ''Changes'' (map xml_change (rb_changes b)))
    @ ''</ChangeResourceRecordSetsRequest>''"

section \<open>Route 53: signed requests\<close>

record aws_keys =
  aw_access :: string
  aw_secret :: string
  aw_session :: string
  aw_region :: string

definition or_else :: "string \<Rightarrow> string \<Rightarrow> string" where
  "or_else a b = (if a = [] then b else a)"

definition newAWSRoute53Client :: "(string \<Rightarrow> string) \<Rightarrow> access_config \<Rightarrow> aws_keys" where
  "newAWSRoute53Client env cfg =
    \<lparr>aw_access = or_else (ac_access_key cfg) (env ''AWS_ACCESS_KEY_ID''),
     aw_secret = or_else (ac_secret_key cfg) (env ''AWS_SECRET_ACCESS_KEY''),
     aw_session = or_else (ac_session_token cfg) (env ''AWS_SESSION_TOKEN''),
     aw_region = or_else (ac_region cfg) (or_else (env ''AWS_REGION'') ''us-east-1'')\<rparr>"

definition bareZoneID :: "string \<Rightarrow> string" where
  "bareZoneID i = trim_prefix (trim_prefix i ''/hostedzone/'') ''/''"

text \<open>The Gregorian date of a number of days since the epoch, and the digits of a time in seconds.\<close>

definition civil_date :: "int \<Rightarrow> int \<times> int \<times> int" where
  "civil_date days =
    (let z = days + 719468; era = z div 146097; doe = z mod 146097;
         yoe = (doe - doe div 1460 + doe div 36524 - doe div 146096) div 365;
         doy = doe - (365 * yoe + yoe div 4 - yoe div 100);
         mp = (5 * doy + 2) div 153; d = doy - (153 * mp + 2) div 5 + 1;
         m = (if mp < 10 then mp + 3 else mp - 9);
         y = yoe + era * 400 + (if m \<le> 2 then 1 else 0)
     in (y, m, d))"

definition pad_digits :: "nat \<Rightarrow> int \<Rightarrow> string" where
  "pad_digits k n = (let s = show_int n in replicate (k - length s) CHR ''0'' @ s)"

definition date_stamp :: "int \<Rightarrow> string" where
  "date_stamp now = (case civil_date (now div 86400) of (y, m, d) \<Rightarrow>
     pad_digits 4 y @ pad_digits 2 m @ pad_digits 2 d)"

definition amz_date :: "int \<Rightarrow> string" where
  "amz_date now = (let s = now mod 86400 in date_stamp now @ ''T'' @ pad_digits 2 (s div 3600)
     @ pad_digits 2 ((s div 60) mod 60) @ pad_digits 2 (s mod 60) @ ''Z'')"

definition sha256Hex :: "string \<Rightarrow> string" where
  "sha256Hex b = hex_encode (sha256 b)"

definition newline :: string where "newline = [chr_of 10]"

definition canonical_request :: "aws_keys \<Rightarrow> int \<Rightarrow> string \<Rightarrow> string \<Rightarrow> string \<Rightarrow> string \<Rightarrow> string \<Rightarrow> string" where
  "canonical_request k now meth path rawq ctype payload =
    join_with newline [meth, path, rawq,
      ''content-type:'' @ ctype @ newline @ ''host:route53.amazonaws.com'' @ newline @ ''x-amz-date:''
        @ amz_date now @ newline
        @ (if aw_session k \<noteq> [] then ''x-amz-security-token:'' @ aw_session k @ newline else []),
      ''content-type;host;x-amz-date'' @ (if aw_session k \<noteq> [] then '';x-amz-security-token'' else []),
      sha256Hex payload]"

text \<open>\<open>sign\<close>: the headers it sets. The content type signed is that of the request, or text/xml.\<close>

definition aws_sign :: "aws_keys \<Rightarrow> int \<Rightarrow> string \<Rightarrow> string \<Rightarrow> string \<Rightarrow> (string \<times> string) list \<Rightarrow> string
    \<Rightarrow> (string \<times> string) list" where
  "aws_sign k now meth path rawq headers payload =
    (let ctype = (case map_of headers ''Content-Type'' of None \<Rightarrow> ''text/xml'' | Some t \<Rightarrow> or_else t ''text/xml'');
         signed = ''content-type;host;x-amz-date'' @ (if aw_session k \<noteq> [] then '';x-amz-security-token'' else []);
         scope = date_stamp now @ ''/'' @ aw_region k @ ''/route53/aws4_request'';
         toSign = join_with newline [''AWS4-HMAC-SHA256'', amz_date now, scope,
           sha256Hex (canonical_request k now meth path rawq ctype payload)];
         kDate = hmac_sha256 (''AWS4'' @ aw_secret k) (date_stamp now);
         kRegion = hmac_sha256 kDate (aw_region k);
         kService = hmac_sha256 kRegion ''route53'';
         kSigning = hmac_sha256 kService ''aws4_request'';
         signature = hex_encode (hmac_sha256 kSigning toSign)
     in (''X-Amz-Date'', amz_date now)
        # (if aw_session k \<noteq> [] then [(''X-Amz-Security-Token'', aw_session k)] else [])
        @ [(''Authorization'', ''AWS4-HMAC-SHA256 Credential='' @ aw_access k @ ''/'' @ scope
             @ '', SignedHeaders='' @ signed @ '', Signature='' @ signature)])"

text \<open>The world of the client: HTTP, the time in seconds, and what \<open>encoding/xml\<close> finds in a body: the message of
  an error answer, the name of a zone, the ids and names of a list of zones.\<close>

record 'x aws_world =
  az_http :: "'x http_client"
  az_now :: "('x, int) prog"
  az_error :: "string \<Rightarrow> string option"
  az_zone :: "string \<Rightarrow> string option"
  az_zones :: "string \<Rightarrow> (string \<times> string) list option"

definition aws_send :: "'x aws_world \<Rightarrow> aws_keys \<Rightarrow> string \<Rightarrow> string \<Rightarrow> string \<Rightarrow> string option
    \<Rightarrow> ('x, string + (nat \<times> string)) prog" where
  "aws_send az k meth path rawq body = do {
     now \<leftarrow> az_now az;
     (let headers = (case body of None \<Rightarrow> [] | Some b \<Rightarrow> [(''Content-Type'', ''text/xml'')]);
          payload = (case body of None \<Rightarrow> [] | Some b \<Rightarrow> b) in
      hc_do (az_http az) \<lparr>hr_method = meth,
        hr_url = ''https://route53.amazonaws.com'' @ path @ (if rawq = [] then [] else ''?'' @ rawq),
        hr_headers = headers @ aws_sign k now meth path rawq headers payload, hr_body = body\<rparr>) }"

definition decodeXMLError :: "'x aws_world \<Rightarrow> string \<Rightarrow> nat \<Rightarrow> string" where
  "decodeXMLError az body status =
    (case az_error az body of
       Some msg \<Rightarrow> if msg \<noteq> [] then msg else ''status '' @ show_nat status
     | None \<Rightarrow> ''status '' @ show_nat status)"

definition zone_path :: "string \<Rightarrow> string" where
  "zone_path i = ''/2013-04-01/hostedzone/'' @ path_escape (bareZoneID i)"

definition ChangeRRSet :: "'x aws_world \<Rightarrow> aws_keys \<Rightarrow> string \<Rightarrow> rr_batch \<Rightarrow> ('x, string option) prog" where
  "ChangeRRSet az k zone batch = do {
     r \<leftarrow> aws_send az k ''POST'' (zone_path zone @ ''/rrset'') [] (Some (route53XMLChangeBatch batch));
     ret (case r of
         Inl e \<Rightarrow> Some e
       | Inr (status, body) \<Rightarrow>
           if 300 \<le> status then Some (''route53 change-batch: '' @ decodeXMLError az body status) else None) }"

definition GetHostedZone :: "'x aws_world \<Rightarrow> aws_keys \<Rightarrow> string \<Rightarrow> ('x, string + string) prog" where
  "GetHostedZone az k zone = do {
     r \<leftarrow> aws_send az k ''GET'' (zone_path zone) [] None;
     ret (case r of
         Inl e \<Rightarrow> Inl e
       | Inr (status, body) \<Rightarrow>
           if 300 \<le> status
           then Inl (''route53 get-hosted-zone '' @ zone @ '': '' @ decodeXMLError az body status)
           else (case az_zone az body of None \<Rightarrow> Inl (hc_decode_error (az_http az) body) | Some n \<Rightarrow> Inr n)) }"

definition FindHostedZoneID :: "'x aws_world \<Rightarrow> aws_keys \<Rightarrow> string \<Rightarrow> ('x, string + string) prog" where
  "FindHostedZoneID az k name = do {
     r \<leftarrow> aws_send az k ''GET'' ''/2013-04-01/hostedzonesbyname''
       (encode_query [(''dnsname'', trim_suffix name ''.''), (''maxitems'', ''100'')]) None;
     ret (case r of
         Inl e \<Rightarrow> Inl e
       | Inr (status, body) \<Rightarrow>
           if 300 \<le> status
           then Inl (''route53 list-hosted-zones-by-name: '' @ decodeXMLError az body status)
           else (case az_zones az body of
               None \<Rightarrow> Inl (hc_decode_error (az_http az) body)
             | Some zs \<Rightarrow>
                 let want = to_lower (trim_suffix name ''.'') in
                 (case find (\<lambda>z. to_lower (trim_suffix (snd z) ''.'') = want) zs of
                    Some z \<Rightarrow> Inr (bareZoneID (fst z))
                  | None \<Rightarrow> Inl (''no route53 hosted zone found for '' @ name)))) }"

definition aws_api :: "'x aws_world \<Rightarrow> aws_keys \<Rightarrow> 'x route53API" where
  "aws_api az k = \<lparr>r53_change = ChangeRRSet az k, r53_zone = GetHostedZone az k, r53_find = FindHostedZoneID az k\<rparr>"

definition NewRoute53 :: "'x route53API \<Rightarrow> access_config \<Rightarrow> 'x access_provider" where
  "NewRoute53 api cfg =
    \<lparr>ap_name = ''route53'', ap_dns = Route53DNS api (ac_zone cfg), ap_acme = ACMEChallengeFor ''route53'' cfg,
     ap_automated = True, ap_resolve_zone = r53_find api,
     ap_validate = do {
       r \<leftarrow> r53_zone api (ac_zone cfg);
       ret (case r of Inl e \<Rightarrow> Some e | Inr n \<Rightarrow> None) }\<rparr>"

section \<open>Selection (access.go)\<close>

definition New :: "'x aws_world \<Rightarrow> (string \<Rightarrow> string) \<Rightarrow> string \<Rightarrow> access_config \<Rightarrow> string + 'x access_provider" where
  "New az env name cfg =
    (if name = ''manual'' then Inr NewManual
     else if name = ''cloudflare'' then Inr (NewCloudflare (az_http az) cfg)
     else if name = ''route53'' then Inr (NewRoute53 (aws_api az (newAWSRoute53Client env cfg)) cfg)
     else Inl (''access: unknown provider: '' @ Quote name))"

end
