(* ===== verification/Go_AES.thy ===== *)
theory Go_AES
  imports Go_Crypto
begin

text \<open>
  Go's \<open>crypto/aes\<close> with a key of 256 bits and \<open>cipher.NewGCM\<close> with its nonce of 12 bytes, its tag of 16 bytes
  and no additional data: \<open>Seal\<close> and \<open>Open\<close>. Bytes are 8-bit words; the field of GHASH is 128-bit words.
\<close>

unbundle bit_operations_syntax

type_synonym octet = "8 word"

section \<open>The block cipher\<close>

definition xtime :: "octet \<Rightarrow> octet" where
  "xtime b = push_bit 1 b XOR (if bit b 7 then 0x1B else 0)"

text \<open>The product in the field of AES, by the bits of the first factor.\<close>

primrec gf_mult :: "nat \<Rightarrow> octet \<Rightarrow> octet \<Rightarrow> octet" where
  "gf_mult 0 a b = 0"
| "gf_mult (Suc n) a b = (if bit a 0 then b else 0) XOR gf_mult n (drop_bit 1 a) (xtime b)"

definition gf_square :: "octet \<Rightarrow> octet" where
  "gf_square a = gf_mult 8 a a"

text \<open>The inverse is the power 254.\<close>

definition gf_inverse :: "octet \<Rightarrow> octet" where
  "gf_inverse a =
    (let a2 = gf_square a; a3 = gf_mult 8 a2 a; a12 = gf_square (gf_square a3); a15 = gf_mult 8 a12 a3;
         a240 = (gf_square ^^ 4) a15; a252 = gf_mult 8 a240 a12 in gf_mult 8 a252 a2)"

definition rot8 :: "nat \<Rightarrow> octet \<Rightarrow> octet" where
  "rot8 n b = push_bit n b OR drop_bit (8 - n) b"

definition sub_byte :: "octet \<Rightarrow> octet" where
  "sub_byte a = (let b = gf_inverse a in b XOR rot8 1 b XOR rot8 2 b XOR rot8 3 b XOR rot8 4 b XOR 0x63)"

definition xors :: "octet list \<Rightarrow> octet list \<Rightarrow> octet list" where
  "xors xs ys = map2 (XOR) xs ys"

text \<open>The key schedule: 60 words of 4 bytes, the last one first.\<close>

fun key_words :: "nat \<Rightarrow> octet \<Rightarrow> nat \<Rightarrow> octet list list \<Rightarrow> octet list list" where
  "key_words 0 rc i ws = ws"
| "key_words (Suc n) rc i ws =
    (let prev = ws ! 0;
         t = (if i mod 8 = 0 then xors (map sub_byte (rotate1 prev)) [rc, 0, 0, 0]
              else if i mod 8 = 4 then map sub_byte prev else prev)
     in key_words n (if i mod 8 = 0 then xtime rc else rc) (Suc i) (xors (ws ! 7) t # ws))"

fun groups_of :: "nat \<Rightarrow> 'a list \<Rightarrow> 'a list list" where
  "groups_of n xs = (if n = 0 \<or> xs = [] then [] else take n xs # groups_of n (drop n xs))"

declare groups_of.simps [simp del]

definition round_keys :: "octet list \<Rightarrow> octet list list" where
  "round_keys key = groups_of 16 (concat (rev (key_words 52 1 8 (rev (groups_of 4 key)))))"

text \<open>A block in the order of its bytes: byte \<open>i\<close> is in row \<open>i mod 4\<close>.\<close>

definition shift_rows :: "octet list \<Rightarrow> octet list" where
  "shift_rows s = map (\<lambda>i. s ! ((i + 4 * (i mod 4)) mod 16)) [0..<16]"

definition mix_column :: "octet list \<Rightarrow> octet list" where
  "mix_column c = map (\<lambda>i. xtime (c ! i) XOR (xtime (c ! ((i + 1) mod 4)) XOR c ! ((i + 1) mod 4))
     XOR c ! ((i + 2) mod 4) XOR c ! ((i + 3) mod 4)) [0..<4]"

definition mix_columns :: "octet list \<Rightarrow> octet list" where
  "mix_columns s = concat (map mix_column (groups_of 4 s))"

definition aes_round :: "octet list \<Rightarrow> octet list \<Rightarrow> octet list" where
  "aes_round k s = xors (mix_columns (shift_rows (map sub_byte s))) k"

definition aes_block :: "octet list list \<Rightarrow> octet list \<Rightarrow> octet list" where
  "aes_block ks b = (let s = fold aes_round (butlast (tl ks)) (xors b (hd ks))
     in xors (shift_rows (map sub_byte s)) (last ks))"

section \<open>Galois counter mode\<close>

definition be_block :: "octet list \<Rightarrow> 128 word" where
  "be_block bs = fold (\<lambda>b acc. push_bit 8 acc OR ucast b) (take 16 (bs @ replicate 16 0)) 0"

definition block_bytes :: "128 word \<Rightarrow> octet list" where
  "block_bytes w = map (\<lambda>i. ucast (drop_bit (120 - 8 * i) w)) [0..<16]"

text \<open>The product in the field of GHASH: the leftmost bit has the lowest power.\<close>

primrec ghash_mult :: "nat \<Rightarrow> 128 word \<Rightarrow> 128 word \<Rightarrow> 128 word \<Rightarrow> 128 word" where
  "ghash_mult 0 x v z = z"
| "ghash_mult (Suc n) x v z = ghash_mult n (push_bit 1 x)
    (drop_bit 1 v XOR (if bit v 0 then push_bit 120 0xE1 else 0))
    (if bit x 127 then z XOR v else z)"

definition ghash :: "128 word \<Rightarrow> octet list \<Rightarrow> 128 word" where
  "ghash h data =
    (let blocks = map be_block (groups_of 16 data) @ [of_nat (8 * length data)] in
     fold (\<lambda>b y. ghash_mult 128 (y XOR b) h 0) blocks 0)"

definition gcm_counter :: "octet list \<Rightarrow> nat \<Rightarrow> octet list" where
  "gcm_counter nonce i = nonce @ drop 12 (block_bytes (ucast (of_nat i :: 32 word)))"

text \<open>The key stream of the blocks from counter 2 on.\<close>

definition gcm_stream :: "octet list list \<Rightarrow> octet list \<Rightarrow> nat \<Rightarrow> octet list" where
  "gcm_stream ks nonce n = take n (concat (map (\<lambda>i. aes_block ks (gcm_counter nonce (i + 2))) [0..<(n + 15) div 16]))"

definition gcm_tag :: "octet list list \<Rightarrow> octet list \<Rightarrow> octet list \<Rightarrow> octet list" where
  "gcm_tag ks nonce c = xors (block_bytes (ghash (be_block (aes_block ks (replicate 16 0))) c))
     (aes_block ks (gcm_counter nonce 1))"

definition gcm_seal :: "octet list \<Rightarrow> octet list \<Rightarrow> octet list \<Rightarrow> octet list" where
  "gcm_seal key nonce plain =
    (let ks = round_keys key; c = xors plain (gcm_stream ks nonce (length plain)) in c @ gcm_tag ks nonce c)"

definition gcm_open :: "octet list \<Rightarrow> octet list \<Rightarrow> octet list \<Rightarrow> octet list option" where
  "gcm_open key nonce sealed =
    (if length sealed < 16 then None
     else let ks = round_keys key; n = length sealed - 16; c = take n sealed in
       if gcm_tag ks nonce c \<noteq> drop n sealed then None
       else Some (xors c (gcm_stream ks nonce n)))"

end
