(* ===== verification/Http_Crypto.thy ===== *)
theory Http_Crypto
  imports Go_AES Http_Frames
begin

text \<open>
  Secrets at rest: \<open>internal/httpapi/crypto.go\<close> seals the provider credentials with AES-256-GCM under the
  SHA-256 of the session secret. What is proved is that opening gives back what was sealed; that nothing else
  opens is an assumption of cryptography.
\<close>

definition octets_of :: "string \<Rightarrow> octet list" where
  "octets_of s = map (\<lambda>c. of_nat (byte c)) s"

definition text_of :: "octet list \<Rightarrow> string" where
  "text_of bs = map (\<lambda>b. chr_of (unat b)) bs"

definition secretKey :: "string \<Rightarrow> octet list" where
  "secretKey key = octets_of (sha256 key)"

definition encryptSecret :: "string \<Rightarrow> string \<Rightarrow> ('x world, string option) prog" where
  "encryptSecret key plaintext = do {
     r \<leftarrow> rand_bytes 12;
     ret (case r of
         None \<Rightarrow> None
       | Some nonce \<Rightarrow> Some (nonce @ text_of (gcm_seal (secretKey key) (octets_of nonce) (octets_of plaintext)))) }"

definition decryptSecret :: "string \<Rightarrow> string \<Rightarrow> string option" where
  "decryptSecret key sealed =
    (if length sealed < 12 then None
     else map_option text_of (gcm_open (secretKey key) (octets_of (take 12 sealed)) (octets_of (drop 12 sealed))))"

definition EncryptSecret :: "string \<Rightarrow> string \<Rightarrow> ('x world, string option) prog" where
  "EncryptSecret key plaintext = encryptSecret key plaintext"

definition DecryptSecret :: "string \<Rightarrow> string \<Rightarrow> string option" where
  "DecryptSecret key sealed = decryptSecret key sealed"

section \<open>Lengths\<close>

lemma length_xors [simp]: "length (xors xs ys) = min (length xs) (length ys)"
  by (simp add: xors_def)

lemma groups_of_step: "0 < n \<Longrightarrow> xs \<noteq> [] \<Longrightarrow> groups_of n xs = take n xs # groups_of n (drop n xs)"
  by (simp add: groups_of.simps [of n xs])

lemma groups_of_uniform:
  assumes "0 < n" and "length xs = n * k"
  shows "length (groups_of n xs) = k \<and> (\<forall>g \<in> set (groups_of n xs). length g = n)"
  using assms(2)
proof (induction k arbitrary: xs)
  case 0
  then show ?case by (simp add: groups_of.simps)
next
  case (Suc k)
  then have "xs \<noteq> []" "length (drop n xs) = n * k" "length (take n xs) = n" using assms(1) by auto
  with Suc.IH [OF this(2)] show ?case
    unfolding groups_of_step [OF assms(1) \<open>xs \<noteq> []\<close>] by (simp only: list.size list.set) auto
qed

lemma key_words_uniform:
  "8 \<le> length ws \<Longrightarrow> \<forall>w \<in> set ws. length w = 4 \<Longrightarrow>
   length (key_words n rc i ws) = n + length ws \<and> (\<forall>w \<in> set (key_words n rc i ws). length w = 4)"
proof (induction n arbitrary: rc i ws)
  case (Suc n)
  have "ws ! 0 \<in> set ws" "ws ! 7 \<in> set ws" using Suc.prems(1) by (auto intro!: nth_mem)
  then have "length (ws ! 0) = 4" "length (ws ! 7) = 4" using Suc.prems(2) by blast+
  moreover define t where "t = (if i mod 8 = 0 then xors (map sub_byte (rotate1 (ws ! 0))) [rc, 0, 0, 0]
    else if i mod 8 = 4 then map sub_byte (ws ! 0) else ws ! 0)"
  ultimately have "length (xors (ws ! 7) t) = 4" by simp
  with Suc.prems have "8 \<le> length (xors (ws ! 7) t # ws)" "\<forall>w \<in> set (xors (ws ! 7) t # ws). length w = 4"
    by simp_all
  from Suc.IH [OF this] show ?case by (simp only: key_words.simps Let_def t_def list.size) simp
qed simp

lemma round_keys_uniform:
  assumes "length key = 32"
  shows "length (round_keys key) = 15 \<and> (\<forall>k \<in> set (round_keys key). length k = 16)"
proof -
  let ?ws = "key_words 52 1 8 (rev (groups_of 4 key))"
  have g: "length (groups_of 4 key) = 8" "\<forall>g \<in> set (groups_of 4 key). length g = 4"
    using groups_of_uniform [of 4 key 8] assms by auto
  have w: "length ?ws = 60 \<and> (\<forall>w \<in> set ?ws. length w = 4)"
    using key_words_uniform [of "rev (groups_of 4 key)" 52 1 8] g by simp
  have "length (concat vs) = 4 * length vs" if "\<forall>v \<in> set vs. length v = 4" for vs :: "octet list list"
    using that by (induction vs) auto
  with w have "length (concat (rev ?ws)) = 16 * 15" by simp
  from groups_of_uniform [OF _ this] show ?thesis by (simp add: round_keys_def)
qed

lemma length_aes_block:
  assumes "length key = 32"
  shows "length (aes_block (round_keys key) b) = 16"
proof -
  have "round_keys key \<noteq> []" using round_keys_uniform [OF assms] by auto
  with round_keys_uniform [OF assms] show ?thesis
    by (simp add: aes_block_def Let_def shift_rows_def)
qed

lemma length_gcm_stream: "length key = 32 \<Longrightarrow> length (gcm_stream (round_keys key) nonce n) = n"
proof -
  assume k: "length key = 32"
  have "length (concat (map (\<lambda>i. aes_block (round_keys key) (gcm_counter nonce (i + 2))) is)) = 16 * length is" for "is"
    by (induction "is") (simp_all add: length_aes_block [OF k])
  then show ?thesis by (simp add: gcm_stream_def)
qed

lemma length_gcm_tag: "length key = 32 \<Longrightarrow> length (gcm_tag (round_keys key) nonce c) = 16"
  by (simp add: gcm_tag_def length_aes_block block_bytes_def)

lemma xors_twice: "length xs \<le> length ks \<Longrightarrow> xors (xors xs ks) ks = xs"
  by (induction xs ks rule: list_induct2') (auto simp: xors_def xor.assoc)

lemma gcm_open_seal: "length key = 32 \<Longrightarrow> gcm_open key nonce (gcm_seal key nonce plain) = Some plain"
  by (simp add: gcm_open_def gcm_seal_def Let_def length_gcm_stream length_gcm_tag xors_twice)

lemma octets_text [simp]: "octets_of (text_of bs) = bs"
proof (induction bs)
  case (Cons b bs)
  have "unat b < 256" using unsigned_less [of b] by simp
  with Cons show ?case by (simp add: octets_of_def text_of_def byte_chr_of)
qed (simp_all add: octets_of_def text_of_def)

lemma text_octets [simp]: "text_of (octets_of s) = s"
proof (induction s)
  case (Cons c s)
  have "byte c < 256" by (rule byte_less)
  with Cons show ?case by (simp add: octets_of_def text_of_def unat_of_nat)
qed (simp_all add: octets_of_def text_of_def)

section \<open>Round trip\<close>

text \<open>C26: what \<open>EncryptSecret\<close> has sealed under a key, \<open>DecryptSecret\<close> opens under the same key to the same
  text, for every key, every text and every nonce that the random source delivers in full.\<close>

theorem secret_roundtrip:
  assumes run: "run_state (EncryptSecret key plaintext) w = (Some sealed, w')"
    and full: "\<And>s. rand_src w (rand_ix w) 12 = Some s \<Longrightarrow> length s = 12"
  shows "DecryptSecret key sealed = Some plaintext"
proof -
  from run obtain nonce where n: "rand_src w (rand_ix w) 12 = Some nonce"
    and s: "sealed = nonce @ text_of (gcm_seal (secretKey key) (octets_of nonce) (octets_of plaintext))"
    by (auto simp: EncryptSecret_def encryptSecret_def rand_bytes_def split: option.splits)
  have "length (secretKey key) = 32" by (simp add: secretKey_def octets_of_def)
  with full [OF n] s show ?thesis
    by (simp add: DecryptSecret_def decryptSecret_def gcm_open_seal)
qed

theorem secret_roundtrip_witness:
  "\<exists>sealed w'. run_state (EncryptSecret ''k'' ''token'') (sample_world sample_db ()) = (Some sealed, w')
    \<and> DecryptSecret ''k'' sealed = Some ''token''"
proof -
  let ?w = "sample_world sample_db ()"
  obtain sealed w' where run: "run_state (EncryptSecret ''k'' ''token'') ?w = (Some sealed, w')"
    by (simp add: EncryptSecret_def encryptSecret_def rand_bytes_def)
  have "length s = 12" if "rand_src ?w (rand_ix ?w) 12 = Some s" for s using that by auto
  from secret_roundtrip [OF run this] run show ?thesis by blast
qed

end
