(* ===== verification/Http_Setup.thy ===== *)
theory Http_Setup
  imports Access_Providers Http_Crypto Http_Auth
begin

text \<open>
  Onboarding: \<open>internal/httpapi/setup_handlers.go\<close> and \<open>verify_poll.go\<close>. A fresh installation is entered with the
  bootstrap password, gets its primary domain and access provider from the wizard, and is onboarded when the
  domain is verified, by the wizard or by the poller in the background. The memory of the process (the
  limiter of logins, the last result of the poller) is passed explicitly.
\<close>

section \<open>The limiter of bootstrap logins\<close>

text \<open>Failed attempts of one client and the start of its window, in microseconds.\<close>

record login_fails =
  lf_count :: nat
  lf_start :: int

type_synonym limiter = "string \<Rightarrow> login_fails option"

definition loginMaxFails :: nat where "loginMaxFails = 10"

definition minute :: int where "minute = 60000000"

text \<open>\<open>stale\<close>: no window is open for the client.\<close>

definition stale :: "limiter \<Rightarrow> string \<Rightarrow> int \<Rightarrow> bool" where
  "stale l key now = (case l key of None \<Rightarrow> True | Some f \<Rightarrow> minute < now - lf_start f)"

definition allow :: "limiter \<Rightarrow> string \<Rightarrow> int \<Rightarrow> bool" where
  "allow l key now =
    (if stale l key now then True
     else (case l key of None \<Rightarrow> True | Some f \<Rightarrow> lf_count f < loginMaxFails))"

definition recordFail :: "limiter \<Rightarrow> string \<Rightarrow> int \<Rightarrow> limiter" where
  "recordFail l key now =
    (if stale l key now then l(key := Some \<lparr>lf_count = 1, lf_start = now\<rparr>)
     else l(key := map_option (\<lambda>f. f\<lparr>lf_count := lf_count f + 1\<rparr>) (l key)))"

definition reset :: "limiter \<Rightarrow> string \<Rightarrow> limiter" where
  "reset l key = l(key := None)"

text \<open>A login request: the forwarding header, the remote address, the correlation id and the body.\<close>

record login_request =
  lr_forwarded :: string
  lr_remote :: string
  lr_id :: string
  lr_body :: "string + string"

definition clientKey :: "login_request \<Rightarrow> string" where
  "clientKey r =
    (if lr_forwarded r \<noteq> [] then
       (case index_byte (lr_forwarded r) CHR '','' of
          Some i \<Rightarrow> trim_space (take i (lr_forwarded r))
        | None \<Rightarrow> trim_space (lr_forwarded r))
     else (case SplitHostPort (lr_remote r) of Some (host, port) \<Rightarrow> host | None \<Rightarrow> lr_remote r))"

section \<open>Dependencies\<close>

record 'x setup_deps =
  sd_auth :: "'x auth_deps"
  sd_aws :: "'x aws_world"
  sd_env :: "string \<Rightarrow> string"
  sd_access :: "'x access_provider"
  sd_zone_resolver :: "(string \<Rightarrow> string \<Rightarrow> ('x, string + string) prog) option"
  sd_probe :: "('x access_provider \<Rightarrow> ('x, string option) prog) option"
  sd_txt_lookup :: "(string \<Rightarrow> ('x, string + string list) prog) option"
  sd_email :: string
  sd_password :: string
  sd_key :: string
  sd_to_ascii :: "string \<Rightarrow> string + string"

definition em_dash :: string where "em_dash = [chr_of 0xE2, chr_of 0x80, chr_of 0x94]"

definition humanizeCloudflareErr :: "string \<Rightarrow> string" where
  "humanizeCloudflareErr msg =
    (if contains msg ''status 401'' \<or> contains msg ''status 403''
     then ''Cloudflare rejected the API token '' @ em_dash @ '' check the token and its Zone.Read/Zone.DNS permissions.''
     else if contains msg ''no cloudflare zone found'' then msg
     else ''Cloudflare API error: '' @ msg)"

section \<open>The bootstrap login\<close>

text \<open>The steps after the password has been accepted. The payload: the address and whether the login granted
  administrator rights.\<close>

definition bootstrap_session :: "'x setup_deps \<Rightarrow> login_request \<Rightarrow> installation
    \<Rightarrow> ('x world, (string \<times> bool) answer) prog" where
  "bootstrap_session sd rq inst =
    (let email = (if sd_email sd = [] then ''admin@'' @ ValidateLocalDomain (in_local_domain inst) else sd_email sd);
         st = ad_sessions (sd_auth sd) in do {
       r \<leftarrow> UpsertFromOIDC ''local-bootstrap'' ''bootstrap'' email ''Bootstrap Administrator'';
       (case r of
          Inl e \<Rightarrow> ret (Reply [] internalError)
        | Inr (u, created, adminGranted) \<Rightarrow> do {
            now \<leftarrow> time_now;
            audit (lr_id rq) (event (Some (u_id u)) ''auth.login.succeeded'' ''user'' (u_id u)
              [(''provider'', DStr ''local-bootstrap''), (''admin_granted'', DBool adminGranted)]);
            ret (Reply [SetCookie st (Issue st (u_id u) (now * 1000))] (Done 200 (u_email u, adminGranted))) }) })"

definition setupLogin :: "'x setup_deps \<Rightarrow> login_request \<Rightarrow> limiter
    \<Rightarrow> ('x world, (string \<times> bool) answer \<times> limiter) prog" where
  "setupLogin sd rq lim = do {
     g \<leftarrow> GetInstallation;
     (case g of
        Inl e \<Rightarrow> ret (Reply [] internalError, lim)
      | Inr inst \<Rightarrow>
         if Onboarded inst
         then ret (Reply [] (Fail 403 ''already_onboarded'' ''bootstrap login is disabled after onboarding''), lim)
         else if sd_password sd = []
         then ret (Reply [] (Fail 503 ''not_configured'' ''bootstrap password is not configured''), lim)
         else (case lr_body rq of
            Inl e \<Rightarrow> ret (Reply [] (invalid_request e), lim)
          | Inr password \<Rightarrow>
             let key = clientKey rq in do {
               now \<leftarrow> time_now;
               (if \<not> allow lim key now
                then ret (Reply [] (Fail 429 ''rate_limited''
                  (''too many attempts '' @ em_dash @ '' wait a minute and retry'')), lim)
                else if sd_password sd \<noteq> password then do {
                  t \<leftarrow> time_now;
                  audit (lr_id rq) (event None ''auth.bootstrap_login.failed'' ''installation'' [] []);
                  ret (Reply [] (Fail 401 ''unauthorized'' ''invalid bootstrap password''), recordFail lim key t) }
                else do {
                  a \<leftarrow> bootstrap_session sd rq inst;
                  ret (a, reset lim key) }) })) }"

section \<open>Verification\<close>

text \<open>The payload of a verification: an error code, completion, or the status with the hint for the record.\<close>

datatype verify_payload = VError string | VOnboarded | VPending status string

definition complete_setup :: "string \<Rightarrow> string \<Rightarrow> domain \<Rightarrow> ('x world, nat \<times> verify_payload) prog" where
  "complete_setup reqID actorID d = do {
     now \<leftarrow> time_now;
     s \<leftarrow> SetDomainStatus (d_id d) DomainVerified (Some now);
     (case s of
        Inl e \<Rightarrow> ret (500, VError ''internal_error'')
      | Inr u \<Rightarrow> do {
          ignore (LogVerification (d_id d) (d_method d) ''verified'' True);
          o1 \<leftarrow> SetInstallationOnboarded now;
          (case o1 of
             Inl e \<Rightarrow> ret (500, VError ''internal_error'')
           | Inr u \<Rightarrow> do {
               audit reqID (event (if actorID = [] then None else Some actorID) ''setup.onboarded'' ''domain'' (d_id d)
                 [(''fqdn'', DStr (d_fqdn d))]);
               ret (200, VOnboarded) }) }) }"

definition check_primary :: "'x setup_deps \<Rightarrow> string \<Rightarrow> string \<Rightarrow> domain \<Rightarrow> ('x world, nat \<times> verify_payload) prog" where
  "check_primary sd reqID actorID d =
    (let recordName = VerifyRecordName (d_fqdn d); recordValue = TokenTXTValue (d_token d) in
     case sd_txt_lookup sd of
       None \<Rightarrow> ret (500, VError ''internal_error'')
     | Some lookup \<Rightarrow> do {
         t \<leftarrow> external (lookup recordName);
         (case t of
            Inl err \<Rightarrow> do {
              ignore (LogVerification (d_id d) (d_method d) err False);
              ret (422, VError ''lookup_failed'') }
          | Inr txts \<Rightarrow>
             if list_ex (\<lambda>t. t = recordValue) txts then complete_setup reqID actorID d
             else do {
               ignore (LogVerification (d_id d) (d_method d) ''record not found'' False);
               ret (200, VPending (d_status d) (''set TXT '' @ recordName @ '' to '' @ recordValue)) }) })"

definition runVerifySetup :: "'x setup_deps \<Rightarrow> string \<Rightarrow> string \<Rightarrow> ('x world, nat \<times> verify_payload) prog" where
  "runVerifySetup sd reqID actorID = do {
     g \<leftarrow> GetInstallation;
     (case g of
        Inl e \<Rightarrow> ret (500, VError ''internal_error'')
      | Inr inst \<Rightarrow>
         if Onboarded inst then ret (409, VError ''already_onboarded'')
         else if in_primary_domain inst = [] then ret (409, VError ''no_primary_domain'')
         else do {
           r \<leftarrow> GetDomainByID (in_primary_domain inst);
           (case r of
              Inl e \<Rightarrow> ret (404, VError ''not_found'')
            | Inr d \<Rightarrow>
               if d_status d = DomainVerified then do {
                 now \<leftarrow> time_now;
                 o1 \<leftarrow> SetInstallationOnboarded now;
                 ret (case o1 of Inl e \<Rightarrow> (500, VError ''internal_error'') | Inr u \<Rightarrow> (200, VOnboarded)) }
               else check_primary sd reqID actorID d) }) }"

definition verifySetup :: "'x setup_deps \<Rightarrow> 'b request \<Rightarrow> ('x world, verify_payload reply) prog" where
  "verifySetup sd rq =
    (if \<not> u_is_admin (rq_user rq) then ret (forbidden ''platform admin required'')
     else do {
       r \<leftarrow> runVerifySetup sd (rq_id rq) (u_id (rq_user rq));
       ret (Done (fst r) (snd r)) })"

section \<open>The poller\<close>

record poll_state =
  ps_check :: "int option"
  ps_result :: string

definition noteVerifyPoll :: "string \<Rightarrow> poll_state \<Rightarrow> ('x world, poll_state) prog" where
  "noteVerifyPoll result ps = do { now \<leftarrow> time_now; ret (ps\<lparr>ps_check := Some now, ps_result := result\<rparr>) }"

definition verifySnapshot :: "poll_state \<Rightarrow> int option \<times> string" where
  "verifySnapshot ps = (ps_check ps, ps_result ps)"

definition poll_note :: "nat \<Rightarrow> verify_payload \<Rightarrow> string" where
  "poll_note code payload = ''attempt status '' @ show_nat code @
    (case payload of
       VError e \<Rightarrow> '': '' @ e
     | VOnboarded \<Rightarrow> '': '' @ DomainVerified
     | VPending st hint \<Rightarrow> '': '' @ st @ '' ('' @ hint @ '')'')"

text \<open>One cycle: whether the loop can stop, and the state shown to the wizard. The message of a failed lookup
  of the installation is left out.\<close>

definition pollVerificationOnce :: "'x setup_deps \<Rightarrow> poll_state \<Rightarrow> ('x world, bool \<times> poll_state) prog" where
  "pollVerificationOnce sd ps = do {
     g \<leftarrow> GetInstallation;
     (case g of
        Inl e \<Rightarrow> do { ps' \<leftarrow> noteVerifyPoll ''installation lookup failed'' ps; ret (False, ps') }
      | Inr inst \<Rightarrow>
         if Onboarded inst then ret (True, ps)
         else if in_primary_domain inst = [] then ret (False, ps)
         else do {
           r \<leftarrow> runVerifySetup sd [] [];
           ps' \<leftarrow> noteVerifyPoll (poll_note (fst r) (snd r)) ps;
           ret (snd r = VOnboarded, ps') }) }"

text \<open>The loop of \<open>StartVerificationPoller\<close>, for the ticks that arrive before the context ends.\<close>

primrec poll_loop :: "nat \<Rightarrow> 'x setup_deps \<Rightarrow> poll_state \<Rightarrow> ('x world, bool \<times> poll_state) prog" where
  "poll_loop 0 sd ps = ret (False, ps)"
| "poll_loop (Suc ticks) sd ps = do {
     r \<leftarrow> pollVerificationOnce sd ps;
     (if fst r then ret r else poll_loop ticks sd (snd r)) }"

section \<open>The wizard\<close>

text \<open>The state of onboarding: the pending domain with its provider and the last check of the poller.\<close>

record setup_status =
  ss_onboarded :: bool
  ss_local_domain :: string
  ss_bootstrap_email :: string
  ss_admin_exists :: bool
  ss_primary :: "(string \<times> string \<times> status) option"
  ss_provider :: "string option"
  ss_auto_verify :: "(int \<times> string) option"

definition setupStatus :: "'x setup_deps \<Rightarrow> poll_state \<Rightarrow> ('x world, setup_status reply) prog" where
  "setupStatus sd ps = do {
     g \<leftarrow> GetInstallation;
     (case g of
        Inl e \<Rightarrow> ret internalError
      | Inr inst \<Rightarrow> do {
          a \<leftarrow> AdminCount;
          (case a of
             Inl e \<Rightarrow> ret internalError
           | Inr admins \<Rightarrow>
              let base = \<lparr>ss_onboarded = Onboarded inst, ss_local_domain = in_local_domain inst,
                    ss_bootstrap_email = sd_email sd, ss_admin_exists = 0 < admins, ss_primary = None,
                    ss_provider = None, ss_auto_verify = None\<rparr> in
              if Onboarded inst \<or> in_primary_domain inst = [] then ret (Done 200 base)
              else do {
                r \<leftarrow> GetDomainByID (in_primary_domain inst);
                ret (case r of
                    Inl e \<Rightarrow> Done 200 base
                  | Inr d \<Rightarrow> Done 200 (base\<lparr>ss_primary := Some (d_id d, d_fqdn d, d_status d),
                      ss_provider := Some (in_access_provider inst),
                      ss_auto_verify := map_option (\<lambda>t. (t, snd (verifySnapshot ps))) (fst (verifySnapshot ps))\<rparr>)) }) }) }"

record create_setup_req =
  cs_fqdn :: string
  cs_provider :: string
  cs_token :: string
  cs_zone :: string

definition config_of :: "string \<Rightarrow> string \<Rightarrow> access_config" where
  "config_of token zone = \<lparr>ac_token = token, ac_zone = zone, ac_access_key = [], ac_secret_key = [],
     ac_session_token = [], ac_region = []\<rparr>"

definition resolve_zone :: "'x setup_deps \<Rightarrow> 'x access_provider \<Rightarrow> create_setup_req \<Rightarrow> string
    \<Rightarrow> ('x world, string + string) prog" where
  "resolve_zone sd prov req fqdn =
    (if trim_space (cs_zone req) \<noteq> [] then ret (Inr (cs_zone req))
     else (case sd_zone_resolver sd of
         Some f \<Rightarrow> external (f fqdn (cs_token req))
       | None \<Rightarrow> external (ap_resolve_zone prov fqdn)))"

text \<open>Cloudflare needs a token and a reachable zone: the provider rebuilt with the zone, and the zone.\<close>

definition check_provider :: "'x setup_deps \<Rightarrow> 'x access_provider \<Rightarrow> create_setup_req \<Rightarrow> string
    \<Rightarrow> ('x world, 'p reply + ('x access_provider \<times> string)) prog" where
  "check_provider sd prov req fqdn =
    (if cs_provider req \<noteq> ''cloudflare'' then ret (Inr (prov, cs_zone req))
     else if trim_space (cs_token req) = []
     then ret (Inl (invalid_request ''cloudflare provider requires api_token''))
     else do {
       z \<leftarrow> resolve_zone sd prov req fqdn;
       (case z of
          Inl e \<Rightarrow> ret (Inl (Fail 400 ''zone_not_found'' (humanizeCloudflareErr e)))
        | Inr zone \<Rightarrow>
           (case New (sd_aws sd) (sd_env sd) (cs_provider req) (config_of (cs_token req) zone) of
              Inl e \<Rightarrow> ret (Inl internalError)
            | Inr prov' \<Rightarrow> do {
                v \<leftarrow> external (case sd_probe sd of Some probe \<Rightarrow> probe prov' | None \<Rightarrow> ap_validate prov');
                ret (case v of
                    Some e \<Rightarrow> Inl (Fail 422 ''provider_unavailable'' (humanizeCloudflareErr e))
                  | None \<Rightarrow> Inr (prov', zone)) })) })"

text \<open>The credentials, sealed, and the provider pair go into the installation row, then the domain.\<close>

definition provider_json :: "string \<Rightarrow> string \<Rightarrow> string" where
  "provider_json token zone = json_object [(''api_token'', json_string token), (''zone_id'', json_string zone)]"

definition store_provider :: "'x setup_deps \<Rightarrow> 'b request \<Rightarrow> string \<Rightarrow> 'x access_provider \<Rightarrow> string \<Rightarrow> string \<Rightarrow> domain
    \<Rightarrow> bool \<Rightarrow> ('x world, (domain \<times> txt_instructions \<times> string) reply) prog" where
  "store_provider sd rq fqdn prov token zone created automated = do {
     s \<leftarrow> EncryptSecret (sd_key sd) (provider_json token zone);
     (case s of
        None \<Rightarrow> ret internalError
      | Some sealed \<Rightarrow> do {
          p \<leftarrow> SetInstallationProvider (dns_name (ap_dns prov)) (ap_name prov) sealed;
          (case p of
             Inl e \<Rightarrow> ret internalError
           | Inr u \<Rightarrow> do {
               q \<leftarrow> SetInstallationPrimaryDomain (d_id created);
               (case q of
                  Inl e \<Rightarrow> ret internalError
                | Inr u \<Rightarrow> do {
                    audit (rq_id rq) (event (Some (u_id (rq_user rq))) ''setup.primary_domain'' ''domain''
                      (d_id created) [(''fqdn'', DStr fqdn), (''provider'', DStr (ap_name prov))]);
                    ret (Done 201 (created, \<lparr>ti_name = VerifyRecordName (d_fqdn created),
                      ti_value = TokenTXTValue (d_token created), ti_automated = automated\<rparr>, ap_name prov)) }) }) }) }"

text \<open>The organization of the primary domain, its owner, the domain and its verification record. The record is
  written by the provider the process was started with.\<close>

definition register_primary :: "'x setup_deps \<Rightarrow> 'b request \<Rightarrow> string \<Rightarrow> 'x access_provider \<Rightarrow> string \<Rightarrow> string
    \<Rightarrow> ('x world, (domain \<times> txt_instructions \<times> string) reply) prog" where
  "register_primary sd rq fqdn prov token zone =
    (case NewOrganization fqdn of
       Inl e \<Rightarrow> ret (invalid_request e)
     | Inr org \<Rightarrow> do {
         c \<leftarrow> CreateOrganization org;
         (case c of
            Inl e \<Rightarrow> ret (if e = ErrConflict
              then Fail 409 ''conflict'' ''organization for this domain already exists'' else internalError)
          | Inr createdOrg \<Rightarrow> do {
              m \<leftarrow> SetMembership (o_id createdOrg) (u_id (rq_user rq)) RoleOwner;
              (case m of
                 Inl e \<Rightarrow> ret internalError
               | Inr u \<Rightarrow>
                  (case NewDomain (sd_to_ascii sd) (o_id createdOrg) fqdn of
                     Inl e \<Rightarrow> ret internalError
                   | Inr d \<Rightarrow> do {
                       k \<leftarrow> CreateDomain d;
                       (case k of
                          Inl e \<Rightarrow> ret (if e = ErrConflict
                            then Fail 409 ''conflict'' ''domain already registered'' else internalError)
                        | Inr created \<Rightarrow> do {
                            automated \<leftarrow> external (dns_set_txt (ap_dns (sd_access sd))
                              (VerifyRecordName (d_fqdn created)) (TokenTXTValue (d_token created)));
                            store_provider sd rq fqdn prov token zone created automated }) })) }) })"

definition createSetup :: "'x setup_deps \<Rightarrow> create_setup_req request
    \<Rightarrow> ('x world, (domain \<times> txt_instructions \<times> string) reply) prog" where
  "createSetup sd rq =
    (if \<not> u_is_admin (rq_user rq) then ret (forbidden ''platform admin required'')
     else do {
       g \<leftarrow> GetInstallation;
       (case g of
          Inl e \<Rightarrow> ret internalError
        | Inr inst \<Rightarrow>
           if Onboarded inst
           then ret (Fail 409 ''already_onboarded'' ''installation is already onboarded'')
           else (case rq_body rq of
              Inl e \<Rightarrow> ret (invalid_request e)
            | Inr req \<Rightarrow>
               (case New (sd_aws sd) (sd_env sd) (cs_provider req) (config_of (cs_token req) (cs_zone req)) of
                  Inl e \<Rightarrow> ret (invalid_request e)
                | Inr prov \<Rightarrow>
                   (case NormalizeDomain (sd_to_ascii sd) (cs_fqdn req) of
                      Inl e \<Rightarrow> ret (invalid_request e)
                    | Inr fqdn \<Rightarrow>
                       if fqdn = ValidateLocalDomain (in_local_domain inst)
                       then ret (invalid_request ''primary domain must differ from the local domain'')
                       else do {
                         c \<leftarrow> check_provider sd prov req fqdn;
                         (case c of
                            Inl rep \<Rightarrow> ret rep
                          | Inr (prov', zone) \<Rightarrow>
                              register_primary sd rq fqdn prov' (cs_token req) zone) })))) })"

section \<open>The handlers keep what the statements keep\<close>

context table_invariant begin

lemma setup_parts_keep [keeps]:
  "keeps (on_db I) (EncryptSecret key s)" "keeps (on_db I) (bootstrap_session sd lr inst)"
  "keeps (on_db I) (complete_setup i actor d)"
  unfolding EncryptSecret_def encryptSecret_def bootstrap_session_def complete_setup_def Let_def by (intro keeps)+

lemma setup_checks_keep [keeps]:
  "keeps (on_db I) (check_primary sd i actor d)" "keeps (on_db I) (resolve_zone sd prov req fqdn)"
  "keeps (on_db I) (noteVerifyPoll txt ps)"
  unfolding check_primary_def resolve_zone_def noteVerifyPoll_def Let_def by (intro keeps)+

lemma runVerifySetup_keeps [keeps]: "keeps (on_db I) (runVerifySetup sd i actor)"
  unfolding runVerifySetup_def by (intro keeps)

lemma setup_steps_keep [keeps]:
  "keeps (on_db I) (store_provider sd rq fqdn prov token zone created automated)"
  "keeps (on_db I) (check_provider sd prov req fqdn)" "keeps (on_db I) (pollVerificationOnce sd ps)"
  unfolding store_provider_def check_provider_def pollVerificationOnce_def by (intro keeps)+

lemma register_primary_keeps [keeps]: "keeps (on_db I) (register_primary sd rq fqdn prov token zone)"
  unfolding register_primary_def by (intro keeps)

lemma setup_handlers_keep [keeps]:
  "keeps (on_db I) (setupLogin sd lr lim)" "keeps (on_db I) (verifySetup sd rq)"
  "keeps (on_db I) (setupStatus sd ps)" "keeps (on_db I) (createSetup sd rq1)"
  unfolding setupLogin_def verifySetup_def setupStatus_def createSetup_def Let_def by (intro keeps)+

lemma poll_loop_keeps [keeps]: "keeps (on_db I) (poll_loop n sd ps)"
  by (induction n arbitrary: ps) (auto intro!: keeps)

end

end
