(* ===== verification/Http_Setup_Lemmas.thy ===== *)
theory Http_Setup_Lemmas
  imports Http_Setup Http_Domains_Lemmas Http_Auth_Lemmas
begin

text \<open>
  What onboarding guarantees: the bootstrap password opens a session only before onboarding and can be guessed at
  a bounded rate only; the installation is onboarded on the evidence of its primary domain.
\<close>

section \<open>The rate of guesses\<close>

definition window :: int where "window = minute + 1"

text \<open>How many failed attempts of a client the limiter still admits from a time to the end \<open>b\<close>.\<close>

definition budget :: "limiter \<Rightarrow> string \<Rightarrow> int \<Rightarrow> int \<Rightarrow> int" where
  "budget l key t b =
    (if stale l key t then 10 * ((b - t) div window + 1)
     else (case l key of None \<Rightarrow> 0
       | Some f \<Rightarrow> max 0 (10 - int (lf_count f)) + 10 * max 0 ((b - lf_start f) div window)))"

lemma window_div_mono: "s \<le> t \<Longrightarrow> (b - t) div window \<le> (b - s) div window"
  by (simp add: window_def minute_def zdiv_mono1)

lemma window_div_step: "s + window \<le> t \<Longrightarrow> (b - t) div window + 1 \<le> (b - s) div window"
proof -
  assume "s + window \<le> t"
  then have "b - t + window * 1 \<le> b - s" by simp
  then have "(b - t + window * 1) div window \<le> (b - s) div window" by (rule zdiv_mono1) (simp add: window_def minute_def)
  then show ?thesis by (simp add: window_def minute_def)
qed

lemma stale_later: "stale l key s \<Longrightarrow> s \<le> t \<Longrightarrow> stale l key t"
  by (auto simp: stale_def split: option.splits)

lemma stale_window: "\<not> stale l key s \<Longrightarrow> stale l key t \<Longrightarrow> \<exists>f. l key = Some f \<and> lf_start f + window \<le> t"
  by (auto simp: stale_def window_def split: option.splits)

lemma budget_nonneg: "t \<le> b \<Longrightarrow> 0 \<le> budget l key t b"
proof -
  assume "t \<le> b"
  then have "0 \<le> (b - t) div window" by (simp add: pos_imp_zdiv_nonneg_iff window_def minute_def)
  then show ?thesis by (auto simp: budget_def split: option.splits)
qed

lemma budget_passes: "s \<le> t \<Longrightarrow> budget l key t b \<le> budget l key s b"
proof (cases "stale l key s")
  case True
  assume "s \<le> t"
  with True stale_later window_div_mono show ?thesis by (simp add: budget_def)
next
  case False
  show ?thesis
  proof (cases "stale l key t")
    case True
    with False stale_window obtain f where "l key = Some f" "lf_start f + window \<le> t" by blast
    with window_div_step [of "lf_start f" t b] False True show ?thesis by (simp add: budget_def)
  qed (use False in \<open>simp add: budget_def\<close>)
qed

lemma budget_spent:
  assumes "s \<le> t" and "allow l key s"
  shows "budget (recordFail l key t) key t b + 1 \<le> budget l key s b \<or> b < t"
proof (cases "stale l key t")
  case True
  then have "budget (recordFail l key t) key t b = 9 + 10 * max 0 ((b - t) div window)"
    by (simp add: budget_def recordFail_def stale_def minute_def)
  moreover have "b < t \<or> 0 \<le> (b - t) div window"
    by (auto simp: pos_imp_zdiv_nonneg_iff window_def minute_def)
  moreover have "10 * ((b - t) div window + 1) \<le> budget l key s b"
    using budget_passes [OF assms(1), of l key b] True by (simp add: budget_def)
  ultimately show ?thesis by auto
next
  case False
  with stale_later assms(1) have n: "\<not> stale l key s" by blast
  then obtain f where f: "l key = Some f" by (auto simp: stale_def split: option.splits)
  with n assms(2) have "lf_count f < 10" by (simp add: allow_def loginMaxFails_def)
  with f False n show ?thesis
    by (auto simp: budget_def recordFail_def stale_def)
qed

lemma budget_bound: "budget l key t b \<le> 10 * ((b - t) div window + 2) \<or> b < t"
proof (cases "stale l key t")
  case True
  then show ?thesis by (simp add: budget_def)
next
  case False
  then obtain f where f: "l key = Some f" and s: "t - minute \<le> lf_start f"
    by (auto simp: stale_def split: option.splits)
  have "(b - lf_start f) div window \<le> (b - t) div window + 1"
  proof -
    have "b - lf_start f \<le> b - t + window * 1" using s by (simp add: window_def)
    then have "(b - lf_start f) div window \<le> (b - t + window * 1) div window"
      by (rule zdiv_mono1) (simp add: window_def minute_def)
    then show ?thesis by (simp add: window_def minute_def)
  qed
  moreover have "b < t \<or> 0 \<le> (b - t) div window"
    by (auto simp: pos_imp_zdiv_nonneg_iff window_def minute_def)
  ultimately show ?thesis using False f by (auto simp: budget_def)
qed

section \<open>Time goes on\<close>

definition since :: "int \<Rightarrow> 'x world \<Rightarrow> bool" where
  "since T w \<longleftrightarrow> T \<le> clock w"

lemma since_pass: "since T w \<Longrightarrow> since T (pass_time w)"
  using clock_mono [of w] by (simp add: since_def)

lemma since_sql [keeps]: "keeps (since T) (sql st)"
proof (rule keepsI)
  fix w :: "'x world"
  assume "since T w"
  from since_pass [OF this] show "since T (snd (run_state (sql st) w))"
    by (auto simp: sql_def Let_def exec_stmt_def since_def split: list.splits fate.splits sum.splits)
qed

lemma since_world [keeps]:
  "keeps (since T) (external m)" "keeps (since T) new_uuid" "keeps (since T) time_now" "keeps (since T) (rand_bytes n)"
  by (auto simp: keeps_def run_external new_uuid_def time_now_def rand_bytes_def Let_def intro: since_pass)
     (simp_all add: since_def)

lemma since_methods [keeps]:
  "keeps (since T) (run_sql h st)" "keeps (since T) (exec_sql h st')" "keeps (since T) (CreateAuditEvent ev)"
  "keeps (since T) (audit i ev)" "keeps (since T) GetInstallation" "keeps (since T) (UpsertFromOIDC a b c d)"
  unfolding run_sql_def exec_sql_def CreateAuditEvent_def audit_def GetInstallation_def UpsertFromOIDC_def
  by (intro keeps)+

lemma since_session [keeps]: "keeps (since T) (bootstrap_session sd rq inst)"
  unfolding bootstrap_session_def Let_def by (intro keeps)

lemma run_since: "(\<And>T. keeps (since T) m) \<Longrightarrow> run_state m w = (r, w') \<Longrightarrow> clock w \<le> clock w'"
  using keeps_run [of "since (clock w)" m w r w'] by (simp add: since_def)

lemma time_now_at: "run_state time_now w = (t, w') \<Longrightarrow> t = clock w' \<and> clock w \<le> t \<and> db w' = db w"
  using clock_mono [of w] by (auto simp: time_now_def Let_def)

section \<open>One login\<close>

definition wrong_password :: "'p answer \<Rightarrow> bool" where
  "wrong_password a \<longleftrightarrow> (case a of Reply cs (Fail c k m) \<Rightarrow> c = 401 | _ \<Rightarrow> False)"

lemma bootstrap_session_reply:
  "run_state (bootstrap_session sd rq inst) w = (a, w') \<Longrightarrow> \<not> wrong_password a"
  unfolding bootstrap_session_def Let_def
  by (elim run_elims) (auto simp: wrong_password_def internalError_def)

lemma setupLogin_step:
  fixes w :: "'x world"
  assumes "run_state (setupLogin sd rq lim) w = ((a, lim'), w')"
  shows "clock w \<le> clock w' \<and> (if wrong_password a
      then \<exists>s t. clock w \<le> s \<and> s \<le> t \<and> t \<le> clock w' \<and> allow lim (clientKey rq) s
        \<and> lim' = recordFail lim (clientKey rq) t
      else lim' = lim \<or> lim' = reset lim (clientKey rq) \<and> lr_body rq = Inr (sd_password sd))"
  using assms unfolding setupLogin_def Let_def
proof (elim run_elims)
  fix g inst password and w1 w2 w3 w4 :: "'x world" and now t u
  assume g: "run_state GetInstallation w = (g, w1)" and now: "run_state time_now w1 = (now, w2)"
    and al: "\<not> \<not> allow lim (clientKey rq) now" and t: "run_state time_now w2 = (t, w3)"
    and au: "run_state (audit (lr_id rq) (event None ''auth.bootstrap_login.failed'' ''installation'' [] [])) w3 = (u, w4)"
    and fin: "(a, lim') = (Reply [] (Fail 401 ''unauthorized'' ''invalid bootstrap password''), recordFail lim (clientKey rq) t)"
      "w' = w4"
  have "clock w \<le> now" "now \<le> t" "t \<le> clock w'" "clock w \<le> clock w'"
    using time_now_at [OF now] time_now_at [OF t] run_since [OF since_methods(5) g] run_since [OF since_methods(4) au]
      fin(2) by simp_all
  with al fin(1) show ?thesis by (auto simp: wrong_password_def)
next
  fix g inst password and w1 w2 w3 :: "'x world" and now b
  assume g: "run_state GetInstallation w = (g, w1)" and now: "run_state time_now w1 = (now, w2)"
    and pw: "lr_body rq = Inr password" "\<not> sd_password sd \<noteq> password"
    and b: "run_state (bootstrap_session sd rq inst) w2 = (b, w3)"
    and fin: "(a, lim') = (b, reset lim (clientKey rq))" "w' = w3"
  have "clock w \<le> clock w'"
    using time_now_at [OF now] run_since [OF since_methods(5) g] run_since [OF since_session b] fin(2) by simp
  with bootstrap_session_reply [OF b] pw fin(1) show ?thesis by simp
qed (auto simp: wrong_password_def internalError_def dest!: time_now_at run_since [OF since_methods(5)])

section \<open>A series of logins\<close>

primrec login_series :: "'x setup_deps \<Rightarrow> login_request list \<Rightarrow> limiter
    \<Rightarrow> ('x world, (login_request \<times> (string \<times> bool) answer) list \<times> limiter) prog" where
  "login_series sd [] lim = ret ([], lim)"
| "login_series sd (rq # rqs) lim = do {
     r \<leftarrow> setupLogin sd rq lim;
     rest \<leftarrow> login_series sd rqs (snd r);
     ret ((rq, fst r) # fst rest, snd rest) }"

definition misses :: "string \<Rightarrow> (login_request \<times> (string \<times> bool) answer) list \<Rightarrow> nat" where
  "misses key as = length (filter (\<lambda>(rq, a). clientKey rq = key \<and> wrong_password a) as)"

lemma budget_key: "l key = l' key \<Longrightarrow> budget l key t b = budget l' key t b"
  by (simp add: budget_def stale_def)

lemma series_Cons:
  assumes "run_state (login_series sd (rq # rqs) lim) w = ((as, lim'), w')"
  obtains a l1 w1 as2 where "run_state (setupLogin sd rq lim) w = ((a, l1), w1)"
    "run_state (login_series sd rqs l1) w1 = ((as2, lim'), w')" "as = (rq, a) # as2"
  using assms by (auto split: prod.splits)

lemma series_clock: "run_state (login_series sd rqs lim) w = ((as, lim'), w') \<Longrightarrow> clock w \<le> clock w'"
proof (induction rqs arbitrary: lim w as)
  case (Cons rq rqs)
  from Cons.prems obtain a l1 w1 as2 where "run_state (setupLogin sd rq lim) w = ((a, l1), w1)"
    "run_state (login_series sd rqs l1) w1 = ((as2, lim'), w')" by (rule series_Cons)
  with Cons.IH setupLogin_step show ?case by fastforce
qed simp

lemma series_budget:
  assumes "run_state (login_series sd rqs lim) w = ((as, lim'), w')"
    and "list_all (\<lambda>rq. clientKey rq = key \<longrightarrow> lr_body rq \<noteq> Inr (sd_password sd)) rqs" and "clock w' \<le> b"
  shows "int (misses key as) \<le> budget lim key (clock w) b"
  using assms
proof (induction rqs arbitrary: lim w as)
  case Nil
  then show ?case by (simp add: misses_def budget_nonneg)
next
  case (Cons rq rqs)
  from Cons.prems(1) obtain a l1 w1 as2 where st: "run_state (setupLogin sd rq lim) w = ((a, l1), w1)"
    and se: "run_state (login_series sd rqs l1) w1 = ((as2, lim'), w')" and fin: "as = (rq, a) # as2"
    by (rule series_Cons)
  have c: "clock w1 \<le> b" using series_clock [OF se] Cons.prems(3) by simp
  have IH: "int (misses key as2) \<le> budget l1 key (clock w1) b"
    using Cons.IH [OF se _ Cons.prems(3)] Cons.prems(2) by simp
  note step = setupLogin_step [OF st]
  show ?case
  proof (cases "clientKey rq = key \<and> wrong_password a")
    case True
    with step obtain s t where st: "clock w \<le> s" "s \<le> t" "t \<le> clock w1" "allow lim key s" "l1 = recordFail lim key t"
      by auto
    have "budget l1 key (clock w1) b \<le> budget l1 key t b" by (rule budget_passes [OF st(3)])
    moreover have "budget l1 key t b + 1 \<le> budget lim key s b"
      using budget_spent [OF st(2,4), of b] st(3,5) c by auto
    moreover have "budget lim key s b \<le> budget lim key (clock w) b" by (rule budget_passes [OF st(1)])
    ultimately show ?thesis using IH True fin by (simp add: misses_def)
  next
    case False
    have "l1 key = lim key"
      using step False Cons.prems(2) by (auto simp: recordFail_def reset_def split: if_splits)
    then have "budget l1 key (clock w1) b = budget lim key (clock w1) b" by (rule budget_key)
    moreover have "budget lim key (clock w1) b \<le> budget lim key (clock w) b"
      using step by (intro budget_passes) auto
    ultimately show ?thesis using IH False fin by (auto simp: misses_def)
  qed
qed


section \<open>Before onboarding only\<close>

text \<open>What reading the installation row says.\<close>

lemma GetInstallation_Inr:
  assumes "run_state GetInstallation w = (Inr inst, w')"
  shows "db w' = db w"
    and "(t_install (db w) = None \<and> in_onboarded_at inst = None \<and> in_primary_domain inst = [])
      \<or> (\<exists>i. t_install (db w) = Some i \<and> inst = installation.truncate i)"
proof -
  from assms obtain r where r: "run_state (sql installationSQL) w = (r, w')"
    and res: "Inr inst = (case r of Inl e \<Rightarrow> if e = NoRows
            then Inr \<lparr>in_local_domain = DefaultLocalDomain, in_primary_domain = [],
                      in_dns_provider = ''manual'', in_access_provider = ''manual'',
                      in_onboarded_at = None\<rparr>
            else Inl ErrOther
        | Inr i \<Rightarrow> Inr i)"
    unfolding GetInstallation_def by (auto split: prod.splits)
  from r show "db w' = db w" by (rule sql_result) (auto simp: installationSQL_def)
  from r show "(t_install (db w) = None \<and> in_onboarded_at inst = None \<and> in_primary_domain inst = [])
      \<or> (\<exists>i. t_install (db w) = Some i \<and> inst = installation.truncate i)"
    by (rule sql_result)
       (use res in \<open>auto simp: installationSQL_def query_def split: option.splits sum.splits if_splits\<close>)
qed

lemma GetInstallation_frame:
  assumes "run_state GetInstallation w = (r, w')"
  shows "db w' = db w" and "ext w' = ext w"
proof -
  have e: "keeps (\<lambda>w. ext w = x) GetInstallation" for x :: 'a
    unfolding GetInstallation_def by (intro keeps)
  from assms obtain r0 where "run_state (sql installationSQL) w = (r0, w')"
    unfolding GetInstallation_def by (auto split: prod.splits)
  then show "db w' = db w" by (rule sql_result) (auto simp: installationSQL_def)
  show "ext w' = ext w" by (rule run_ext [OF e assms])
qed

definition pending_install :: "db \<Rightarrow> bool" where
  "pending_install d \<longleftrightarrow> (case t_install d of None \<Rightarrow> True | Some i \<Rightarrow> in_onboarded_at i = None)"

lemma GetInstallation_pending:
  "run_state GetInstallation w = (Inr inst, w') \<Longrightarrow> \<not> Onboarded inst \<Longrightarrow> pending_install (db w)"
  by (drule GetInstallation_Inr(2)) (auto simp: pending_install_def Onboarded_def installation.truncate_def)


section \<open>Onboarded on evidence\<close>

definition install_is :: "installation_row option \<Rightarrow> db \<Rightarrow> bool" where
  "install_is X d \<longleftrightarrow> t_install d = X"

lemma install_is_stmts [keeps]:
  "stmt_keeps (install_is X) (insertVerificationSQL i d m s t)" "stmt_keeps (install_is X) (insertAuditEventSQL ev)"
  "stmt_keeps (install_is X) (setDomainStatusSQL st at i)"
  by (auto intro!: stmt_keepsI simp: install_is_def insertVerificationSQL_def insertAuditEventSQL_def Let_def
      insert_stmt_Inr setDomainStatusSQL_def update_stmt_Inr)

lemma install_is_methods [keeps]:
  "keeps (on_db (install_is X)) (LogVerification d m s b)" "keeps (on_db (install_is X)) (audit i ev)"
  "keeps (on_db (install_is X)) (SetDomainStatus i st at)"
  unfolding LogVerification_def audit_def CreateAuditEvent_def SetDomainStatus_def by (intro keeps)+

lemma run_install:
  "keeps (on_db (install_is (t_install (db w)))) m \<Longrightarrow> run_state m w = (r, w') \<Longrightarrow> t_install (db w') = t_install (db w)"
  by (drule run_on_db) (simp_all add: install_is_def)

lemma check_primary_evidence:
  fixes w :: "'x world"
  assumes "run_state (check_primary sd i actor d) w = (r, w')" and ch: "t_install (db w') \<noteq> t_install (db w)"
  shows "\<exists>lookup txts e. sd_txt_lookup sd = Some lookup
    \<and> run_state (lookup (VerifyRecordName (d_fqdn d))) (ext w) = (Inr txts, e) \<and> TokenTXTValue (d_token d) \<in> set txts"
  using assms(1) unfolding check_primary_def Let_def
proof (elim run_elims)
  fix lookup t w1 txts
  assume lk: "sd_txt_lookup sd = Some lookup"
    and t: "run_state (external (lookup (VerifyRecordName (d_fqdn d)))) w = (t, w1)" "t = Inr txts"
    and ev: "list_ex (\<lambda>t. t = TokenTXTValue (d_token d)) txts"
  have "run_state (lookup (VerifyRecordName (d_fqdn d))) (ext w) = (Inr txts, ext w1)"
    using t by (auto simp: run_external prod_eq_iff)
  with lk ev show ?thesis by (auto simp: list_ex_iff)
qed (use ch in \<open>auto dest!: run_install [OF install_is_methods(1)] external_db\<close>)

text \<open>C24: a verification run changes the installation row only on evidence about its own primary domain: that
  domain was verified already, or the TXT lookup of its record name returned the value of its token.\<close>

theorem setup_evidence:
  fixes w :: "'x world"
  assumes run: "run_state (runVerifySetup sd i actor) w = (r, w')" and ch: "t_install (db w') \<noteq> t_install (db w)"
  shows "\<exists>row. t_install (db w) = Some row \<and> in_onboarded_at row = None
    \<and> (\<exists>d \<in> set (t_domains (db w)). d_id d = in_primary_domain row
        \<and> (d_status d = ''verified'' \<or> (\<exists>lookup txts e. sd_txt_lookup sd = Some lookup
          \<and> run_state (lookup (VerifyRecordName (d_fqdn d))) (ext w) = (Inr txts, e)
          \<and> TokenTXTValue (d_token d) \<in> set txts)))"
proof -
  have main: ?thesis
    if g: "run_state GetInstallation w = (g, w1)" "g = Inr inst" and pend: "\<not> Onboarded inst"
      and prim: "in_primary_domain inst \<noteq> []"
      and d: "run_state (GetDomainByID (in_primary_domain inst)) w1 = (x, w2)" "x = Inr d"
      and ev: "d_status d = ''verified'' \<or> (\<exists>lookup txts e. sd_txt_lookup sd = Some lookup
          \<and> run_state (lookup (VerifyRecordName (d_fqdn d))) (ext w2) = (Inr txts, e)
          \<and> TokenTXTValue (d_token d) \<in> set txts)"
    for g inst x d and w1 w2 :: "'x world"
  proof -
    note f = GetInstallation_frame [OF g(1)] and fd = GetDomainByID_frame [OF d(1)]
    from GetInstallation_Inr(2) [OF g(1) [unfolded g(2)]] prim obtain row where row: "t_install (db w) = Some row"
      "inst = installation.truncate row" by auto
    then have "in_onboarded_at row = None" "in_primary_domain row = in_primary_domain inst"
      using pend by (simp_all add: Onboarded_def installation.truncate_def)
    with row(1) GetDomainByID_Inr [OF d(1) [unfolded d(2)]] ev f fd show ?thesis by auto
  qed
  show ?thesis
    using run unfolding runVerifySetup_def
  proof (elim run_elims)
    fix g inst x d and w1 w2 w3 w4 :: "'x world"
    assume "run_state GetInstallation w = (g, w1)" "g = Inr inst" "\<not> Onboarded inst" "in_primary_domain inst \<noteq> []"
      "run_state (GetDomainByID (in_primary_domain inst)) w1 = (x, w2)" "x = Inr d" "d_status d = DomainVerified"
    with main show ?thesis by (simp add: DomainVerified_def)
  next
    fix g inst x d and w1 w2 :: "'x world"
    assume a: "run_state GetInstallation w = (g, w1)" "g = Inr inst" "\<not> Onboarded inst" "in_primary_domain inst \<noteq> []"
      "run_state (GetDomainByID (in_primary_domain inst)) w1 = (x, w2)" "x = Inr d"
      and c: "run_state (check_primary sd i actor d) w2 = (r, w')"
    have "t_install (db w') \<noteq> t_install (db w2)"
      using ch GetInstallation_frame [OF a(1)] GetDomainByID_frame [OF a(5)] by simp
    from check_primary_evidence [OF c this] main [OF a] show ?thesis by blast
  qed (use ch in \<open>auto dest!: GetInstallation_frame(1) GetDomainByID_frame(1)\<close>)
qed

section \<open>The poller gets there\<close>

lemma quiet_pass: "quiet T w \<Longrightarrow> pass_time w = w"
  by (simp add: quiet_def pass_time_still)

lemma quiet_sql_run:
  "quiet T w \<Longrightarrow> run_state (sql st) w
    = (case st (pg_of w) (db w) of Inl e \<Rightarrow> (Inl e, w) | Inr (x, d) \<Rightarrow> (Inr x, w\<lparr>db := d\<rparr>))"
  using quiet_pass [of T w] by (simp add: quiet_def calm_sql cong: sum.case_cong)

lemma quiet_now: "quiet T w \<Longrightarrow> run_state time_now w = (T, w)"
  using quiet_pass [of T w] by (simp add: time_now_def quiet_def)

lemma quiet_install:
  "quiet T w \<Longrightarrow> t_install (db w) = Some row \<Longrightarrow> run_state GetInstallation w = (Inr (installation.truncate row), w)"
  by (simp add: GetInstallation_def quiet_sql_run installationSQL_def query_def)

lemma quiet_domain:
  assumes "quiet T w" and "uniq d_id (t_domains (db w))" and "d \<in> set (t_domains (db w))"
  shows "run_state (GetDomainByID (d_id d)) w = (Inr d, w)"
  using assms by (simp add: GetDomainByID_def run_sql_def domainByIDSQL_def quiet_sql_run query_def filter_uniq
      one_row_def)

lemma quiet_onboarded:
  assumes "quiet T w" and "t_install (db w) = Some row" and "in_onboarded_at row = None"
  shows "run_state (SetInstallationOnboarded at) w
    = (Inr (), w\<lparr>db := (db w)\<lparr>t_install := Some (row\<lparr>in_onboarded_at := Some at\<rparr>)\<rparr>\<rparr>)"
  using assms by (simp add: SetInstallationOnboarded_def exec_sql_def quiet_sql_run setInstallationOnboardedSQL_def
      open_install_def)

lemma quiet_log [keeps]:
  "keeps (quiet T) (LogVerification d m s b)" "keeps (quiet T) (audit i ev)" "keeps (quiet T) (noteVerifyPoll txt ps)"
  unfolding LogVerification_def audit_def CreateAuditEvent_def noteVerifyPoll_def by (intro keeps)+

lemma complete_setup_quiet:
  fixes w :: "'x world"
  assumes q: "quiet T w" and row: "t_install (db w) = Some row" "in_onboarded_at row = None"
    and d: "d \<in> set (t_domains (db w))"
  shows "\<exists>w'. run_state (complete_setup i actor d) w = ((200, VOnboarded), w') \<and> quiet T w'
    \<and> t_install (db w') = Some (row\<lparr>in_onboarded_at := Some T\<rparr>)"
proof -
  define w1 where "w1 = w\<lparr>db := (db w)\<lparr>t_domains := put_row (\<lambda>x. d_id x = d_id d)
      (\<lambda>x. x\<lparr>d_status := ''verified'', d_verified_at := Some T\<rparr>) (t_domains (db w))\<rparr>\<rparr>"
  have "count_rows (\<lambda>x. d_id x = d_id d) (t_domains (db w)) \<noteq> 0"
    using d by (auto simp: count_rows_def filter_empty_conv)
  with q have s: "run_state (SetDomainStatus (d_id d) DomainVerified (Some T)) w = (Inr (), w1)"
    by (simp add: SetDomainStatus_def domain_status_valid_def DomainVerified_def exec_some_def quiet_sql_run
        setDomainStatusSQL_def update_stmt_def domain_checks_def w1_def)
  obtain x w2 where l: "run_state (LogVerification (d_id d) (d_method d) ''verified'' True) w1 = (x, w2)"
    by (rule prod.exhaust)
  have q1: "quiet T w1" and r1: "t_install (db w1) = Some row" using q row by (simp_all add: quiet_def w1_def)
  have q2: "quiet T w2" using keeps_run [OF quiet_log(1) l q1] .
  have r2: "t_install (db w2) = Some row" using run_install [OF install_is_methods(1) l] r1 by simp
  define w3 where "w3 = w2\<lparr>db := (db w2)\<lparr>t_install := Some (row\<lparr>in_onboarded_at := Some T\<rparr>)\<rparr>\<rparr>"
  have q3: "quiet T w3" and r3: "t_install (db w3) = Some (row\<lparr>in_onboarded_at := Some T\<rparr>)"
    using q2 by (simp_all add: quiet_def w3_def)
  obtain v w4 where a: "run_state (audit i (event (if actor = [] then None else Some actor) ''setup.onboarded''
      ''domain'' (d_id d) [(''fqdn'', DStr (d_fqdn d))])) w3 = (v, w4)" by (rule prod.exhaust)
  have "quiet T w4" "t_install (db w4) = Some (row\<lparr>in_onboarded_at := Some T\<rparr>)"
    using keeps_run [OF quiet_log(2) a q3] run_install [OF install_is_methods(2) a] r3 by simp_all
  moreover have "run_state (complete_setup i actor d) w = ((200, VOnboarded), w4)"
    using a by (simp add: complete_setup_def quiet_now [OF q] s run_ignore l quiet_onboarded [OF q2 r2 row(2)] w3_def)
  ultimately show ?thesis by blast
qed

lemma verify_quiet:
  fixes w :: "'x world"
  assumes q: "quiet T w" and ok: "db_ok (db w)" and row: "t_install (db w) = Some row" "in_onboarded_at row = None"
    and prim: "in_primary_domain row = d_id d" "d_id d \<noteq> []" and d: "d \<in> set (t_domains (db w))"
    and ev: "d_status d = ''verified'' \<or> (sd_txt_lookup sd = Some lookup
      \<and> run_state (lookup (VerifyRecordName (d_fqdn d))) (ext w) = (Inr txts, e) \<and> TokenTXTValue (d_token d) \<in> set txts)"
  shows "\<exists>w1. run_state (runVerifySetup sd i actor) w = ((200, VOnboarded), w1) \<and> quiet T w1
    \<and> t_install (db w1) = Some (row\<lparr>in_onboarded_at := Some T\<rparr>)"
proof -
  have uq: "uniq d_id (t_domains (db w))" using ok by (simp add: db_ok_def domains_wf_def)
  note gi = quiet_install [OF q row(1)] and gd = quiet_domain [OF q uq d]
  have open_row: "\<not> Onboarded (installation.truncate row)" "in_primary_domain (installation.truncate row) = d_id d"
    using row prim by (simp_all add: Onboarded_def installation.truncate_def)
  show ?thesis
  proof (cases "d_status d = ''verified''")
    case True
    then show ?thesis
      using q by (simp add: runVerifySetup_def gi open_row prim(2) gd DomainVerified_def quiet_now [OF q]
          quiet_onboarded [OF q row]) (simp add: quiet_def)
  next
    case False
    with ev have lk: "sd_txt_lookup sd = Some lookup"
      "run_state (lookup (VerifyRecordName (d_fqdn d))) (ext w) = (Inr txts, e)"
      "list_ex (\<lambda>t. t = TokenTXTValue (d_token d)) txts" by (auto simp: list_ex_iff)
    have q1: "quiet T (w\<lparr>ext := e\<rparr>)" using q by (simp add: quiet_def)
    from complete_setup_quiet [OF q1, of row d i actor] row d obtain w1
      where c: "run_state (complete_setup i actor d) (w\<lparr>ext := e\<rparr>) = ((200, VOnboarded), w1)" "quiet T w1"
        "t_install (db w1) = Some (row\<lparr>in_onboarded_at := Some T\<rparr>)" by auto
    have "run_state (runVerifySetup sd i actor) w = ((200, VOnboarded), w1)"
      using False lk c(1) by (simp add: runVerifySetup_def gi open_row prim(2) gd DomainVerified_def check_primary_def
          Let_def run_external)
    with c show ?thesis by blast
  qed
qed

text \<open>C25: while the database answers and the clock stands still, one cycle of the poller onboards an installation
  whose pending primary domain is verified or has the value of its token in the answer of the TXT lookup, and
  tells the loop to stop.\<close>

theorem poll_completes:
  fixes w :: "'x world"
  assumes q: "quiet T w" and ok: "db_ok (db w)" and row: "t_install (db w) = Some row" "in_onboarded_at row = None"
    and prim: "in_primary_domain row = d_id d" "d_id d \<noteq> []" and d: "d \<in> set (t_domains (db w))"
    and ev: "d_status d = ''verified'' \<or> (sd_txt_lookup sd = Some lookup
      \<and> run_state (lookup (VerifyRecordName (d_fqdn d))) (ext w) = (Inr txts, e) \<and> TokenTXTValue (d_token d) \<in> set txts)"
  shows "\<exists>ps' w'. run_state (pollVerificationOnce sd ps) w = ((True, ps'), w')
    \<and> t_install (db w') = Some (row\<lparr>in_onboarded_at := Some T\<rparr>)"
proof -
  have open_row: "\<not> Onboarded (installation.truncate row)" "in_primary_domain (installation.truncate row) \<noteq> []"
    using row prim by (simp_all add: Onboarded_def installation.truncate_def)
  from verify_quiet [OF assms, of "[]" "[]"] obtain w1 where v: "run_state (runVerifySetup sd [] []) w = ((200, VOnboarded), w1)"
    "quiet T w1" "t_install (db w1) = Some (row\<lparr>in_onboarded_at := Some T\<rparr>)" by blast
  then show ?thesis
    by (simp add: pollVerificationOnce_def quiet_install [OF q row(1)] open_row noteVerifyPoll_def quiet_now [OF v(2)])
qed

section \<open>Route 53 cannot be stored\<close>

lemma route53_refused: "run_state (SetInstallationProvider ''route53'' a cfg) w \<noteq> (Inr u, w')"
proof
  assume "run_state (SetInstallationProvider ''route53'' a cfg) w = (Inr u, w')"
  then obtain n where n: "run_state (sql (setInstallationProviderSQL ''route53'' a cfg)) w = (Inr n, w')" "n \<noteq> 0"
    by (auto simp: SetInstallationProvider_def exec_some_def split: prod.splits sum.splits if_splits)
  from n(1) obtain pg where "setInstallationProviderSQL ''route53'' a cfg pg (db w) = Inr (n, db w')" by (rule sql_Inr)
  with n(2) show False by (auto simp: setInstallationProviderSQL_def provider_checks_def split: option.splits)
qed

lemma check_provider_Inl:
  "run_state (check_provider sd prov req fqdn) w = (Inl rep, w') \<Longrightarrow> \<exists>c k m. rep = Fail c k m"
  unfolding check_provider_def by (elim run_elims) (auto simp: internalError_def split: option.splits)

text \<open>C27: the wizard offers the provider route53, but a request for it never succeeds: the installation row cannot
  hold that provider, so the request fails after the organization and the domain may have been created.\<close>

theorem route53_setup_fails:
  assumes run: "run_state (createSetup sd rq) w = (rep, w')" and req: "rq_body rq = Inr req" "cs_provider req = ''route53''"
  shows "\<exists>c k m. rep = Fail c k m"
proof (cases rep)
  case (Done c x)
  have "False"
    using run unfolding Done createSetup_def
  proof (elim run_elims)
    fix g inst req1 prov fqdn cc v1 pz prov1 zone v2
    assume "rq_body rq = Inr req1"
      and new: "New (sd_aws sd) (sd_env sd) (cs_provider req1) (config_of (cs_token req1) (cs_zone req1)) = Inr prov"
      and chk: "run_state (check_provider sd prov req1 fqdn) v1 = (cc, v2)" "cc = Inr pz" "pz = (prov1, zone)"
      and reg: "run_state (register_primary sd rq fqdn prov1 (cs_token req1) zone) v2 = (Done c x, w')"
    then have "req1 = req" using req by simp
    with new chk req(2) have "ap_name prov1 = ''route53'' \<and> dns_name (ap_dns prov1) = ''route53''"
      by (auto simp: New_def NewRoute53_def Route53DNS_def check_provider_def)
    with reg show False
      unfolding register_primary_def store_provider_def
      by (elim run_elims) (auto simp: internalError_def route53_refused split: if_splits)
  qed (auto simp: internalError_def dest: check_provider_Inl)
  then show ?thesis by simp
qed simp

end
