(* ===== verification/Http_Setup_Runs.thy ===== *)
theory Http_Setup_Runs
  imports Http_Setup_Lemmas
begin

text \<open>Concrete runs of onboarding: a pending installation of the domain \<open>acme.io\<close> whose record is published.\<close>

definition offline :: "unit http_client" where
  "offline = \<lparr>hc_do = (\<lambda>rq. ret (Inl ''offline'')), hc_decode_error = (\<lambda>s. ''bad'')\<rparr>"

definition small_setup :: "unit setup_deps" where
  "small_setup = \<lparr>sd_auth = small_auth,
     sd_aws = \<lparr>az_http = offline, az_now = ret 0, az_error = Map.empty, az_zone = Map.empty, az_zones = Map.empty\<rparr>,
     sd_env = (\<lambda>k. []), sd_access = NewManual, sd_zone_resolver = None, sd_probe = None,
     sd_txt_lookup = Some (\<lambda>n. ret (Inr [''platform=tok''])), sd_email = ''a@x.io'', sd_password = ''pw'',
     sd_key = ''k'', sd_to_ascii = Inr\<rparr>"

definition pending_row :: installation_row where
  "pending_row = \<lparr>in_local_domain = ''selfu.local'', in_primary_domain = ''dom'', in_dns_provider = ''manual'',
     in_access_provider = ''manual'', in_onboarded_at = None, in_config = []\<rparr>"

definition setup_db :: db where
  "setup_db = (domain_db ''pending'')\<lparr>t_install := Some pending_row\<rparr>"

lemma setup_db_ok: "db_ok setup_db"
  by (simp add: setup_db_def pending_row_def domain_db_def db_ok_def wf_defs sample_db_def fresh_db_def alice_def acme_def
      sample_invite_def uniq_def refs_def orefs_def role_checks_def provider_checks_def user_identity_def
      acme_domain_def domain_checks_def domain_key_def)

definition setup_world :: "unit world" where
  "setup_world = sample_world setup_db ()"

lemma setup_world_quiet: "quiet 100 setup_world"
  by (simp add: quiet_def setup_world_def)

lemma setup_world_facts:
  "t_install (db setup_world) = Some pending_row" "in_onboarded_at pending_row = None"
  "in_primary_domain pending_row = ''dom''" "t_domains (db setup_world) = [acme_domain\<lparr>d_status := ''pending''\<rparr>]"
  "db_ok (db setup_world)"
  using setup_db_ok by (simp_all add: setup_world_def setup_db_def pending_row_def domain_db_def)

lemma setup_world_db: "db setup_world = setup_db" "ext setup_world = ()"
  by (simp_all add: setup_world_def)

lemma setup_evidence_here:
  "sd_txt_lookup small_setup = Some (\<lambda>n. ret (Inr [''platform=tok'']))"
  "run_state ((\<lambda>n. ret (Inr [''platform=tok''])) x) (ext setup_world) = (Inr [''platform=tok''], ())"
  "TokenTXTValue (d_token (acme_domain\<lparr>d_status := ''pending''\<rparr>)) = ''platform=tok''"
  by (simp_all add: small_setup_def TokenTXTValue_def acme_domain_def)

section \<open>Verification\<close>

lemma setup_verified:
  "\<exists>w'. run_state (runVerifySetup small_setup [] []) setup_world = ((200, VOnboarded), w') \<and> quiet 100 w'
    \<and> t_install (db w') = Some (pending_row\<lparr>in_onboarded_at := Some 100\<rparr>)"
  by (rule verify_quiet [OF setup_world_quiet setup_world_facts(5,1,2), of "acme_domain\<lparr>d_status := ''pending''\<rparr>"])
     (use setup_world_facts setup_evidence_here in \<open>auto simp: acme_domain_def\<close>)

theorem poll_completes_witness:
  "\<exists>w'. snd (run_state (pollVerificationOnce small_setup \<lparr>ps_check = None, ps_result = []\<rparr>) setup_world) = w'
    \<and> t_install (db w') = Some (pending_row\<lparr>in_onboarded_at := Some 100\<rparr>)"
proof -
  have "\<exists>ps' w'. run_state (pollVerificationOnce small_setup \<lparr>ps_check = None, ps_result = []\<rparr>) setup_world
      = ((True, ps'), w') \<and> t_install (db w') = Some (pending_row\<lparr>in_onboarded_at := Some 100\<rparr>)"
    by (rule poll_completes [OF setup_world_quiet setup_world_facts(5,1,2),
        of "acme_domain\<lparr>d_status := ''pending''\<rparr>"])
       (use setup_world_facts setup_evidence_here in \<open>auto simp: acme_domain_def\<close>)
  then show ?thesis by auto
qed

theorem setup_evidence_witness:
  "\<exists>d \<in> set (t_domains setup_db). d_id d = ''dom''
    \<and> (d_status d = ''verified'' \<or> (\<exists>lookup txts e. sd_txt_lookup small_setup = Some lookup
        \<and> run_state (lookup (VerifyRecordName (d_fqdn d))) () = (Inr txts, e) \<and> TokenTXTValue (d_token d) \<in> set txts))"
proof -
  from setup_verified obtain w' where run: "run_state (runVerifySetup small_setup [] []) setup_world = ((200, VOnboarded), w')"
    and "t_install (db w') = Some (pending_row\<lparr>in_onboarded_at := Some 100\<rparr>)" by blast
  then have "t_install (db w') \<noteq> t_install (db setup_world)"
    by (auto simp: setup_world_facts(1) pending_row_def)
  from setup_evidence [OF run this] show ?thesis
    using setup_world_facts(2,3) by (simp add: setup_world_facts(1) [unfolded setup_world_db] setup_world_db)
qed

section \<open>Logins\<close>

definition guess :: login_request where
  "guess = \<lparr>lr_forwarded = [], lr_remote = ''10.0.0.9:4711'', lr_id = [], lr_body = Inr ''wrong''\<rparr>"

lemma setup_open:
  "run_state GetInstallation setup_world = (Inr (installation.truncate pending_row), setup_world)"
  "\<not> Onboarded (installation.truncate pending_row)"
  using quiet_install [OF setup_world_quiet setup_world_facts(1)] setup_world_facts(2)
  by (simp_all add: Onboarded_def installation.truncate_def)


definition boot_user :: user where
  "boot_user = \<lparr>u_id = ''boot'', u_email = ''a@x.io'', u_display_name = ''Bootstrap Administrator'',
     u_status = ''active'', u_is_admin = True, u_auth_provider = ''local-bootstrap'', u_auth_identity = ''bootstrap''\<rparr>"

definition boot_world :: "unit world" where
  "boot_world = sample_world (fresh_db\<lparr>t_users := [boot_user]\<rparr>) ()"

lemma boot_upsert:
  "run_state (UpsertFromOIDC ''local-bootstrap'' ''bootstrap'' ''a@x.io'' ''Bootstrap Administrator'') boot_world
    = (Inr (boot_user, False, False), boot_world\<lparr>uuid_ix := Suc 0\<rparr>)"
proof -
  have t: "trim_space ''a@x.io'' = ''a@x.io''" "trim_space ''Bootstrap Administrator'' = ''Bootstrap Administrator''"
    "trim_space ''local-bootstrap'' = ''local-bootstrap''" "trim_space ''bootstrap'' = ''bootstrap''"
    by code_simp+
  have l: "to_lower ''a@x.io'' = ''a@x.io''"
    by (simp add: to_lower_def is_ascii_def byte_def ascii_lower_def ascii_range_def)
  have n: "NewUser ''a@x.io'' ''Bootstrap Administrator'' ''local-bootstrap'' ''bootstrap''
      = Inr (boot_user\<lparr>u_id := [], u_is_admin := False\<rparr>)"
    by (simp add: NewUser_def t l looksLikeEmail_def contains_any_def has_prefix_def
        UserStatusActive_def chr_tab boot_user_def)
  have up: "upsertUserSQL i ''a@x.io'' ''Bootstrap Administrator'' ''local-bootstrap'' ''bootstrap'' pg
      (fresh_db\<lparr>t_users := [boot_user]\<rparr>) = Inr ((boot_user, False), fresh_db\<lparr>t_users := [boot_user]\<rparr>)"
    if "pg_lower pg = to_lower" for i and pg :: pg
    using that by (simp add: upsertUserSQL_def Let_def user_checks_def new_user_row_def l)
      (auto simp: boot_user_def put_row_def Let_def fresh_db_def)
  have [simp]: "u_email boot_user = ''a@x.io''" "u_display_name boot_user = ''Bootstrap Administrator''"
    "u_auth_provider boot_user = ''local-bootstrap''" "u_auth_identity boot_user = ''bootstrap''"
    by (simp_all add: boot_user_def)
  show ?thesis
    by (simp add: boot_world_def UpsertFromOIDC_def n new_uuid_def calm_sql pass_time_still up pg_of_def)
qed

lemma boot_open:
  "\<exists>inst. run_state GetInstallation boot_world = (Inr inst, boot_world) \<and> \<not> Onboarded inst"
  by (simp add: boot_world_def GetInstallation_def calm_sql pass_time_still installationSQL_def query_def fresh_db_def
      Onboarded_def installation.truncate_def)


section \<open>Route 53\<close>

definition route53_request :: "create_setup_req request" where
  "route53_request = \<lparr>rq_user = alice, rq_id = [], rq_path = [],
     rq_body = Inr \<lparr>cs_fqdn = ''a.io'', cs_provider = ''route53'', cs_token = [], cs_zone = []\<rparr>\<rparr>"

theorem route53_setup_fails_witness:
  "\<exists>c k m. fst (run_state (createSetup small_setup route53_request) setup_world) = Fail c k m"
proof -
  obtain rep w' where run: "run_state (createSetup small_setup route53_request) setup_world = (rep, w')"
    by (rule prod.exhaust)
  from route53_setup_fails [OF run] run show ?thesis by (simp add: route53_request_def)
qed

end
