(* ===== verification/Go_Files.thy ===== *)
theory Go_Files
  imports Go_Strings Selfu_Prelude "HOL-Library.List_Lexorder" "HOL-Library.Char_ord"
begin

text \<open>
  What a service uses of Go's \<open>path/filepath\<close>, \<open>os\<close> and \<open>os/exec\<close>. A host has files and directories by cleaned
  path. Every call to it may be refused, and a write may stop after some bytes (\<open>io_fate\<close>); the text of an error
  depends on the path only. Commands are programs over the host, because they may change its files.
\<close>

section \<open>Paths\<close>

text \<open>\<open>filepath.Clean\<close>: a stack of elements, the last one first.\<close>

fun clean_step :: "bool \<Rightarrow> string list \<Rightarrow> string \<Rightarrow> string list" where
  "clean_step rooted st e =
    (if e = [] \<or> e = ''.'' then st
     else if e = ''..'' then
       (case st of [] \<Rightarrow> if rooted then [] else [''..'']
        | x # xs \<Rightarrow> if x = ''..'' then ''..'' # x # xs else xs)
     else e # st)"

definition clean_path :: "string \<Rightarrow> string" where
  "clean_path p =
    (let rooted = has_prefix p ''/'';
         elems = rev (fold (\<lambda>e st. clean_step rooted st e) (split_on CHR ''/'' p) [])
     in if rooted then ''/'' @ join_with ''/'' elems else if elems = [] then ''.'' else join_with ''/'' elems)"

definition path_join :: "string list \<Rightarrow> string" where
  "path_join elems =
    (case filter (\<lambda>e. e \<noteq> []) elems of [] \<Rightarrow> [] | es \<Rightarrow> clean_path (join_with ''/'' es))"

definition path_base :: "string \<Rightarrow> string" where
  "path_base p = last (split_on CHR ''/'' p)"

text \<open>The directory that holds a cleaned path, and the path with all directories above it, topmost first.\<close>

definition parent :: "string \<Rightarrow> string" where
  "parent p = (case last_index_byte p CHR ''/'' of None \<Rightarrow> ''.'' | Some i \<Rightarrow> if i = 0 then ''/'' else take i p)"

definition ancestors :: "string \<Rightarrow> string list" where
  "ancestors p = map (\<lambda>i. take i p) (filter (\<lambda>i. p ! i = CHR ''/'') [1..<length p]) @ [p]"

definition below :: "string \<Rightarrow> string \<Rightarrow> bool" where
  "below p q \<longleftrightarrow> q = p \<or> has_prefix q (p @ ''/'')"

section \<open>Files\<close>

datatype io_fate = Works | Refused | Torn nat

record 'x host =
  h_files :: "(string \<times> string) list"
  h_dirs :: "string list"
  h_fates :: "io_fate list"
  h_errno :: "string \<Rightarrow> string"
  h_rest :: 'x

definition io :: "(io_fate \<Rightarrow> 'x host \<Rightarrow> 'a \<times> 'x host) \<Rightarrow> ('x host, 'a) prog" where
  "io f = State (\<lambda>h. case h_fates h of [] \<Rightarrow> f Works h | x # xs \<Rightarrow> f x (h\<lparr>h_fates := xs\<rparr>))"

definition is_dir :: "'x host \<Rightarrow> string \<Rightarrow> bool" where
  "is_dir h p \<longleftrightarrow> p = ''/'' \<or> p = ''.'' \<or> p \<in> set (h_dirs h)"

definition put_file :: "string \<Rightarrow> string \<Rightarrow> 'x host \<Rightarrow> 'x host" where
  "put_file p data h = h\<lparr>h_files := (p, data) # filter (\<lambda>f. fst f \<noteq> p) (h_files h)\<rparr>"

text \<open>\<open>os.ReadFile\<close>: \<open>None\<close> is an error.\<close>

definition read_file :: "string \<Rightarrow> ('x host, string option) prog" where
  "read_file p = io (\<lambda>f h. (if f = Works then map_of (h_files h) p else None, h))"

text \<open>\<open>os.WriteFile\<close>: the text of an error. The directory must exist, the path must not be one.\<close>

definition write_file :: "string \<Rightarrow> string \<Rightarrow> ('x host, string option) prog" where
  "write_file p data = io (\<lambda>f h.
     if \<not> is_dir h (parent p) \<or> is_dir h p then (Some (h_errno h p), h)
     else (case f of
         Works \<Rightarrow> (None, put_file p data h)
       | Refused \<Rightarrow> (Some (h_errno h p), h)
       | Torn n \<Rightarrow> (Some (h_errno h p), put_file p (take n data) h)))"

text \<open>\<open>os.MkdirAll\<close>: a torn call has made some of the directories.\<close>

definition mkdir_all :: "string \<Rightarrow> ('x host, string option) prog" where
  "mkdir_all p = io (\<lambda>f h.
     let new = filter (\<lambda>d. \<not> is_dir h d) (ancestors p) in
     if list_ex (\<lambda>d. map_of (h_files h) d \<noteq> None) (ancestors p) then (Some (h_errno h p), h)
     else (case f of
         Works \<Rightarrow> (None, h\<lparr>h_dirs := new @ h_dirs h\<rparr>)
       | Refused \<Rightarrow> (Some (h_errno h p), h)
       | Torn n \<Rightarrow> (Some (h_errno h p), h\<lparr>h_dirs := take n new @ h_dirs h\<rparr>)))"

text \<open>\<open>os.RemoveAll\<close>: what does not exist is no error. A torn call has removed some of the files.\<close>

fun remove_some :: "nat \<Rightarrow> ('a \<Rightarrow> bool) \<Rightarrow> 'a list \<Rightarrow> 'a list" where
  "remove_some 0 p xs = xs"
| "remove_some n p [] = []"
| "remove_some (Suc n) p (x # xs) = (if p x then remove_some n p xs else x # remove_some (Suc n) p xs)"

definition remove_all :: "string \<Rightarrow> ('x host, string option) prog" where
  "remove_all p = io (\<lambda>f h.
     case f of
         Works \<Rightarrow> (None, h\<lparr>h_files := filter (\<lambda>x. \<not> below p (fst x)) (h_files h),
           h_dirs := filter (\<lambda>d. \<not> below p d) (h_dirs h)\<rparr>)
       | Refused \<Rightarrow> (Some (h_errno h p), h)
       | Torn n \<Rightarrow> (Some (h_errno h p), h\<lparr>h_files := remove_some n (\<lambda>x. below p (fst x)) (h_files h)\<rparr>))"

text \<open>\<open>os.Stat\<close> succeeds.\<close>

definition stat_ok :: "string \<Rightarrow> ('x host, bool) prog" where
  "stat_ok p = io (\<lambda>f h. (f = Works \<and> (is_dir h p \<or> map_of (h_files h) p \<noteq> None), h))"

text \<open>\<open>filepath.Glob\<close> for the pattern \<open>dir/pre*suf\<close>, where no part holds a character of patterns: the first match
  in the order of names, if there is one. Errors of the directory are no matches.\<close>

definition glob_names :: "string \<Rightarrow> string \<Rightarrow> string \<Rightarrow> 'x host \<Rightarrow> string list" where
  "glob_names dir pre suf h = filter (\<lambda>p. parent p = dir \<and> has_prefix (path_base p) pre \<and> has_suffix (path_base p) suf
     \<and> length pre + length suf \<le> length (path_base p)) (map fst (h_files h) @ h_dirs h)"

definition glob_first :: "string \<Rightarrow> string \<Rightarrow> string \<Rightarrow> ('x host, string option) prog" where
  "glob_first dir pre suf = io (\<lambda>f h.
     (if f = Works then (case sort (glob_names dir pre suf h) of [] \<Rightarrow> None | p # ps \<Rightarrow> Some p) else None, h))"

section \<open>Commands\<close>

record cmd_result =
  cr_stdout :: string
  cr_combined :: string
  cr_error :: "string option"

end
