(* ===== verification/Chasquid_Agent.thy ===== *)
theory Chasquid_Agent
  imports Go_HTTP Go_Files
begin

text \<open>
  \<open>cmd/chasquid-agent/main.go\<close>, the sidecar of the mail server: it edits the configuration of the server on its
  host, runs \<open>chasquid-util\<close> and signals the daemon, behind an HTTP interface guarded by a token. An answer is its
  status and its body. The commands and the error texts of the JSON decoder are arguments (\<open>agent_env\<close>).
\<close>

record agent =
  ag_token :: string
  ag_conf :: string
  ag_util :: string
  ag_daemon :: string

text \<open>\<open>ae_run\<close>: the added environment, the program and its arguments.\<close>

record 'x agent_env =
  ae_run :: "(string \<times> string) list \<Rightarrow> string \<Rightarrow> string list \<Rightarrow> ('x host, cmd_result) prog"
  ae_decode_error :: "string \<Rightarrow> string"

type_synonym agent_answer = "nat \<times> string"

definition eol :: string where "eol = [chr_of 10]"

definition trunc :: "string \<Rightarrow> nat \<Rightarrow> string" where
  "trunc s n = (if length s \<le> n then s else take n s @ ''...'')"

definition writeOK :: "(string \<times> string) list \<Rightarrow> agent_answer" where
  "writeOK ms = (200, json_object ms @ eol)"

definition writeErr :: "nat \<Rightarrow> string \<Rightarrow> agent_answer" where
  "writeErr status msg = (status, json_object [(''error'', json_string msg)] @ eol)"

definition ok_answer :: agent_answer where
  "ok_answer = writeOK [(''ok'', json_bool True)]"

section \<open>Requests\<close>

record agent_req =
  aq_domain :: string
  aq_address :: string
  aq_password :: string
  aq_local :: string
  aq_destinations :: "string list"
  aq_allowed :: "string list"

definition decode_req :: "string \<Rightarrow> agent_req option" where
  "decode_req body =
    Option.bind (Option.bind (first_value body) members_of) (\<lambda>ms.
      (case (string_field ''domain'' ms, string_field ''address'' ms, string_field ''password'' ms,
          string_field ''local'' ms, strings_field ''destinations'' ms, strings_field ''allowed_from_addresses'' ms) of
         (Some d, Some a, Some p, Some l, Some ds, Some fs) \<Rightarrow>
           Some \<lparr>aq_domain = d, aq_address = a, aq_password = p, aq_local = l, aq_destinations = ds, aq_allowed = fs\<rparr>
       | _ \<Rightarrow> None))"

text \<open>\<open>readReq\<close> with the check every handler makes of its key: an empty key ends the handler without an answer of
  its own, which the server sends as status 200 with no body.\<close>

definition with_req :: "'x agent_env \<Rightarrow> string \<Rightarrow> (agent_req \<Rightarrow> string) \<Rightarrow> (agent_req \<Rightarrow> ('x host, agent_answer) prog)
    \<Rightarrow> ('x host, agent_answer) prog" where
  "with_req env body key k =
    (case decode_req body of
       None \<Rightarrow> ret (writeErr 400 (''bad request: '' @ ae_decode_error env body))
     | Some rq \<Rightarrow> if key rq = [] then ret (200, []) else k rq)"

section \<open>Commands\<close>

definition utilCmd :: "'x agent_env \<Rightarrow> agent \<Rightarrow> string list \<Rightarrow> ('x host, cmd_result) prog" where
  "utilCmd env ag args = ae_run env [(''CHASQUID_CONFIG_DIR'', ag_conf ag)] (ag_util ag) args"

definition daemonPattern :: string where "daemonPattern = ''chasquid -config_dir''"

definition daemonRunning :: "'x agent_env \<Rightarrow> ('x host, bool) prog" where
  "daemonRunning env = do {
     r \<leftarrow> ae_run env [] ''pgrep'' [''-f'', daemonPattern];
     ret (cr_error r = None \<and> cr_stdout r \<noteq> []) }"

text \<open>The text of an error, or \<open>None\<close>.\<close>

definition signalDaemon :: "'x agent_env \<Rightarrow> agent \<Rightarrow> ('x host, string option) prog" where
  "signalDaemon env ag = do {
     r \<leftarrow> ae_run env [] ''pkill'' [''-sighup'', ''-f'', daemonPattern];
     ret (case cr_error r of
         None \<Rightarrow> None
       | Some e \<Rightarrow> if contains (cr_combined r) ''No matching processes'' then None
           else Some (''signal '' @ ag_daemon ag @ '': '' @ e @ '' ('' @ trunc (cr_combined r) 200 @ '')'')) }"

definition run_util :: "'x agent_env \<Rightarrow> agent \<Rightarrow> string list \<Rightarrow> ('x host, string option) prog" where
  "run_util env ag args = do {
     r \<leftarrow> utilCmd env ag args;
     ret (map_option (\<lambda>e. trunc (cr_combined r @ '' '' @ e) 300) (cr_error r)) }"

section \<open>Health, reload, restart\<close>

definition handleHealth :: "'x agent_env \<Rightarrow> agent \<Rightarrow> ('x host, agent_answer) prog" where
  "handleHealth env ag = do {
     r \<leftarrow> utilCmd env ag [''print-config''];
     (case cr_error r of
        Some e \<Rightarrow> ret (writeErr 503 (''config invalid: '' @ trunc e 200))
      | None \<Rightarrow> do {
          up \<leftarrow> daemonRunning env;
          ret (if up then ok_answer else writeErr 503 ''daemon not running'') }) }"

definition handleReload :: "'x agent_env \<Rightarrow> agent \<Rightarrow> ('x host, agent_answer) prog" where
  "handleReload env ag = do {
     e \<leftarrow> signalDaemon env ag;
     ret (case e of Some e \<Rightarrow> writeErr 500 e | None \<Rightarrow> ok_answer) }"

definition handleRestart :: "'x agent_env \<Rightarrow> agent \<Rightarrow> ('x host, agent_answer) prog" where
  "handleRestart env ag = do {
     ae_run env [] ''pkill'' [''-TERM'', ''-f'', daemonPattern];
     ret ok_answer }"

section \<open>Domains\<close>

definition domain_dir :: "agent \<Rightarrow> string \<Rightarrow> string" where
  "domain_dir ag d = path_join [ag_conf ag, ''domains'', d]"

definition handleEnsureDomain :: "'x agent_env \<Rightarrow> agent \<Rightarrow> string \<Rightarrow> ('x host, agent_answer) prog" where
  "handleEnsureDomain env ag body = with_req env body aq_domain (\<lambda>rq. do {
     e \<leftarrow> mkdir_all (domain_dir ag (aq_domain rq));
     ret (case e of Some e \<Rightarrow> writeErr 500 e
        | None \<Rightarrow> writeOK [(''domain_dir'', json_string (domain_dir ag (aq_domain rq))), (''ok'', json_bool True)]) })"

definition handleRemoveDomain :: "'x agent_env \<Rightarrow> agent \<Rightarrow> string \<Rightarrow> ('x host, agent_answer) prog" where
  "handleRemoveDomain env ag body = with_req env body aq_domain (\<lambda>rq. do {
     e \<leftarrow> remove_all (domain_dir ag (aq_domain rq));
     ret (case e of Some e \<Rightarrow> writeErr 500 e | None \<Rightarrow> ok_answer) })"

text \<open>\<open>fmt.Sscanf\<close> of the count, for the ASCII output of the tool: the number of users after the fixed text.\<close>

definition blank :: "char \<Rightarrow> bool" where
  "blank c \<longleftrightarrow> ascii_space (byte c) \<and> byte c \<noteq> 10"

definition scan_word :: "string \<Rightarrow> string \<Rightarrow> string option" where
  "scan_word w s = (if has_prefix s w then Some (drop (length w) s) else None)"

definition scan_blank :: "string \<Rightarrow> string option" where
  "scan_blank s = (case s of [] \<Rightarrow> Some []
     | c # r \<Rightarrow> if blank c then Some (dropWhile blank r) else None)"

definition scan_count :: "string \<Rightarrow> (int \<times> string) option" where
  "scan_count s =
    (let t = dropWhile blank s;
         (neg, u) = (case t of c # r \<Rightarrow> if c = CHR ''-'' then (True, r) else if c = CHR ''+'' then (False, r)
            else (False, t) | [] \<Rightarrow> (False, t));
         (ds, r) = digits u; v = (if neg then - digit_value ds else digit_value ds)
     in if ds = [] \<or> v < - (2 ^ 63) \<or> 2 ^ 63 \<le> v then None else Some (v, r))"

definition scan_users :: "string \<Rightarrow> int option" where
  "scan_users out = do {
     a \<leftarrow> scan_word ''Database'' out;
     b \<leftarrow> scan_blank a;
     c \<leftarrow> scan_word ''loaded'' b;
     d \<leftarrow> scan_blank c;
     e \<leftarrow> scan_word ''('' d;
     (n, f) \<leftarrow> scan_count e;
     g \<leftarrow> scan_blank f;
     h \<leftarrow> scan_word ''users)'' g;
     Some n }"

definition alias_path :: "agent \<Rightarrow> string \<Rightarrow> string" where
  "alias_path ag d = path_join [ag_conf ag, ''domains'', d, ''aliases'']"

definition handleCheckDomain :: "'x agent_env \<Rightarrow> agent \<Rightarrow> string \<Rightarrow> ('x host, agent_answer) prog" where
  "handleCheckDomain env ag body = with_req env body aq_domain (\<lambda>rq. do {
     r \<leftarrow> utilCmd env ag [''check-userdb'', aq_domain rq];
     b \<leftarrow> read_file (alias_path ag (aq_domain rq));
     there \<leftarrow> stat_ok (domain_dir ag (aq_domain rq));
     (let users = (if cr_error r = None then (case scan_users (cr_stdout r) of None \<Rightarrow> 0 | Some n \<Rightarrow> n) else 0);
          aliases = (case b of None \<Rightarrow> 0
            | Some c \<Rightarrow> length (filter (\<lambda>ln. trim_space ln \<noteq> []) (split_on (chr_of 10) c))) in
      ret (writeOK [(''aliases'', show_nat aliases), (''exists'', json_bool there), (''users'', show_int users)])) })"

section \<open>Users\<close>

definition handleAddUser :: "'x agent_env \<Rightarrow> agent \<Rightarrow> string \<Rightarrow> ('x host, agent_answer) prog" where
  "handleAddUser env ag body = with_req env body aq_address (\<lambda>rq. do {
     e \<leftarrow> run_util env ag [''user-add'', aq_address rq, ''--password='' @ aq_password rq];
     (case e of
        Some e \<Rightarrow> ret (writeErr 422 e)
      | None \<Rightarrow> do { signalDaemon env ag; ret ok_answer }) })"

definition handleRemoveUser :: "'x agent_env \<Rightarrow> agent \<Rightarrow> string \<Rightarrow> ('x host, agent_answer) prog" where
  "handleRemoveUser env ag body = with_req env body aq_address (\<lambda>rq. do {
     e \<leftarrow> run_util env ag [''user-remove'', aq_address rq];
     (case e of
        Some e \<Rightarrow> ret (writeErr 422 e)
      | None \<Rightarrow> do { signalDaemon env ag; ret ok_answer }) })"

definition handleChangePassword :: "'x agent_env \<Rightarrow> agent \<Rightarrow> string \<Rightarrow> ('x host, agent_answer) prog" where
  "handleChangePassword env ag body = with_req env body aq_address (\<lambda>rq. do {
     utilCmd env ag [''user-remove'', aq_address rq];
     e \<leftarrow> run_util env ag [''user-add'', aq_address rq, ''--password='' @ aq_password rq];
     (case e of
        Some e \<Rightarrow> ret (writeErr 422 e)
      | None \<Rightarrow> do { signalDaemon env ag; ret ok_answer }) })"

text \<open>A line of the user database that names the local part.\<close>

definition user_line :: "string \<Rightarrow> string \<Rightarrow> bool" where
  "user_line local ln =
    (case cut_at CHR '':'' ln of (key, rest, ok) \<Rightarrow>
       ok \<and> trim_space key = ''key'' \<and> contains rest ([dquote] @ local @ [dquote]))"

definition handleUserExists :: "'x agent_env \<Rightarrow> agent \<Rightarrow> string \<Rightarrow> ('x host, agent_answer) prog" where
  "handleUserExists env ag body = with_req env body aq_address (\<lambda>rq.
     (case cut_at CHR ''@'' (aq_address rq) of (local, after, ok) \<Rightarrow>
        if \<not> ok then ret (writeErr 400 ''address must be user@domain'')
        else do {
          b \<leftarrow> read_file (path_join [ag_conf ag, ''domains'', split_on CHR ''@'' (aq_address rq) ! 1, ''users'']);
          ret (case b of
              None \<Rightarrow> writeOK [(''exists'', json_bool False)]
            | Some c \<Rightarrow> writeOK [(''exists'',
                json_bool (list_ex (user_line local) (split_on (chr_of 10) c)))]) }))"

section \<open>Aliases\<close>

text \<open>\<open>strings.EqualFold\<close>, exact when one of the texts is ASCII, as the local parts of the platform are.\<close>

definition fold_eq :: "string \<Rightarrow> string \<Rightarrow> bool" where
  "fold_eq s t \<longleftrightarrow> fold_key s = fold_key t"

text \<open>The lines that \<open>setAlias\<close> keeps: trimmed, no blank ones, and not those of the local part.\<close>

fun kept_lines :: "string \<Rightarrow> string list \<Rightarrow> string list" where
  "kept_lines local [] = []"
| "kept_lines local (ln # lns) =
    (let trimmed = trim_space ln in
     if trimmed = [] then kept_lines local lns
     else (case cut_at CHR '':'' trimmed of (key, rest, ok) \<Rightarrow>
        if ok \<and> fold_eq (trim_space key) local then kept_lines local lns
        else trimmed # kept_lines local lns))"

definition alias_text :: "string \<Rightarrow> string \<Rightarrow> string list \<Rightarrow> string" where
  "alias_text old local dests =
    (let ls = kept_lines local (split_on (chr_of 10) old) in
     join_with eol (if dests = [] then ls else ls @ [local @ '': '' @ join_with '', '' dests]) @ eol)"

definition setAlias :: "agent \<Rightarrow> string \<Rightarrow> string \<Rightarrow> string list \<Rightarrow> ('x host, string option) prog" where
  "setAlias ag d local dests = do {
     b \<leftarrow> read_file (alias_path ag d);
     write_file (alias_path ag d) (alias_text (case b of None \<Rightarrow> [] | Some c \<Rightarrow> c) local dests) }"

definition removeAliasLine :: "agent \<Rightarrow> string \<Rightarrow> string \<Rightarrow> ('x host, unit) prog" where
  "removeAliasLine ag d local = do { setAlias ag d local []; ret () }"

definition handleEnsureAlias :: "'x agent_env \<Rightarrow> agent \<Rightarrow> string \<Rightarrow> ('x host, agent_answer) prog" where
  "handleEnsureAlias env ag body = with_req env body aq_domain (\<lambda>rq. do {
     e \<leftarrow> setAlias ag (aq_domain rq) (aq_local rq) (aq_destinations rq);
     (case e of
        Some e \<Rightarrow> ret (writeErr 500 e)
      | None \<Rightarrow> do {
          s \<leftarrow> signalDaemon env ag;
          ret (case s of Some e \<Rightarrow> writeErr 500 e | None \<Rightarrow> ok_answer) }) })"

definition handleRemoveAlias :: "'x agent_env \<Rightarrow> agent \<Rightarrow> string \<Rightarrow> ('x host, agent_answer) prog" where
  "handleRemoveAlias env ag body = with_req env body aq_domain (\<lambda>rq. do {
     removeAliasLine ag (aq_domain rq) (aq_local rq);
     signalDaemon env ag;
     ret ok_answer })"

section \<open>Sender policies and the hook that enforces them\<close>

definition handleEnsurePolicy :: "'x agent_env \<Rightarrow> agent \<Rightarrow> string \<Rightarrow> ('x host, agent_answer) prog" where
  "handleEnsurePolicy env ag body = with_req env body aq_address (\<lambda>rq.
     let dir = path_join [ag_conf ag, ''policies''] in do {
       e \<leftarrow> mkdir_all dir;
       (case e of
          Some e \<Rightarrow> ret (writeErr 500 e)
        | None \<Rightarrow> do {
            f \<leftarrow> write_file (path_join [dir, aq_address rq]) (concat (map (\<lambda>a. a @ eol) (aq_allowed rq)));
            ret (case f of Some e \<Rightarrow> writeErr 500 e | None \<Rightarrow> ok_answer) }) })"

definition postDataHookScript :: string where
  "postDataHookScript = concat (map (\<lambda>l. l @ eol)
    [''#!/bin/sh'',
     ''# Generated by the selfu platform. Sender authorization (spec '' @ [chr_of 0xC2, chr_of 0xA7] @ ''47-50):'',
     ''# an authenticated user may only send as addresses granted in its policy.'',
     ''[ -n '' @ [dquote] @ ''$AUTH_AS'' @ [dquote] @ '' ] || exit 0'',
     ''policy='' @ [dquote] @ ''/etc/chasquid/policies/$AUTH_AS'' @ [dquote],
     ''if [ -f '' @ [dquote] @ ''$policy'' @ [dquote] @ '' ]; then'',
     ''  if grep -Fxq '' @ [dquote] @ ''$MAIL_FROM'' @ [dquote] @ '' '' @ [dquote] @ ''$policy'' @ [dquote] @ ''; then'',
     ''    exit 0'',
     ''  fi'',
     ''  domain='' @ [dquote] @ ''${MAIL_FROM##*@}'' @ [dquote],
     ''  if [ -n '' @ [dquote] @ ''$domain'' @ [dquote] @ '' ] && grep -Fxq '' @ [dquote] @ ''@$domain'' @ [dquote]
       @ '' '' @ [dquote] @ ''$policy'' @ [dquote] @ ''; then'',
     ''    exit 0'',
     ''  fi'',
     ''fi'',
     ''echo '' @ [dquote] @ ''5.7.1 Sender not authorized for this identity'' @ [dquote],
     ''exit 20''])"

definition ensureHook :: "agent \<Rightarrow> ('x host, string option) prog" where
  "ensureHook ag =
    (let hooksDir = path_join [ag_conf ag, ''hooks''] in do {
       e \<leftarrow> mkdir_all hooksDir;
       (case e of
          Some e \<Rightarrow> ret (Some e)
        | None \<Rightarrow> do {
            there \<leftarrow> stat_ok (path_join [hooksDir, ''post-data'']);
            (if there then ret None else write_file (path_join [hooksDir, ''post-data'']) postDataHookScript) }) })"

section \<open>DKIM\<close>

definition dkimRecord :: "string \<Rightarrow> string" where
  "dkimRecord out =
    (case find (\<lambda>l. contains l ''v=DKIM1'') (map trim_space (split_on (chr_of 10) out)) of
       Some l \<Rightarrow> l | None \<Rightarrow> trim_space out)"

definition dkim_key :: "agent \<Rightarrow> string \<Rightarrow> ('x host, string option) prog" where
  "dkim_key ag d = glob_first (domain_dir ag d) ''dkim:'' ''.pem''"

text \<open>The answer once a key must be there.\<close>

definition dkim_answer :: "agent \<Rightarrow> string \<Rightarrow> string \<Rightarrow> ('x host, agent_answer) prog" where
  "dkim_answer ag d record = do {
     m \<leftarrow> dkim_key ag d;
     ret (case m of
         None \<Rightarrow> writeErr 500 ''no DKIM key after keygen''
       | Some p \<Rightarrow> writeOK
           [(''record'', json_string (if record = [] then ''(key already present; re-run keygen output not available)''
              else record)),
            (''selector'', json_string (trim_suffix (trim_prefix (path_base p) ''dkim:'') ''.pem''))]) }"

definition handleEnsureDKIM :: "'x agent_env \<Rightarrow> agent \<Rightarrow> string \<Rightarrow> ('x host, agent_answer) prog" where
  "handleEnsureDKIM env ag body = with_req env body aq_domain (\<lambda>rq. do {
     m \<leftarrow> dkim_key ag (aq_domain rq);
     (if m \<noteq> None then dkim_answer ag (aq_domain rq) []
      else do {
        r \<leftarrow> utilCmd env ag [''dkim-keygen'', aq_domain rq];
        (case cr_error r of
           Some e \<Rightarrow> ret (writeErr 500 (''dkim-keygen: '' @ trunc (cr_combined r @ '' '' @ e) 300))
         | None \<Rightarrow> dkim_answer ag (aq_domain rq) (dkimRecord (cr_combined r))) }) })"

section \<open>The server\<close>

definition no_method :: agent_answer where "no_method = (405, ''Method Not Allowed'' @ eol)"

text \<open>The routes of \<open>main\<close>: method and path.\<close>

definition agent_routes :: "'x agent_env \<Rightarrow> agent \<Rightarrow> string \<Rightarrow> string \<Rightarrow> string \<Rightarrow> ('x host, agent_answer) prog" where
  "agent_routes env ag meth path body =
    (let on_post = (\<lambda>h. if meth = ''POST'' then h env ag body else ret no_method);
         both = (\<lambda>h g. if meth = ''POST'' then h env ag body else if meth = ''DELETE'' then g env ag body
           else ret no_method)
     in if path = ''/healthz'' then (if meth = ''GET'' \<or> meth = ''HEAD'' then handleHealth env ag else ret no_method)
     else if path = ''/api/v1/domain'' then both handleEnsureDomain handleRemoveDomain
     else if path = ''/api/v1/user'' then both handleAddUser handleRemoveUser
     else if path = ''/api/v1/user/password'' then on_post handleChangePassword
     else if path = ''/api/v1/alias'' then both handleEnsureAlias handleRemoveAlias
     else if path = ''/api/v1/policy'' then on_post handleEnsurePolicy
     else if path = ''/api/v1/dkim'' then on_post handleEnsureDKIM
     else if path = ''/api/v1/domain/check'' then on_post handleCheckDomain
     else if path = ''/api/v1/user/exists'' then on_post handleUserExists
     else if path = ''/api/v1/reload'' then on_post (\<lambda>env ag body. handleReload env ag)
     else if path = ''/api/v1/restart'' then on_post (\<lambda>env ag body. handleRestart env ag)
     else ret (404, ''404 page not found'' @ eol))"

text \<open>\<open>auth\<close>: the first value of the header, empty when there is none.\<close>

definition agent_auth :: "agent \<Rightarrow> (string \<times> string) list \<Rightarrow> ('x host, agent_answer) prog \<Rightarrow> ('x host, agent_answer) prog" where
  "agent_auth ag headers next =
    (if (case map_of headers ''X-Agent-Token'' of None \<Rightarrow> [] | Some t \<Rightarrow> t) \<noteq> ag_token ag
     then ret (writeErr 401 ''unauthorized'') else next)"

definition agent_serve :: "'x agent_env \<Rightarrow> agent \<Rightarrow> string \<Rightarrow> string \<Rightarrow> (string \<times> string) list \<Rightarrow> string
    \<Rightarrow> ('x host, agent_answer) prog" where
  "agent_serve env ag meth path headers body = agent_auth ag headers (agent_routes env ag meth path body)"

text \<open>The start of \<open>main\<close>: without a token the process ends.\<close>

definition agent_getenv :: "(string \<Rightarrow> string) \<Rightarrow> string \<Rightarrow> string \<Rightarrow> string" where
  "agent_getenv env k def = (if env k \<noteq> [] then env k else def)"

definition new_agent :: "(string \<Rightarrow> string) \<Rightarrow> agent option" where
  "new_agent env =
    (if env ''CHASQUID_AGENT_TOKEN'' = [] then None
     else Some \<lparr>ag_token = env ''CHASQUID_AGENT_TOKEN'',
       ag_conf = agent_getenv env ''CHASQUID_CONFIG_DIR'' ''/etc/chasquid'',
       ag_util = agent_getenv env ''CHASQUID_UTIL_BIN'' ''chasquid-util'',
       ag_daemon = agent_getenv env ''CHASQUID_BIN'' ''chasquid''\<rparr>)"

end
