(* ===== verification/Chasquid_Client.thy ===== *)
theory Chasquid_Client
  imports Chasquid_Agent Provision_Mail
begin

text \<open>
  The client of the sidecar, \<open>internal/chasquid/chasquid.go\<close>: each method of the controller is one request. The last
  section joins client and agent: an HTTP client that hands its requests to the agent of a host.
\<close>

definition truncate_msg :: "string \<Rightarrow> nat \<Rightarrow> string" where
  "truncate_msg s n = (if length s \<le> n then s else take n s @ ''...'')"

text \<open>\<open>AgentClient\<close>: where the sidecar is and the token. \<open>NewAgentClient\<close> drops one trailing slash.\<close>

record agent_client =
  acl_base :: string
  acl_token :: string

definition NewAgentClient :: "string \<Rightarrow> string \<Rightarrow> agent_client" where
  "NewAgentClient base token = \<lparr>acl_base = trim_suffix base ''/'', acl_token = token\<rparr>"

text \<open>\<open>doInto\<close> up to the decoding: the text of an error, or the body of the answer, cut at 64 KiB.\<close>

definition agent_call :: "'x http_client \<Rightarrow> agent_client \<Rightarrow> string \<Rightarrow> string \<Rightarrow> string option
    \<Rightarrow> ('x, string + string) prog" where
  "agent_call hc c meth path body = do {
     r \<leftarrow> hc_do hc \<lparr>hr_method = meth, hr_url = acl_base c @ path,
       hr_headers = (''X-Agent-Token'', acl_token c) # content_type body, hr_body = body\<rparr>;
     ret (case r of
         Inl e \<Rightarrow> Inl (''chasquid-agent '' @ meth @ '' '' @ path @ '': '' @ e)
       | Inr (status, b) \<Rightarrow>
           let data = take 65536 b in
           if 300 \<le> status
           then Inl (''chasquid-agent '' @ meth @ '' '' @ path @ '': status '' @ show_nat status @ '': ''
             @ truncate_msg data 250)
           else Inr data) }"

text \<open>\<open>do\<close>: the text of an error, or \<open>None\<close>.\<close>

definition agent_do :: "'x http_client \<Rightarrow> agent_client \<Rightarrow> string \<Rightarrow> string \<Rightarrow> string option
    \<Rightarrow> ('x, string option) prog" where
  "agent_do hc c meth path body = do {
     r \<leftarrow> agent_call hc c meth path body;
     ret (case r of Inl e \<Rightarrow> Some e | Inr d \<Rightarrow> None) }"

text \<open>\<open>doInto\<close>: an empty answer leaves the struct as it is, with zero values.\<close>

definition agent_into :: "'x http_client \<Rightarrow> agent_client \<Rightarrow> string \<Rightarrow> string \<Rightarrow> string option
    \<Rightarrow> ((string \<times> json) list \<Rightarrow> 'a option) \<Rightarrow> ('x, string + 'a) prog" where
  "agent_into hc c meth path body f = do {
     r \<leftarrow> agent_call hc c meth path body;
     ret (case r of
         Inl e \<Rightarrow> Inl e
       | Inr data \<Rightarrow>
           (case (if data = [] then Some [] else Option.bind (parse_json data) members_of) of
              None \<Rightarrow> Inl (hc_decode_error hc data)
            | Some ms \<Rightarrow> (case f ms of None \<Rightarrow> Inl (hc_decode_error hc data) | Some x \<Rightarrow> Inr x))) }"

definition json_domain :: "string \<Rightarrow> string option" where
  "json_domain d = Some (json_object [(''domain'', json_string d)])"

definition json_address :: "string \<Rightarrow> string option" where
  "json_address a = Some (json_object [(''address'', json_string a)])"

definition json_account :: "string \<Rightarrow> string \<Rightarrow> string option" where
  "json_account a p = Some (json_object [(''address'', json_string a), (''password'', json_string p)])"

definition json_alias :: "string \<Rightarrow> string \<Rightarrow> string list \<Rightarrow> string option" where
  "json_alias d local dests = Some (json_object [(''destinations'', json_strings dests),
     (''domain'', json_string d), (''local'', json_string local)])"

definition json_alias_key :: "string \<Rightarrow> string \<Rightarrow> string option" where
  "json_alias_key d local = Some (json_object [(''domain'', json_string d), (''local'', json_string local)])"

definition json_policy :: "string \<Rightarrow> string list \<Rightarrow> string option" where
  "json_policy a from_addrs = Some (json_object [(''address'', json_string a),
     (''allowed_from_addresses'', json_strings from_addrs)])"

definition dkim_of :: "(string \<times> json) list \<Rightarrow> dkim_info option" where
  "dkim_of ms = (case (string_field ''selector'' ms, string_field ''record'' ms) of
     (Some s, Some r) \<Rightarrow> Some \<lparr>dk_selector = s, dk_record = r\<rparr> | _ \<Rightarrow> None)"

definition state_of :: "(string \<times> json) list \<Rightarrow> domain_state option" where
  "state_of ms = (case (bool_field ''exists'' ms, int64_field ''users'' ms, int64_field ''aliases'' ms) of
     (Some e, Some u, Some a) \<Rightarrow> Some \<lparr>ds_exists = e, ds_users = u, ds_aliases = a\<rparr> | _ \<Rightarrow> None)"

definition worked :: "('x, string option) prog \<Rightarrow> ('x, bool) prog" where
  "worked m = do { e \<leftarrow> m; ret (e = None) }"

definition fetched :: "('x, string + 'a) prog \<Rightarrow> ('x, 'a option) prog" where
  "fetched m = do { r \<leftarrow> m; ret (case r of Inl e \<Rightarrow> None | Inr x \<Rightarrow> Some x) }"

definition AgentClient :: "'x http_client \<Rightarrow> agent_client \<Rightarrow> 'x chasquid" where
  "AgentClient hc c = \<lparr>
     cq_add_user = (\<lambda>a p. worked (agent_do hc c ''POST'' ''/api/v1/user'' (json_account a p))),
     cq_remove_user = (\<lambda>a. worked (agent_do hc c ''DELETE'' ''/api/v1/user'' (json_address a))),
     cq_change_password = (\<lambda>a p. worked (agent_do hc c ''POST'' ''/api/v1/user/password'' (json_account a p))),
     cq_ensure_domain = (\<lambda>d. worked (agent_do hc c ''POST'' ''/api/v1/domain'' (json_domain d))),
     cq_remove_domain = (\<lambda>d. worked (agent_do hc c ''DELETE'' ''/api/v1/domain'' (json_domain d))),
     cq_ensure_alias = (\<lambda>d l ds. worked (agent_do hc c ''POST'' ''/api/v1/alias'' (json_alias d l ds))),
     cq_remove_alias = (\<lambda>d l. worked (agent_do hc c ''DELETE'' ''/api/v1/alias'' (json_alias_key d l))),
     cq_ensure_sender_policy = (\<lambda>a fs. worked (agent_do hc c ''POST'' ''/api/v1/policy'' (json_policy a fs))),
     cq_ensure_dkim = (\<lambda>d. fetched (agent_into hc c ''POST'' ''/api/v1/dkim'' (json_domain d) dkim_of)),
     cq_check_domain = (\<lambda>d. fetched (agent_into hc c ''POST'' ''/api/v1/domain/check'' (json_domain d) state_of)),
     cq_user_exists = (\<lambda>a. fetched (agent_into hc c ''POST'' ''/api/v1/user/exists'' (json_address a)
       (bool_field ''exists''))),
     cq_reload = worked (agent_do hc c ''POST'' ''/api/v1/reload'' None),
     cq_restart = worked (agent_do hc c ''POST'' ''/api/v1/restart'' None),
     cq_status = do {
       e \<leftarrow> agent_do hc c ''GET'' ''/healthz'' None;
       ret (Some (case e of Some d \<Rightarrow> \<lparr>cs_healthy = False, cs_detail = d\<rparr>
         | None \<Rightarrow> \<lparr>cs_healthy = True, cs_detail = []\<rparr>)) }\<rparr>"

section \<open>Client and agent together\<close>

text \<open>A request reaches the agent when its URL starts with the address the agent listens at.\<close>

definition agent_http :: "'x agent_env \<Rightarrow> agent \<Rightarrow> string \<Rightarrow> 'x host http_client" where
  "agent_http env ag base = \<lparr>
     hc_do = (\<lambda>rq.
       if has_prefix (hr_url rq) base then do {
         r \<leftarrow> agent_serve env ag (hr_method rq) (drop (length base) (hr_url rq)) (hr_headers rq)
           (case hr_body rq of None \<Rightarrow> [] | Some b \<Rightarrow> b);
         ret (Inr r) }
       else ret (Inl ''no such host'')),
     hc_decode_error = ae_decode_error env\<rparr>"

end
