(* ===== verification/Go_HTTP_Lemmas.thy ===== *)
theory Go_HTTP_Lemmas
  imports Go_HTTP Go_JSON_Lemmas
begin

text \<open>What the clients marshal, the servers read back: slices of strings and truth values as members of objects.\<close>

lemma byte_open [simp]: "byte CHR ''['' = 91"
  by (simp add: byte_def)

lemma scans_bool: "scans (json_bool b) (JBool b)"
  by (cases b) (simp_all add: scans_def json_bool_def scan_value.simps scan_scalar_def literal_def skip_ws_id json_ws_def
      has_prefix_def byte_def)

text \<open>The elements of a marshalled slice.\<close>

lemma scan_elems_strings:
  assumes "ss \<noteq> []" and "list_all is_ascii ss" and "length (join_with '','' (map json_string ss)) + 1 < f"
  shows "scan_elems f d (join_with '','' (map json_string ss) @ CHR '']'' # r) = Some (map JStr ss, r)"
  using assms
proof (induction ss arbitrary: f)
  case (Cons s ss)
  note IH = Cons.IH and prems = Cons.prems
  from prems(3) obtain f' where f: "f = Suc (Suc f')" by (cases f; cases "f - 1") auto
  have "scan_string (Suc (Suc (length (json_body (map byte s)) + length q))) (json_body (map byte s) @ dquote # q)
      = Some (s, q)" for q
    by (rule scan_json_string) (use prems(2) length_json_string [of s] in simp_all)
  then have v: "scan_value (Suc f') d (json_string s @ q) = Some (JStr s, q)" for q
    by (simp add: scan_value.simps json_string_def scan_scalar_def del: scan_string.simps)
  have ws: "skip_ws (CHR '']'' # r) = CHR '']'' # r" by (simp add: skip_ws_id json_ws_def)
  show ?case
  proof (cases ss)
    case Nil
    with v ws show ?thesis by (simp add: f scan_elems.simps)
  next
    case (Cons t ts)
    have "scan_elems (Suc f') d (join_with '','' (map json_string ss) @ CHR '']'' # r) = Some (map JStr ss, r)"
      by (rule IH) (use Cons prems in \<open>auto simp: f json_string_def\<close>)
    with v Cons show ?thesis by (simp add: f scan_elems.simps)
  qed
qed simp

lemma scans_strings: "list_all is_ascii ss \<Longrightarrow> scans (json_strings ss) (JArr (map JStr ss))"
  unfolding scans_def
proof (intro allI impI)
  fix f d and r :: string
  assume a: "list_all is_ascii ss" and f: "length (json_strings ss) \<le> f" and d: "d < max_depth"
  show "scan_value (Suc f) d (json_strings ss @ r) = Some (JArr (map JStr ss), r)"
  proof (cases ss)
    case Nil
    with d show ?thesis by (simp add: scan_value.simps json_strings_def json_array_def skip_ws_id json_ws_def)
  next
    case (Cons s ts)
    obtain q where q: "join_with '','' (map json_string ss) @ CHR '']'' # r = dquote # q"
      using Cons by (cases ts) (auto simp: json_string_def)
    have "scan_elems f (Suc d) (join_with '','' (map json_string ss) @ CHR '']'' # r) = Some (map JStr ss, r)"
      by (rule scan_elems_strings) (use Cons a f in \<open>auto simp: json_strings_def json_array_def\<close>)
    with q d show ?thesis
      by (simp add: scan_value.simps json_strings_def json_array_def skip_ws_id json_ws_def)
  qed
qed

end
