(* ===== verification/Keyed_Table.thy ===== *)
theory Keyed_Table
  imports Selfu_Prelude "HOL-Library.Multiset"
begin

text \<open>
  The contract of a service that keeps a table under keys and takes one entry with a call: the client sees a finite map,
  whatever the service keeps it in. What a client may conclude about a series of calls is proved once from the contract.
\<close>

text \<open>The answers to a series of calls, in order.\<close>

primrec puts :: "('k \<Rightarrow> 'v \<Rightarrow> ('s, bool) prog) \<Rightarrow> ('k \<times> 'v) list \<Rightarrow> ('s, bool list) prog" where
  "puts put [] = ret []"
| "puts put (kv # kvs) = do { b \<leftarrow> put (fst kv) (snd kv); bs \<leftarrow> puts put kvs; ret (b # bs) }"

text \<open>The table after a series, from the table before.\<close>

definition put_entries :: "('k \<Rightarrow> 'q) \<Rightarrow> ('v \<Rightarrow> 'r option) \<Rightarrow> ('k \<times> 'v) list \<Rightarrow> ('q \<rightharpoonup> 'r) \<Rightarrow> 'q \<rightharpoonup> 'r" where
  "put_entries key entry kvs t = fold (\<lambda>kv t. t(key (fst kv) := entry (snd kv))) kvs t"

lemma put_entries_simps [simp]:
  "put_entries key entry [] t = t"
  "put_entries key entry (kv # kvs) t = put_entries key entry kvs (t(key (fst kv) := entry (snd kv)))"
  by (simp_all add: put_entries_def)

lemma put_entries_other: "q \<notin> key ` fst ` set kvs \<Longrightarrow> put_entries key entry kvs t q = t q"
  by (induction kvs arbitrary: t) auto

lemma put_entries_covered:
  "q \<in> key ` fst ` set kvs \<Longrightarrow> put_entries key entry kvs t q = put_entries key entry kvs t' q"
proof (induction kvs arbitrary: t t')
  case (Cons kv kvs)
  then show ?case by (cases "q \<in> key ` fst ` set kvs") (auto simp: put_entries_other)
qed simp

text \<open>The last call for a key decides its entry.\<close>

lemma put_entries_last:
  "key k \<notin> key ` fst ` set kvs' \<Longrightarrow> put_entries key entry (kvs @ (k, v) # kvs') t (key k) = entry v"
  by (induction kvs arbitrary: t) (simp_all add: put_entries_other)

locale keyed_table =
  fixes put :: "'k \<Rightarrow> 'v \<Rightarrow> ('s, bool) prog" and table :: "'s \<Rightarrow> 'q \<rightharpoonup> 'r" and key :: "'k \<Rightarrow> 'q"
    and entry :: "'v \<Rightarrow> 'r option" and ready :: "'s \<Rightarrow> bool" and fits :: "'k \<Rightarrow> 'v \<Rightarrow> bool" and rest :: "'s \<Rightarrow> 'z"
  assumes put_law: "ready s \<Longrightarrow> fits k v \<Longrightarrow> \<exists>s'. run_state (put k v) s = (True, s') \<and> ready s'
    \<and> table s' = (table s)(key k := entry v) \<and> rest s' = rest s"
begin

lemma puts_law:
  "ready s \<Longrightarrow> list_all (\<lambda>kv. fits (fst kv) (snd kv)) kvs \<Longrightarrow> \<exists>s'. run_state (puts put kvs) s = (replicate (length kvs) True, s')
    \<and> ready s' \<and> table s' = put_entries key entry kvs (table s) \<and> rest s' = rest s"
proof (induction kvs arbitrary: s)
  case (Cons kv kvs)
  from put_law [OF Cons.prems(1), of "fst kv" "snd kv"] Cons.prems(2) obtain s1 where
    s1: "run_state (put (fst kv) (snd kv)) s = (True, s1)" "ready s1"
      "table s1 = (table s)(key (fst kv) := entry (snd kv))" "rest s1 = rest s" by auto
  from Cons.IH [OF s1(2)] Cons.prems(2) obtain s' where s': "run_state (puts put kvs) s1 = (replicate (length kvs) True, s')"
    "ready s'" "table s' = put_entries key entry kvs (table s1)" "rest s' = rest s1" by auto
  have "run_state (puts put (kv # kvs)) s = (replicate (length (kv # kvs)) True, s')" using s1(1) s'(1) by simp
  moreover have "table s' = put_entries key entry (kv # kvs) (table s)" unfolding s'(3) s1(3) by simp
  ultimately show ?case using s'(2,4) s1(4) by auto
qed simp

text \<open>A series that is repeated changes nothing more.\<close>

lemma puts_twice:
  assumes "ready s" and "list_all (\<lambda>kv. fits (fst kv) (snd kv)) kvs"
  shows "\<exists>s1 s2. run_state (puts put kvs) s = (replicate (length kvs) True, s1)
    \<and> run_state (puts put kvs) s1 = (replicate (length kvs) True, s2) \<and> table s2 = table s1"
proof -
  from puts_law [OF assms] obtain s1 where s1: "run_state (puts put kvs) s = (replicate (length kvs) True, s1)" "ready s1"
    "table s1 = put_entries key entry kvs (table s)" by blast
  from puts_law [OF s1(2) assms(2)] obtain s2 where s2: "run_state (puts put kvs) s1 = (replicate (length kvs) True, s2)"
    "table s2 = put_entries key entry kvs (table s1)" by blast
  have "table s2 q = table s1 q" for q
    using s1(3) s2(2) put_entries_covered [of q key kvs entry "table s1" "table s"] put_entries_other [of q key kvs entry]
    by (cases "q \<in> key ` fst ` set kvs") simp_all
  then have "table s2 = table s1" by blast
  with s1(1) s2(1) show ?thesis by blast
qed

end

end
