(* ===== verification/Chasquid_Lemmas.thy ===== *)
theory Chasquid_Lemmas
  imports Chasquid_Client Go_HTTP_Lemmas Keyed_Table
begin

text \<open>
  The alias file of a domain implements a table from local parts to destinations: what the platform asks of the
  sidecar changes that table at one place. The lemmas go from the lines of the file over the handlers of the agent to
  the calls of the client.
\<close>

section \<open>The table of an alias file\<close>

definition alias_entry :: "string \<Rightarrow> (nat list \<times> string) option" where
  "alias_entry ln =
    (case cut_at CHR '':'' (trim_space ln) of (key, rest, ok) \<Rightarrow>
       if ok then Some (fold_key (trim_space key), trim_space rest) else None)"

definition alias_entries :: "string list \<Rightarrow> (nat list \<times> string) list" where
  "alias_entries lns = List.map_filter alias_entry lns"

definition alias_table :: "string \<Rightarrow> nat list \<Rightarrow> string option" where
  "alias_table text = map_of (alias_entries (split_on (chr_of 10) text))"

definition plain_local :: "string \<Rightarrow> bool" where
  "plain_local l \<longleftrightarrow> l \<noteq> [] \<and> space_free l \<and> CHR '':'' \<notin> set l"

definition plain_dests :: "string list \<Rightarrow> bool" where
  "plain_dests ds \<longleftrightarrow> list_all (\<lambda>d. d \<noteq> [] \<and> space_free d) ds"

lemma alias_entries_simps [simp]:
  "alias_entries [] = []"
  "alias_entries (ln # lns) = (case alias_entry ln of None \<Rightarrow> alias_entries lns | Some e \<Rightarrow> e # alias_entries lns)"
  by (simp_all add: alias_entries_def List.map_filter_simps split: option.split)

lemma alias_entries_append: "alias_entries (xs @ ys) = alias_entries xs @ alias_entries ys"
  by (induction xs) (auto split: option.splits)

lemma alias_entry_trim [simp]: "alias_entry (trim_space ln) = alias_entry ln"
  by (simp add: alias_entry_def)

lemma alias_entry_Nil [simp]: "alias_entry [] = None"
  by (simp add: alias_entry_def)

lemma alias_entry_blank: "trim_space ln = [] \<Longrightarrow> alias_entry ln = None"
  by (simp add: alias_entry_def)

lemma kept_entries:
  "alias_entries (kept_lines local lns) = filter (\<lambda>e. fst e \<noteq> fold_key local) (alias_entries lns)"
proof (induction lns)
  case (Cons ln lns)
  show ?case
  proof (cases "trim_space ln = []")
    case True
    with Cons alias_entry_blank [OF True] show ?thesis by simp
  next
    case False
    obtain key rest ok where cut: "cut_at CHR '':'' (trim_space ln) = (key, rest, ok)" by (metis prod_cases3)
    then have "alias_entry ln = (if ok then Some (fold_key (trim_space key), trim_space rest) else None)"
      by (simp add: alias_entry_def)
    with Cons False cut show ?thesis by (simp add: fold_eq_def Let_def)
  qed
qed simp

lemma kept_lines_chars: "ln \<in> set (kept_lines local lns) \<Longrightarrow> \<exists>l \<in> set lns. set ln \<subseteq> set l"
proof (induction lns)
  case (Cons l lns)
  then show ?case
    using set_trim_space [of l] by (auto simp: Let_def split: if_splits prod.splits)
qed simp

lemma map_of_without: "map_of (filter (\<lambda>e. fst e \<noteq> k) es) = (map_of es)(k := None)"
  by (induction es) (auto simp: fun_eq_iff)

lemma map_of_snoc: "k \<notin> fst ` set es \<Longrightarrow> map_of (es @ [(k, v)]) = (map_of es)(k := Some v)"
  by (induction es) (auto simp: fun_eq_iff)

section \<open>The new line\<close>

lemma trim_space_blank: "trim_space (CHR '' '' # s) = trim_space s"
proof -
  have "space_width wide_spaces (map byte (CHR '' '' # s)) = 1"
    by (simp add: space_width_def ascii_space_def byte_def)
  then have "trim_left_space (CHR '' '' # s) = trim_left_space s"
    using drop_spaces_step [of "CHR '' '' # s" wide_spaces 0] by (simp add: trim_left_space_def)
  then show ?thesis by (simp add: trim_space_def)
qed

lemma space_free_ends:
  "space_free s \<Longrightarrow> s \<noteq> [] \<Longrightarrow> byte (hd s) < 128 \<and> \<not> ascii_space (byte (hd s))
    \<and> byte (last s) < 128 \<and> \<not> ascii_space (byte (last s))"
  by (simp add: space_free_def list_all_iff)

lemma join_ends:
  assumes "plain_dests ds" and "ds \<noteq> []"
  shows "join_with '', '' ds \<noteq> [] \<and> hd (join_with '', '' ds) = hd (hd ds) \<and> last (join_with '', '' ds) = last (last ds)"
  using assms
proof (induction ds)
  case (Cons d ds)
  then show ?case by (cases ds) (auto simp: plain_dests_def)
qed simp

lemma join_trim: "plain_dests ds \<Longrightarrow> trim_space (join_with '', '' ds) = join_with '', '' ds"
proof (cases "ds = []")
  case False
  assume p: "plain_dests ds"
  with False have "hd ds \<noteq> [] \<and> space_free (hd ds)" "last ds \<noteq> [] \<and> space_free (last ds)"
    by (simp_all add: plain_dests_def list_all_iff)
  then show ?thesis
    using join_ends [OF p False] space_free_ends by (intro trim_space_id) auto
qed simp

lemma new_entry:
  assumes "plain_local local" and "plain_dests ds" and "ds \<noteq> []"
  shows "alias_entry (local @ '': '' @ join_with '', '' ds) = Some (fold_key local, join_with '', '' ds)"
proof -
  let ?t = "join_with '', '' ds" and ?l = "local @ '': '' @ join_with '', '' ds"
  have l: "local \<noteq> []" "space_free local" "CHR '':'' \<notin> set local" using assms(1) by (simp_all add: plain_local_def)
  have d: "last ds \<noteq> []" "space_free (last ds)" using assms(2,3) by (simp_all add: plain_dests_def list_all_iff)
  note j = join_ends [OF assms(2,3)]
  have "hd ?l = hd local" "last ?l = last (last ds)" using l j by simp_all
  then have "trim_space ?l = ?l"
    using space_free_ends [OF l(2,1)] space_free_ends [OF d(2,1)] by (intro trim_space_id) auto
  then show ?thesis
    using cut_at_found [OF l(3), of "CHR '' '' # ?t"] trim_space_free [OF l(2)] join_trim [OF assms(2)]
    by (simp add: alias_entry_def trim_space_blank)
qed

lemma space_free_newline: "space_free s \<Longrightarrow> chr_of 10 \<notin> set s"
  by (auto simp: space_free_def list_all_iff ascii_space_def byte_chr_of dest!: bspec [of _ _ "chr_of 10"])

lemma join_newline: "plain_dests ds \<Longrightarrow> chr_of 10 \<notin> set (join_with '', '' ds)"
proof (induction ds)
  case (Cons d ds)
  have n: "chr_of 10 \<noteq> CHR '',''" "chr_of 10 \<noteq> CHR '' ''" by (simp_all add: chr_of_eq_byte byte_def)
  from Cons n space_free_newline [of d] show ?case by (cases ds) (auto simp: plain_dests_def)
qed simp

lemma lines_of_text:
  assumes "\<And>ln. ln \<in> set ls \<Longrightarrow> chr_of 10 \<notin> set ln"
  shows "alias_table (join_with eol ls @ eol) = map_of (alias_entries ls)"
proof -
  have "alias_entries (split_on (chr_of 10) (join_with [chr_of 10] ls)) = alias_entries ls"
    using split_join [of ls "chr_of 10"] assms by (cases "ls = []") auto
  then show ?thesis
    by (simp add: alias_table_def eol_def split_on_append alias_entries_append)
qed

text \<open>The new text of the file: the table changes at the local part only.\<close>

lemma alias_text_table:
  assumes l: "plain_local local" and d: "plain_dests ds"
  shows "alias_table (alias_text old local ds)
    = (alias_table old)(fold_key local := (if ds = [] then None else Some (join_with '', '' ds)))"
proof -
  let ?k = "kept_lines local (split_on (chr_of 10) old)"
  let ?new = "if ds = [] then [] else [local @ '': '' @ join_with '', '' ds]"
  have n: "chr_of 10 \<notin> set ln" if "ln \<in> set (?k @ ?new)" for ln
  proof (cases "ln \<in> set ?k")
    case True
    from kept_lines_chars [OF this] split_on_free show ?thesis by blast
  next
    case False
    have "chr_of 10 \<noteq> CHR '':''" "chr_of 10 \<noteq> CHR '' ''" by (simp_all add: chr_of_eq_byte byte_def)
    with False that l join_newline [OF d] space_free_newline [of local] show ?thesis
      by (auto simp: plain_local_def split: if_splits)
  qed
  have t: "alias_text old local ds = join_with eol (?k @ ?new) @ eol" by (simp add: alias_text_def Let_def)
  have "alias_table (alias_text old local ds) = map_of (alias_entries (?k @ ?new))"
    unfolding t by (rule lines_of_text) (rule n)
  also have "\<dots> = (alias_table old)(fold_key local := (if ds = [] then None else Some (join_with '', '' ds)))"
    using new_entry [OF l d]
    by (cases "ds = []") (simp_all add: alias_entries_append kept_entries map_of_without alias_table_def fun_eq_iff
        map_add_def split: option.split)
  finally show ?thesis .
qed

section \<open>Calls on a host\<close>

lemma run_io:
  "h_fates h = [] \<Longrightarrow> run_state (io f) h = f Works h"
  by (simp add: io_def)

text \<open>The table that the file of a domain stands for; no file is the empty table.\<close>

definition alias_map :: "agent \<Rightarrow> 'x host \<Rightarrow> string \<Rightarrow> nat list \<Rightarrow> string option" where
  "alias_map ag h d = (case map_of (h_files h) (alias_path ag d) of None \<Rightarrow> Map.empty | Some c \<Rightarrow> alias_table c)"

definition writable :: "'x host \<Rightarrow> string \<Rightarrow> bool" where
  "writable h p \<longleftrightarrow> h_fates h = [] \<and> is_dir h (parent p) \<and> \<not> is_dir h p"

lemma map_of_put_file:
  "map_of (h_files (put_file p data h)) q = (if q = p then Some data else map_of (h_files h) q)"
  by (simp add: put_file_def map_of_without)

lemma alias_table_Nil: "alias_table [] = Map.empty"
  by (simp add: alias_table_def)

lemma setAlias_run:
  assumes "writable h (alias_path ag d)"
  shows "run_state (setAlias ag d local ds) h = (None, put_file (alias_path ag d)
    (alias_text (case map_of (h_files h) (alias_path ag d) of None \<Rightarrow> [] | Some c \<Rightarrow> c) local ds) h)"
  using assms by (simp add: setAlias_def read_file_def write_file_def run_io writable_def)

lemma setAlias_table:
  assumes "writable h (alias_path ag d)" and "plain_local local" and "plain_dests ds"
    and "run_state (setAlias ag d local ds) h = (e, h')"
  shows "e = None"
    and "alias_map ag h' d = (alias_map ag h d)(fold_key local := (if ds = [] then None else Some (join_with '', '' ds)))"
    and "p \<noteq> alias_path ag d \<Longrightarrow> map_of (h_files h') p = map_of (h_files h) p"
    and "h_fates h' = []"
  using assms setAlias_run [OF assms(1), of local ds]
  by (auto simp: alias_map_def map_of_put_file alias_text_table alias_table_Nil put_file_def map_of_without
      writable_def split: option.splits)

section \<open>From the client to the file\<close>

text \<open>What the calls rely on: \<open>pkill\<close> exits with success and leaves the files of the host alone.\<close>

definition signals_quietly :: "'x agent_env \<Rightarrow> bool" where
  "signals_quietly env \<longleftrightarrow> (\<forall>args h. \<exists>r. run_state (ae_run env [] ''pkill'' args) h = (r, h) \<and> cr_error r = None)"

lemma signal_run: "signals_quietly env \<Longrightarrow> run_state (signalDaemon env ag) h = (None, h)"
  unfolding signals_quietly_def signalDaemon_def by (auto dest!: spec [of _ "[''-sighup'', ''-f'', daemonPattern]"]
      spec [of _ h])

lemma agent_key_is [simp]:
  "key_is ''domain'' ''domain''" "\<not> key_is ''domain'' ''local''" "\<not> key_is ''domain'' ''destinations''"
  "\<not> key_is ''local'' ''domain''" "key_is ''local'' ''local''" "\<not> key_is ''local'' ''destinations''"
  "\<not> key_is ''destinations'' ''domain''" "\<not> key_is ''destinations'' ''local''" "key_is ''destinations'' ''destinations''"
  "\<not> key_is ''address'' ''domain''" "\<not> key_is ''address'' ''local''" "\<not> key_is ''address'' ''destinations''"
  "\<not> key_is ''password'' ''domain''" "\<not> key_is ''password'' ''local''" "\<not> key_is ''password'' ''destinations''"
  "\<not> key_is ''allowed_from_addresses'' ''domain''" "\<not> key_is ''allowed_from_addresses'' ''local''"
  "\<not> key_is ''allowed_from_addresses'' ''destinations''"
  by (simp_all add: key_is_def fold_key_def runes_ascii is_ascii_def byte_def)

lemma strings_of_map: "strings_of (map JStr ss) = Some ss"
  by (simp add: strings_of_def comp_def) (induction ss; simp)

text \<open>The body of an alias request reads back.\<close>

lemma decode_alias:
  assumes "is_ascii d" and "is_ascii local" and "list_all is_ascii ds"
  shows "decode_req (the (json_alias d local ds)) = Some \<lparr>aq_domain = d, aq_address = [], aq_password = [], aq_local = local,
    aq_destinations = ds, aq_allowed = []\<rparr>"
proof -
  let ?ms = "[(''destinations'', json_strings ds), (''domain'', json_string d), (''local'', json_string local)]"
  have "scan_value (json_fuel (json_object ?ms @ [])) 0 (json_object ?ms @ [])
      = Some (JObj [(''destinations'', JArr (map JStr ds)), (''domain'', JStr d), (''local'', JStr local)], [])"
    by (rule scan_object) (simp_all add: scans_string scans_strings assms byte_def)
  then have "first_value (the (json_alias d local ds))
      = Some (JObj [(''destinations'', JArr (map JStr ds)), (''domain'', JStr d), (''local'', JStr local)])"
    by (simp add: first_value_def json_alias_def)
  then show ?thesis
    by (simp add: decode_req_def string_field_def strings_field_def list_field_def strings_of_map strings_of_map [of "[]", simplified])
qed

lemma agent_url: "has_prefix (base @ path) base" "drop (length base) (base @ path) = path"
  by (simp_all add: has_prefix_def)

text \<open>The destinations of an entry of the table; none is no entry.\<close>

definition dests_entry :: "string list \<Rightarrow> string option" where
  "dests_entry ds = (if ds = [] then None else Some (join_with '', '' ds))"

text \<open>The agent's client as a caller sees it.\<close>

definition client_of :: "'x agent_env \<Rightarrow> agent \<Rightarrow> string \<Rightarrow> 'x host chasquid" where
  "client_of env ag base = AgentClient (agent_http env ag base) \<lparr>acl_base = base, acl_token = ag_token ag\<rparr>"

lemma EnsureAlias_step:
  fixes h :: "'x host"
  assumes w: "writable h (alias_path ag d)" and sig: "signals_quietly env"
    and d: "d \<noteq> []" "is_ascii d" and l: "plain_local local" and ds: "plain_dests ds"
  shows "\<exists>h'. run_state (cq_ensure_alias (AgentClient (agent_http env ag base)
        \<lparr>acl_base = base, acl_token = ag_token ag\<rparr>) d local ds) h = (True, h')
    \<and> alias_map ag h' d = (alias_map ag h d)(fold_key local := (if ds = [] then None else Some (join_with '', '' ds)))
    \<and> (\<forall>p. p \<noteq> alias_path ag d \<longrightarrow> map_of (h_files h') p = map_of (h_files h) p) \<and> writable h' (alias_path ag d)"
proof -
  have asc: "is_ascii local" "list_all is_ascii ds"
    using l ds by (auto simp: plain_local_def plain_dests_def space_free_def is_ascii_def list_all_iff)
  obtain e h' where s: "run_state (setAlias ag d local ds) h = (e, h')" by (rule prod.exhaust)
  note t = setAlias_table [OF w l ds s]
  obtain body where b: "json_alias d local ds = Some body" by (simp add: json_alias_def)
  have rq: "decode_req body = Some \<lparr>aq_domain = d, aq_address = [], aq_password = [], aq_local = local,
      aq_destinations = ds, aq_allowed = []\<rparr>"
    using decode_alias [OF d(2) asc] by (simp add: b)
  have "run_state (agent_serve env ag ''POST'' ''/api/v1/alias'' ((''X-Agent-Token'', ag_token ag) # hs) body) h
      = (ok_answer, h')" for hs
    using s t(1) d(1) by (simp add: agent_serve_def agent_auth_def agent_routes_def handleEnsureAlias_def with_req_def
        rq signal_run [OF sig])
  then have "run_state (cq_ensure_alias (AgentClient (agent_http env ag base)
      \<lparr>acl_base = base, acl_token = ag_token ag\<rparr>) d local ds) h = (True, h')"
    by (simp add: AgentClient_def worked_def agent_do_def agent_call_def agent_http_def agent_url b content_type_def
        ok_answer_def writeOK_def Let_def)
  moreover have "writable h' (alias_path ag d)"
    using w s setAlias_run [OF w, of local ds] by (auto simp: writable_def put_file_def is_dir_def)
  ultimately show ?thesis using t(2,3) by blast
qed

text \<open>The client over the agent keeps a table of aliases for a domain, and leaves every other file alone.\<close>

interpretation aliases: keyed_table "cq_ensure_alias (client_of env ag base) d" "\<lambda>h. alias_map ag h d" fold_key dests_entry
    "\<lambda>h. writable h (alias_path ag d) \<and> signals_quietly env \<and> d \<noteq> [] \<and> is_ascii d" "\<lambda>l ds. plain_local l \<and> plain_dests ds"
    "\<lambda>h p. if p = alias_path ag d then None else map_of (h_files h) p"
  for env :: "'x agent_env" and ag base d
proof (unfold_locales, goal_cases)
  case (1 h l ds)
  from 1 EnsureAlias_step [of h ag d env l ds base] show ?case
    by (auto simp: client_of_def dests_entry_def fun_eq_iff)
qed

text \<open>C28: the sidecar implements a table of aliases. Any series of calls of the controller that set or clear destinations of
  local parts, each sent as a request by the client and served by the agent on a host that takes the writes, succeeds,
  leaves in the table of the domain exactly the entries of the calls, up to the case of the local parts and the last call for one deciding,
  beside the entries it had, and touches no other file.\<close>

theorem EnsureAlias_refines:
  fixes h :: "'x host"
  assumes w: "writable h (alias_path ag d)" and sig: "signals_quietly env" and d: "d \<noteq> []" "is_ascii d"
    and calls: "list_all (\<lambda>c. plain_local (fst c) \<and> plain_dests (snd c)) cs"
  shows "\<exists>h'. run_state (puts (cq_ensure_alias (client_of env ag base) d) cs) h = (replicate (length cs) True, h')
    \<and> alias_map ag h' d = put_entries fold_key dests_entry cs (alias_map ag h d)
    \<and> (\<forall>p. p \<noteq> alias_path ag d \<longrightarrow> map_of (h_files h') p = map_of (h_files h) p)"
proof -
  from aliases.puts_law [of h ag d env cs base] assms obtain h' where
    h': "run_state (puts (cq_ensure_alias (client_of env ag base) d) cs) h = (replicate (length cs) True, h')"
      "alias_map ag h' d = put_entries fold_key dests_entry cs (alias_map ag h d)"
      "(\<lambda>p. if p = alias_path ag d then None else map_of (h_files h') p)
        = (\<lambda>p. if p = alias_path ag d then None else map_of (h_files h) p)"
    by blast
  from fun_cong [OF h'(3)] have "p \<noteq> alias_path ag d \<Longrightarrow> map_of (h_files h') p = map_of (h_files h) p" for p by (metis (full_types))
  with h'(1,2) show ?thesis by blast
qed

section \<open>A refused read\<close>

text \<open>C31: when the read of the alias file is refused and the write is not, \<open>setAlias\<close> reports success and leaves a
  table with the new entry only: every other alias of the domain is gone.\<close>

theorem setAlias_read_refused:
  assumes fates: "h_fates h = [Refused]" and dirs: "is_dir h (parent (alias_path ag d))" "\<not> is_dir h (alias_path ag d)"
    and l: "plain_local local" and ds: "plain_dests ds" "ds \<noteq> []"
  shows "\<exists>h'. run_state (setAlias ag d local ds) h = (None, h')
    \<and> alias_map ag h' d = [fold_key local \<mapsto> join_with '', '' ds]"
  using fates dirs ds(2)
  by (simp add: setAlias_def read_file_def write_file_def io_def is_dir_def alias_map_def map_of_put_file
      alias_text_table [OF l ds(1)] alias_table_Nil)

section \<open>A concrete host\<close>

definition small_agent :: agent where
  "small_agent = \<lparr>ag_token = ''t'', ag_conf = ''/etc/chasquid'', ag_util = ''chasquid-util'', ag_daemon = ''chasquid''\<rparr>"

definition quiet_env :: "'x agent_env" where
  "quiet_env = \<lparr>ae_run = (\<lambda>vars prg args. ret \<lparr>cr_stdout = [], cr_combined = [], cr_error = None\<rparr>),
     ae_decode_error = (\<lambda>s. ''bad'')\<rparr>"

definition small_host :: "io_fate list \<Rightarrow> unit host" where
  "small_host fs = \<lparr>h_files = [(''/etc/chasquid/domains/a.io/aliases'', ''bob: b@a.io'' @ eol)],
     h_dirs = [''/etc/chasquid/domains/a.io''], h_fates = fs, h_errno = (\<lambda>p. ''failed''), h_rest = ()\<rparr>"

lemma small_alias_path: "alias_path small_agent ''a.io'' = ''/etc/chasquid/domains/a.io/aliases''"
  by code_simp

lemma small_host_dirs:
  "is_dir (small_host fs) (parent (alias_path small_agent ''a.io''))" "\<not> is_dir (small_host fs) (alias_path small_agent ''a.io'')"
  "h_fates (small_host fs) = fs"
  unfolding small_alias_path by (simp_all add: is_dir_def small_host_def) code_simp

lemma small_alias: "plain_local ''eve''" "plain_dests [''e@a.io'']" "is_ascii ''a.io''"
  by code_simp+

theorem EnsureAlias_refines_witness:
  "\<exists>h'. run_state (puts (cq_ensure_alias (client_of quiet_env small_agent ''http://c'') ''a.io'')
        [(''eve'', [''e@a.io'']), (''eve'', [])]) (small_host []) = ([True, True], h')
    \<and> alias_map small_agent h' ''a.io'' (fold_key ''eve'') = None"
proof -
  have w: "writable (small_host []) (alias_path small_agent ''a.io'')"
    using small_host_dirs [of "[]"] by (simp add: writable_def)
  have q: "signals_quietly quiet_env" by (simp add: signals_quietly_def quiet_env_def)
  have "list_all (\<lambda>c. plain_local (fst c) \<and> plain_dests (snd c)) [(''eve'', [''e@a.io'']), (''eve'', [])]"
    using small_alias by (simp add: plain_dests_def)
  from EnsureAlias_refines [OF w q _ small_alias(3) this, of "''http://c''"] show ?thesis
    by (auto simp: dests_entry_def)
qed

theorem setAlias_read_refused_witness:
  "\<exists>h'. run_state (setAlias small_agent ''a.io'' ''eve'' [''e@a.io'']) (small_host [Refused]) = (None, h')
    \<and> alias_map small_agent h' ''a.io'' = [fold_key ''eve'' \<mapsto> ''e@a.io'']"
  using setAlias_read_refused [OF small_host_dirs(3,1,2) small_alias(1,2)] by simp

end
