(* ===== verification/Authentik_Client.thy ===== *)
theory Authentik_Client
  imports Go_HTTP Go_Encoding Http_Base
begin

text \<open>
  The admin client of the identity provider, \<open>internal/authentik/client.go\<close>: it looks an object up and creates it
  when the lookup finds none. An error is its message (\<open>Inl\<close>). The random source and the end of the context while
  it waits are part of the client, as is HTTP.
\<close>

text \<open>\<open>ak_wait\<close>: the error of a context that ends before the next attempt.\<close>

record 'x authentik =
  ak_base :: string
  ak_token :: string
  ak_http :: "'x http_client"
  ak_rand :: "nat \<Rightarrow> ('x, string option) prog"
  ak_wait :: "('x, string option) prog"

definition truncate_body :: "string \<Rightarrow> nat \<Rightarrow> string" where
  "truncate_body s n = (if length s \<le> n then s else take n s @ ''...'')"

definition firstNonEmpty :: "string \<Rightarrow> string \<Rightarrow> string" where
  "firstNonEmpty a b = (if a \<noteq> [] then a else b)"

definition randHex :: "'x authentik \<Rightarrow> nat \<Rightarrow> ('x, string) prog" where
  "randHex c n = do { b \<leftarrow> ak_rand c n; ret (case b of None \<Rightarrow> [] | Some b \<Rightarrow> hex_encode b) }"

section \<open>Requests\<close>

text \<open>\<open>Do\<close> up to the decoding: the body of an answer below 300, cut at 1 MiB.\<close>

definition ak_call :: "'x authentik \<Rightarrow> string \<Rightarrow> string \<Rightarrow> (string \<times> string) list \<Rightarrow> string option
    \<Rightarrow> ('x, string + string) prog" where
  "ak_call c meth path q body = do {
     r \<leftarrow> hc_do (ak_http c) \<lparr>hr_method = meth,
       hr_url = ak_base c @ path @ (if q = [] then [] else ''?'' @ encode_query q),
       hr_headers = (''Authorization'', ''Bearer '' @ ak_token c) # content_type body, hr_body = body\<rparr>;
     ret (case r of
         Inl e \<Rightarrow> Inl e
       | Inr (status, b) \<Rightarrow>
           let data = take 1048576 b in
           if 300 \<le> status
           then Inl (''authentik '' @ meth @ '' '' @ path @ '': status '' @ show_nat status @ '': ''
             @ truncate_body data 400)
           else Inr data) }"

definition ak_decode :: "'x authentik \<Rightarrow> ((string \<times> json) list \<Rightarrow> 'a option) \<Rightarrow> string \<Rightarrow> string + 'a" where
  "ak_decode c f data =
    (case Option.bind (if data = [] then Some [] else Option.bind (parse_json data) members_of) f of
       None \<Rightarrow> Inl (hc_decode_error (ak_http c) data)
     | Some x \<Rightarrow> Inr x)"

text \<open>\<open>Do\<close> with a struct to decode into, and without one.\<close>

definition ak_into :: "'x authentik \<Rightarrow> string \<Rightarrow> string \<Rightarrow> (string \<times> string) list \<Rightarrow> string option
    \<Rightarrow> ((string \<times> json) list \<Rightarrow> 'a option) \<Rightarrow> ('x, string + 'a) prog" where
  "ak_into c meth path q body f = do {
     r \<leftarrow> ak_call c meth path q body;
     ret (case r of Inl e \<Rightarrow> Inl e | Inr data \<Rightarrow> ak_decode c f data) }"

definition ak_do :: "'x authentik \<Rightarrow> string \<Rightarrow> string \<Rightarrow> (string \<times> string) list \<Rightarrow> string option
    \<Rightarrow> ('x, string + unit) prog" where
  "ak_do c meth path q body = do {
     r \<leftarrow> ak_call c meth path q body;
     ret (case r of Inl e \<Rightarrow> Inl e | Inr data \<Rightarrow> Inr ()) }"

text \<open>\<open>results\<close> of a list answer, each element read by \<open>f\<close>.\<close>

definition results :: "((string \<times> json) list \<Rightarrow> 'a option) \<Rightarrow> (string \<times> json) list \<Rightarrow> 'a list option" where
  "results f ms = Option.bind (list_field ''results'' ms) (structs f)"

definition int_pk :: "(string \<times> json) list \<Rightarrow> int option" where
  "int_pk = int64_field ''pk''"

definition text_pk :: "(string \<times> json) list \<Rightarrow> string option" where
  "text_pk = string_field ''pk''"

definition named_pk :: "string \<Rightarrow> (string \<times> json) list \<Rightarrow> (string \<times> string) option" where
  "named_pk field ms = (case (text_pk ms, string_field field ms) of (Some p, Some n) \<Rightarrow> Some (p, n) | _ \<Rightarrow> None)"

section \<open>Waiting for the provider\<close>

text \<open>The loop of \<open>WaitReady\<close>, for the attempts that are left.\<close>

primrec wait_ready :: "nat \<Rightarrow> 'x authentik \<Rightarrow> string \<Rightarrow> ('x, string + unit) prog" where
  "wait_ready 0 c lastErr = ret (Inl (''authentik API not ready: '' @ lastErr))"
| "wait_ready (Suc n) c lastErr = do {
     r \<leftarrow> ak_do c ''GET'' ''/api/v3/core/users/me/'' [] None;
     (case r of
        Inr u \<Rightarrow> ret (Inr ())
      | Inl e \<Rightarrow> do {
          w \<leftarrow> ak_wait c;
          (case w of Some stop \<Rightarrow> ret (Inl stop) | None \<Rightarrow> wait_ready n c e) }) }"

definition WaitReady :: "'x authentik \<Rightarrow> ('x, string + unit) prog" where
  "WaitReady c = wait_ready 30 c []"

section \<open>Users and groups\<close>

definition EnsureUser :: "'x authentik \<Rightarrow> string \<Rightarrow> string \<Rightarrow> ('x, string + (string \<times> bool)) prog" where
  "EnsureUser c email displayName = do {
     e \<leftarrow> ak_into c ''GET'' ''/api/v3/core/users/'' [(''email'', email)] None (results int_pk);
     (case e of
        Inl err \<Rightarrow> ret (Inl err)
      | Inr (pk # pks) \<Rightarrow> ret (Inr (show_int pk, False))
      | Inr [] \<Rightarrow> do {
          n \<leftarrow> ak_into c ''POST'' ''/api/v3/core/users/'' []
            (Some (json_object [(''email'', json_string email),
              (''name'', json_string (firstNonEmpty displayName email)), (''username'', json_string email)])) int_pk;
          ret (case n of Inl err \<Rightarrow> Inl err | Inr pk \<Rightarrow> Inr (show_int pk, True)) }) }"

definition SetUserActive :: "'x authentik \<Rightarrow> string \<Rightarrow> bool \<Rightarrow> ('x, string + unit) prog" where
  "SetUserActive c pk active =
    ak_do c ''PATCH'' (''/api/v3/core/users/'' @ pk @ ''/'') []
      (Some (json_object [(''is_active'', json_bool active)]))"

definition SetUserPassword :: "'x authentik \<Rightarrow> string \<Rightarrow> string \<Rightarrow> ('x, string + unit) prog" where
  "SetUserPassword c pk password =
    ak_do c ''POST'' (''/api/v3/core/users/'' @ pk @ ''/set_password/'') []
      (Some (json_object [(''password'', json_string password)]))"

definition EnsureGroup :: "'x authentik \<Rightarrow> string \<Rightarrow> ('x, string + string) prog" where
  "EnsureGroup c name = do {
     e \<leftarrow> ak_into c ''GET'' ''/api/v3/core/groups/'' [(''name'', name)] None (results text_pk);
     (case e of
        Inl err \<Rightarrow> ret (Inl err)
      | Inr (pk # pks) \<Rightarrow> ret (Inr pk)
      | Inr [] \<Rightarrow> ak_into c ''POST'' ''/api/v3/core/groups/'' [] (Some (json_object [(''name'', json_string name)]))
          text_pk) }"

section \<open>What a provider refers to\<close>

definition flowPKByDesignation :: "'x authentik \<Rightarrow> string \<Rightarrow> string \<Rightarrow> ('x, string + string) prog" where
  "flowPKByDesignation c designation preferred = do {
     r \<leftarrow> ak_into c ''GET'' ''/api/v3/flows/instances/'' [(''designation'', designation)] None (results (named_pk ''slug''));
     ret (case r of
         Inl e \<Rightarrow> Inl e
       | Inr fs \<Rightarrow>
           (case (if preferred = [] then None else find (\<lambda>f. has_prefix (snd f) preferred) fs) of
              Some f \<Rightarrow> Inr (fst f)
            | None \<Rightarrow>
               (case fs of f # rest \<Rightarrow> Inr (fst f)
                | [] \<Rightarrow> Inl (''no authentik flow for designation '' @ Quote designation)))) }"

definition signingKey :: "'x authentik \<Rightarrow> ('x, string + string) prog" where
  "signingKey c = do {
     r \<leftarrow> ak_into c ''GET'' ''/api/v3/crypto/certificatekeypairs/'' [] None (results (named_pk ''name''));
     ret (case r of
         Inl e \<Rightarrow> Inl e
       | Inr ks \<Rightarrow>
           (case find (\<lambda>k. has_prefix (to_lower (snd k)) ''authentik'') ks of
              Some k \<Rightarrow> Inr (fst k)
            | None \<Rightarrow>
               (case ks of k # rest \<Rightarrow> Inr (fst k)
                | [] \<Rightarrow> Inl ''no authentik certificate keypair found''))) }"

definition scope_name :: "string \<Rightarrow> string" where
  "scope_name n = ''authentik default OAuth Mapping: OpenID '' @ [chr_of 39] @ n @ [chr_of 39]"

definition oauthScopeMappings :: "'x authentik \<Rightarrow> string list \<Rightarrow> ('x, string + string list) prog" where
  "oauthScopeMappings c names = do {
     r \<leftarrow> ak_into c ''GET'' ''/api/v3/propertymappings/all/'' [(''page_size'', ''200'')] None (results (named_pk ''name''));
     ret (case r of
         Inl e \<Rightarrow> Inl e
       | Inr ms \<Rightarrow> Inr (map fst (filter (\<lambda>m. snd m \<in> set (map scope_name names)) ms))) }"

text \<open>A slice that no append has touched is nil and marshals as \<open>null\<close>.\<close>

definition json_pks :: "string list \<Rightarrow> string" where
  "json_pks pks = (if pks = [] then ''null'' else json_strings pks)"

definition provider_body :: "string \<Rightarrow> string \<Rightarrow> string \<Rightarrow> string \<Rightarrow> string \<Rightarrow> string \<Rightarrow> string \<Rightarrow> string \<Rightarrow> string list \<Rightarrow> string" where
  "provider_body name clientID clientSecret redirect mode flow invalidation key scopes = json_object
     [(''authorization_flow'', json_string flow), (''client_id'', json_string clientID),
      (''client_secret'', json_string clientSecret), (''client_type'', json_string ''confidential''),
      (''grant_types'', json_strings [''authorization_code'']), (''invalidation_flow'', json_string invalidation),
      (''name'', json_string name), (''property_mappings'', json_pks scopes),
      (''redirect_uris'', json_array [json_object [(''matching_mode'', json_string mode), (''url'', json_string redirect)]]),
      (''signing_key'', json_string key)]"

definition oidcProviderParams :: "'x authentik \<Rightarrow> string \<Rightarrow> string \<Rightarrow> string \<Rightarrow> string \<Rightarrow> string
    \<Rightarrow> ('x, string + string) prog" where
  "oidcProviderParams c name clientID clientSecret redirect mode = do {
     f \<leftarrow> flowPKByDesignation c ''authorization'' ''default-provider-authorization-explicit-consent'';
     (case f of Inl e \<Rightarrow> ret (Inl e) | Inr flow \<Rightarrow> do {
        i \<leftarrow> flowPKByDesignation c ''invalidation'' ''default-provider-invalidation-flow'';
        (case i of Inl e \<Rightarrow> ret (Inl e) | Inr invalidation \<Rightarrow> do {
           k \<leftarrow> signingKey c;
           (case k of Inl e \<Rightarrow> ret (Inl e) | Inr key \<Rightarrow> do {
              s \<leftarrow> oauthScopeMappings c [''email'', ''profile'', ''openid''];
              ret (case s of Inl e \<Rightarrow> Inl e
                | Inr scopes \<Rightarrow> Inr (provider_body name clientID clientSecret redirect mode flow invalidation key scopes)) }) }) }) }"

section \<open>Providers and applications\<close>

text \<open>The lookup and the creation of an OAuth2 provider.\<close>

definition find_oauth2 :: "'x authentik \<Rightarrow> string \<Rightarrow> ('x, string + int list) prog" where
  "find_oauth2 c clientID = ak_into c ''GET'' ''/api/v3/providers/oauth2/'' [(''client_id'', clientID)] None (results int_pk)"

definition create_oauth2 :: "'x authentik \<Rightarrow> string \<Rightarrow> string \<Rightarrow> string \<Rightarrow> string \<Rightarrow> string \<Rightarrow> ('x, string + int) prog" where
  "create_oauth2 c name clientID clientSecret redirect mode = do {
     b \<leftarrow> oidcProviderParams c name clientID clientSecret redirect mode;
     (case b of
        Inl e \<Rightarrow> ret (Inl e)
      | Inr body \<Rightarrow> ak_into c ''POST'' ''/api/v3/providers/oauth2/'' [] (Some body) int_pk) }"

definition EnsureOIDCProvider :: "'x authentik \<Rightarrow> string \<Rightarrow> string \<Rightarrow> string \<Rightarrow> string \<Rightarrow> ('x, string + int) prog" where
  "EnsureOIDCProvider c clientID clientSecret redirectURL slug = do {
     e \<leftarrow> find_oauth2 c clientID;
     (case e of
        Inl err \<Rightarrow> ret (Inl err)
      | Inr (pk # pks) \<Rightarrow> ret (Inr pk)
      | Inr [] \<Rightarrow> create_oauth2 c slug clientID clientSecret redirectURL ''strict'') }"

record ak_app =
  aa_pk :: string
  aa_slug :: string
  aa_provider :: "int option"

definition app_of :: "(string \<times> json) list \<Rightarrow> ak_app option" where
  "app_of ms = (case (named_pk ''slug'' ms, int_ptr_field ''provider'' ms) of
     (Some (p, s), Some i) \<Rightarrow> Some \<lparr>aa_pk = p, aa_slug = s, aa_provider = i\<rparr> | _ \<Rightarrow> None)"

definition app_body :: "string \<Rightarrow> string \<Rightarrow> int \<Rightarrow> string" where
  "app_body name slug providerPK = json_object [(''name'', json_string name), (''provider'', show_int providerPK),
     (''slug'', json_string slug)]"

text \<open>The application of a slug and a provider, found in the list or created.\<close>

definition attach_app :: "'x authentik \<Rightarrow> string \<Rightarrow> string \<Rightarrow> int \<Rightarrow> ('x, string + string) prog" where
  "attach_app c name slug providerPK = do {
     r \<leftarrow> ak_into c ''GET'' ''/api/v3/core/applications/'' [(''page_size'', ''200'')] None (results app_of);
     (case r of
        Inl e \<Rightarrow> ret (Inl e)
      | Inr as \<Rightarrow>
         let appPK = (case find (\<lambda>a. aa_slug a = slug \<and> aa_provider a = Some providerPK) as of
             None \<Rightarrow> [] | Some a \<Rightarrow> aa_pk a) in
         if appPK \<noteq> [] then ret (Inr appPK)
         else ak_into c ''POST'' ''/api/v3/core/applications/'' [] (Some (app_body name slug providerPK)) text_pk) }"

definition EnsureAppOIDC :: "'x authentik \<Rightarrow> string \<Rightarrow> string \<Rightarrow> string \<Rightarrow> ('x, string + app_oidc) prog" where
  "EnsureAppOIDC c name slug redirectURI =
    (let clientID = ''app-'' @ slug in do {
       clientSecret \<leftarrow> randHex c 32;
       e \<leftarrow> find_oauth2 c clientID;
       (case e of
          Inl err \<Rightarrow> ret (Inl err)
        | Inr pks \<Rightarrow>
           let providerPK = (case pks of [] \<Rightarrow> 0 | pk # rest \<Rightarrow> pk) in do {
             p \<leftarrow> (if providerPK = 0 then create_oauth2 c name clientID clientSecret redirectURI ''regex''
                  else ret (Inr providerPK));
             (case p of
                Inl err \<Rightarrow> ret (Inl err)
              | Inr pk \<Rightarrow> do {
                  a \<leftarrow> attach_app c name slug pk;
                  ret (case a of
                      Inl err \<Rightarrow> Inl err
                    | Inr appPK \<Rightarrow> Inr \<lparr>ao_provider_pk = show_int pk, ao_app_pk = appPK,
                        ao_client_id = clientID, ao_client_secret = clientSecret\<rparr>) }) }) })"

text \<open>Forward authentication: a proxy provider found by its name or created.\<close>

definition find_proxy :: "'x authentik \<Rightarrow> string \<Rightarrow> ('x, string + int) prog" where
  "find_proxy c name = do {
     r \<leftarrow> ak_into c ''GET'' ''/api/v3/providers/proxy/'' [(''page_size'', ''200'')] None
       (results (\<lambda>ms. (case (int_pk ms, string_field ''name'' ms) of (Some p, Some n) \<Rightarrow> Some (p, n) | _ \<Rightarrow> None)));
     ret (case r of
         Inl e \<Rightarrow> Inl e
       | Inr ps \<Rightarrow> Inr (case find (\<lambda>p. snd p = name) ps of None \<Rightarrow> 0 | Some p \<Rightarrow> fst p)) }"

definition create_proxy :: "'x authentik \<Rightarrow> string \<Rightarrow> string \<Rightarrow> ('x, string + int) prog" where
  "create_proxy c name externalHost = do {
     f \<leftarrow> flowPKByDesignation c ''authorization'' ''default-provider-authorization-explicit-consent'';
     (case f of Inl e \<Rightarrow> ret (Inl e) | Inr flow \<Rightarrow> do {
        i \<leftarrow> flowPKByDesignation c ''invalidation'' ''default-provider-invalidation-flow'';
        (case i of
           Inl e \<Rightarrow> ret (Inl e)
         | Inr invalidation \<Rightarrow>
            ak_into c ''POST'' ''/api/v3/providers/proxy/'' [] (Some (json_object
              [(''authorization_flow'', json_string flow), (''cookie_secure'', json_bool False),
               (''external_host'', json_string externalHost), (''invalidation_flow'', json_string invalidation),
               (''mode'', json_string ''forward_single''), (''name'', json_string name)])) int_pk) }) }"

definition EnsureForwardAuth :: "'x authentik \<Rightarrow> string \<Rightarrow> string \<Rightarrow> string \<Rightarrow> ('x, string + app_oidc) prog" where
  "EnsureForwardAuth c name slug externalHost = do {
     e \<leftarrow> find_proxy c name;
     (case e of
        Inl err \<Rightarrow> ret (Inl err)
      | Inr found \<Rightarrow> do {
          p \<leftarrow> (if found = 0 then create_proxy c name externalHost else ret (Inr found));
          (case p of
             Inl err \<Rightarrow> ret (Inl err)
           | Inr pk \<Rightarrow> do {
               a \<leftarrow> attach_app c name slug pk;
               ret (case a of
                   Inl err \<Rightarrow> Inl err
                 | Inr appPK \<Rightarrow> Inr \<lparr>ao_provider_pk = show_int pk, ao_app_pk = appPK, ao_client_id = [],
                     ao_client_secret = []\<rparr>) }) }) }"

definition EnsureApplication :: "'x authentik \<Rightarrow> string \<Rightarrow> int \<Rightarrow> ('x, string + unit) prog" where
  "EnsureApplication c slug providerPK = do {
     r \<leftarrow> ak_into c ''GET'' ''/api/v3/core/applications/'' [(''slug'', slug)] None (results text_pk);
     (case r of
        Inl e \<Rightarrow> ret (Inl e)
      | Inr (pk # pks) \<Rightarrow> ret (Inr ())
      | Inr [] \<Rightarrow> ak_do c ''POST'' ''/api/v3/core/applications/'' [] (Some (app_body ''Selfu Platform'' slug providerPK))) }"

section \<open>Observation\<close>

definition resource_path :: "string \<Rightarrow> string \<Rightarrow> string option" where
  "resource_path ty pk =
    (if ty = ''authentik_user'' then Some (''/api/v3/core/users/'' @ pk @ ''/'')
     else if ty = ''authentik_group'' then Some (''/api/v3/core/groups/'' @ pk @ ''/'')
     else if ty = ''authentik_application'' then Some (''/api/v3/core/applications/'' @ pk @ ''/'')
     else if ty = ''authentik_provider'' then Some (''/api/v3/providers/oauth2/'' @ pk @ ''/'')
     else None)"

definition ResourceExists :: "'x authentik \<Rightarrow> string \<Rightarrow> string \<Rightarrow> ('x, string + bool) prog" where
  "ResourceExists c ty pk =
    (case resource_path ty pk of
       None \<Rightarrow> ret (Inr True)
     | Some path \<Rightarrow> do {
         r \<leftarrow> hc_do (ak_http c) \<lparr>hr_method = ''GET'', hr_url = ak_base c @ path,
           hr_headers = [(''Authorization'', ''Bearer '' @ ak_token c)], hr_body = None\<rparr>;
         ret (case r of
             Inl e \<Rightarrow> Inl e
           | Inr (status, b) \<Rightarrow>
               if status = 404 then Inr False
               else if 300 \<le> status then Inl (''authentik '' @ path @ '': status '' @ show_nat status)
               else Inr True) })"

section \<open>The provisioner of the handlers\<close>

definition known :: "('x, string + 'a) prog \<Rightarrow> ('x, 'a option) prog" where
  "known m = do { r \<leftarrow> m; ret (case r of Inl e \<Rightarrow> None | Inr x \<Rightarrow> Some x) }"

definition authentik_provisioner :: "'x authentik \<Rightarrow> 'x provisioner" where
  "authentik_provisioner c = \<lparr>
     ip_ensure_user = (\<lambda>email name. known (EnsureUser c email name)),
     ip_set_active = (\<lambda>pk active. known (SetUserActive c pk active)),
     ip_ensure_group = (\<lambda>name. known (EnsureGroup c name)),
     ip_app_oidc = (\<lambda>name slug redirect. known (EnsureAppOIDC c name slug redirect)),
     ip_forward_auth = (\<lambda>name slug host. known (EnsureForwardAuth c name slug host))\<rparr>"

end
