(* ===== verification/Authentik_Lemmas.thy ===== *)
theory Authentik_Lemmas
  imports Authentik_Client
begin

text \<open>
  What the client of the identity provider sends. A watched client keeps the list of its requests beside the state of
  the provider; the claims are about that list.
\<close>

section \<open>Watching the requests\<close>

definition lift_prog :: "('x, 'a) prog \<Rightarrow> ('x \<times> 'y, 'a) prog" where
  "lift_prog m = State (\<lambda>(x, y). case run_state m x of (a, x') \<Rightarrow> (a, (x', y)))"

definition watched_http :: "'x http_client \<Rightarrow> ('x \<times> http_request list) http_client" where
  "watched_http hc = \<lparr>hc_do = (\<lambda>rq. State (\<lambda>(x, log). case run_state (hc_do hc rq) x of (a, x') \<Rightarrow> (a, (x', log @ [rq])))),
     hc_decode_error = hc_decode_error hc\<rparr>"

definition watched :: "'x authentik \<Rightarrow> ('x \<times> http_request list) authentik" where
  "watched c = \<lparr>ak_base = ak_base c, ak_token = ak_token c, ak_http = watched_http (ak_http c),
     ak_rand = (\<lambda>n. lift_prog (ak_rand c n)), ak_wait = lift_prog (ak_wait c)\<rparr>"

lemma watched_fields [simp]:
  "ak_base (watched c) = ak_base c" "ak_token (watched c) = ak_token c" "ak_http (watched c) = watched_http (ak_http c)"
  "ak_rand (watched c) n = lift_prog (ak_rand c n)" "ak_wait (watched c) = lift_prog (ak_wait c)"
  "hc_decode_error (watched_http hc) = hc_decode_error hc"
  by (simp_all add: watched_def watched_http_def)

text \<open>A program of the watched client keeps a property of its requests.\<close>

definition sends :: "(http_request \<Rightarrow> bool) \<Rightarrow> ('x \<times> http_request list, 'a) prog \<Rightarrow> bool" where
  "sends P m \<longleftrightarrow> keeps (\<lambda>(x, log). list_all P log) m"

named_theorems sends "what the programs of a client send"

lemma sends_keeps [sends]:
  "sends P (ret a)"
  "sends P m \<Longrightarrow> (\<And>a. sends P (f a)) \<Longrightarrow> sends P (State_Monad.bind m f)"
  "sends P m \<Longrightarrow> sends P n \<Longrightarrow> sends P (if b then m else n)"
  "(\<And>e. sends P (g e)) \<Longrightarrow> (\<And>y. sends P (k y)) \<Longrightarrow> sends P (case r of Inl e \<Rightarrow> g e | Inr y \<Rightarrow> k y)"
  "sends P m \<Longrightarrow> (\<And>y. sends P (k' y)) \<Longrightarrow> sends P (case q of None \<Rightarrow> m | Some y \<Rightarrow> k' y)"
  "sends P m \<Longrightarrow> (\<And>x xs. sends P (l x xs)) \<Longrightarrow> sends P (case ys of [] \<Rightarrow> m | x # xs \<Rightarrow> l x xs)"
  "(\<And>x y. sends P (h x y)) \<Longrightarrow> sends P (case p of (x, y) \<Rightarrow> h x y)"
  by (auto simp: sends_def keeps_ret keeps_bind split: sum.split option.split list.split prod.split)

lemma sends_do [sends]: "P rq \<Longrightarrow> sends P (hc_do (watched_http hc) rq)"
  by (auto simp: sends_def keeps_def watched_http_def split: prod.splits)

lemma sends_lift [sends]: "sends P (lift_prog m)"
  by (auto simp: sends_def keeps_def lift_prog_def split: prod.splits)

lemma sends_run: "sends P m \<Longrightarrow> run_state m (x, []) = (r, (x', log)) \<Longrightarrow> list_all P log"
  by (auto simp: sends_def dest: keeps_run [where s = "(x, [])"])

section \<open>Every request is authorized\<close>

definition authorized :: "'x authentik \<Rightarrow> http_request \<Rightarrow> bool" where
  "authorized c rq \<longleftrightarrow> has_prefix (hr_url rq) (ak_base c @ ''/api/v3/'')
     \<and> map_of (hr_headers rq) ''Authorization'' = Some (''Bearer '' @ ak_token c)"

lemma ak_call_sends:
  "P \<lparr>hr_method = meth, hr_url = ak_base c @ path @ (if q = [] then [] else ''?'' @ encode_query q),
     hr_headers = (''Authorization'', ''Bearer '' @ ak_token c) # content_type body, hr_body = body\<rparr>
   \<Longrightarrow> sends P (ak_call (watched c) meth path q body)"
  unfolding ak_call_def watched_fields by (intro sends)

lemma ak_sends:
  assumes "sends P (ak_call c meth path q body)"
  shows "sends P (ak_into c meth path q body f)" "sends P (ak_do c meth path q body)"
  unfolding ak_into_def ak_do_def by (intro sends assms)+

lemma ak_call_authorized: "has_prefix path ''/api/v3/'' \<Longrightarrow> sends (authorized c) (ak_call (watched c) meth path q body)"
  by (rule ak_call_sends) (auto simp: authorized_def has_prefix_iff)

lemma parts_authorized [sends]:
  "sends (authorized c) (find_oauth2 (watched c) i)" "sends (authorized c) (flowPKByDesignation (watched c) d pre)"
  "sends (authorized c) (signingKey (watched c))" "sends (authorized c) (oauthScopeMappings (watched c) ns)"
  "sends (authorized c) (attach_app (watched c) name slug pk)" "sends (authorized c) (find_proxy (watched c) name)"
  unfolding find_oauth2_def flowPKByDesignation_def signingKey_def oauthScopeMappings_def attach_app_def find_proxy_def
    Let_def
  by (intro sends ak_sends ak_call_authorized; simp add: has_prefix_def)+

lemma creates_authorized [sends]:
  "sends (authorized c) (create_oauth2 (watched c) name i secret uri mode)"
  "sends (authorized c) (create_proxy (watched c) name host)"
  unfolding create_oauth2_def oidcProviderParams_def create_proxy_def
  by (intro sends ak_sends ak_call_authorized; simp add: has_prefix_def)+

lemma known_sends [sends]: "sends P m \<Longrightarrow> sends P (known m)"
  unfolding known_def by (intro sends)

lemma ResourceExists_sends: "sends (authorized c) (ResourceExists (watched c) ty pk)"
proof (cases "resource_path ty pk")
  case (Some path)
  then have "has_prefix path ''/api/v3/''" by (auto simp: resource_path_def has_prefix_def split: if_splits)
  with Some show ?thesis
    unfolding ResourceExists_def watched_fields
    by (simp, intro sends) (auto simp: authorized_def has_prefix_iff)
qed (simp add: ResourceExists_def sends_keeps)


section \<open>The secret of an application\<close>

text \<open>When the provider of an application exists, \<open>EnsureAppOIDC\<close> returns a fresh client secret that it sends to
  no one: the only object it may still create is the application, so the secret of the provider stays another.\<close>

theorem EnsureAppOIDC_stale_secret:
  assumes run: "run_state (EnsureAppOIDC (watched c) name slug uri) (x, []) = (Inr app, (x', log))"
    and rnd: "run_state (ak_rand c 32) x = (Some b, x1)"
    and found: "run_state (find_oauth2 (watched c) (''app-'' @ slug)) (x1, []) = (Inr (pk # pks), y)" "pk \<noteq> 0"
  shows "ao_client_secret app = hex_encode b \<and> ao_provider_pk app = show_int pk
    \<and> list_all (\<lambda>rq. hr_method rq = ''POST'' \<longrightarrow> hr_url rq = ak_base c @ ''/api/v3/core/applications/''
        \<and> hr_body rq = Some (app_body name slug pk)) log"
proof -
  let ?P = "\<lambda>rq. hr_method rq = ''POST'' \<longrightarrow> hr_url rq = ak_base c @ ''/api/v3/core/applications/''
    \<and> hr_body rq = Some (app_body name slug pk)"
  have f: "sends ?P (find_oauth2 (watched c) (''app-'' @ slug))" and a: "sends ?P (attach_app (watched c) name slug pk)"
    unfolding find_oauth2_def attach_app_def Let_def by (intro sends ak_sends ak_call_sends; simp)+
  obtain x2 log2 where y: "y = (x2, log2)" by (cases y)
  have "run_state (randHex (watched c) 32) (x, []) = (hex_encode b, (x1, []))"
    using rnd by (simp add: randHex_def lift_prog_def)
  with run found y obtain r i where att: "run_state (attach_app (watched c) name slug pk) (x2, log2) = (r, (x', log))"
    and app: "(case r of Inl e \<Rightarrow> Inl e | Inr k \<Rightarrow> Inr \<lparr>ao_provider_pk = show_int pk, ao_app_pk = k,
        ao_client_id = i, ao_client_secret = hex_encode b\<rparr>) = Inr app"
    by (auto simp: EnsureAppOIDC_def Let_def split: prod.splits)
  have "list_all ?P log2" using sends_run [OF f] found(1) y by blast
  with att a have "list_all ?P log" unfolding sends_def by (auto dest!: keeps_run [where s = "(x2, log2)"])
  with app show ?thesis by (cases r) auto
qed

section \<open>Waiting ends\<close>

definition probe :: "'x authentik \<Rightarrow> http_request" where
  "probe c = \<lparr>hr_method = ''GET'', hr_url = ak_base c @ ''/api/v3/core/users/me/'',
     hr_headers = [(''Authorization'', ''Bearer '' @ ak_token c)], hr_body = None\<rparr>"

lemma probe_run:
  "run_state (ak_do (watched c) ''GET'' ''/api/v3/core/users/me/'' [] None) (x, log) = (r, (x', log'))
   \<Longrightarrow> log' = log @ [probe c]"
  by (auto simp: ak_do_def ak_call_def watched_http_def probe_def content_type_def split: prod.splits)

lemma wait_ready_run:
  assumes "run_state (wait_ready n (watched c) e) (x, log) = (r, (x', log'))"
  shows "\<exists>k \<le> n. log' = log @ replicate k (probe c)
    \<and> (r = Inr () \<and> 0 < k \<or> k = n \<or> (\<exists>y stop y'. run_state (ak_wait c) y = (Some stop, y') \<and> r = Inl stop))"
  using assms
proof (induction n arbitrary: e x log)
  case (Suc n)
  obtain a x1 log1 where a: "run_state (ak_do (watched c) ''GET'' ''/api/v3/core/users/me/'' [] None) (x, log) = (a, (x1, log1))"
    by (metis prod_cases3)
  note l = probe_run [OF a]
  show ?case
  proof (cases a)
    case (Inr u)
    with Suc.prems a l show ?thesis by (intro exI [of _ 1]) auto
  next
    case (Inl err)
    obtain w x2 where w: "run_state (ak_wait c) x1 = (w, x2)" by (rule prod.exhaust)
    then have lw: "run_state (lift_prog (ak_wait c)) (x1, log1) = (w, (x2, log1))" by (simp add: lift_prog_def)
    show ?thesis
    proof (cases w)
      case None
      with Suc.prems a Inl lw have "run_state (wait_ready n (watched c) err) (x2, log1) = (r, (x', log'))" by simp
      from Suc.IH [OF this] obtain k where "k \<le> n" "log' = log1 @ replicate k (probe c)"
        "r = Inr () \<and> 0 < k \<or> k = n \<or> (\<exists>y stop y'. run_state (ak_wait c) y = (Some stop, y') \<and> r = Inl stop)" by blast
      with l show ?thesis by (intro exI [of _ "Suc k"]) auto
    next
      case (Some stop)
      with Suc.prems a Inl lw w l show ?thesis by (intro exI [of _ 1]) auto
    qed
  qed
qed simp


section \<open>A concrete provider\<close>

text \<open>A provider that has one OAuth2 provider and answers everything else with an empty body.\<close>

definition one_provider :: string where
  "one_provider = json_object [(''results'', json_array [json_object [(''pk'', ''7'')]])]"

definition small_results :: "http_request \<Rightarrow> string" where
  "small_results rq =
    (if has_prefix (hr_url rq) ''http://a/api/v3/providers/oauth2/'' then one_provider else [])"

definition small_authentik :: "unit authentik" where
  "small_authentik = \<lparr>ak_base = ''http://a'', ak_token = ''t'',
     ak_http = \<lparr>hc_do = (\<lambda>rq. ret (Inr (200, small_results rq))), hc_decode_error = (\<lambda>s. ''bad'')\<rparr>,
     ak_rand = (\<lambda>n. ret (Some ''rnd'')), ak_wait = ret None\<rparr>"

lemma one_provider_parses: "parse_json one_provider = Some (JObj [(''results'', JArr [JObj [(''pk'', JNum ''7'')]])])"
  "length one_provider < 100"
  by code_simp+

lemma ak_decode_watched [simp]: "ak_decode (watched c) = ak_decode c"
  by (simp add: ak_decode_def fun_eq_iff split: option.split)

text \<open>What a call with a query \<open>q\<close> returns, and that it adds one request.\<close>

lemma small_into:
  "\<exists>rq. run_state (ak_into (watched small_authentik) meth path q body f) ((), log)
    = (ak_decode small_authentik f (if has_prefix (path @ (if q = [] then [] else ''?'' @ encode_query q))
         ''/api/v3/providers/oauth2/'' then one_provider else []), ((), log @ [rq]))"
proof -
  have "take 1048576 (small_results rq) = small_results rq" for rq using one_provider_parses(2) by (simp add: small_results_def)
  moreover have "has_prefix (''http://a'' @ s) ''http://a/api/v3/providers/oauth2/'' = has_prefix s ''/api/v3/providers/oauth2/''"
    for s by (simp add: has_prefix_def)
  ultimately show ?thesis
    by (simp add: ak_into_def ak_call_def watched_http_def small_authentik_def [THEN arg_cong [where f = ak_http]]
        small_authentik_def [THEN arg_cong [where f = ak_base]] Let_def) (simp add: small_results_def)
qed

lemma small_decodes:
  "ak_decode small_authentik (results int_pk) one_provider = Inr [7]"
  "ak_decode small_authentik (results app_of) [] = Inr []" "ak_decode small_authentik text_pk [] = Inr []"
proof -
  have n: "one_provider \<noteq> []" by (simp add: one_provider_def json_object_def)
  have "Option.bind (members_of (JObj [(''results'', JArr [JObj [(''pk'', JNum ''7'')]])])) (results int_pk) = Some [7]"
    by code_simp
  with n show "ak_decode small_authentik (results int_pk) one_provider = Inr [7]"
    by (simp add: ak_decode_def one_provider_parses(1))
qed (simp_all add: ak_decode_def results_def text_pk_def list_field_def string_field_def structs_def)

lemma small_find:
  "\<exists>rq. run_state (find_oauth2 (watched small_authentik) ''app-git'') ((), []) = (Inr [7], ((), [rq]))"
proof -
  have "has_prefix (''/api/v3/providers/oauth2/'' @ s) ''/api/v3/providers/oauth2/''" for s by (simp add: has_prefix_def)
  with small_into [of "''GET''" "''/api/v3/providers/oauth2/''" "[(''client_id'', ''app-git'')]" None "results int_pk" "[]"]
  show ?thesis unfolding find_oauth2_def by (simp add: small_decodes)
qed

lemma small_attach:
  "\<exists>log'. run_state (attach_app (watched small_authentik) name slug pk) ((), log) = (Inr [], ((), log'))"
proof -
  have p: "\<not> has_prefix (''/api/v3/core/applications/'' @ s) ''/api/v3/providers/oauth2/''" for s
    by (simp add: has_prefix_def)
  obtain r1 where 1: "run_state (ak_into (watched small_authentik) ''GET'' ''/api/v3/core/applications/''
      [(''page_size'', ''200'')] None (results app_of)) ((), log) = (Inr [], ((), log @ [r1]))"
    using small_into [of "''GET''" "''/api/v3/core/applications/''" "[(''page_size'', ''200'')]" None "results app_of" log] p
    by (auto simp: small_decodes)
  obtain r2 where 2: "run_state (ak_into (watched small_authentik) ''POST'' ''/api/v3/core/applications/'' []
      (Some (app_body name slug pk)) text_pk) ((), log @ [r1]) = (Inr [], ((), log @ [r1, r2]))"
    using small_into [of "''POST''" "''/api/v3/core/applications/''" "[]" "Some (app_body name slug pk)" text_pk
      "log @ [r1]"] p [of "[]"] by (auto simp: small_decodes)
  from 1 2 show ?thesis by (simp add: attach_app_def Let_def)
qed

lemma small_app:
  "\<exists>app log. run_state (EnsureAppOIDC (watched small_authentik) ''Git'' ''git'' ''https://g'') ((), []) = (Inr app, ((), log))"
proof -
  have r: "run_state (randHex (watched small_authentik) 32) ((), []) = (hex_encode ''rnd'', ((), []))"
    by (simp add: randHex_def lift_prog_def small_authentik_def)
  from small_find obtain rq where f: "run_state (find_oauth2 (watched small_authentik) ''app-git'') ((), [])
      = (Inr [7], ((), [rq]))" by blast
  from small_attach obtain log' where "run_state (attach_app (watched small_authentik) ''Git'' ''git'' 7) ((), [rq])
      = (Inr [], ((), log'))" by blast
  with r f show ?thesis by (simp add: EnsureAppOIDC_def Let_def)
qed

theorem EnsureAppOIDC_stale_secret_witness:
  "\<exists>app log. run_state (EnsureAppOIDC (watched small_authentik) ''Git'' ''git'' ''https://g'') ((), []) = (Inr app, ((), log))
    \<and> ao_client_secret app = hex_encode ''rnd'' \<and> ao_provider_pk app = show_int 7"
proof -
  from small_app obtain app log where run: "run_state (EnsureAppOIDC (watched small_authentik) ''Git'' ''git'' ''https://g'')
      ((), []) = (Inr app, ((), log))" by blast
  have rnd: "run_state (ak_rand small_authentik 32) () = (Some ''rnd'', ())" by (simp add: small_authentik_def)
  from small_find obtain log2 where f: "run_state (find_oauth2 (watched small_authentik) (''app-'' @ ''git'')) ((), [])
      = (Inr (7 # []), ((), log2))" by auto
  from EnsureAppOIDC_stale_secret [OF run rnd f] run show ?thesis by auto
qed


end
