(* ===== verification/Http_UI.thy ===== *)
theory Http_UI
  imports Http_Setup_Lemmas Http_Domains_Lemmas Http_Mail Http_Apps
begin

text \<open>
  The admin console, \<open>httpapi/ui.go\<close>: each page as the data its template is given. The templates themselves are
  rendered by a library. The text of an error is not modelled: \<open>Err\<close> holds the first error of a page, the empty
  text is \<open>None\<close>. A list whose query failed is empty.
\<close>

section \<open>Page data\<close>

record ui_base =
  ui_user :: "user option"
  ui_active :: string
  ui_title :: string
  ui_err :: "store_err option"

record ui_audit_data = ui_base +
  ua_filter :: string
  ua_events :: "(audit_event \<times> int) list"

record ui_orgs_data = ui_base +
  uo_orgs :: "organization list"

record ui_users_data = ui_base +
  uu_users :: "user list"
  uu_orgs :: "organization list"

record ui_domains_data = ui_base +
  ud_orgs :: "organization list"
  ud_org_id :: string
  ud_domains :: "domain list"
  ud_hostnames :: "hostname list"

record ui_mail_data = ui_base +
  um_orgs :: "organization list"
  um_org_id :: string
  um_domain_id :: string
  um_fqdn :: string
  um_mail_domain :: "mail_domain option"
  um_identities :: "mail_identity list"
  um_aliases :: "mail_alias list"
  um_alias_groups :: "string \<Rightarrow> string option"

record ui_catalog_data = ui_base +
  uc_orgs :: "organization list"
  uc_apps :: "catalog_app list"

record ui_setup_data = ui_base +
  uw_onboarded :: bool
  uw_local_domain :: string
  uw_bootstrap_email :: string
  uw_admin_exists :: bool
  uw_authenticated :: bool

section \<open>Pages behind the session\<close>

definition ui_page :: "'x auth_deps \<Rightarrow> incoming \<Rightarrow> (user \<Rightarrow> ('x world, 'p) prog) \<Rightarrow> ('x world, 'p answer) prog" where
  "ui_page ad rq k = do {
     r \<leftarrow> uiAuth ad rq;
     (case r of
        Inl a \<Rightarrow> ret a
      | Inr u \<Rightarrow> do { x \<leftarrow> k u; ret (Reply [] (Done 200 x)) }) }"

text \<open>The rows of a query, none when it failed, and the error that a page keeps: the first.\<close>

definition rows :: "store_err + 'a list \<Rightarrow> 'a list" where
  "rows r = (case r of Inl e \<Rightarrow> [] | Inr xs \<Rightarrow> xs)"

definition note_err :: "store_err option \<Rightarrow> store_err + 'a \<Rightarrow> store_err option" where
  "note_err err r = (case (err, r) of (None, Inl e) \<Rightarrow> Some e | _ \<Rightarrow> err)"

definition uiDashboard :: "'x auth_deps \<Rightarrow> incoming \<Rightarrow> ('x world, 'p answer) prog" where
  "uiDashboard ad rq = do {
     r \<leftarrow> uiAuth ad rq;
     ret (case r of Inl a \<Rightarrow> a | Inr u \<Rightarrow> Redirect [] 302 ''/ui/orgs'') }"

definition uiOrgs :: "'x auth_deps \<Rightarrow> incoming \<Rightarrow> ('x world, ui_orgs_data answer) prog" where
  "uiOrgs ad rq = ui_page ad rq (\<lambda>u. do {
     orgs \<leftarrow> ListOrganizations 500;
     ret \<lparr>ui_user = Some u, ui_active = ''orgs'', ui_title = ''Organizations'', ui_err = note_err None orgs,
       uo_orgs = rows orgs\<rparr> })"

definition uiUsers :: "'x auth_deps \<Rightarrow> incoming \<Rightarrow> ('x world, ui_users_data answer) prog" where
  "uiUsers ad rq = ui_page ad rq (\<lambda>u. do {
     users \<leftarrow> ListUsers 500;
     orgs \<leftarrow> ListOrganizations 500;
     ret \<lparr>ui_user = Some u, ui_active = ''users'', ui_title = ''Users'', ui_err = None,
       uu_users = rows users, uu_orgs = rows orgs\<rparr> })"

definition page_hostnames :: "string \<Rightarrow> store_err option \<Rightarrow> ('x world, store_err option \<times> hostname list) prog" where
  "page_hostnames d err =
    (if d = [] then ret (err, [])
     else do {
       found \<leftarrow> GetDomainByID d;
       (case found of
          Inl e \<Rightarrow> ret (err, [])
        | Inr x \<Rightarrow> do {
            hostnames \<leftarrow> ListHostnamesByDomain (d_id x);
            ret (note_err err hostnames, rows hostnames) }) })"

definition uiDomains :: "'x auth_deps \<Rightarrow> incoming \<Rightarrow> ('x world, ui_domains_data answer) prog" where
  "uiDomains ad rq = ui_page ad rq (\<lambda>u. do {
     orgs \<leftarrow> ListOrganizations 500;
     (let base = \<lparr>ui_user = Some u, ui_active = ''domains'', ui_title = ''Domains'', ui_err = note_err None orgs,
            ud_orgs = rows orgs, ud_org_id = [], ud_domains = [], ud_hostnames = []\<rparr>;
          orgID = ic_query rq ''org'' in
      if orgID = [] then ret base
      else do {
        domains \<leftarrow> ListDomainsByOrg orgID;
        hs \<leftarrow> page_hostnames (ic_query rq ''domain'') (note_err (note_err None orgs) domains);
        ret (base\<lparr>ud_org_id := orgID, ud_domains := rows domains, ui_err := fst hs, ud_hostnames := snd hs\<rparr>) }) })"

text \<open>The names of the groups that aliases are bound to, by alias.\<close>

primrec alias_groups :: "mail_alias list \<Rightarrow> (string \<Rightarrow> string option) \<Rightarrow> ('x world, string \<Rightarrow> string option) prog" where
  "alias_groups [] acc = ret acc"
| "alias_groups (a # as) acc =
    (case ma_group a of
       None \<Rightarrow> alias_groups as acc
     | Some gid \<Rightarrow> do {
         g \<leftarrow> GetGroupByID gid;
         (case g of
            Inl e \<Rightarrow> alias_groups as acc
          | Inr g \<Rightarrow> alias_groups as (acc(ma_id a \<mapsto> g_name g))) })"

definition mail_page :: "string \<Rightarrow> ui_mail_data \<Rightarrow> ('x world, ui_mail_data) prog" where
  "mail_page domID data = do {
     found \<leftarrow> GetDomainByID domID;
     md \<leftarrow> GetMailDomainByDomainID domID;
     identities \<leftarrow> ListMailIdentitiesByDomain domID;
     aliases \<leftarrow> ListMailAliasesByDomain domID;
     groups \<leftarrow> alias_groups (rows aliases) Map.empty;
     ret (data\<lparr>um_domain_id := domID,
       um_fqdn := (case found of Inl e \<Rightarrow> [] | Inr d \<Rightarrow> d_fqdn d),
       um_mail_domain := (case md of Inl e \<Rightarrow> None | Inr m \<Rightarrow> Some m),
       um_identities := rows identities, um_aliases := rows aliases,
       ui_err := note_err (note_err (ui_err data) identities) aliases,
       um_alias_groups := groups\<rparr>) }"

definition uiMail :: "'x auth_deps \<Rightarrow> incoming \<Rightarrow> ('x world, ui_mail_data answer) prog" where
  "uiMail ad rq = ui_page ad rq (\<lambda>u. do {
     orgs \<leftarrow> ListOrganizations 500;
     (let base = \<lparr>ui_user = Some u, ui_active = ''mail'', ui_title = ''Mail'', ui_err = note_err None orgs,
            um_orgs = rows orgs, um_org_id = ic_query rq ''org'', um_domain_id = [], um_fqdn = [],
            um_mail_domain = None, um_identities = [], um_aliases = [], um_alias_groups = Map.empty\<rparr> in
      if ic_query rq ''org'' = [] \<or> ic_query rq ''domain'' = [] then ret base
      else mail_page (ic_query rq ''domain'') base) })"

definition uiCatalog :: "'x auth_deps \<Rightarrow> incoming \<Rightarrow> ('x world, ui_catalog_data answer) prog" where
  "uiCatalog ad rq = ui_page ad rq (\<lambda>u. do {
     orgs \<leftarrow> ListOrganizations 500;
     apps \<leftarrow> ListCatalogApps;
     ret \<lparr>ui_user = Some u, ui_active = ''catalog'', ui_title = ''Catalog'',
       ui_err = note_err (note_err None orgs) apps, uc_orgs = rows orgs, uc_apps = rows apps\<rparr> })"

definition uiAudit :: "'x auth_deps \<Rightarrow> incoming \<Rightarrow> ('x world, ui_audit_data answer) prog" where
  "uiAudit ad rq = ui_page ad rq (\<lambda>u. do {
     events \<leftarrow> ListAuditEvents 200 (ic_query rq ''action'');
     ret \<lparr>ui_user = Some u, ui_active = ''audit'', ui_title = ''Audit log'', ui_err = note_err None events,
       ua_filter = ic_query rq ''action'', ua_events = rows events\<rparr> })"

section \<open>The wizard page\<close>

definition uiSetup :: "'x setup_deps \<Rightarrow> incoming \<Rightarrow> ('x world, ui_setup_data answer) prog" where
  "uiSetup sd rq = do {
     r \<leftarrow> GetInstallation;
     (let blank_page = \<lparr>ui_user = None, ui_active = [], ui_title = ''Setup'', ui_err = note_err None r,
            uw_onboarded = False, uw_local_domain = [], uw_bootstrap_email = [], uw_admin_exists = False,
            uw_authenticated = False\<rparr> in
      case r of
        Inl e \<Rightarrow> ret (Reply [] (Done 200 blank_page))
      | Inr inst \<Rightarrow>
         if Onboarded inst then ret (Redirect [] 302 ''/ui/orgs'')
         else do {
           u \<leftarrow> authenticate (sd_auth sd) rq;
           (let data = blank_page\<lparr>uw_local_domain := in_local_domain inst, uw_bootstrap_email := sd_email sd\<rparr> in
            case u of
              None \<Rightarrow> ret (Reply [] (Done 200 data))
            | Some u \<Rightarrow> do {
                n \<leftarrow> AdminCount;
                ret (Reply [] (Done 200 (data\<lparr>ui_user := Some u, uw_authenticated := True,
                  uw_admin_exists := (case n of Inl e \<Rightarrow> False | Inr n \<Rightarrow> 0 < n)\<rparr>))) }) }) }"

section \<open>The pages keep what the statements keep\<close>

context table_invariant begin

lemma uiAuth_keeps [keeps]: "keeps (on_db I) (uiAuth ad rq)"
  unfolding uiAuth_def by (intro keeps)

lemma ui_page_keeps [keeps]: "(\<And>u. keeps (on_db I) (k u)) \<Longrightarrow> keeps (on_db I) (ui_page ad rq k)"
  unfolding ui_page_def by (intro keeps)

lemma page_hostnames_keeps [keeps]: "keeps (on_db I) (page_hostnames d err)"
  unfolding page_hostnames_def by (intro keeps)

lemma alias_groups_keeps [keeps]: "keeps (on_db I) (alias_groups as acc)"
  by (induction as arbitrary: acc) (auto intro!: keeps split: option.splits)

lemma ui_keeps [keeps]:
  "keeps (on_db I) (uiDashboard ad rq)" "keeps (on_db I) (uiOrgs ad rq)" "keeps (on_db I) (uiUsers ad rq)"
  "keeps (on_db I) (uiDomains ad rq)" "keeps (on_db I) (uiMail ad rq)" "keeps (on_db I) (uiCatalog ad rq)"
  "keeps (on_db I) (uiAudit ad rq)" "keeps (on_db I) (uiSetup sd rq)"
  unfolding uiDashboard_def uiOrgs_def uiUsers_def uiDomains_def uiMail_def mail_page_def uiCatalog_def uiAudit_def
    uiSetup_def Let_def
  by (intro keeps)+

end

end
