(* ===== verification/Http_Requests.thy ===== *)
theory Http_Requests
  imports Http_UI Http_Onboard Http_Invites_Lemmas Go_HTTP
begin

text \<open>
  The bodies of requests: \<open>decodeJSON\<close> of \<open>httpapi/responses.go\<close> and the request types of the handlers with the
  names of their fields. The decoder reads one value from the first mebibyte and does not look at what follows.
  The text of a decoding error is a function of the body, an argument here.
\<close>

definition body_limit :: nat where "body_limit = 2 ^ 20"

definition decodeJSON :: "((string \<times> json) list \<Rightarrow> 'b option) \<Rightarrow> (string \<Rightarrow> string) \<Rightarrow> string \<Rightarrow> string + 'b" where
  "decodeJSON dec err body =
    (let text = take body_limit body in
     case Option.bind (Option.bind (first_value text) members_of) dec of
       None \<Rightarrow> Inl (err text)
     | Some req \<Rightarrow> Inr req)"

definition addMemberReq :: "(string \<times> json) list \<Rightarrow> add_member_req option" where
  "addMemberReq ms = (case (string_field ''user_id'' ms, string_field ''role'' ms) of
     (Some u, Some r) \<Rightarrow> Some \<lparr>am_user_id = u, am_role = r\<rparr> | _ \<Rightarrow> None)"

definition createGroupReq :: "(string \<times> json) list \<Rightarrow> create_group_req option" where
  "createGroupReq ms = (case (string_field ''name'' ms, string_field ''description'' ms) of
     (Some n, Some d) \<Rightarrow> Some \<lparr>cg_name = n, cg_description = d\<rparr> | _ \<Rightarrow> None)"

definition createUserReq :: "(string \<times> json) list \<Rightarrow> create_user_req option" where
  "createUserReq ms =
    (case (string_field ''email'' ms, string_field ''display_name'' ms, string_field ''organization_id'' ms,
        strings_field ''group_ids'' ms, string_field ''role'' ms) of
       (Some e, Some n, Some i, Some gs, Some r) \<Rightarrow>
         Some \<lparr>cu_email = e, cu_display_name = n, cu_org = i, cu_groups = gs, cu_role = r\<rparr>
     | _ \<Rightarrow> None)"

definition createInviteReq :: "(string \<times> json) list \<Rightarrow> create_invite_req option" where
  "createInviteReq ms =
    (case (string_field ''email'' ms, string_field ''display_name'' ms, string_field ''role'' ms) of
       (Some e, Some n, Some r) \<Rightarrow> Some \<lparr>ci_email = e, ci_display_name = n, ci_role = r\<rparr> | _ \<Rightarrow> None)"

definition acceptInviteReq :: "(string \<times> json) list \<Rightarrow> accept_invite_req option" where
  "acceptInviteReq ms = (case (string_field ''token'' ms, string_field ''password'' ms) of
     (Some t, Some p) \<Rightarrow> Some \<lparr>ac_token = t, ac_password = p\<rparr> | _ \<Rightarrow> None)"

definition createMailIdentityReq :: "(string \<times> json) list \<Rightarrow> create_identity_req option" where
  "createMailIdentityReq ms = (case (string_field ''local_part'' ms, string_field ''user_id'' ms) of
     (Some l, Some u) \<Rightarrow> Some \<lparr>cm_local = l, cm_user = u\<rparr> | _ \<Rightarrow> None)"

definition createMailAliasReq :: "(string \<times> json) list \<Rightarrow> create_alias_req option" where
  "createMailAliasReq ms =
    (case (string_field ''local_part'' ms, strings_field ''destinations'' ms, string_ptr_field ''group_id'' ms) of
       (Some l, Some ds, Some g) \<Rightarrow> Some \<lparr>al_local = l, al_dests = ds, al_group = g\<rparr> | _ \<Rightarrow> None)"

definition onboardUserReq :: "(string \<times> json) list \<Rightarrow> onboard_req option" where
  "onboardUserReq ms =
    (case (string_field ''email'' ms, string_field ''display_name'' ms, string_field ''role'' ms,
        string_field ''group_id'' ms, bool_field ''provision_mailbox'' ms, string_field ''local_part'' ms) of
       (Some e, Some n, Some r, Some g, Some b, Some l) \<Rightarrow>
         Some \<lparr>ob_email = e, ob_display_name = n, ob_role = r, ob_group = g, ob_mailbox = b, ob_local = l\<rparr>
     | _ \<Rightarrow> None)"

definition createApplicationReq :: "(string \<times> json) list \<Rightarrow> create_app_req option" where
  "createApplicationReq ms =
    (case (string_field ''catalog_id'' ms, string_field ''hostname'' ms, string_field ''name'' ms,
        strings_field ''access_group_ids'' ms) of
       (Some c, Some h, Some n, Some gs) \<Rightarrow>
         Some \<lparr>cr_catalog = c, cr_hostname = h, cr_name = n, cr_groups = gs\<rparr>
     | _ \<Rightarrow> None)"

definition createSetupReq :: "(string \<times> json) list \<Rightarrow> create_setup_req option" where
  "createSetupReq ms =
    (case (string_field ''fqdn'' ms, string_field ''provider'' ms, string_field ''api_token'' ms,
        string_field ''zone_id'' ms) of
       (Some f, Some p, Some t, Some z) \<Rightarrow>
         Some \<lparr>cs_fqdn = f, cs_provider = p, cs_token = t, cs_zone = z\<rparr>
     | _ \<Rightarrow> None)"

end
