(* ===== verification/Http_Router.thy ===== *)
theory Http_Router
  imports Http_Requests
begin

text \<open>
  The router and the middleware: \<open>httpapi/router.go\<close>, \<open>middleware.go\<close> and the headers of \<open>responses.go\<close>. A request
  is what the multiplexer of \<open>net/http\<close> sees: method, unescaped segments of a clean path, query, cookies, the
  headers the program reads, and the body. The routes are tried in the order of the source; no two of them but the
  page at the root match the same request. The payloads of all handlers are one type. A panic of the outermost
  middleware, which only happens when no random bytes are left, ends the connection.
\<close>

section \<open>Requests and payloads\<close>

record http_in =
  hq_method :: string
  hq_segments :: "string list"
  hq_query :: "string \<Rightarrow> string"
  hq_cookies :: "(string \<times> string) list"
  hq_request_id :: string
  hq_forwarded :: string
  hq_remote :: string
  hq_body :: string

datatype payload =
    PText string | PHealth string | PIcon | PUnit | PStatus status | PFlag bool
  | PUser user | PUsers "user list" | POrg organization | POrgs "organization list"
  | PMembership membership | PMembers "member list" | PGroup group | PGroups "group list"
  | PGroupMembers "group_member list" | POnboard onboard_resp | PInvite "user \<times> invite_resp"
  | PAccepted "string \<times> org_role" | PCatalog "catalog_app list" | PCatalogEntry "string \<times> string \<times> string"
  | PDomain "domain \<times> txt_instructions" | PDomains "domain list" | PVerified "status \<times> string option"
  | PHostname hostname | PHostnames "hostname list" | PMailDomain mail_domain
  | PMailStatus "mail_domain \<times> chasquid_status option \<times> domain_state option"
  | PReconciled "nat \<times> string list" | PMailbox "mail_identity \<times> string \<times> string"
  | PMailboxes "mail_identity list" | PSecret "string \<times> string" | PAlias mail_alias | PAliases "mail_alias list"
  | PApp app_resp | PApps "instance_row list" | PSetupStatus setup_status | PSetupLogin "string \<times> bool"
  | PSetup "domain \<times> txt_instructions \<times> string" | PVerify verify_payload
  | UOrgs ui_orgs_data | UUsers ui_users_data | UDomains ui_domains_data | UMail ui_mail_data
  | UCatalog ui_catalog_data | UAudit ui_audit_data | USetup ui_setup_data

text \<open>The dependencies of the server, and what the process keeps in memory between requests.\<close>

record 'x server =
  sv_deps :: "'x deps"
  sv_domains :: "'x domain_deps"
  sv_mail :: "'x mail_deps"
  sv_setup :: "'x setup_deps"
  sv_manifest :: "string \<Rightarrow> string + manifest"
  sv_decode_error :: "string \<Rightarrow> string"
  sv_version :: string

record process =
  pc_limiter :: limiter
  pc_poll :: poll_state

definition incoming_of :: "http_in \<Rightarrow> string \<Rightarrow> incoming" where
  "incoming_of q reqID = \<lparr>ic_cookies = hq_cookies q, ic_query = hq_query q, ic_id = reqID\<rparr>"

section \<open>The table of routes\<close>

datatype endpoint =
    EFavicon | EHealth | ESetupStatus | ESetupLogin | ECreateSetup | EVerifySetup | ELogout | EOidcLogin | EOidcCallback | EMe
  | ECreateOrganization | EListOrganizations | EAddOrganizationMember | EOnboardUser | ECreateInvite | EAcceptInvite
  | EListOrganizationMembers | EDisableUser | EEnableUser | ESetUserAdmin | EDeleteOrganization | EListGroups
  | ECreateGroup | EAddGroupMember | EListGroupMembers | ECreateUser | EListUsers | EListCatalog | ERegisterCatalog
  | ECreateDomain | EListDomains | EVerifyDomain | EDeleteDomain | EAddHostname | EListHostnames
  | EEnableMail | EMailStatus | EDisableMail | EReconcileMail | ECreateMailIdentity | EListMailIdentities
  | ERotateMailCredential | ECreateMailAlias | EListMailAliases | ECreateApplication | EListApplications
  | EUiSetup | EUiDashboard | EUiOrgs | EUiUsers | EUiDomains | EUiMail | EUiCatalog | EUiAudit

text \<open>A pattern matches the segments it names; \<open>{id}\<close> matches any segment but the empty one and yields it. A
  pattern for GET also matches HEAD.\<close>

fun match_segs :: "string list \<Rightarrow> string list \<Rightarrow> string \<Rightarrow> string option" where
  "match_segs [] [] v = Some v"
| "match_segs (p # ps) (s # ss) v =
    (if p = ''{id}'' then (if s = [] then None else match_segs ps ss s)
     else if p = s then match_segs ps ss v else None)"
| "match_segs _ _ v = None"

definition fits_method :: "string \<Rightarrow> string \<Rightarrow> bool" where
  "fits_method m meth \<longleftrightarrow> meth = m \<or> m = ''GET'' \<and> meth = ''HEAD''"

definition match_route :: "string \<times> string \<Rightarrow> string \<Rightarrow> string list \<Rightarrow> string option" where
  "match_route pat meth segs =
    (if fits_method (fst pat) meth then match_segs (tl (split_on CHR ''/'' (snd pat))) segs [] else None)"

definition routes :: "((string \<times> string) \<times> endpoint) list" where
  "routes = [
    ((''GET'', ''/favicon.ico''), EFavicon),
    ((''GET'', ''/api/v1/health''), EHealth),
    ((''GET'', ''/api/v1/setup''), ESetupStatus),
    ((''POST'', ''/api/v1/setup/login''), ESetupLogin),
    ((''POST'', ''/api/v1/setup''), ECreateSetup),
    ((''POST'', ''/api/v1/setup/verify''), EVerifySetup),
    ((''POST'', ''/api/v1/auth/logout''), ELogout),
    ((''GET'', ''/api/v1/auth/login''), EOidcLogin),
    ((''GET'', ''/api/v1/auth/callback''), EOidcCallback),
    ((''GET'', ''/api/v1/me''), EMe),
    ((''POST'', ''/api/v1/organizations''), ECreateOrganization),
    ((''GET'', ''/api/v1/organizations''), EListOrganizations),
    ((''POST'', ''/api/v1/organizations/{id}/members''), EAddOrganizationMember),
    ((''POST'', ''/api/v1/organizations/{id}/onboard-user''), EOnboardUser),
    ((''POST'', ''/api/v1/organizations/{id}/invites''), ECreateInvite),
    ((''POST'', ''/api/v1/invites/accept''), EAcceptInvite),
    ((''GET'', ''/api/v1/organizations/{id}/members''), EListOrganizationMembers),
    ((''POST'', ''/api/v1/users/{id}/disable''), EDisableUser),
    ((''POST'', ''/api/v1/users/{id}/enable''), EEnableUser),
    ((''POST'', ''/api/v1/users/{id}/admin''), ESetUserAdmin),
    ((''DELETE'', ''/api/v1/organizations/{id}''), EDeleteOrganization),
    ((''GET'', ''/api/v1/organizations/{id}/groups''), EListGroups),
    ((''POST'', ''/api/v1/organizations/{id}/groups''), ECreateGroup),
    ((''POST'', ''/api/v1/groups/{id}/members''), EAddGroupMember),
    ((''GET'', ''/api/v1/groups/{id}/members''), EListGroupMembers),
    ((''POST'', ''/api/v1/users''), ECreateUser),
    ((''GET'', ''/api/v1/users''), EListUsers),
    ((''GET'', ''/api/v1/catalog''), EListCatalog),
    ((''POST'', ''/api/v1/catalog''), ERegisterCatalog),
    ((''POST'', ''/api/v1/organizations/{id}/domains''), ECreateDomain),
    ((''GET'', ''/api/v1/organizations/{id}/domains''), EListDomains),
    ((''POST'', ''/api/v1/domains/{id}/verify''), EVerifyDomain),
    ((''DELETE'', ''/api/v1/domains/{id}''), EDeleteDomain),
    ((''POST'', ''/api/v1/domains/{id}/hostnames''), EAddHostname),
    ((''GET'', ''/api/v1/domains/{id}/hostnames''), EListHostnames),
    ((''POST'', ''/api/v1/domains/{id}/mail''), EEnableMail),
    ((''GET'', ''/api/v1/domains/{id}/mail''), EMailStatus),
    ((''DELETE'', ''/api/v1/domains/{id}/mail''), EDisableMail),
    ((''POST'', ''/api/v1/domains/{id}/mail/reconcile''), EReconcileMail),
    ((''POST'', ''/api/v1/domains/{id}/mail-identities''), ECreateMailIdentity),
    ((''GET'', ''/api/v1/domains/{id}/mail-identities''), EListMailIdentities),
    ((''POST'', ''/api/v1/mail-identities/{id}/credentials/rotate''), ERotateMailCredential),
    ((''POST'', ''/api/v1/domains/{id}/mail/aliases''), ECreateMailAlias),
    ((''GET'', ''/api/v1/domains/{id}/mail/aliases''), EListMailAliases),
    ((''POST'', ''/api/v1/organizations/{id}/applications''), ECreateApplication),
    ((''GET'', ''/api/v1/organizations/{id}/applications''), EListApplications),
    ((''GET'', ''/ui/setup''), EUiSetup),
    ((''GET'', ''/ui/orgs''), EUiOrgs),
    ((''GET'', ''/ui/users''), EUiUsers),
    ((''GET'', ''/ui/domains''), EUiDomains),
    ((''GET'', ''/ui/mail''), EUiMail),
    ((''GET'', ''/ui/catalog''), EUiCatalog),
    ((''GET'', ''/ui/audit''), EUiAudit)]"

fun first_route :: "((string \<times> string) \<times> endpoint) list \<Rightarrow> string \<Rightarrow> string list \<Rightarrow> (endpoint \<times> string) option" where
  "first_route [] meth segs = None"
| "first_route ((pat, e) # rs) meth segs =
    (case match_route pat meth segs of Some v \<Rightarrow> Some (e, v) | None \<Rightarrow> first_route rs meth segs)"

text \<open>The pattern of the root page matches every path that no other route of its method matches.\<close>

definition find_route :: "string \<Rightarrow> string list \<Rightarrow> (endpoint \<times> string) option" where
  "find_route meth segs =
    (case first_route routes meth segs of
       Some r \<Rightarrow> Some r
     | None \<Rightarrow> if fits_method ''GET'' meth then Some (EUiDashboard, []) else None)"

section \<open>Handlers behind their routes\<close>

definition no_body :: "(string \<times> json) list \<Rightarrow> unit option" where
  "no_body ms = Some ()"

text \<open>A handler behind \<open>authn\<close>: the user of the session, the id of the request, the path value and the body.\<close>

definition guarded :: "'x server \<Rightarrow> http_in \<Rightarrow> string \<Rightarrow> string \<Rightarrow> ((string \<times> json) list \<Rightarrow> 'b option)
    \<Rightarrow> ('p \<Rightarrow> payload) \<Rightarrow> ('b request \<Rightarrow> ('x world, 'p reply) prog) \<Rightarrow> ('x world, payload answer) prog" where
  "guarded sv q reqID v dec pay h =
    authn (sd_auth (sv_setup sv))
      (\<lambda>u. do {
        rep \<leftarrow> h \<lparr>rq_user = u, rq_id = reqID, rq_path = v, rq_body = decodeJSON dec (sv_decode_error sv) (hq_body q)\<rparr>;
        ret (map_reply pay rep) })
      (incoming_of q reqID)"

text \<open>A page or an answer without a reply of a handler behind \<open>authn\<close>.\<close>

definition shown :: "('p \<Rightarrow> payload) \<Rightarrow> ('x world, 'p answer) prog \<Rightarrow> ('x world, payload answer) prog" where
  "shown pay m = do { a \<leftarrow> m; ret (map_answer pay a) }"

text \<open>The redemption of an invitation has no session; its handler does not read the user.\<close>

definition nobody :: user where
  "nobody = \<lparr>u_id = [], u_email = [], u_display_name = [], u_status = [], u_is_admin = False,
     u_auth_provider = [], u_auth_identity = []\<rparr>"

definition accept_invite :: "'x server \<Rightarrow> http_in \<Rightarrow> string \<Rightarrow> ('x world, payload answer) prog" where
  "accept_invite sv q reqID = do {
     rep \<leftarrow> acceptInvite (sv_deps sv) \<lparr>rq_user = nobody, rq_id = reqID, rq_path = [],
       rq_body = decodeJSON acceptInviteReq (sv_decode_error sv) (hq_body q)\<rparr>;
     ret (Reply [] (map_reply PAccepted rep)) }"

definition login_of :: "'x server \<Rightarrow> http_in \<Rightarrow> string \<Rightarrow> login_request" where
  "login_of sv q reqID = \<lparr>lr_forwarded = hq_forwarded q, lr_remote = hq_remote q, lr_id = reqID,
     lr_body = decodeJSON (string_field ''password'') (sv_decode_error sv) (hq_body q)\<rparr>"

section \<open>Dispatch\<close>

fun handle_identity :: "'x server \<Rightarrow> http_in \<Rightarrow> string \<Rightarrow> string \<Rightarrow> endpoint \<Rightarrow> ('x world, payload answer) prog" where
  "handle_identity sv q i v ECreateOrganization =
     guarded sv q i v (string_field ''name'') POrg (createOrganization (sv_deps sv))"
| "handle_identity sv q i v EListOrganizations = guarded sv q i v no_body POrgs listOrganizations"
| "handle_identity sv q i v EAddOrganizationMember = guarded sv q i v addMemberReq PMembership addOrganizationMember"
| "handle_identity sv q i v EOnboardUser =
     guarded sv q i v onboardUserReq POnboard (onboardUser (sv_deps sv) (sv_mail sv))"
| "handle_identity sv q i v ECreateInvite = guarded sv q i v createInviteReq PInvite (createInvite (sv_deps sv))"
| "handle_identity sv q i v EAcceptInvite = accept_invite sv q i"
| "handle_identity sv q i v EListOrganizationMembers = guarded sv q i v no_body PMembers listOrganizationMembers"
| "handle_identity sv q i v EDisableUser = guarded sv q i v no_body PStatus (disableUser (sv_deps sv))"
| "handle_identity sv q i v EEnableUser = guarded sv q i v no_body PStatus (enableUser (sv_deps sv))"
| "handle_identity sv q i v ESetUserAdmin = guarded sv q i v (bool_field ''admin'') PFlag setUserAdmin"
| "handle_identity sv q i v EDeleteOrganization = guarded sv q i v no_body (\<lambda>_. PUnit) deleteOrganization"
| "handle_identity sv q i v EListGroups = guarded sv q i v no_body PGroups listGroups"
| "handle_identity sv q i v ECreateGroup = guarded sv q i v createGroupReq PGroup (createGroup (sv_deps sv))"
| "handle_identity sv q i v EAddGroupMember =
     guarded sv q i v (string_field ''user_id'') (\<lambda>_. PUnit) addGroupMember"
| "handle_identity sv q i v EListGroupMembers = guarded sv q i v no_body PGroupMembers listGroupMembers"
| "handle_identity sv q i v ECreateUser = guarded sv q i v createUserReq PUser (createUser (sv_deps sv))"
| "handle_identity sv q i v _ = guarded sv q i v no_body PUsers listUsers"

fun handle_domains :: "'x server \<Rightarrow> http_in \<Rightarrow> string \<Rightarrow> string \<Rightarrow> endpoint \<Rightarrow> ('x world, payload answer) prog" where
  "handle_domains sv q i v ECreateDomain =
     guarded sv q i v (string_field ''fqdn'') PDomain (createDomain (sv_domains sv))"
| "handle_domains sv q i v EListDomains = guarded sv q i v no_body PDomains listDomains"
| "handle_domains sv q i v EVerifyDomain = guarded sv q i v no_body PVerified (verifyDomain (sv_domains sv))"
| "handle_domains sv q i v EDeleteDomain = guarded sv q i v no_body (\<lambda>_. PUnit) deleteDomain"
| "handle_domains sv q i v EAddHostname =
     guarded sv q i v (string_field ''hostname'') PHostname (addHostname (sv_domains sv))"
| "handle_domains sv q i v _ = guarded sv q i v no_body PHostnames listHostnames"

fun handle_mail :: "'x server \<Rightarrow> http_in \<Rightarrow> string \<Rightarrow> string \<Rightarrow> endpoint \<Rightarrow> ('x world, payload answer) prog" where
  "handle_mail sv q i v EEnableMail = guarded sv q i v no_body PMailDomain (enableMail (sv_mail sv))"
| "handle_mail sv q i v EMailStatus = guarded sv q i v no_body PMailStatus (mailStatus (sv_mail sv))"
| "handle_mail sv q i v EDisableMail = guarded sv q i v no_body (\<lambda>_. PUnit) disableMail"
| "handle_mail sv q i v EReconcileMail = guarded sv q i v no_body PReconciled (reconcileMail (sv_mail sv))"
| "handle_mail sv q i v ECreateMailIdentity =
     guarded sv q i v createMailIdentityReq PMailbox (createMailIdentity (sv_mail sv))"
| "handle_mail sv q i v EListMailIdentities = guarded sv q i v no_body PMailboxes listMailIdentities"
| "handle_mail sv q i v ERotateMailCredential = guarded sv q i v no_body PSecret (rotateMailCredential (sv_mail sv))"
| "handle_mail sv q i v ECreateMailAlias = guarded sv q i v createMailAliasReq PAlias (createMailAlias (sv_mail sv))"
| "handle_mail sv q i v _ = guarded sv q i v no_body PAliases listMailAliases"

fun handle_apps :: "'x server \<Rightarrow> http_in \<Rightarrow> string \<Rightarrow> string \<Rightarrow> endpoint \<Rightarrow> ('x world, payload answer) prog" where
  "handle_apps sv q i v EListCatalog = guarded sv q i v no_body PCatalog listCatalog"
| "handle_apps sv q i v ERegisterCatalog =
     guarded sv q i v (string_field ''manifest'') PCatalogEntry (registerCatalog (sv_manifest sv))"
| "handle_apps sv q i v ECreateApplication =
     guarded sv q i v createApplicationReq PApp (createApplication (sv_deps sv) (sv_mail sv))"
| "handle_apps sv q i v _ = guarded sv q i v no_body PApps listApplications"

fun handle_ui :: "'x server \<Rightarrow> incoming \<Rightarrow> endpoint \<Rightarrow> ('x world, payload answer) prog" where
  "handle_ui sv rq EUiSetup = shown USetup (uiSetup (sv_setup sv) rq)"
| "handle_ui sv rq EUiOrgs = shown UOrgs (uiOrgs (sd_auth (sv_setup sv)) rq)"
| "handle_ui sv rq EUiUsers = shown UUsers (uiUsers (sd_auth (sv_setup sv)) rq)"
| "handle_ui sv rq EUiDomains = shown UDomains (uiDomains (sd_auth (sv_setup sv)) rq)"
| "handle_ui sv rq EUiMail = shown UMail (uiMail (sd_auth (sv_setup sv)) rq)"
| "handle_ui sv rq EUiCatalog = shown UCatalog (uiCatalog (sd_auth (sv_setup sv)) rq)"
| "handle_ui sv rq EUiAudit = shown UAudit (uiAudit (sd_auth (sv_setup sv)) rq)"
| "handle_ui sv rq _ = uiDashboard (sd_auth (sv_setup sv)) rq"

fun handle_session :: "'x server \<Rightarrow> http_in \<Rightarrow> string \<Rightarrow> string \<Rightarrow> poll_state \<Rightarrow> endpoint \<Rightarrow> ('x world, payload answer) prog" where
  "handle_session sv q i v ps EFavicon = ret (Reply [] (Done 200 PIcon))"
| "handle_session sv q i v ps EHealth = ret (Reply [] (Done 200 (PHealth (sv_version sv))))"
| "handle_session sv q i v ps ESetupStatus = do {
     rep \<leftarrow> setupStatus (sv_setup sv) ps;
     ret (Reply [] (map_reply PSetupStatus rep)) }"
| "handle_session sv q i v ps ECreateSetup = guarded sv q i v createSetupReq PSetup (createSetup (sv_setup sv))"
| "handle_session sv q i v ps EVerifySetup = guarded sv q i v no_body PVerify (verifySetup (sv_setup sv))"
| "handle_session sv q i v ps ELogout = shown (\<lambda>_. PUnit) (ret (logout (sd_auth (sv_setup sv))))"
| "handle_session sv q i v ps EOidcLogin = shown (\<lambda>_. PUnit) (oidcLogin (sd_auth (sv_setup sv)))"
| "handle_session sv q i v ps EOidcCallback =
     shown (\<lambda>_. PUnit) (oidcCallback (sd_auth (sv_setup sv)) (incoming_of q i))"
| "handle_session sv q i v ps _ =
     requireAuth (sd_auth (sv_setup sv)) (\<lambda>u. ret (map_answer PUser (me u))) (incoming_of q i)"

definition identity_endpoints :: "endpoint list" where
  "identity_endpoints = [ECreateOrganization, EListOrganizations, EAddOrganizationMember, EOnboardUser, ECreateInvite,
     EAcceptInvite, EListOrganizationMembers, EDisableUser, EEnableUser, ESetUserAdmin, EDeleteOrganization, EListGroups,
     ECreateGroup, EAddGroupMember, EListGroupMembers, ECreateUser, EListUsers]"

definition domain_endpoints :: "endpoint list" where
  "domain_endpoints = [ECreateDomain, EListDomains, EVerifyDomain, EDeleteDomain, EAddHostname, EListHostnames]"

definition mail_endpoints :: "endpoint list" where
  "mail_endpoints = [EEnableMail, EMailStatus, EDisableMail, EReconcileMail, ECreateMailIdentity, EListMailIdentities,
     ERotateMailCredential, ECreateMailAlias, EListMailAliases]"

definition app_endpoints :: "endpoint list" where
  "app_endpoints = [EListCatalog, ERegisterCatalog, ECreateApplication, EListApplications]"

definition ui_endpoints :: "endpoint list" where
  "ui_endpoints = [EUiSetup, EUiDashboard, EUiOrgs, EUiUsers, EUiDomains, EUiMail, EUiCatalog, EUiAudit]"

definition dispatch :: "'x server \<Rightarrow> http_in \<Rightarrow> string \<Rightarrow> string \<Rightarrow> poll_state \<Rightarrow> endpoint
    \<Rightarrow> ('x world, payload answer) prog" where
  "dispatch sv q i v ps e =
    (if e \<in> set identity_endpoints then handle_identity sv q i v e
     else if e \<in> set domain_endpoints then handle_domains sv q i v e
     else if e \<in> set mail_endpoints then handle_mail sv q i v e
     else if e \<in> set app_endpoints then handle_apps sv q i v e
     else if e \<in> set ui_endpoints then handle_ui sv (incoming_of q i) e
     else handle_session sv q i v ps e)"

text \<open>The bootstrap login alone changes the memory of the process.\<close>

definition handle :: "'x server \<Rightarrow> http_in \<Rightarrow> string \<Rightarrow> string \<Rightarrow> endpoint \<Rightarrow> process
    \<Rightarrow> ('x world, payload answer \<times> process) prog" where
  "handle sv q i v e pc =
    (if e = ESetupLogin then do {
       r \<leftarrow> setupLogin (sv_setup sv) (login_of sv q i) (pc_limiter pc);
       ret (map_answer PSetupLogin (fst r), pc\<lparr>pc_limiter := snd r\<rparr>) }
     else do {
       a \<leftarrow> dispatch sv q i v (pc_poll pc) e;
       ret (a, pc) })"

section \<open>Middleware\<close>

definition secureHeaders :: "(string \<times> string) list" where
  "secureHeaders = [
    (''X-Content-Type-Options'', ''nosniff''),
    (''X-Frame-Options'', ''DENY''),
    (''Content-Security-Policy'', ''default-src 'self'; img-src 'self' data:; style-src 'unsafe-inline'; '' @
       ''script-src 'unsafe-inline'; frame-ancestors 'none'' @ [CHR 39]),
    (''Referrer-Policy'', ''same-origin'')]"

record response =
  hs_headers :: "(string \<times> string) list"
  hs_answer :: "payload answer"

definition method_not_allowed :: "payload answer" where
  "method_not_allowed = Reply [] (Done 405 (PText ''Method Not Allowed''))"

definition withRequestID :: "http_in \<Rightarrow> ('x world, string option) prog" where
  "withRequestID q = (if hq_request_id q = [] then RandomToken 9 else ret (Some (hq_request_id q)))"

text \<open>The whole stack: \<open>None\<close> is the panic of \<open>withRequestID\<close>, which nothing recovers.\<close>

definition serve :: "'x server \<Rightarrow> http_in \<Rightarrow> process \<Rightarrow> ('x world, response option \<times> process) prog" where
  "serve sv q pc = do {
     reqID \<leftarrow> withRequestID q;
     (case reqID of
        None \<Rightarrow> ret (None, pc)
      | Some i \<Rightarrow> do {
          r \<leftarrow> (case find_route (hq_method q) (hq_segments q) of
              None \<Rightarrow> ret (method_not_allowed, pc)
            | Some (e, v) \<Rightarrow> handle sv q i v e pc);
          ret (Some \<lparr>hs_headers = (''X-Request-ID'', i) # secureHeaders, hs_answer = fst r\<rparr>, snd r) }) }"

end
