(* ===== verification/Http_Router_Lemmas.thy ===== *)
theory Http_Router_Lemmas
  imports Http_Router
begin

text \<open>
  What holds for every request that the server takes: the table of routes is unambiguous, every request keeps the
  integrity of the database, and without a session only the open routes do anything.
\<close>

section \<open>The table of routes\<close>

text \<open>Two patterns that some path matches agree wherever both are literal.\<close>

fun overlap :: "string list \<Rightarrow> string list \<Rightarrow> bool" where
  "overlap [] [] \<longleftrightarrow> True"
| "overlap (p # ps) (q # qs) \<longleftrightarrow> (p = q \<or> p = ''{id}'' \<or> q = ''{id}'') \<and> overlap ps qs"
| "overlap _ _ \<longleftrightarrow> False"

lemma match_segs_overlap: "match_segs ps ss v = Some x \<Longrightarrow> match_segs qs ss v' = Some y \<Longrightarrow> overlap ps qs"
  by (induction ps ss v arbitrary: qs v' x rule: match_segs.induct) (case_tac qs; auto split: if_splits)+

definition pattern_of :: "string \<Rightarrow> string list" where
  "pattern_of pat = tl (split_on CHR ''/'' pat)"

definition clash :: "string \<times> string \<Rightarrow> string \<times> string \<Rightarrow> bool" where
  "clash a b \<longleftrightarrow> fst a = fst b \<and> overlap (pattern_of (snd a)) (pattern_of (snd b))"

fun no_clash :: "((string \<times> string) \<times> endpoint) list \<Rightarrow> bool" where
  "no_clash [] \<longleftrightarrow> True"
| "no_clash (r # rs) \<longleftrightarrow> list_all (\<lambda>s. \<not> clash (fst r) (fst s)) rs \<and> no_clash rs"

lemma routes_no_clash: "no_clash routes"
  by code_simp

lemma fits_method_unique: "fits_method a m \<Longrightarrow> fits_method b m \<Longrightarrow> a \<noteq> ''HEAD'' \<Longrightarrow> b \<noteq> ''HEAD'' \<Longrightarrow> a = b"
  by (auto simp: fits_method_def)

lemma match_route_clash:
  assumes "match_route a m segs = Some x" "match_route b m segs = Some y" "fst a \<noteq> ''HEAD''" "fst b \<noteq> ''HEAD''"
  shows "clash a b"
proof -
  from assms(1,2) have f: "fits_method (fst a) m" "fits_method (fst b) m"
    and s: "match_segs (pattern_of (snd a)) segs [] = Some x" "match_segs (pattern_of (snd b)) segs [] = Some y"
    by (auto simp: match_route_def pattern_of_def split: if_splits)
  with match_segs_overlap [OF s] fits_method_unique [OF f assms(3,4)] show ?thesis by (simp add: clash_def)
qed

lemma first_route_Some: "first_route rs meth segs = Some (e, v) \<Longrightarrow> \<exists>pat. (pat, e) \<in> set rs \<and> match_route pat meth segs = Some v"
  by (induction rs meth segs rule: first_route.induct) (auto split: option.splits)

lemma first_route_None: "first_route rs meth segs = None \<Longrightarrow> (pat, e) \<in> set rs \<Longrightarrow> match_route pat meth segs = None"
  by (induction rs meth segs rule: first_route.induct) (auto split: option.splits)

lemma first_route_unique:
  "no_clash rs \<Longrightarrow> list_all (\<lambda>r. fst (fst r) \<noteq> ''HEAD'') rs \<Longrightarrow> (pat, e) \<in> set rs \<Longrightarrow> match_route pat meth segs = Some v
    \<Longrightarrow> first_route rs meth segs = Some (e, v)"
proof (induction rs meth segs rule: first_route.induct)
  case (2 pat' e' rs meth segs)
  then show ?case
    using match_route_clash [of pat' meth segs _ pat v]
    by (fastforce simp: list_all_iff split: option.splits)
qed simp

lemma routes_methods: "list_all (\<lambda>r. fst (fst r) \<noteq> ''HEAD'') routes"
  by code_simp

text \<open>The order of the routes does not matter: a request goes to the endpoint of the one route that matches it,
  with the path value of that route, and to the root page exactly when none does and the method is GET or HEAD.\<close>

theorem find_route_iff:
  "find_route meth segs = Some (e, v) \<longleftrightarrow>
    (\<exists>pat. (pat, e) \<in> set routes \<and> match_route pat meth segs = Some v)
    \<or> (\<not> (\<exists>pat e'. (pat, e') \<in> set routes \<and> match_route pat meth segs \<noteq> None)
        \<and> fits_method ''GET'' meth \<and> e = EUiDashboard \<and> v = [])"
proof (cases "first_route routes meth segs")
  case None
  then show ?thesis using first_route_None [OF None] by (auto simp: find_route_def)
next
  case (Some r)
  from first_route_Some [of routes meth segs "fst r" "snd r"] Some
  obtain pat where m: "(pat, fst r) \<in> set routes" "match_route pat meth segs = Some (snd r)" by auto
  have "(\<exists>pat. (pat, e) \<in> set routes \<and> match_route pat meth segs = Some v) \<longleftrightarrow> r = (e, v)"
    using first_route_unique [OF routes_no_clash routes_methods] Some m by (cases r) fastforce
  moreover have "\<exists>pat e'. (pat, e') \<in> set routes \<and> match_route pat meth segs \<noteq> None" using m by blast
  ultimately show ?thesis using Some by (auto simp: find_route_def)
qed

section \<open>Requests without a session\<close>

definition open_routes :: "(string \<times> string) list" where
  "open_routes = [(''GET'', ''/favicon.ico''), (''GET'', ''/api/v1/health''), (''GET'', ''/api/v1/setup''),
     (''POST'', ''/api/v1/setup/login''), (''POST'', ''/api/v1/auth/logout''), (''GET'', ''/api/v1/auth/login''),
     (''GET'', ''/api/v1/auth/callback''), (''POST'', ''/api/v1/invites/accept''), (''GET'', ''/ui/setup'')]"

definition open_endpoint :: "endpoint \<Rightarrow> bool" where
  "open_endpoint e \<longleftrightarrow> e \<in> {EFavicon, EHealth, ESetupStatus, ESetupLogin, ELogout, EOidcLogin, EOidcCallback,
     EAcceptInvite, EUiSetup}"

lemma routes_open: "list_all (\<lambda>(pat, e). open_endpoint e \<longrightarrow> pat \<in> set open_routes) routes"
  by code_simp

lemma find_route_closed:
  assumes "find_route meth segs = Some (e, v)" and "\<not> list_ex (\<lambda>pat. match_route pat meth segs \<noteq> None) open_routes"
  shows "\<not> open_endpoint e"
proof
  assume o: "open_endpoint e"
  then have "e \<noteq> EUiDashboard" by (auto simp: open_endpoint_def)
  with assms(1) have "first_route routes meth segs = Some (e, v)"
    by (auto simp: find_route_def split: option.splits if_splits)
  then obtain pat where "(pat, e) \<in> set routes" "match_route pat meth segs = Some v"
    using first_route_Some by blast
  with o routes_open assms(2) show False by (fastforce simp: list_all_iff list_ex_iff)
qed

text \<open>The cookies carry a token that the platform has signed for a stored user and that has not expired.\<close>

definition signed_in :: "'x auth_deps \<Rightarrow> (string \<times> string) list \<Rightarrow> 'x world \<Rightarrow> bool" where
  "signed_in ad cookies w \<longleftrightarrow> (\<exists>u \<in> set (t_users (db w)). \<exists>token.
     map_of cookies (ss_name (ad_sessions ad)) = Some token \<and> signed_for (ad_sessions ad) token (u_id u) (clock w * 1000))"

definition turned_away :: "'x auth_deps \<Rightarrow> payload answer \<Rightarrow> bool" where
  "turned_away ad a \<longleftrightarrow> a = unauthorized ad \<or> a = Redirect [] 302 ''/api/v1/auth/login''"

definition denies :: "'x auth_deps \<Rightarrow> ('x world, payload answer) prog \<Rightarrow> 'x world \<Rightarrow> bool" where
  "denies ad m w \<longleftrightarrow> turned_away ad (fst (run_state m w)) \<and> db (snd (run_state m w)) = db w
     \<and> ext (snd (run_state m w)) = ext w"

lemma authenticate_nobody:
  assumes "\<not> signed_in ad (ic_cookies rq) w" and r: "run_state (authenticate ad rq) w = (r, w')"
  shows "r = None \<and> db w' = db w \<and> ext w' = ext w"
proof (intro conjI)
  show "r = None"
  proof (cases r)
    case (Some u)
    with authenticate_Some r have "signed_in ad (ic_cookies rq) w"
      unfolding signed_in_def by (metis ValidateSession_signed)
    with assms show ?thesis by simp
  qed
  show "db w' = db w" using run_reading(1) [OF authenticate_reading r] .
  have "keeps (\<lambda>w'. ext w' = ext w) (authenticate ad rq)"
    unfolding authenticate_def currentSessionUser_def GetByID_def by (intro keeps)
  from keeps_run [OF this r] show "ext w' = ext w" by simp
qed

lemma nobody_authenticated:
  assumes "\<not> signed_in ad (hq_cookies q) w"
  obtains w1 where "run_state (authenticate ad (incoming_of q i)) w = (None, w1)" "db w1 = db w" "ext w1 = ext w"
  using authenticate_nobody [of ad "incoming_of q i" w] assms
  by (cases "run_state (authenticate ad (incoming_of q i)) w") (auto simp: incoming_of_def)

named_theorems denied

lemma denies_guarded [denied]:
  assumes "\<not> signed_in (sd_auth (sv_setup sv)) (hq_cookies q) w"
  shows "denies (sd_auth (sv_setup sv)) (guarded sv q i v dec pay h) w"
  by (rule nobody_authenticated [OF assms, of i]) (simp add: guarded_def authn_def denies_def turned_away_def)

lemma denies_session [denied]:
  assumes "\<not> signed_in ad (hq_cookies q) w"
  shows "denies ad (requireAuth ad nxt (incoming_of q i)) w" "denies ad (shown pay (ui_page ad (incoming_of q i) k)) w"
    "denies ad (uiDashboard ad (incoming_of q i)) w"
  by (rule nobody_authenticated [OF assms, of i];
      simp add: requireAuth_def shown_def ui_page_def uiDashboard_def uiAuth_def unauthorized_def denies_def turned_away_def)+

lemma denies_groups:
  assumes "\<not> signed_in (sd_auth (sv_setup sv)) (hq_cookies q) w" and "\<not> open_endpoint e"
  shows "e \<in> set identity_endpoints \<Longrightarrow> denies (sd_auth (sv_setup sv)) (handle_identity sv q i v e) w"
    and "e \<in> set domain_endpoints \<Longrightarrow> denies (sd_auth (sv_setup sv)) (handle_domains sv q i v e) w"
    and "e \<in> set mail_endpoints \<Longrightarrow> denies (sd_auth (sv_setup sv)) (handle_mail sv q i v e) w"
    and "e \<in> set app_endpoints \<Longrightarrow> denies (sd_auth (sv_setup sv)) (handle_apps sv q i v e) w"
    and "e \<in> set ui_endpoints \<Longrightarrow> denies (sd_auth (sv_setup sv)) (handle_ui sv (incoming_of q i) e) w"
    and "denies (sd_auth (sv_setup sv)) (handle_session sv q i v ps e) w"
  using assms by (cases e; simp add: identity_endpoints_def domain_endpoints_def mail_endpoints_def app_endpoints_def
      ui_endpoints_def open_endpoint_def denied uiOrgs_def uiUsers_def uiDomains_def uiMail_def uiCatalog_def uiAudit_def)+

lemma denies_handle:
  assumes "\<not> signed_in (sd_auth (sv_setup sv)) (hq_cookies q) w" and "\<not> open_endpoint e"
    and r: "run_state (handle sv q i v e pc) w = ((a, pc'), w')"
  shows "turned_away (sd_auth (sv_setup sv)) a \<and> pc' = pc \<and> db w' = db w \<and> ext w' = ext w"
proof -
  have "denies (sd_auth (sv_setup sv)) (dispatch sv q i v (pc_poll pc) e) w"
    using denies_groups [OF assms(1,2)] by (simp add: dispatch_def)
  moreover from r assms(2) have "run_state (dispatch sv q i v (pc_poll pc) e) w = (a, w')" "pc' = pc"
    by (auto simp: handle_def open_endpoint_def split: prod.splits)
  ultimately show ?thesis by (simp add: denies_def)
qed

lemma withRequestID_run:
  assumes "run_state (withRequestID q) w = (r, w')"
  shows "db w' = db w \<and> ext w' = ext w \<and> clock w' = clock w"
  using assms by (auto simp: withRequestID_def RandomToken_def rand_bytes_def split: if_splits prod.splits)

text \<open>C4: without a session, a request to any route but the open ones gets status 401, the redirect of the pages to
  the login, or status 405; it changes no table, calls no external system and leaves the memory of the process.\<close>

theorem router_gate:
  assumes run: "run_state (serve sv q pc) w = ((out, pc'), w')"
    and nobody: "\<not> signed_in (sd_auth (sv_setup sv)) (hq_cookies q) w"
    and closed: "\<not> list_ex (\<lambda>pat. match_route pat (hq_method q) (hq_segments q) \<noteq> None) open_routes"
  shows "db w' = db w \<and> ext w' = ext w \<and> pc' = pc
    \<and> (case out of None \<Rightarrow> True | Some rsp \<Rightarrow>
        turned_away (sd_auth (sv_setup sv)) (hs_answer rsp) \<or> hs_answer rsp = method_not_allowed)"
proof (cases "run_state (withRequestID q) w")
  case (Pair reqID w1)
  from withRequestID_run [OF Pair] have w1: "db w1 = db w" "ext w1 = ext w" "clock w1 = clock w" by auto
  with nobody have n1: "\<not> signed_in (sd_auth (sv_setup sv)) (hq_cookies q) w1" by (simp add: signed_in_def)
  show ?thesis
  proof (cases reqID)
    case None
    with run Pair w1 show ?thesis by (auto simp: serve_def)
  next
    case i: (Some i)
    show ?thesis
    proof (cases "find_route (hq_method q) (hq_segments q)")
      case None
      with run Pair i w1 show ?thesis by (auto simp: serve_def)
    next
      case (Some ev)
      with run Pair i obtain a where h: "run_state (handle sv q i (snd ev) (fst ev) pc) w1 = ((a, pc'), w')"
        and out: "out = Some \<lparr>hs_headers = (''X-Request-ID'', i) # secureHeaders, hs_answer = a\<rparr>"
        by (cases ev) (auto simp: serve_def split: prod.splits)
      from Some have "\<not> open_endpoint (fst ev)" using find_route_closed [OF _ closed] by (metis prod.collapse)
      from denies_handle [OF n1 this h] out w1 show ?thesis by auto
    qed
  qed
qed

section \<open>The integrity of the database\<close>

context table_invariant begin

lemma guarded_keeps [keeps]:
  "(\<And>rq. keeps (on_db I) (h rq)) \<Longrightarrow> keeps (on_db I) (guarded sv q i v dec pay h)"
  unfolding guarded_def by (intro keeps)

lemma shown_keeps [keeps]: "keeps (on_db I) m \<Longrightarrow> keeps (on_db I) (shown pay m)"
  unfolding shown_def by (intro keeps)

lemma requireAuth_keeps [keeps]: "(\<And>u. keeps (on_db I) (nxt u)) \<Longrightarrow> keeps (on_db I) (requireAuth ad nxt rq)"
  unfolding requireAuth_def by (intro keeps)

lemma accept_invite_keeps [keeps]: "keeps (on_db I) (accept_invite sv q i)"
  unfolding accept_invite_def by (intro keeps)

lemma listing_keeps [keeps]:
  "keeps (on_db I) (listDomains rq)" "keeps (on_db I) (listHostnames rq)" "keeps (on_db I) (listMailIdentities rq)"
  "keeps (on_db I) (listMailAliases rq)" "keeps (on_db I) (mailStatus ml rq)" "keeps (on_db I) (disableMail rq)"
  "keeps (on_db I) (listApplications rq)" "keeps (on_db I) (setupStatus sd ps)" "keeps (on_db I) (listCatalog rq)"
  "keeps (on_db I) (verifyDomain dd rq)" "keeps (on_db I) (deleteDomain rq)"
  unfolding verifyDomain_def conclude_verification_def deleteDomain_def listDomains_def listHostnames_def listMailIdentities_def listMailAliases_def mailStatus_def disableMail_def
    listApplications_def setupStatus_def listCatalog_def Let_def
  by (intro keeps)+

lemma group_keeps [keeps]:
  "keeps (on_db I) (handle_identity sv q i v e)" "keeps (on_db I) (handle_domains sv q i v e)"
  "keeps (on_db I) (handle_mail sv q i v e)" "keeps (on_db I) (handle_apps sv q i v e)"
  "keeps (on_db I) (handle_ui sv rq e)" "keeps (on_db I) (handle_session sv q i v ps e)"
  by (cases e; (simp only: handle_identity.simps handle_domains.simps handle_mail.simps handle_apps.simps
      handle_ui.simps handle_session.simps), intro keeps)+

lemma serve_keeps [keeps]: "keeps (on_db I) (serve sv q pc)"
  unfolding serve_def withRequestID_def handle_def dispatch_def by (intro keeps)

end


end
