(* ===== verification/Http_Router_Runs.thy ===== *)
theory Http_Router_Runs
  imports Http_Router_Lemmas Http_Setup_Runs
begin

text \<open>
  What the pages of the console show to whom, and concrete requests: to the empty server without a session, and by a
  user who is no administrator.
\<close>

section \<open>The console and the interface differ\<close>

lemma users_routes:
  "find_route ''GET'' [''ui'', ''users''] = Some (EUiUsers, [])"
  "find_route ''GET'' [''api'', ''v1'', ''users''] = Some (EListUsers, [])"
  by code_simp+

lemma quiet_list_users:
  assumes "quiet T w" and "length (t_users (db w)) \<le> 500"
  shows "\<exists>us. run_state (ListUsers 500) w = (Inr us, w) \<and> set us = set (t_users (db w))"
  using assms by (simp add: ListUsers_def clamp_limit_def run_sql_def listUsersSQL_def quiet_sql_run query_def order_by_def)

lemma quiet_list_orgs:
  assumes "quiet T w"
  shows "\<exists>os. run_state (ListOrganizations k) w = (Inr os, w)"
  using assms by (simp add: ListOrganizations_def run_sql_def listOrgsSQL_def quiet_sql_run query_def)

lemma quiet_uiAuth:
  assumes "run_state (authenticate ad rq) w = (Some u, w)" "quiet T w" "t_install (db w) = Some row"
    "in_onboarded_at row \<noteq> None"
  shows "run_state (uiAuth ad rq) w = (Inr u, w)"
  using assms quiet_install [of T w row] by (simp add: uiAuth_def Onboarded_def installation.truncate_def)

text \<open>C17: the pages of the console check that somebody is logged in, not who: any user of an onboarded installation
  sees all users at \<open>/ui/users\<close>, while the interface refuses the same list to everybody but administrators.\<close>

theorem ui_users_any_user:
  assumes q: "quiet T w" and uq: "uniq u_id (t_users (db w))" and u: "u \<in> set (t_users (db w))" "\<not> u_is_admin u"
    and few: "length (t_users (db w)) \<le> 500"
    and inst: "t_install (db w) = Some row" "in_onboarded_at row \<noteq> None"
    and req: "hq_request_id q \<noteq> []" "hq_method q = ''GET''"
    and c: "map_of (hq_cookies q) (ss_name (ad_sessions (sd_auth (sv_setup sv)))) = Some token"
    and v: "ValidateSession (ad_sessions (sd_auth (sv_setup sv))) token (T * 1000) = Some sess" "se_user sess = u_id u"
  shows "(\<exists>h page. fst (run_state (serve sv (q\<lparr>hq_segments := [''ui'', ''users'']\<rparr>) pc) w)
        = (Some \<lparr>hs_headers = h, hs_answer = Reply [] (Done 200 (UUsers page))\<rparr>, pc)
      \<and> set (uu_users page) = set (t_users (db w)))
    \<and> (\<exists>h. fst (run_state (serve sv (q\<lparr>hq_segments := [''api'', ''v1'', ''users'']\<rparr>) pc) w)
        = (Some \<lparr>hs_headers = h, hs_answer = Reply [] (forbidden ''platform admin required'')\<rparr>, pc))"
proof
  have a: "run_state (authenticate (sd_auth (sv_setup sv)) (incoming_of (q\<lparr>hq_segments := s\<rparr>) i)) w = (Some u, w)" for s i
    by (rule authenticate_session [OF q uq u(1) _ v]) (simp add: incoming_of_def c)
  obtain us os where us: "run_state (ListUsers 500) w = (Inr us, w)" "set us = set (t_users (db w))"
    and os: "run_state (ListOrganizations 500) w = (Inr os, w)"
    using quiet_list_users [OF q few] quiet_list_orgs [OF q] by blast
  note s = serve_def withRequestID_def handle_def dispatch_def users_routes identity_endpoints_def domain_endpoints_def
    mail_endpoints_def app_endpoints_def ui_endpoints_def req
  show "\<exists>h page. fst (run_state (serve sv (q\<lparr>hq_segments := [''ui'', ''users'']\<rparr>) pc) w)
        = (Some \<lparr>hs_headers = h, hs_answer = Reply [] (Done 200 (UUsers page))\<rparr>, pc)
      \<and> set (uu_users page) = set (t_users (db w))"
    using us(2) by (simp add: s shown_def uiUsers_def ui_page_def quiet_uiAuth [OF a q inst] us(1) os rows_def)
  show "\<exists>h. fst (run_state (serve sv (q\<lparr>hq_segments := [''api'', ''v1'', ''users'']\<rparr>) pc) w)
        = (Some \<lparr>hs_headers = h, hs_answer = Reply [] (forbidden ''platform admin required'')\<rparr>, pc)"
    by (simp add: s guarded_def authn_def a listUsers_def u(2))
qed

section \<open>Concrete requests\<close>

definition small_server :: "unit server" where
  "small_server = \<lparr>sv_deps = \<lparr>dp_provider_name = ''authentik'', dp_issuer = ''authentik'', dp_identity = None,
       dp_password_setter = None, dp_to_ascii = Inr\<rparr>,
     sv_domains = \<lparr>dd_dns = None, dd_txt_lookup = None, dd_to_ascii = Inr\<rparr>,
     sv_mail = \<lparr>ml_chasquid = None, ml_to_ascii = Inr\<rparr>, sv_setup = small_setup,
     sv_manifest = (\<lambda>s. Inl ''bad''), sv_decode_error = (\<lambda>s. ''bad''), sv_version = ''0.1.0-dev''\<rparr>"

definition get_users :: "(string \<times> string) list \<Rightarrow> http_in" where
  "get_users cookies = \<lparr>hq_method = ''GET'', hq_segments = [''api'', ''v1'', ''users''], hq_query = (\<lambda>k. []),
     hq_cookies = cookies, hq_request_id = ''r1'', hq_forwarded = [], hq_remote = ''10.0.0.1:4000'', hq_body = []\<rparr>"

definition idle_process :: process where
  "idle_process = \<lparr>pc_limiter = Map.empty, pc_poll = \<lparr>ps_check = None, ps_result = []\<rparr>\<rparr>"

lemma users_route_closed:
  "\<not> list_ex (\<lambda>pat. match_route pat ''GET'' [''api'', ''v1'', ''users''] \<noteq> None) open_routes"
  by code_simp

theorem router_gate_witness:
  "db (snd (run_state (serve small_server (get_users []) idle_process) (sample_world sample_db ()))) = sample_db"
proof -
  obtain out pc' w' where r: "run_state (serve small_server (get_users []) idle_process) (sample_world sample_db ())
      = ((out, pc'), w')" by (metis prod.exhaust)
  have "db w' = sample_db" using router_gate [OF r] users_route_closed by (simp add: signed_in_def get_users_def)
  with r show ?thesis by simp
qed


text \<open>An onboarded installation whose only user is no administrator.\<close>

definition plain_alice :: user where "plain_alice = alice\<lparr>u_is_admin := False\<rparr>"

definition console_world :: "unit world" where
  "console_world = sample_world (sample_db\<lparr>t_users := [plain_alice],
     t_install := Some (pending_row\<lparr>in_onboarded_at := Some 1\<rparr>)\<rparr>) ()"

theorem ui_users_any_user_witness:
  "\<exists>h page. fst (run_state (serve small_server ((get_users [(''selfu_session'', Issue small_sessions ''alice'' 100000)])
        \<lparr>hq_segments := [''ui'', ''users'']\<rparr>) idle_process) console_world)
      = (Some \<lparr>hs_headers = h, hs_answer = Reply [] (Done 200 (UUsers page))\<rparr>, idle_process)
    \<and> set (uu_users page) = {plain_alice}"
proof -
  have "\<exists>s. ValidateSession small_sessions (Issue small_sessions (u_id plain_alice) 100000) (100 * 1000) = Some s
      \<and> se_user s = u_id plain_alice"
    by (rule Issue_valid) (use session_cookie_facts(4,5) in \<open>simp_all add: small_sessions_def second_def plain_alice_def alice_def\<close>)
  then obtain s where s: "ValidateSession small_sessions (Issue small_sessions ''alice'' 100000) (100 * 1000) = Some s"
    "se_user s = u_id plain_alice" by (auto simp: plain_alice_def alice_def)
  have "quiet 100 console_world" "t_users (db console_world) = [plain_alice]"
    "t_install (db console_world) = Some (pending_row\<lparr>in_onboarded_at := Some 1\<rparr>)"
    by (simp_all add: console_world_def)
  from ui_users_any_user [OF this(1), of plain_alice _ "get_users [(''selfu_session'', Issue small_sessions ''alice'' 100000)]"
      small_server _ s idle_process] this s
  show ?thesis
    by (simp add: uniq_def get_users_def small_server_def small_setup_def small_auth_def small_sessions_def)
       (simp add: plain_alice_def)
qed

end
