(* ===== verification/Config_Load.thy ===== *)
theory Config_Load
  imports Domain_Model Go_JSON Auth_Session
begin

text \<open>
  Package \<open>internal/config\<close>: the configuration read from the environment, with \<open>time.ParseDuration\<close> and
  \<open>strconv.Atoi\<close> of Go's library. An environment maps names to values; an unset name has the empty value. Every
  mistake is collected: the result is the list of all errors or the configuration.
\<close>

section \<open>Floating point, as far as durations need it\<close>

text \<open>A positive number as a fraction. \<open>float_round\<close> yields the nearest number with 53 significant bits, ties to even.\<close>

fun bit_length :: "nat \<Rightarrow> nat" where
  "bit_length n = (if n = 0 then 0 else Suc (bit_length (n div 2)))"

declare bit_length.simps [simp del]

definition div_even :: "nat \<Rightarrow> nat \<Rightarrow> nat" where
  "div_even p q =
    (let d = p div q; r = p mod q in if 2 * r < q \<or> 2 * r = q \<and> even d then d else d + 1)"

definition scaled :: "nat \<Rightarrow> nat \<Rightarrow> int \<Rightarrow> nat \<times> nat" where
  "scaled p q e = (if 0 \<le> e then (p, q * 2 ^ nat e) else (p * 2 ^ nat (- e), q))"

definition float_round :: "nat \<times> nat \<Rightarrow> nat \<times> nat" where
  "float_round x =
    (case x of (p, q) \<Rightarrow>
      if p = 0 then (0, 1)
      else let e0 = int (bit_length p) - int (bit_length q) - 53;
               s0 = scaled p q e0;
               e = (if 2 ^ 53 * snd s0 \<le> fst s0 then e0 + 1 else e0);
               s = scaled p q e;
               m = div_even (fst s) (snd s)
           in if 0 \<le> e then (m * 2 ^ nat e, 1) else (m, 2 ^ nat (- e)))"

text \<open>\<open>uint64(float64(f) * (float64(unit) / scale))\<close>\<close>

definition float_part :: "nat \<Rightarrow> nat \<Rightarrow> nat \<Rightarrow> nat" where
  "float_part f unit scale =
    (case (float_round (f, 1), float_round (unit, scale)) of ((a, b), (c, d)) \<Rightarrow>
      (case float_round (a * c, b * d) of (p, q) \<Rightarrow> p div q))"

section \<open>Durations\<close>

text \<open>\<open>leadingInt\<close>: \<open>None\<close> when the number exceeds $2^{63}$.\<close>

fun leadingInt :: "nat \<Rightarrow> string \<Rightarrow> (nat \<times> string) option" where
  "leadingInt x [] = Some (x, [])"
| "leadingInt x (c # s) =
    (if \<not> is_digit c then Some (x, c # s)
     else if 2 ^ 63 div 10 < x then None
     else let y = x * 10 + (byte c - 48) in if 2 ^ 63 < y then None else leadingInt y s)"

text \<open>\<open>leadingFraction\<close>: the digits, the scale and the rest; digits beyond the range are dropped.\<close>

fun leadingFraction :: "nat \<Rightarrow> nat \<Rightarrow> bool \<Rightarrow> string \<Rightarrow> nat \<times> nat \<times> string" where
  "leadingFraction x scale over [] = (x, scale, [])"
| "leadingFraction x scale over (c # s) =
    (if \<not> is_digit c then (x, scale, c # s)
     else if over then leadingFraction x scale True s
     else if (2 ^ 63 - 1) div 10 < x then leadingFraction x scale True s
     else let y = x * 10 + (byte c - 48) in
       if 2 ^ 63 < y then leadingFraction x scale True s else leadingFraction y (scale * 10) False s)"

definition unit_map :: "(string \<times> nat) list" where
  "unit_map = [(''ns'', 1), (''us'', 1000), ([chr_of 0xC2, chr_of 0xB5, CHR ''s''], 1000),
     ([chr_of 0xCE, chr_of 0xBC, CHR ''s''], 1000), (''ms'', 1000000), (''s'', 1000000000),
     (''m'', 60000000000), (''h'', 3600000000000)]"

definition unit_char :: "char \<Rightarrow> bool" where
  "unit_char c \<longleftrightarrow> c \<noteq> CHR ''.'' \<and> \<not> is_digit c"

text \<open>One number with its unit, in nanoseconds, and the rest.\<close>

definition duration_part :: "string \<Rightarrow> (nat \<times> string) option" where
  "duration_part s =
    (if s = [] \<or> unit_char (hd s) then None
     else (case leadingInt 0 s of
        None \<Rightarrow> None
      | Some (v, s1) \<Rightarrow>
         let pre = (length s1 \<noteq> length s);
             dot = (s1 \<noteq> [] \<and> hd s1 = CHR ''.'');
             (f, scale, s2) = (if dot then leadingFraction 0 1 False (tl s1) else (0, 1, s1));
             post = (dot \<and> length s2 \<noteq> length (tl s1));
             u = takeWhile unit_char s2
         in if \<not> pre \<and> \<not> post \<or> u = [] then None
            else (case map_of unit_map u of
               None \<Rightarrow> None
             | Some unit \<Rightarrow>
                if 2 ^ 63 div unit < v then None
                else let n = v * unit + (if 0 < f then float_part f unit scale else 0)
                     in if 2 ^ 63 < n then None else Some (n, dropWhile unit_char s2))))"

text \<open>Each part takes a character at least, so the length of the text is fuel enough.\<close>

fun duration_sum :: "nat \<Rightarrow> nat \<Rightarrow> string \<Rightarrow> nat option" where
  "duration_sum 0 d s = (if s = [] then Some d else None)"
| "duration_sum (Suc k) d s =
    (if s = [] then Some d
     else (case duration_part s of
        None \<Rightarrow> None
      | Some (n, r) \<Rightarrow> if 2 ^ 63 < d + n then None else duration_sum k (d + n) r))"

definition ParseDuration :: "string \<Rightarrow> int option" where
  "ParseDuration orig =
    (let neg = (orig \<noteq> [] \<and> hd orig = CHR ''-'');
         s = (if orig \<noteq> [] \<and> (hd orig = CHR ''-'' \<or> hd orig = CHR ''+'') then tl orig else orig) in
     if s = ''0'' then Some 0
     else if s = [] then None
     else (case duration_sum (length s) 0 s of
        None \<Rightarrow> None
      | Some d \<Rightarrow> if neg then Some (- int d) else if 2 ^ 63 - 1 < d then None else Some (int d)))"

section \<open>The configuration\<close>

record oidc_config =
  oc_client_id :: string
  oc_client_secret :: string
  oc_issuer :: string
  oc_redirect_url :: string
  oc_tls_insecure :: bool

record config =
  cf_http_addr :: string
  cf_db_url :: string
  cf_session_secret :: string
  cf_session_ttl :: int
  cf_cookie_secure :: bool
  cf_after_login_path :: string
  cf_authentik_url :: string
  cf_authentik_token :: string
  cf_authentik_insecure :: bool
  cf_cloudflare_token :: string
  cf_cloudflare_zone :: string
  cf_access_provider :: string
  cf_local_domain :: string
  cf_public_ip :: string
  cf_dns_resolvers :: "string list"
  cf_bootstrap_email :: string
  cf_bootstrap_password :: string
  cf_agent_url :: string
  cf_agent_token :: string
  cf_oidc :: oidc_config

datatype config_error = Required string | TooShort string | NoBoolean string | BadDuration string

definition getenv :: "(string \<Rightarrow> string) \<Rightarrow> string \<Rightarrow> string \<Rightarrow> string" where
  "getenv env key deflt = (if env key \<noteq> [] then env key else deflt)"

definition required :: "(string \<Rightarrow> string) \<Rightarrow> string \<Rightarrow> config_error list" where
  "required env key = (if env key = [] then [Required key] else [])"

definition boolean_error :: "(string \<Rightarrow> string) \<Rightarrow> string \<Rightarrow> config_error list" where
  "boolean_error env key =
    (if env key \<noteq> [] \<and> env key \<noteq> ''true'' \<and> env key \<noteq> ''false'' then [NoBoolean key] else [])"

definition ttl_error :: "(string \<Rightarrow> string) \<Rightarrow> config_error list" where
  "ttl_error env =
    (if env ''SELFU_SESSION_TTL'' \<noteq> [] \<and> ParseDuration (env ''SELFU_SESSION_TTL'') = None
     then [BadDuration ''SELFU_SESSION_TTL''] else [])"

definition secret_error :: "(string \<Rightarrow> string) \<Rightarrow> config_error list" where
  "secret_error env =
    (let secret = env ''SELFU_SESSION_SECRET'' in
     if secret = [] then [Required ''SELFU_SESSION_SECRET'']
     else if length secret < 32 then [TooShort ''SELFU_SESSION_SECRET''] else [])"

definition config_errors :: "(string \<Rightarrow> string) \<Rightarrow> config_error list" where
  "config_errors env = ttl_error env
     @ required env ''SELFU_DATABASE_URL'' @ required env ''SELFU_OIDC_CLIENT_ID''
     @ required env ''SELFU_OIDC_CLIENT_SECRET'' @ required env ''SELFU_OIDC_ISSUER''
     @ required env ''SELFU_OIDC_REDIRECT_URL'' @ secret_error env
     @ boolean_error env ''SELFU_COOKIE_SECURE'' @ boolean_error env ''SELFU_OIDC_TLS_INSECURE''
     @ required env ''SELFU_AUTHENTIK_URL'' @ required env ''SELFU_AUTHENTIK_TOKEN''"

definition defaultSessionTTL :: int where "defaultSessionTTL = 12 * 3600 * second"

definition config_of_env :: "(string \<Rightarrow> string) \<Rightarrow> config" where
  "config_of_env env =
    (let tls = (env ''SELFU_OIDC_TLS_INSECURE'' = ''true'') in
     \<lparr>cf_http_addr = getenv env ''SELFU_HTTP_ADDR'' '':8080'',
      cf_db_url = env ''SELFU_DATABASE_URL'',
      cf_session_secret = env ''SELFU_SESSION_SECRET'',
      cf_session_ttl = (case ParseDuration (env ''SELFU_SESSION_TTL'') of None \<Rightarrow> defaultSessionTTL | Some d \<Rightarrow> d),
      cf_cookie_secure = (env ''SELFU_COOKIE_SECURE'' = ''true''),
      cf_after_login_path = getenv env ''SELFU_AFTER_LOGIN_PATH'' ''/'',
      cf_authentik_url = env ''SELFU_AUTHENTIK_URL'',
      cf_authentik_token = env ''SELFU_AUTHENTIK_TOKEN'',
      cf_authentik_insecure = tls,
      cf_cloudflare_token = env ''SELFU_CLOUDFLARE_API_TOKEN'',
      cf_cloudflare_zone = env ''SELFU_CLOUDFLARE_ZONE_ID'',
      cf_access_provider = getenv env ''SELFU_ACCESS_PROVIDER'' ''manual'',
      cf_local_domain = ValidateLocalDomain (env ''SELFU_LOCAL_DOMAIN''),
      cf_public_ip = env ''SELFU_PUBLIC_IP'',
      cf_dns_resolvers = filter (\<lambda>s. s \<noteq> []) (map trim_space
        (split_on CHR '','' (getenv env ''SELFU_DNS_RESOLVERS'' ''1.1.1.1:53,8.8.8.8:53''))),
      cf_bootstrap_email = env ''AUTHENTIK_BOOTSTRAP_EMAIL'',
      cf_bootstrap_password = env ''SELFU_BOOTSTRAP_PASSWORD'',
      cf_agent_url = env ''SELFU_CHASQUID_AGENT_URL'',
      cf_agent_token = env ''SELFU_CHASQUID_AGENT_TOKEN'',
      cf_oidc = \<lparr>oc_client_id = env ''SELFU_OIDC_CLIENT_ID'', oc_client_secret = env ''SELFU_OIDC_CLIENT_SECRET'',
        oc_issuer = env ''SELFU_OIDC_ISSUER'', oc_redirect_url = env ''SELFU_OIDC_REDIRECT_URL'',
        oc_tls_insecure = tls\<rparr>\<rparr>)"

definition Load :: "(string \<Rightarrow> string) \<Rightarrow> config_error list + config" where
  "Load env = (if config_errors env \<noteq> [] then Inl (config_errors env) else Inr (config_of_env env))"

text \<open>\<open>strconv.Atoi\<close> on a 64-bit machine.\<close>

definition Atoi :: "string \<Rightarrow> int option" where
  "Atoi s = (case s of [] \<Rightarrow> None
     | c # r \<Rightarrow> parse_int64 (if c = CHR ''+'' \<and> r \<noteq> [] \<and> is_digit (hd r) then r else s))"

end
