(* ===== verification/Platform_Start.thy ===== *)
theory Platform_Start
  imports Config_Lemmas Http_Router_Lemmas Chasquid_Client Authentik_Client
begin

text \<open>
  The programs of \<open>cmd\<close>: how the API server, the worker, the seed, the migration and the bootstrap of the identity
  provider are put together from the configuration, with \<open>Open\<close> and \<open>RunMigration\<close> of \<open>internal/store\<close>. The driver
  of the database, goose, the discovery of the identity provider, HTTP and the resolvers are fields of \<open>platform\<close>.
  What follows the start, the listening socket, signals and log lines, is not modelled.
\<close>

section \<open>The database (store.go, migrate.go)\<close>

record 'x postgres =
  pq_parse :: "string \<Rightarrow> string option"
  pq_pool :: "string \<Rightarrow> ('x, string option) prog"
  pq_ping :: "('x, string option) prog"
  pq_wait :: "('x, string option) prog"

text \<open>\<open>Open\<close>: the error, \<open>None\<close> once a ping is answered. \<open>pq_wait\<close> is the error of a context that ends while waiting.\<close>

primrec ping_pool :: "'x postgres \<Rightarrow> nat \<Rightarrow> string \<Rightarrow> ('x, string option) prog" where
  "ping_pool pq 0 lastErr = ret (Some (''database not reachable after retries: '' @ lastErr))"
| "ping_pool pq (Suc n) lastErr = do {
     e \<leftarrow> pq_ping pq;
     (case e of
        None \<Rightarrow> ret None
      | Some err \<Rightarrow> do {
          stop \<leftarrow> pq_wait pq;
          (case stop of
             Some c \<Rightarrow> ret (Some (''database connect: '' @ c))
           | None \<Rightarrow> ping_pool pq n err) }) }"

definition Open :: "'x postgres \<Rightarrow> string \<Rightarrow> ('x, string option) prog" where
  "Open pq dbURL =
    (case pq_parse pq dbURL of
       Some e \<Rightarrow> ret (Some (''parse database url: '' @ e))
     | None \<Rightarrow> do {
         p \<leftarrow> pq_pool pq dbURL;
         (case p of
            Some e \<Rightarrow> ret (Some (''create pool: '' @ e))
          | None \<Rightarrow> ping_pool pq 10 []) })"

record 'x goose =
  gs_open :: "string \<Rightarrow> string option"
  gs_dialect :: "string \<Rightarrow> string option"
  gs_up :: "('x, string option) prog"
  gs_down :: "('x, string option) prog"
  gs_status :: "('x, string option) prog"
  gs_version :: "('x, string + int) prog"

definition goose_command :: "'x goose \<Rightarrow> string \<Rightarrow> ('x, string option) prog" where
  "goose_command gs cmd =
    (if cmd = ''up'' then do { e \<leftarrow> gs_up gs; ret (map_option (\<lambda>m. ''migrate up: '' @ m) e) }
     else if cmd = ''down'' then do { e \<leftarrow> gs_down gs; ret (map_option (\<lambda>m. ''migrate down: '' @ m) e) }
     else if cmd = ''status'' then do { e \<leftarrow> gs_status gs; ret (map_option (\<lambda>m. ''migrate status: '' @ m) e) }
     else ret (Some (''unknown migration command '' @ Quote cmd @ '' (want up|down|status)'')))"

definition RunMigration :: "'x goose \<Rightarrow> string \<Rightarrow> string \<Rightarrow> ('x, string + string) prog" where
  "RunMigration gs dbURL cmd =
    (case gs_open gs dbURL of
       Some e \<Rightarrow> ret (Inl (''open database: '' @ e))
     | None \<Rightarrow>
        (case gs_dialect gs ''postgres'' of
           Some e \<Rightarrow> ret (Inl (''set dialect: '' @ e))
         | None \<Rightarrow> do {
             r \<leftarrow> goose_command gs cmd;
             (case r of
                Some e \<Rightarrow> ret (Inl e)
              | None \<Rightarrow> do {
                  v \<leftarrow> gs_version gs;
                  ret (case v of Inl e \<Rightarrow> Inl (''get version: '' @ e)
                       | Inr n \<Rightarrow> Inr (''schema version: '' @ show_int n)) }) }))"

text \<open>\<open>cmd/migrate\<close>: the exit status and the line it prints, from the arguments after the name of the program.\<close>

definition migrate_main :: "'x goose \<Rightarrow> (string \<Rightarrow> string) \<Rightarrow> string list \<Rightarrow> ('x, nat \<times> string) prog" where
  "migrate_main gs env args =
    (case args of
       [cmd] \<Rightarrow>
         if env ''SELFU_DATABASE_URL'' = [] then ret (2, ''SELFU_DATABASE_URL is required'')
         else do {
           r \<leftarrow> RunMigration gs (env ''SELFU_DATABASE_URL'') cmd;
           ret (case r of Inl e \<Rightarrow> (1, ''migrate: '' @ e) | Inr msg \<Rightarrow> (0, msg)) }
     | _ \<Rightarrow> ret (2, ''usage: migrate up|down|status''))"

section \<open>What the platform runs on\<close>

text \<open>\<open>oauth2.Config\<close> without the endpoints, which the discovery yields: it takes whether the certificate goes unchecked
  and the issuer, and gives the client for such a configuration and the audience of the id tokens.\<close>

record oauth_config =
  oa_client_id :: string
  oa_client_secret :: string
  oa_redirect_url :: string
  oa_scopes :: "string list"

record 'x platform =
  pf_env :: "string \<Rightarrow> string"
  pf_postgres :: "'x postgres"
  pf_discover :: "bool \<Rightarrow> string \<Rightarrow> ('x, string + (oauth_config \<Rightarrow> string \<Rightarrow> 'x oidc_client)) prog"
  pf_http :: "bool \<Rightarrow> 'x http_client"
  pf_agent_http :: "'x http_client"
  pf_rand :: "nat \<Rightarrow> ('x, string option) prog"
  pf_wait :: "('x, string option) prog"
  pf_aws :: "'x aws_world"
  pf_resolver :: "string \<Rightarrow> string \<Rightarrow> ('x, string + string list) prog"
  pf_system_resolver :: "string \<Rightarrow> ('x, string + string list) prog"
  pf_to_ascii :: "string \<Rightarrow> string + string"
  pf_manifest :: "string \<Rightarrow> string + manifest"
  pf_decode_error :: "string \<Rightarrow> string"
  pf_version :: string

datatype start_error =
    StartConfig "config_error list" | StartDatabase string | StartSessions string | StartDiscovery string
  | LoadInstallation store_err | LoadProviderConfig store_err | DecryptProviderConfig | ParseProviderConfig
  | ProviderError string

text \<open>\<open>authentik.New\<close>: one trailing slash of the address is dropped.\<close>

definition NewAuthentik :: "'x platform \<Rightarrow> string \<Rightarrow> string \<Rightarrow> bool \<Rightarrow> 'x authentik" where
  "NewAuthentik pf baseURL token tlsInsecure =
    \<lparr>ak_base = trim_suffix baseURL ''/'', ak_token = token, ak_http = pf_http pf tlsInsecure,
     ak_rand = pf_rand pf, ak_wait = pf_wait pf\<rparr>"

text \<open>\<open>auth.NewOIDCProvider\<close>.\<close>

definition NewOIDCProvider :: "'x platform \<Rightarrow> oidc_config \<Rightarrow> ('x, string + 'x oidc_client) prog" where
  "NewOIDCProvider pf c = do {
     r \<leftarrow> pf_discover pf (oc_tls_insecure c) (oc_issuer c);
     ret (case r of
         Inl e \<Rightarrow> Inl (''oidc discovery for '' @ oc_issuer c @ '': '' @ e)
       | Inr client \<Rightarrow> Inr (client \<lparr>oa_client_id = oc_client_id c, oa_client_secret = oc_client_secret c,
           oa_redirect_url = oc_redirect_url c, oa_scopes = [''openid'', ''profile'', ''email'']\<rparr> (oc_client_id c))) }"

definition authentik_of :: "'x platform \<Rightarrow> config \<Rightarrow> 'x authentik" where
  "authentik_of pf cfg = NewAuthentik pf (cf_authentik_url cfg) (cf_authentik_token cfg) (cf_authentik_insecure cfg)"

definition controller_of :: "'x platform \<Rightarrow> config \<Rightarrow> 'x chasquid option" where
  "controller_of pf cfg =
    (if cf_agent_url cfg \<noteq> [] \<and> cf_agent_token cfg \<noteq> []
     then Some (AgentClient (pf_agent_http pf) (NewAgentClient (cf_agent_url cfg) (cf_agent_token cfg)))
     else None)"

definition session_options_of :: "config \<Rightarrow> session_options" where
  "session_options_of cfg = \<lparr>so_name = ''selfu_session'', so_secret = cf_session_secret cfg,
     so_ttl = cf_session_ttl cfg, so_secure = cf_cookie_secure cfg, so_oidc_ttl = 0\<rparr>"

definition txtLookup :: "'x platform \<Rightarrow> config \<Rightarrow> string \<Rightarrow> ('x, string + string list) prog" where
  "txtLookup pf cfg =
    (if cf_dns_resolvers cfg \<noteq> [] then NewTXTLookup (pf_resolver pf) (cf_dns_resolvers cfg)
     else pf_system_resolver pf)"

text \<open>An interval in seconds from the environment, a default unless it is a positive number. The product with the
  second is one of signed 64-bit integers and wraps around.\<close>

definition wrap64 :: "int \<Rightarrow> int" where
  "wrap64 x = (x + 2 ^ 63) mod 2 ^ 64 - 2 ^ 63"

definition interval_of :: "(string \<Rightarrow> string) \<Rightarrow> string \<Rightarrow> int \<Rightarrow> int" where
  "interval_of env key deflt =
    (if env key = [] then deflt * second
     else (case Atoi (env key) of
         Some secs \<Rightarrow> if 0 < secs then wrap64 (secs * second) else deflt * second
       | None \<Rightarrow> deflt * second))"

section \<open>The access provider of a restarted process\<close>

text \<open>\<open>access.Config\<close> from its JSON.\<close>

definition access_config_of :: "string \<Rightarrow> access_config option" where
  "access_config_of text =
    Option.bind (Option.bind (parse_json text) members_of) (\<lambda>ms.
      (case (string_field ''api_token'' ms, string_field ''zone_id'' ms, string_field ''aws_access_key_id'' ms,
          string_field ''aws_secret_access_key'' ms, string_field ''aws_session_token'' ms, string_field ''aws_region'' ms) of
         (Some t, Some z, Some a, Some s, Some st, Some r) \<Rightarrow>
           Some ((config_of t z)\<lparr>ac_access_key := a, ac_secret_key := s, ac_session_token := st, ac_region := r\<rparr>)
       | _ \<Rightarrow> None))"

definition new_provider :: "'x platform \<Rightarrow> string \<Rightarrow> access_config \<Rightarrow> start_error + 'x access_provider" where
  "new_provider pf name acfg =
    (case New (pf_aws pf) (pf_env pf) name acfg of Inl e \<Rightarrow> Inl (ProviderError e) | Inr p \<Rightarrow> Inr p)"

definition sealed_provider :: "'x platform \<Rightarrow> config \<Rightarrow> string \<Rightarrow> string \<Rightarrow> start_error + 'x access_provider" where
  "sealed_provider pf cfg name sealed =
    (if sealed = [] then new_provider pf name (config_of [] [])
     else (case DecryptSecret (cf_session_secret cfg) sealed of
        None \<Rightarrow> Inl DecryptProviderConfig
      | Some plain \<Rightarrow>
         if plain = [] then new_provider pf name (config_of [] [])
         else (case access_config_of plain of
            None \<Rightarrow> Inl ParseProviderConfig
          | Some acfg \<Rightarrow> new_provider pf name acfg)))"

definition loadAccessProvider :: "'x platform \<Rightarrow> config \<Rightarrow> ('x world, start_error + 'x access_provider) prog" where
  "loadAccessProvider pf cfg =
    (if cf_cloudflare_token cfg \<noteq> [] \<and> cf_cloudflare_zone cfg \<noteq> []
     then ret (new_provider pf ''cloudflare'' (config_of (cf_cloudflare_token cfg) (cf_cloudflare_zone cfg)))
     else do {
       g \<leftarrow> GetInstallation;
       (case g of
          Inl e \<Rightarrow> ret (Inl (LoadInstallation e))
        | Inr inst \<Rightarrow>
           if in_access_provider inst = [] \<or> in_access_provider inst = ''manual''
           then ret (new_provider pf ''manual'' (config_of [] []))
           else do {
             s \<leftarrow> GetInstallationConfig;
             ret (case s of
                 Inr sealed \<Rightarrow> sealed_provider pf cfg (in_access_provider inst) sealed
               | Inl e \<Rightarrow> if e \<noteq> ErrNotFound then Inl (LoadProviderConfig e)
                   else sealed_provider pf cfg (in_access_provider inst) []) }) })"

section \<open>The API server (cmd/api)\<close>

definition server_of :: "'x platform \<Rightarrow> config \<Rightarrow> session_store \<Rightarrow> 'x oidc_client \<Rightarrow> 'x access_provider \<Rightarrow> 'x server" where
  "server_of pf cfg st oc prov =
    (let ak = authentik_of pf cfg; issuer = oc_issuer (cf_oidc cfg) in
     \<lparr>sv_deps = \<lparr>dp_provider_name = issuer, dp_issuer = issuer, dp_identity = Some (authentik_provisioner ak),
        dp_password_setter = Some (\<lambda>pk pw. known (SetUserPassword ak pk pw)), dp_to_ascii = pf_to_ascii pf\<rparr>,
      sv_domains = \<lparr>dd_dns = Some (ap_dns prov), dd_txt_lookup = Some (txtLookup pf cfg), dd_to_ascii = pf_to_ascii pf\<rparr>,
      sv_mail = \<lparr>ml_chasquid = controller_of pf cfg, ml_to_ascii = pf_to_ascii pf\<rparr>,
      sv_setup = \<lparr>sd_auth = \<lparr>ad_sessions = st, ad_oidc = oc, ad_issuer = issuer, ad_after_login = cf_after_login_path cfg\<rparr>,
        sd_aws = pf_aws pf, sd_env = pf_env pf, sd_access = prov, sd_zone_resolver = None, sd_probe = None,
        sd_txt_lookup = Some (txtLookup pf cfg), sd_email = cf_bootstrap_email cfg,
        sd_password = cf_bootstrap_password cfg, sd_key = cf_session_secret cfg, sd_to_ascii = pf_to_ascii pf\<rparr>,
      sv_manifest = pf_manifest pf, sv_decode_error = pf_decode_error pf, sv_version = pf_version pf\<rparr>)"

text \<open>\<open>run\<close> up to the start of the poller and the listener: the handler with the interval of the poller.\<close>

definition api_run :: "'x platform \<Rightarrow> ('x world, start_error + 'x server \<times> int) prog" where
  "api_run pf =
    (case Load (pf_env pf) of
       Inl errs \<Rightarrow> ret (Inl (StartConfig errs))
     | Inr cfg \<Rightarrow> do {
         o1 \<leftarrow> external (Open (pf_postgres pf) (cf_db_url cfg));
         (case o1 of
            Some e \<Rightarrow> ret (Inl (StartDatabase e))
          | None \<Rightarrow>
             (case NewSessionStore (session_options_of cfg) of
                Inl e \<Rightarrow> ret (Inl (StartSessions e))
              | Inr st \<Rightarrow> do {
                  oc \<leftarrow> external (NewOIDCProvider pf (cf_oidc cfg));
                  (case oc of
                     Inl e \<Rightarrow> ret (Inl (StartDiscovery e))
                   | Inr client \<Rightarrow> do {
                       p \<leftarrow> loadAccessProvider pf cfg;
                       ret (case p of
                           Inl e \<Rightarrow> Inl e
                         | Inr prov \<Rightarrow> Inr (server_of pf cfg st client prov,
                             interval_of (pf_env pf) ''SELFU_VERIFY_POLL_INTERVAL'' 15)) }) })) })"

section \<open>The worker (cmd/worker)\<close>

text \<open>A cycle at the start, then one for every tick. A ticker of an interval that is not positive panics.\<close>

primrec worker_ticks :: "nat \<Rightarrow> 'x chasquid option \<Rightarrow> (string \<Rightarrow> string \<Rightarrow> ('x, bool option) prog) \<Rightarrow> string
    \<Rightarrow> ('x world, unit) prog" where
  "worker_ticks 0 cq check issuer = worker_cycle cq check issuer"
| "worker_ticks (Suc n) cq check issuer = do { worker_ticks n cq check issuer; worker_cycle cq check issuer }"

datatype worker_end = WorkerFailed start_error | WorkerPanic int | WorkerStopped

definition worker_run :: "'x platform \<Rightarrow> nat \<Rightarrow> ('x world, worker_end) prog" where
  "worker_run pf ticks =
    (case Load (pf_env pf) of
       Inl errs \<Rightarrow> ret (WorkerFailed (StartConfig errs))
     | Inr cfg \<Rightarrow> do {
         o1 \<leftarrow> external (Open (pf_postgres pf) (cf_db_url cfg));
         (case o1 of
            Some e \<Rightarrow> ret (WorkerFailed (StartDatabase e))
          | None \<Rightarrow>
             let interval = interval_of (pf_env pf) ''SELFU_RECONCILE_INTERVAL'' 30 in
             if interval \<le> 0 then ret (WorkerPanic interval)
             else do {
               worker_ticks ticks (controller_of pf cfg)
                 (\<lambda>ty pk. known (ResourceExists (authentik_of pf cfg) ty pk)) (oc_issuer (cf_oidc cfg));
               ret WorkerStopped }) })"

section \<open>The seed of the catalog (cmd/seed)\<close>

primrec seed_catalog :: "manifest list \<Rightarrow> ('x world, store_err option) prog" where
  "seed_catalog [] = ret None"
| "seed_catalog (m # ms) = do {
     r \<leftarrow> UpsertCatalogApp m;
     (case r of Inl e \<Rightarrow> ret (Some e) | Inr u \<Rightarrow> seed_catalog ms) }"

datatype seed_end = SeedNoURL | SeedDatabase string | SeedStore store_err | SeedDone

definition seed_run :: "'x platform \<Rightarrow> ('x world, seed_end) prog" where
  "seed_run pf =
    (let dbURL = pf_env pf ''SELFU_DATABASE_URL'' in
     if dbURL = [] then ret SeedNoURL
     else do {
       o1 \<leftarrow> external (Open (pf_postgres pf) dbURL);
       (case o1 of
          Some e \<Rightarrow> ret (SeedDatabase e)
        | None \<Rightarrow> do {
            r \<leftarrow> seed_catalog BuiltIns;
            ret (case r of Some e \<Rightarrow> SeedStore e | None \<Rightarrow> SeedDone) }) })"

section \<open>The bootstrap of the identity provider (cmd/authentik-bootstrap)\<close>

definition bootstrap_vars :: "string list" where
  "bootstrap_vars = [''AUTHENTIK_BASE_URL'', ''AUTHENTIK_BOOTSTRAP_TOKEN'', ''SELFU_OIDC_CLIENT_ID'',
     ''SELFU_OIDC_CLIENT_SECRET'', ''SELFU_OIDC_REDIRECT_URL'']"

definition bootstrap_run :: "'x platform \<Rightarrow> ('x, string + unit) prog" where
  "bootstrap_run pf =
    (let env = pf_env pf; slug = getenv env ''SELFU_OIDC_SLUG'' ''selfu'' in
     case find (\<lambda>v. env v = []) bootstrap_vars of
       Some v \<Rightarrow> ret (Inl (v @ '' is required''))
     | None \<Rightarrow>
        let c = NewAuthentik pf (env ''AUTHENTIK_BASE_URL'') (env ''AUTHENTIK_BOOTSTRAP_TOKEN'')
              (env ''AUTHENTIK_TLS_INSECURE'' = ''true'') in do {
          w \<leftarrow> WaitReady c;
          (case w of
             Inl e \<Rightarrow> ret (Inl e)
           | Inr u \<Rightarrow> do {
               p \<leftarrow> EnsureOIDCProvider c (env ''SELFU_OIDC_CLIENT_ID'') (env ''SELFU_OIDC_CLIENT_SECRET'')
                 (env ''SELFU_OIDC_REDIRECT_URL'') slug;
               (case p of
                  Inl e \<Rightarrow> ret (Inl e)
                | Inr providerPK \<Rightarrow> EnsureApplication c slug providerPK) }) })"

end
