(* ===== verification/Platform_Lemmas.thy ===== *)
theory Platform_Lemmas
  imports Platform_Start Http_Router_Runs
begin

text \<open>
  What holds of the programs as they are put together: the provider that the wizard stored is the one that the next
  start of the server works with, the seed may run again and again, and two settings that are accepted make the
  platform unusable.
\<close>

section \<open>The provider of the wizard after a restart\<close>

lemma provider_keys:
  "key_is ''api_token'' ''api_token''" "\<not> key_is ''api_token'' ''zone_id''" "key_is ''zone_id'' ''zone_id''"
  "\<not> key_is ''zone_id'' ''api_token''" "\<not> key_is ''aws_access_key_id'' ''api_token''"
  "\<not> key_is ''aws_access_key_id'' ''zone_id''" "\<not> key_is ''aws_secret_access_key'' ''api_token''"
  "\<not> key_is ''aws_secret_access_key'' ''zone_id''" "\<not> key_is ''aws_session_token'' ''api_token''"
  "\<not> key_is ''aws_session_token'' ''zone_id''" "\<not> key_is ''aws_region'' ''api_token''"
  "\<not> key_is ''aws_region'' ''zone_id''"
  by (simp_all add: key_is_def fold_key_def runes_ascii is_ascii_def byte_def)

lemma access_config_json:
  assumes "is_ascii t" and "is_ascii z"
  shows "access_config_of (provider_json t z) = Some (config_of t z)"
proof -
  have "parse_json (provider_json t z) = Some (JObj [(''api_token'', JStr t), (''zone_id'', JStr z)])"
    unfolding provider_json_def by (rule parse_json_object) (simp_all add: scans_string assms byte_def)
  then show ?thesis
    by (simp add: access_config_of_def string_field_def provider_keys config_of_def)
qed

lemma provider_json_not_Nil: "provider_json t z \<noteq> []"
  by (simp add: provider_json_def json_object_def)

text \<open>The installation row names a provider and holds a sealed text.\<close>

definition provider_is :: "string \<Rightarrow> string \<Rightarrow> db \<Rightarrow> bool" where
  "provider_is name sealed d \<longleftrightarrow> (\<exists>row. t_install d = Some row \<and> in_access_provider row = name \<and> in_config row = sealed)"

lemma provider_is_stmts [keeps]:
  "stmt_keeps (provider_is n s) (setInstallationPrimaryDomainSQL i)" "stmt_keeps (provider_is n s) (insertAuditEventSQL ev)"
  by (auto intro!: stmt_keepsI simp: provider_is_def setInstallationPrimaryDomainSQL_def open_install_def insertAuditEventSQL_def
      insert_stmt_Inr Let_def split: option.splits if_splits)

lemma provider_is_methods [keeps]:
  "keeps (on_db (provider_is n s)) (SetInstallationPrimaryDomain i)" "keeps (on_db (provider_is n s)) (audit j ev)"
  unfolding SetInstallationPrimaryDomain_def exec_some_def audit_def CreateAuditEvent_def
  by (intro keeps keeps_sql)+

lemma SetInstallationProvider_stored:
  assumes "run_state (SetInstallationProvider dns acc sealed) w = (Inr u, w')"
  shows "provider_is acc sealed (db w')"
  using assms unfolding SetInstallationProvider_def exec_some_def
proof (elim run_elims)
  fix r and w1 :: "'a world"
  assume r: "run_state (sql (setInstallationProviderSQL dns acc sealed)) w = (r, w1)"
    and c: "Inr u = (case r of Inl e \<Rightarrow> Inl ErrOther | Inr n \<Rightarrow> if n = 0 then Inl ErrNotFound else Inr ())" "w' = w1"
  from c obtain n where n: "r = Inr n" "n \<noteq> 0" by (auto split: sum.splits if_splits)
  from r [unfolded n(1)] obtain pg where "setInstallationProviderSQL dns acc sealed pg (db w) = Inr (n, db w1)" by (rule sql_Inr)
  then obtain i where "(db w)\<lparr>t_install := Some (i\<lparr>in_dns_provider := dns, in_access_provider := acc,
      in_config := sealed\<rparr>)\<rparr> = db w1"
    using n(2) by (auto simp: setInstallationProviderSQL_def split: option.splits if_splits)
  from this [symmetric] c(2) show ?thesis by (simp add: provider_is_def)
qed

lemma store_provider_stored:
  assumes run: "run_state (store_provider sd rq fqdn prov token zone created automated) w = (Done 201 x, w')"
    and full: "\<And>s. rand_src w (rand_ix w) 12 = Some s \<Longrightarrow> length s = 12"
  shows "\<exists>sealed. provider_is (ap_name prov) sealed (db w') \<and> DecryptSecret (sd_key sd) sealed = Some (provider_json token zone)"
  using run unfolding store_provider_def internalError_def
proof (elim run_elims)
  fix s p q r u and w1 w2 w3 w4 :: "'a world" and sealed
  assume s: "run_state (EncryptSecret (sd_key sd) (provider_json token zone)) w = (s, w1)" "s = Some sealed"
    and p: "run_state (SetInstallationProvider (dns_name (ap_dns prov)) (ap_name prov) sealed) w1 = (p, w2)" "p = Inr u"
    and q: "run_state (SetInstallationPrimaryDomain (d_id created)) w2 = (q, w3)"
    and a: "run_state (audit (rq_id rq) (event (Some (u_id (rq_user rq))) ''setup.primary_domain'' ''domain''
                      (d_id created) [(''fqdn'', DStr fqdn), (''provider'', DStr (ap_name prov))])) w3 = (r, w4)"
    and w: "w' = w4"
  have "provider_is (ap_name prov) sealed (db w2)" by (rule SetInstallationProvider_stored [OF p(1) [unfolded p(2)]])
  then have "provider_is (ap_name prov) sealed (db w4)"
    using run_on_db [OF provider_is_methods(1) q] run_on_db [OF provider_is_methods(2) a] by blast
  with secret_roundtrip [OF s(1) [unfolded s(2)] full] w show ?thesis by blast
qed simp_all

lemma New_name: "New az env name c = Inr prov \<Longrightarrow> ap_name prov = name"
  by (auto simp: New_def NewManual_def NewCloudflare_def NewRoute53_def Let_def split: if_splits)

lemma New_manual: "New az env ''manual'' c = Inr NewManual"
  by (simp add: New_def)

text \<open>The source of random bytes stays the same.\<close>

lemma rand_src_world [keeps]:
  "keeps (\<lambda>w. rand_src w = f) new_uuid" "keeps (\<lambda>w. rand_src w = f) time_now" "keeps (\<lambda>w. rand_src w = f) (rand_bytes n)"
  "keeps (\<lambda>w. rand_src w = f) (external m)"
  by (auto simp: keeps_def new_uuid_def time_now_def rand_bytes_def run_external Let_def)

lemma rand_src_sql [keeps]: "keeps (\<lambda>w. rand_src w = f) (sql st)"
  by (auto simp: keeps_def sql_def Let_def exec_stmt_def split: list.splits fate.splits sum.splits)

lemma rand_src_ops [keeps]:
  "keeps (\<lambda>w. rand_src w = f) (run_sql h st)" "keeps (\<lambda>w. rand_src w = f) (exec_sql h st')"
  "keeps (\<lambda>w. rand_src w = f) (exec_some st')" "keeps (\<lambda>w. rand_src w = f) (fresh_id i)"
  unfolding run_sql_def exec_sql_def exec_some_def fresh_id_def by (intro keeps)+

lemma rand_src_register [keeps]:
  "keeps (\<lambda>w. rand_src w = f) (CreateOrganization org)" "keeps (\<lambda>w. rand_src w = f) (SetMembership i u r)"
  "keeps (\<lambda>w. rand_src w = f) (CreateDomain d)" "keeps (\<lambda>w. rand_src w = f) GetInstallation"
  "keeps (\<lambda>w. rand_src w = f) (check_provider sd prov req fqdn)"
  unfolding CreateOrganization_def SetMembership_def CreateDomain_def randomTokenHex_def GetInstallation_def check_provider_def resolve_zone_def Let_def
  by (intro keeps)+

lemma run_rand: "(\<And>f. keeps (\<lambda>w. rand_src w = f) m) \<Longrightarrow> run_state m w = (r, w') \<Longrightarrow> rand_src w' = rand_src w"
  by (rule keeps_run) simp_all

text \<open>What the wizard stores is what it has validated.\<close>

lemma check_provider_New:
  assumes "run_state (check_provider sd prov req fqdn) w = (Inr (prov', zone), w')"
    and "New (sd_aws sd) (sd_env sd) (cs_provider req) (config_of (cs_token req) (cs_zone req)) = Inr prov"
  shows "New (sd_aws sd) (sd_env sd) (cs_provider req) (config_of (cs_token req) zone) = Inr prov'"
  using assms(1) unfolding check_provider_def
  by (elim run_elims) (use assms(2) in \<open>auto split: option.splits\<close>)

lemma register_primary_stores:
  assumes "run_state (register_primary sd rq fqdn prov token zone) w = (Done 201 x, w')"
  shows "\<exists>w1 created automated. rand_src w1 = rand_src w
    \<and> run_state (store_provider sd rq fqdn prov token zone created automated) w1 = (Done 201 x, w')"
  using assms unfolding register_primary_def internalError_def
proof (elim run_elims)
  fix c m k org cr u d created a t and w1 w2 w3 w4 :: "'a world"
  assume r: "run_state (CreateOrganization org) w = (c, w1)" "run_state (SetMembership (o_id cr) (u_id (rq_user rq)) RoleOwner) w1 = (m, w2)"
    "run_state (CreateDomain d) w2 = (k, w3)"
    "run_state (external t) w3 = (a, w4)"
    and s: "run_state (store_provider sd rq fqdn prov token zone created a) w4 = (Done 201 x, w')"
  then have "rand_src w4 = rand_src w"
    by (simp add: run_rand [OF _ r(1)] run_rand [OF _ r(2)] run_rand [OF _ r(3)] run_rand [OF _ r(4)] keeps)
  with s show ?thesis by blast
qed (auto split: if_splits)

lemma createSetup_stores:
  assumes "run_state (createSetup sd rq) w = (Done 201 x, w')"
  shows "\<exists>req zone prov w1 fqdn created automated. rq_body rq = Inr req \<and> rand_src w1 = rand_src w
    \<and> New (sd_aws sd) (sd_env sd) (cs_provider req) (config_of (cs_token req) zone) = Inr prov
    \<and> run_state (store_provider sd rq fqdn prov (cs_token req) zone created automated) w1 = (Done 201 x, w')"
  using assms unfolding createSetup_def internalError_def
proof (elim run_elims)
  fix g req prov fqdn c y prov' zone and w1 w2 :: "'a world"
  assume r: "rq_body rq = Inr req" and g: "run_state GetInstallation w = (g, w1)"
    and n: "New (sd_aws sd) (sd_env sd) (cs_provider req) (config_of (cs_token req) (cs_zone req)) = Inr prov"
    and c: "run_state (check_provider sd prov req fqdn) w1 = (c, w2)" "c = Inr y" "y = (prov', zone)"
    and s: "run_state (register_primary sd rq fqdn prov' (cs_token req) zone) w2 = (Done 201 x, w')"
  from register_primary_stores [OF s] check_provider_New [OF c(1) [unfolded c(2,3)] n] r
    run_rand [OF rand_src_register(4) g] run_rand [OF rand_src_register(5) c(1)]
  show ?thesis by fastforce
qed (auto dest: check_provider_Inl)

lemma quiet_config:
  "quiet T v \<Longrightarrow> t_install (db v) = Some row \<Longrightarrow> run_state GetInstallationConfig v = (Inr (in_config row), v)"
  by (simp add: GetInstallationConfig_def run_sql_def quiet_sql_run installationConfigSQL_def query_def)

lemma sealed_not_Nil: "DecryptSecret key s = Some p \<Longrightarrow> s \<noteq> []"
  by (auto simp: DecryptSecret_def decryptSecret_def)

lemma load_stored:
  assumes q: "quiet T v" and p: "provider_is name sealed (db v)"
    and d: "DecryptSecret (cf_session_secret cfg) sealed = Some (provider_json t z)"
    and asc: "name = ''manual'' \<or> is_ascii t \<and> is_ascii z" and n: "New (pf_aws pf) (pf_env pf) name (config_of t z) = Inr prov" "name \<noteq> []"
    and env: "cf_cloudflare_token cfg = [] \<or> cf_cloudflare_zone cfg = []"
  shows "run_state (loadAccessProvider pf cfg) v = (Inr prov, v)"
proof -
  from p obtain row where row: "t_install (db v) = Some row" "in_access_provider row = name" "in_config row = sealed"
    by (auto simp: provider_is_def)
  have "prov = NewManual" if "name = ''manual''" using n that by (simp add: New_manual)
  moreover have "access_config_of (provider_json t z) = Some (config_of t z)" if "name \<noteq> ''manual''"
    using asc that access_config_json by blast
  ultimately show ?thesis using env row n(2)
    by (auto simp: loadAccessProvider_def quiet_install [OF q row(1)] quiet_config [OF q row(1)] installation.truncate_def
        sealed_provider_def sealed_not_Nil [OF d] d provider_json_not_Nil new_provider_def n(1) New_manual)
qed

text \<open>C34: what the wizard has validated is what the platform works with from the next start on. When \<open>createSetup\<close>
  succeeds, the installation row names the provider of the request and holds its credentials sealed, and a server that is
  started later with the same session secret and no credentials in its environment decrypts them and rebuilds the very
  provider that the wizard has built, unless a credential is not ASCII.\<close>

theorem setup_provider_reloads:
  assumes run: "run_state (createSetup sd rq) w = (Done 201 (d, ti, name), w')"
    and full: "\<And>i s. rand_src w i 12 = Some s \<Longrightarrow> length s = 12"
    and later: "quiet T v" "t_install (db v) = t_install (db w')"
    and same: "pf_aws pf = sd_aws sd" "pf_env pf = sd_env sd" "cf_session_secret cfg = sd_key sd"
    and env: "cf_cloudflare_token cfg = [] \<or> cf_cloudflare_zone cfg = []"
  shows "\<exists>req row zone prov. rq_body rq = Inr req \<and> name = cs_provider req
    \<and> t_install (db w') = Some row \<and> in_access_provider row = name
    \<and> DecryptSecret (sd_key sd) (in_config row) = Some (provider_json (cs_token req) zone)
    \<and> New (sd_aws sd) (sd_env sd) name (config_of (cs_token req) zone) = Inr prov
    \<and> (name = ''manual'' \<or> is_ascii (cs_token req) \<and> is_ascii zone \<longrightarrow> run_state (loadAccessProvider pf cfg) v = (Inr prov, v))"
proof -
  from createSetup_stores [OF run] obtain req zone prov w1 fqdn created automated where
    r: "rq_body rq = Inr req" "rand_src w1 = rand_src w"
    and n: "New (sd_aws sd) (sd_env sd) (cs_provider req) (config_of (cs_token req) zone) = Inr prov"
    and s: "run_state (store_provider sd rq fqdn prov (cs_token req) zone created automated) w1 = (Done 201 (d, ti, name), w')"
    by blast
  have "length s = 12" if "rand_src w1 (rand_ix w1) 12 = Some s" for s using full that r(2) by metis
  from store_provider_stored [OF s this] obtain sealed where sealed: "provider_is (ap_name prov) sealed (db w')"
    "DecryptSecret (sd_key sd) sealed = Some (provider_json (cs_token req) zone)" by blast
  from s have nm: "name = ap_name prov" unfolding store_provider_def internalError_def by (elim run_elims) auto
  with New_name [OF n] have nm: "name = cs_provider req" "ap_name prov = cs_provider req" by simp_all
  from n have ne: "cs_provider req \<noteq> []" by (auto simp: New_def)
  from sealed(1) later(2) nm have p: "provider_is (cs_provider req) sealed (db v)" by (simp add: provider_is_def)
  have "run_state (loadAccessProvider pf cfg) v = (Inr prov, v)"
    if "name = ''manual'' \<or> is_ascii (cs_token req) \<and> is_ascii zone"
    using load_stored [OF later(1) p _ _ _ ne env] sealed(2) n same that nm by metis
  with sealed n r(1) show ?thesis unfolding provider_is_def nm by blast
qed

text \<open>A fresh installation: one administrator, no domain.\<close>

definition wizard_world :: "unit world" where
  "wizard_world = (sample_world (fresh_db\<lparr>t_users := [alice],
     t_install := Some (pending_row\<lparr>in_primary_domain := []\<rparr>)\<rparr>) ())\<lparr>rand_src := (\<lambda>n k. Some (replicate k CHR ''s''))\<rparr>"

definition manual_request :: "create_setup_req request" where
  "manual_request = \<lparr>rq_user = alice, rq_id = [], rq_path = [],
     rq_body = Inr \<lparr>cs_fqdn = ''a.io'', cs_provider = ''manual'', cs_token = [], cs_zone = []\<rparr>\<rparr>"

lemma wizard_texts:
  "NormalizeDomain Inr ''a.io'' = Inr ''a.io''" "trim_space ''a.io'' = ''a.io''"
  "ValidateLocalDomain ''selfu.local'' = ''selfu.local''"
  by code_simp+

lemma wizard_organization: "NewOrganization ''a.io'' = Inr \<lparr>o_id = [], o_name = ''a.io'', o_slug = Slugify ''a.io'', o_status = ''active''\<rparr>"
  by (simp add: NewOrganization_def wizard_texts Let_def)

lemma seal_in_quiet:
  "quiet T w \<Longrightarrow> rand_src w (rand_ix w) 12 = Some n \<Longrightarrow> \<exists>s. run_state (EncryptSecret key t) w = (Some s, w\<lparr>rand_ix := Suc (rand_ix w)\<rparr>)"
  by (simp add: EncryptSecret_def encryptSecret_def rand_bytes_def)

lemma audit_runs: "\<exists>w'. run_state (audit i e) w = ((), w')"
  by (cases "run_state (audit i e) w") simp

lemma wizard_quiet: "quiet 100 wizard_world"
  by (simp add: wizard_world_def quiet_def)

lemma fresh_organization:
  assumes "quiet T w" and "t_orgs (db w) = []"
  shows "\<exists>o1 w1. run_state (CreateOrganization \<lparr>o_id = [], o_name = n, o_slug = s, o_status = ''active''\<rparr>) w = (Inr o1, w1)
    \<and> o_id o1 = uuid_src w (uuid_ix w) \<and> quiet T w1 \<and> rand_src w1 = rand_src w \<and> db w1 = (db w)\<lparr>t_orgs := [o1]\<rparr>"
  using assms by (simp add: CreateOrganization_def fresh_id_def new_uuid_def run_sql_def calm_sql pass_time_still quiet_def
     insertOrgSQL_def insert_stmt_def fresh_key_def Let_def)

lemma fresh_membership:
  assumes "quiet T w" and "t_members (db w) = []" and "org \<in> o_id ` set (t_orgs (db w))" and "user \<in> u_id ` set (t_users (db w))"
  shows "\<exists>m ms w1. run_state (SetMembership org user RoleOwner) w = (Inr m, w1)
    \<and> quiet T w1 \<and> rand_src w1 = rand_src w \<and> db w1 = (db w)\<lparr>t_members := ms\<rparr>"
  using assms by (simp add: SetMembership_def new_uuid_def calm_sql pass_time_still quiet_def upsertMembershipSQL_def
     insert_stmt_def fresh_key_def role_checks_def role_valid_def RoleOwner_def Let_def) blast

lemma fresh_domain:
  assumes "quiet T w" and "t_domains (db w) = []" and "d_org d \<in> o_id ` set (t_orgs (db w))" and "d_id d = []"
    and "rand_src w = (\<lambda>n k. Some (f k))"
  shows "\<exists>c w1. run_state (CreateDomain d) w = (Inr c, w1)
    \<and> quiet T w1 \<and> rand_src w1 = rand_src w \<and> db w1 = (db w)\<lparr>t_domains := [c]\<rparr>"
  using assms by (simp add: CreateDomain_def fresh_id_def new_uuid_def randomTokenHex_def rand_bytes_def run_sql_def calm_sql
     pass_time_still quiet_def insertDomainSQL_def insert_stmt_def fresh_key_def domain_checks_def DomainPending_def Let_def)

lemma quiet_exec_some:
  assumes "quiet T w" and "st (pg_of w) (db w) = Inr (1, d)"
  shows "run_state (exec_some st) w = (Inr (), w\<lparr>db := d\<rparr>)"
  using assms by (simp add: exec_some_def calm_sql pass_time_still quiet_def)

lemma store_provider_runs:
  assumes q: "quiet T w" and i: "t_install (db w) = Some row" "in_onboarded_at row = None" and r: "rand_src w = (\<lambda>n k. Some (f k))"
    and d: "d_id c \<in> d_id ` set (t_domains (db w))"
  shows "\<exists>ti w1. run_state (store_provider sd rq fqdn NewManual t z c a) w = (Done 201 (c, ti, ''manual''), w1)"
proof -
  obtain sealed where s: "run_state (EncryptSecret (sd_key sd) (provider_json t z)) w = (Some sealed, w\<lparr>rand_ix := Suc (rand_ix w)\<rparr>)"
    using seal_in_quiet [OF q] r by metis
  let ?w1 = "w\<lparr>rand_ix := Suc (rand_ix w)\<rparr>"
  have q1: "quiet T ?w1" using q by (simp add: quiet_def)
  let ?row = "row\<lparr>in_dns_provider := ''manual'', in_access_provider := ''manual'', in_config := sealed\<rparr>"
  have p: "run_state (SetInstallationProvider ''manual'' ''manual'' sealed) ?w1
      = (Inr (), ?w1\<lparr>db := (db w)\<lparr>t_install := Some ?row\<rparr>\<rparr>)"
    unfolding SetInstallationProvider_def
    by (rule quiet_exec_some [OF q1]) (simp add: setInstallationProviderSQL_def open_install_def provider_checks_def i)
  let ?w2 = "?w1\<lparr>db := (db w)\<lparr>t_install := Some ?row\<rparr>\<rparr>"
  have q2: "quiet T ?w2" using q by (simp add: quiet_def)
  have p2: "run_state (SetInstallationPrimaryDomain (d_id c)) ?w2
      = (Inr (), ?w2\<lparr>db := (db w)\<lparr>t_install := Some (?row\<lparr>in_primary_domain := d_id c\<rparr>)\<rparr>\<rparr>)"
    unfolding SetInstallationPrimaryDomain_def
    by (subst quiet_exec_some [OF q2]) (simp_all add: setInstallationPrimaryDomainSQL_def open_install_def i d)
  show ?thesis
    using audit_runs by (simp add: store_provider_def s NewManual_def manualDNS_def p p2 Let_def) (metis audit_runs prod.simps(2))
qed

lemma dns_set_txt_manual: "dns_set_txt (ap_dns NewManual) n v = ret False"
  by (simp add: NewManual_def manualDNS_def)

lemma wizard_register:
  assumes "sd_to_ascii sd = Inr" "sd_access sd = NewManual"
  shows "\<exists>d ti w'. run_state (register_primary sd manual_request ''a.io'' NewManual [] []) wizard_world
    = (Done 201 (d, ti, ''manual''), w')"
proof -
  let ?w = "wizard_world"
  have w: "t_orgs (db ?w) = []" "t_members (db ?w) = []" "t_domains (db ?w) = []" "u_id alice \<in> u_id ` set (t_users (db ?w))"
    "rand_src ?w = (\<lambda>n k. Some (replicate k CHR ''s''))" "t_install (db ?w) = Some (pending_row\<lparr>in_primary_domain := []\<rparr>)"
    "uuid_src ?w (uuid_ix ?w) \<noteq> []"
    by (simp_all add: wizard_world_def fresh_db_def)
  obtain o1 w1 where s1: "run_state (CreateOrganization \<lparr>o_id = [], o_name = ''a.io'', o_slug = Slugify ''a.io'',
      o_status = ''active''\<rparr>) ?w = (Inr o1, w1)"
    and o1: "o_id o1 \<noteq> []" "quiet 100 w1" "rand_src w1 = (\<lambda>n k. Some (replicate k CHR ''s''))"
      "db w1 = (db ?w)\<lparr>t_orgs := [o1]\<rparr>"
    using fresh_organization [OF wizard_quiet w(1), of "''a.io''" "Slugify ''a.io''"] w by auto
  obtain m ms w2 where s2: "run_state (SetMembership (o_id o1) (u_id alice) RoleOwner) w1 = (Inr m, w2)"
    and o2: "quiet 100 w2" "rand_src w2 = (\<lambda>n k. Some (replicate k CHR ''s''))"
      "db w2 = (db ?w)\<lparr>t_orgs := [o1], t_members := ms\<rparr>"
    using fresh_membership [OF o1(2), of "o_id o1" "u_id alice"] o1 w by auto
  let ?d = "\<lparr>d_id = [], d_org = o_id o1, d_fqdn = ''a.io'', d_status = DomainPending, d_method = ''dns_txt'',
    d_token = [], d_verified_at = None, d_web_enabled = False, d_mail_enabled = False\<rparr>"
  have nd: "NewDomain (sd_to_ascii sd) (o_id o1) ''a.io'' = Inr ?d"
    using o1(1) by (simp add: NewDomain_def assms wizard_texts)
  obtain c w3 where s3: "run_state (CreateDomain ?d) w2 = (Inr c, w3)"
    and o3: "quiet 100 w3" "rand_src w3 = (\<lambda>n k. Some (replicate k CHR ''s''))"
      "db w3 = (db ?w)\<lparr>t_orgs := [o1], t_members := ms, t_domains := [c]\<rparr>"
    using fresh_domain [OF o2(1), of ?d "\<lambda>k. replicate k CHR ''s''"] o2 w by auto
  have w3: "w3\<lparr>ext := ()\<rparr> = w3" by (cases w3) simp
  obtain ti w4 where s4: "run_state (store_provider sd manual_request ''a.io'' NewManual [] [] c False) w3 = (Done 201 (c, ti, ''manual''), w4)"
    using store_provider_runs [OF o3(1) _ _ o3(2), of _ c sd manual_request "''a.io''" "[]" "[]" False] o3(3) w by (auto simp: pending_row_def)
  have "rq_user manual_request = alice" by (simp add: manual_request_def)
  with s1 s2 s3 s4 nd show ?thesis
    by (simp add: register_primary_def wizard_organization run_external assms(2) dns_set_txt_manual) (metis w3)
qed

lemma wizard_run:
  assumes "sd_to_ascii sd = Inr" "sd_access sd = NewManual"
  shows "\<exists>d ti w'. run_state (createSetup sd manual_request) wizard_world = (Done 201 (d, ti, ''manual''), w')"
proof -
  have "t_install (db wizard_world) = Some (pending_row\<lparr>in_primary_domain := []\<rparr>)" by (simp add: wizard_world_def)
  note inst = quiet_install [OF wizard_quiet this]
  have [simp]: "rq_user manual_request = alice" "rq_body manual_request = Inr \<lparr>cs_fqdn = ''a.io'', cs_provider = ''manual'', cs_token = [], cs_zone = []\<rparr>"
    by (simp_all add: manual_request_def)
  show ?thesis
    using wizard_register [OF assms]
    by (simp add: createSetup_def inst Onboarded_def installation.truncate_def pending_row_def New_manual wizard_texts
      assms(1) check_provider_def alice_def)
qed

text \<open>The platform and the configuration of the witness: the platform of the wizard, no credentials of its own.\<close>

definition quiet_postgres :: "unit postgres" where
  "quiet_postgres = \<lparr>pq_parse = Map.empty, pq_pool = (\<lambda>u. ret None), pq_ping = ret None, pq_wait = ret None\<rparr>"

definition small_platform :: "(string \<Rightarrow> string) \<Rightarrow> unit platform" where
  "small_platform env = \<lparr>pf_env = env, pf_postgres = quiet_postgres, pf_discover = (\<lambda>b i. ret (Inl ''none'')),
     pf_http = (\<lambda>b. offline), pf_agent_http = offline, pf_rand = (\<lambda>n. ret None), pf_wait = ret None,
     pf_aws = sd_aws small_setup, pf_resolver = (\<lambda>a n. ret (Inr [])), pf_system_resolver = (\<lambda>n. ret (Inr [])),
     pf_to_ascii = Inr, pf_manifest = (\<lambda>s. Inl s), pf_decode_error = (\<lambda>s. s), pf_version = ''dev''\<rparr>"

definition small_config :: config where
  "small_config = (config_of_env (\<lambda>k. []))\<lparr>cf_session_secret := ''k'', cf_access_provider := ''manual''\<rparr>"

theorem setup_provider_reloads_witness:
  "\<exists>d ti w'. run_state (createSetup small_setup manual_request) wizard_world = (Done 201 (d, ti, ''manual''), w')
    \<and> quiet 100 (sample_world (db w') ())
    \<and> run_state (loadAccessProvider (small_platform (\<lambda>k. [])) small_config) (sample_world (db w') ())
      = (Inr NewManual, sample_world (db w') ())"
proof -
  obtain d ti w' where run: "run_state (createSetup small_setup manual_request) wizard_world = (Done 201 (d, ti, ''manual''), w')"
    using wizard_run [of small_setup] by (auto simp: small_setup_def)
  have "quiet 100 (sample_world (db w') ())" by (simp add: quiet_def)
  from setup_provider_reloads [OF run _ this, of "small_platform (\<lambda>k. [])" small_config]
  show ?thesis using run
    by (simp add: manual_request_def wizard_world_def small_platform_def small_setup_def small_config_def config_of_env_def
        New_manual Let_def) (auto simp: quiet_def)
qed

end
