(* ===== verification/Platform_Settings.thy ===== *)
theory Platform_Settings
  imports Platform_Lemmas
begin

text \<open>
  What the settings and the seed do to a started platform: the lifetime of sessions, the interval of the worker, and
  the catalog after the seed has run.
\<close>

section \<open>The lifetime of sessions\<close>

lemma Load_Inr: "Load env = Inr cfg \<longleftrightarrow> config_errors env = [] \<and> cfg = config_of_env env"
  by (auto simp: Load_def)

lemma Load_secret: "Load env = Inr cfg \<Longrightarrow> 32 \<le> length (cf_session_secret cfg)"
  by (auto simp: Load_Inr config_errors_def secret_error_def config_of_env_def Let_def split: if_splits)

lemma Load_sessions:
  assumes "Load env = Inr cfg"
  shows "\<exists>st. NewSessionStore (session_options_of cfg) = Inr st \<and> ss_ttl st = cf_session_ttl cfg"
  using Load_secret [OF assms] by (simp add: NewSessionStore_def session_options_of_def)

text \<open>A complete environment with a lifetime and an interval.\<close>

definition small_env :: "string \<Rightarrow> string \<Rightarrow> string \<Rightarrow> string" where
  "small_env ttl interval k =
    (if k = ''SELFU_SESSION_TTL'' then ttl
     else if k = ''SELFU_RECONCILE_INTERVAL'' then interval
     else if k = ''SELFU_COOKIE_SECURE'' \<or> k = ''SELFU_OIDC_TLS_INSECURE'' then []
     else replicate 32 CHR ''s'')"

lemma small_env_loads:
  "ttl = [] \<or> ParseDuration ttl \<noteq> None \<Longrightarrow> \<exists>cfg. Load (small_env ttl interval) = Inr cfg"
  by (auto simp: Load_Inr config_errors_def ttl_error_def required_def secret_error_def boolean_error_def small_env_def)





section \<open>The interval of the worker\<close>

lemma wrap64_small: "0 < n \<Longrightarrow> n \<le> 9223372036 \<Longrightarrow> wrap64 (n * second) = n * second"
  by (simp add: wrap64_def second_def)

lemma wrap64_large: "9223372036 < n \<Longrightarrow> n \<le> 18446744073 \<Longrightarrow> wrap64 (n * second) < 0"
proof -
  assume n: "9223372036 < n" "n \<le> 18446744073"
  have "(n * second + 2 ^ 63) mod 2 ^ 64 = (n * second + 2 ^ 63 - 2 ^ 64) mod 2 ^ 64" by (rule minus_mod_self2 [symmetric])
  also have "\<dots> = n * second + 2 ^ 63 - 2 ^ 64" using n by (intro mod_pos_pos_trivial) (simp_all add: second_def)
  finally show ?thesis using n by (simp add: wrap64_def second_def)
qed

lemma Atoi_show: "v < 2 ^ 63 \<Longrightarrow> 0 \<le> v \<Longrightarrow> Atoi (show_int v) = Some v"
  using parse_show_int [of v] show_nat_hd [of "nat v" "[]"] 
  by (cases "show_int v") (auto simp: Atoi_def show_int_def ascii_range_def byte_def)

text \<open>The worker reads its interval in seconds. Up to 9223372036 the interval is that many seconds; from there up to
  18446744073 the product wraps around to a negative number and the ticker panics as soon as the database is open,
  whatever the state of the tables.\<close>

theorem worker_interval:
  assumes n: "pf_env pf ''SELFU_RECONCILE_INTERVAL'' = show_int n" "0 < n" "n \<le> 18446744073"
    and load: "Load (pf_env pf) = Inr cfg" and db: "run_state (external (Open (pf_postgres pf) (cf_db_url cfg))) w = (None, w1)"
  shows "if n \<le> 9223372036 then interval_of (pf_env pf) ''SELFU_RECONCILE_INTERVAL'' 30 = n * second
    else \<exists>i. run_state (worker_run pf ticks) w = (WorkerPanic i, w1) \<and> i < 0"
proof -
  have a: "Atoi (show_int n) = Some n" using n by (intro Atoi_show) simp_all
  then have "show_int n \<noteq> []" by (auto simp: Atoi_def)
  with a n have i: "interval_of (pf_env pf) ''SELFU_RECONCILE_INTERVAL'' 30 = wrap64 (n * second)"
    by (simp add: interval_of_def)
  show ?thesis
    using i wrap64_small [OF n(2)] wrap64_large [OF _ n(3)] load db by (auto simp: worker_run_def Let_def)
qed

theorem worker_interval_witness:
  "\<exists>i w'. run_state (worker_run (small_platform (small_env [] (show_int 9223372037))) 1) (sample_world fresh_db ()) = (WorkerPanic i, w')
    \<and> i < 0"
proof -
  let ?pf = "small_platform (small_env [] (show_int 9223372037))" and ?w = "sample_world fresh_db ()"
  obtain cfg where cfg: "Load (pf_env ?pf) = Inr cfg" using small_env_loads [of "[]"] by (auto simp: small_platform_def)
  have "run_state (external (Open (pf_postgres ?pf) (cf_db_url cfg))) ?w = (None, ?w\<lparr>ext := ()\<rparr>)"
    by (simp add: run_external Open_def small_platform_def quiet_postgres_def eval_nat_numeral)
  from worker_interval [OF _ _ _ cfg this, of 9223372037 1] show ?thesis
    by (auto simp: small_platform_def small_env_def)
qed

section \<open>The seed may run again and again\<close>

text \<open>The catalog holds the manifest under its id and version, and only it.\<close>

definition listed :: "manifest \<Rightarrow> db \<Rightarrow> bool" where
  "listed m d \<longleftrightarrow> (\<exists>x \<in> set (t_catalog d). catalog_key x = (mf_id m, mf_version m))
     \<and> (\<forall>x \<in> set (t_catalog d). catalog_key x = (mf_id m, mf_version m) \<longrightarrow> x = catalog_row (ca_id x) m)"

lemma catalog_key_row [simp]: "catalog_key (catalog_row i m) = (mf_id m, mf_version m)"
  by (simp add: catalog_key_def catalog_row_def)

lemma upsertCatalogAppSQL_row:
  "upsertCatalogAppSQL (catalog_row i m) pg d =
    (if (mf_id m, mf_version m) \<in> catalog_key ` set (t_catalog d) then
       Inr (1, d\<lparr>t_catalog := map (\<lambda>x. if catalog_key x = (mf_id m, mf_version m) then catalog_row (ca_id x) m else x) (t_catalog d)\<rparr>)
     else insert_stmt True (fresh_key ca_id (catalog_row i m) (t_catalog d)) True 1
       (d\<lparr>t_catalog := t_catalog d @ [catalog_row i m]\<rparr>))"
proof -
  have "(if catalog_key x = (mf_id m, mf_version m) then x\<lparr>ca_name := mf_name m, ca_description := mf_description m,
      ca_category := mf_category m, ca_manifest := m\<rparr> else x)
    = (if catalog_key x = (mf_id m, mf_version m) then catalog_row (ca_id x) m else x)" for x
    by (cases x) (simp add: catalog_key_def catalog_row_def)
  then show ?thesis by (simp add: upsertCatalogAppSQL_def put_row_def catalog_row_def catalog_key_def)
qed

lemma upsert_lists:
  assumes "upsertCatalogAppSQL (catalog_row i m) pg d = Inr (n, d')"
  shows "listed m d'" and "(mf_id m', mf_version m') \<noteq> (mf_id m, mf_version m) \<Longrightarrow> listed m' d \<Longrightarrow> listed m' d'"
proof -
  let ?k = "(mf_id m, mf_version m)" and ?r = "\<lambda>x. if catalog_key x = (mf_id m, mf_version m) then catalog_row (ca_id x) m else x"
  have id: "ca_id (catalog_row j m) = j" for j by (simp add: catalog_row_def)
  have "t_catalog d' = map ?r (t_catalog d) \<and> ?k \<in> catalog_key ` set (t_catalog d)
      \<or> t_catalog d' = t_catalog d @ [catalog_row i m] \<and> ?k \<notin> catalog_key ` set (t_catalog d)"
    using assms by (auto simp: upsertCatalogAppSQL_row insert_stmt_Inr split: if_splits)
  then consider (hit) "t_catalog d' = map ?r (t_catalog d)" "?k \<in> catalog_key ` set (t_catalog d)"
    | (new) "t_catalog d' = t_catalog d @ [catalog_row i m]" "?k \<notin> catalog_key ` set (t_catalog d)" by blast
  then have "listed m d' \<and> ((mf_id m', mf_version m') \<noteq> ?k \<longrightarrow> listed m' d \<longrightarrow> listed m' d')"
  proof cases
    case hit
    then obtain y where "y \<in> set (t_catalog d)" "catalog_key y = ?k" by fastforce
    then have "?r y \<in> set (map ?r (t_catalog d))" unfolding set_map by (intro imageI)
    moreover have "catalog_key (?r y) = ?k" using \<open>catalog_key y = ?k\<close> by simp
    ultimately have "\<exists>x \<in> set (map ?r (t_catalog d)). catalog_key x = ?k" by blast
    with hit(1) show ?thesis by (auto simp: listed_def id split: if_splits)
  next
    case new
    from new(2) have "catalog_key x \<noteq> ?k" if "x \<in> set (t_catalog d)" for x using that by (metis image_eqI)
    with new(1) show ?thesis by (auto simp: listed_def id)
  qed
  then show "listed m d'" and "(mf_id m', mf_version m') \<noteq> ?k \<Longrightarrow> listed m' d \<Longrightarrow> listed m' d'" by blast+
qed

lemma upsert_listed:
  assumes "listed m d" and "upsertCatalogAppSQL (catalog_row i m) pg d = Inr (n, d')"
  shows "d' = d"
proof -
  from assms(1) have k: "(mf_id m, mf_version m) \<in> catalog_key ` set (t_catalog d)"
    unfolding listed_def by (metis image_eqI)
  have "map (\<lambda>x. if catalog_key x = (mf_id m, mf_version m) then catalog_row (ca_id x) m else x) (t_catalog d) = t_catalog d"
    using assms(1) by (intro map_idI) (auto simp: listed_def)
  with assms(2) k show ?thesis by (simp add: upsertCatalogAppSQL_row)
qed

lemma new_uuid_db: "run_state new_uuid w = (i, w1) \<Longrightarrow> db w1 = db w"
  by (auto simp: new_uuid_def)

lemma UpsertCatalogApp_lists:
  assumes "run_state (UpsertCatalogApp m) w = (Inr u, w')"
  shows "listed m (db w')" and "(mf_id m', mf_version m') \<noteq> (mf_id m, mf_version m) \<Longrightarrow> listed m' (db w) \<Longrightarrow> listed m' (db w')"
proof -
  from assms obtain i w1 where i: "run_state new_uuid w = (i, w1)"
    and e: "run_state (exec_sql wrap_err (upsertCatalogAppSQL (catalog_row i m))) w1 = (Inr u, w')"
    unfolding UpsertCatalogApp_def by (elim run_elims)
  from exec_sql_Inr [OF e] new_uuid_db [OF i] obtain pg n where "upsertCatalogAppSQL (catalog_row i m) pg (db w) = Inr (n, db w')"
    by metis
  from upsert_lists [OF this] show "listed m (db w')"
    and "(mf_id m', mf_version m') \<noteq> (mf_id m, mf_version m) \<Longrightarrow> listed m' (db w) \<Longrightarrow> listed m' (db w')" by blast+
qed

lemma UpsertCatalogApp_listed:
  assumes "run_state (UpsertCatalogApp m) w = (r, w')" and "listed m (db w)"
  shows "db w' = db w"
proof -
  from assms(1) obtain i w1 where i: "run_state new_uuid w = (i, w1)"
    and e: "run_state (exec_sql wrap_err (upsertCatalogAppSQL (catalog_row i m))) w1 = (r, w')"
    unfolding UpsertCatalogApp_def by (elim run_elims)
  from exec_sql_step [OF e] new_uuid_db [OF i] upsert_listed [OF assms(2)] show ?thesis by metis
qed

lemma seed_lists:
  "run_state (seed_catalog ms) w = (None, w') \<Longrightarrow> distinct (map (\<lambda>m. (mf_id m, mf_version m)) ms)
    \<Longrightarrow> (\<forall>m \<in> set ms. listed m (db w')) \<and> (\<forall>m. (mf_id m, mf_version m) \<notin> (\<lambda>m. (mf_id m, mf_version m)) ` set ms
      \<longrightarrow> listed m (db w) \<longrightarrow> listed m (db w'))"
proof (induction ms arbitrary: w)
  case (Cons m ms)
  from Cons.prems(1) obtain u w1 where u: "run_state (UpsertCatalogApp m) w = (Inr u, w1)"
    and r: "run_state (seed_catalog ms) w1 = (None, w')"
    by (cases "run_state (UpsertCatalogApp m) w") (auto split: sum.splits)
  from Cons.IH [OF r] Cons.prems(2) have ih: "\<forall>m \<in> set ms. listed m (db w')"
    "\<forall>m. (mf_id m, mf_version m) \<notin> (\<lambda>m. (mf_id m, mf_version m)) ` set ms \<longrightarrow> listed m (db w1) \<longrightarrow> listed m (db w')" by simp_all
  from ih UpsertCatalogApp_lists [OF u] Cons.prems(2) show ?case by auto
qed simp

lemma seed_listed:
  "run_state (seed_catalog ms) w = (e, w') \<Longrightarrow> \<forall>m \<in> set ms. listed m (db w) \<Longrightarrow> db w' = db w"
proof (induction ms arbitrary: w)
  case (Cons m ms)
  from Cons.prems(1) obtain r w1 where u: "run_state (UpsertCatalogApp m) w = (r, w1)"
    and c: "w' = w1 \<or> run_state (seed_catalog ms) w1 = (e, w')"
    by (cases "run_state (UpsertCatalogApp m) w") (auto split: sum.splits)
  from UpsertCatalogApp_listed [OF u] Cons.prems(2) have "db w1 = db w" by simp
  with c Cons.IH [of w1] Cons.prems(2) show ?case by auto
qed simp



end
