(* ===== verification/Doctor.thy ===== *)
theory Doctor
  imports Config_Load Http_Setup
begin

text \<open>
  The preflight check of a host (\<open>cmd/doctor\<close>): the reading of \<open>.env\<close>, the checks of Docker, ports, settings, names
  and of the Cloudflare token, and the verdict. Docker, the network, the resolver and the two system calls on the
  file are fields of \<open>doctor_host\<close>.
\<close>

section \<open>What the checks look at\<close>

record 'x doctor_host =
  dr_docker :: "string list \<Rightarrow> ('x, string option) prog"
  dr_dial :: "string \<Rightarrow> ('x, bool) prog"
  dr_lookup :: "string \<Rightarrow> ('x, string + string list) prog"
  dr_http :: "'x http_client"
  dr_file :: "string option"
  dr_stat :: "('x, bool) prog"
  dr_environ :: "string \<Rightarrow> string option"

record finding =
  fi_name :: string
  fi_ok :: bool
  fi_warn :: bool
  fi_msg :: string

abbreviation passed :: "string \<Rightarrow> finding" where
  "passed m \<equiv> \<lparr>fi_name = [], fi_ok = True, fi_warn = False, fi_msg = m\<rparr>"

abbreviation warned :: "string \<Rightarrow> finding" where
  "warned m \<equiv> \<lparr>fi_name = [], fi_ok = False, fi_warn = True, fi_msg = m\<rparr>"

abbreviation failed :: "string \<Rightarrow> finding" where
  "failed m \<equiv> \<lparr>fi_name = [], fi_ok = False, fi_warn = False, fi_msg = m\<rparr>"

definition requiredEnv :: "string list" where
  "requiredEnv =
    [''POSTGRES_USER'', ''POSTGRES_PASSWORD'', ''AUTHENTIK_SECRET_KEY'', ''AUTHENTIK_BOOTSTRAP_EMAIL'',
     ''AUTHENTIK_BOOTSTRAP_PASSWORD'', ''AUTHENTIK_BOOTSTRAP_TOKEN'', ''SELFU_SESSION_SECRET'',
     ''SELFU_OIDC_CLIENT_ID'', ''SELFU_OIDC_CLIENT_SECRET'', ''CHASQUID_AGENT_TOKEN'',
     ''PLATFORM_HOST'', ''AUTH_HOST'', ''ACME_EMAIL'']"

section \<open>The file .env\<close>

text \<open>\<open>strings.Trim\<close> with the two quotes.\<close>

definition quotes :: "char set" where "quotes = {CHR 0x22, CHR 0x27}"

definition trim_quotes :: "string \<Rightarrow> string" where
  "trim_quotes s = rev (dropWhile (\<lambda>c. c \<in> quotes) (rev (dropWhile (\<lambda>c. c \<in> quotes) s)))"

definition setting_of :: "(string \<Rightarrow> string option) \<Rightarrow> string \<Rightarrow> (string \<times> string) option" where
  "setting_of environ raw =
    (let line = trim_space raw in
     if line = [] \<or> has_prefix line ''#'' then None
     else (case cut_at CHR ''='' line of (k, v, ok) \<Rightarrow>
        if \<not> ok then None
        else let key = trim_space k in
          Some (key, case environ key of Some p \<Rightarrow> p | None \<Rightarrow> trim_quotes (trim_space v))))"

definition loadDotEnv :: "'x doctor_host \<Rightarrow> string \<rightharpoonup> string" where
  "loadDotEnv h =
    (case dr_file h of
       None \<Rightarrow> Map.empty
     | Some data \<Rightarrow> fold (\<lambda>l env. case setting_of (dr_environ h) l of None \<Rightarrow> env | Some (k, v) \<Rightarrow> env(k \<mapsto> v))
         (split_on (chr_of 10) data) Map.empty)"

text \<open>A key that is absent reads as the empty text.\<close>

definition setting :: "(string \<rightharpoonup> string) \<Rightarrow> string \<Rightarrow> string" where
  "setting env k = (case env k of None \<Rightarrow> [] | Some v \<Rightarrow> v)"

definition portEnv :: "(string \<rightharpoonup> string) \<Rightarrow> string \<Rightarrow> string \<Rightarrow> string" where
  "portEnv env key deflt =
    (let v = trim_space (setting env key) in if v \<noteq> [] \<and> Atoi v \<noteq> None then v else deflt)"

section \<open>Docker and ports\<close>

definition checkDocker :: "'x doctor_host \<Rightarrow> ('x, finding) prog" where
  "checkDocker h = do {
     out \<leftarrow> dr_docker h [''info'', ''--format'', ''{{.ServerVersion}}''];
     ret (case out of
         None \<Rightarrow> (failed (''docker daemon unreachable '' @ em_dash
           @ '' start Docker (systemctl start docker / open Docker Desktop)''))\<lparr>fi_name := ''docker''\<rparr>
       | Some v \<Rightarrow> passed (''docker daemon reachable (server '' @ trim_space v @ '')'')) }"

text \<open>\<open>strings.Fields\<close>: the words between white space.\<close>

fun word_at :: "string \<Rightarrow> string \<times> string" where
  "word_at [] = ([], [])"
| "word_at (c # s) =
    (if space_width wide_spaces (map byte (c # s)) \<noteq> 0 then ([], c # s)
     else (case word_at s of (w, r) \<Rightarrow> (c # w, r)))"

primrec words_in :: "nat \<Rightarrow> string \<Rightarrow> string list" where
  "words_in 0 s = []"
| "words_in (Suc n) s =
    (case word_at (trim_left_space s) of (w, r) \<Rightarrow> if w = [] then [] else w # words_in n r)"

definition stringsFields :: "string \<Rightarrow> string list" where
  "stringsFields s = words_in (length s) s"

definition selfuContainersOnPort :: "'x doctor_host \<Rightarrow> string \<Rightarrow> ('x, string list) prog" where
  "selfuContainersOnPort h port = do {
     out \<leftarrow> dr_docker h [''ps'', ''--filter'', ''publish='' @ port, ''--format'', ''{{.Names}}''];
     ret (case out of None \<Rightarrow> [] | Some names \<Rightarrow> stringsFields names) }"

definition check_port :: "'x doctor_host \<Rightarrow> string \<Rightarrow> ('x, finding) prog" where
  "check_port h p = do {
     busy \<leftarrow> dr_dial h p;
     (if busy then do {
        holders \<leftarrow> selfuContainersOnPort h p;
        ret (if holders \<noteq> []
          then passed (''port :'' @ p @ '' served by existing selfu container(s) '' @ join_with '', '' holders @ '' ''
            @ em_dash @ '' compose up will reconcile them'')
          else failed (''port :'' @ p @ '' in use by another process '' @ em_dash
            @ '' free it or stop the conflicting service before compose up'')) }
      else ret (passed (''port :'' @ p @ '' free''))) }"

primrec checkPorts :: "'x doctor_host \<Rightarrow> string list \<Rightarrow> ('x, finding list) prog" where
  "checkPorts h [] = ret []"
| "checkPorts h (p # ps) = do { f \<leftarrow> check_port h p; fs \<leftarrow> checkPorts h ps; ret (f # fs) }"

section \<open>Settings and names\<close>

definition provider_findings :: "(string \<rightharpoonup> string) \<Rightarrow> finding list" where
  "provider_findings env =
    (if setting env ''SELFU_ACCESS_PROVIDER'' = ''cloudflare'' \<and> trim_space (setting env ''CLOUDFLARE_API_TOKEN'') = []
     then [failed (''SELFU_ACCESS_PROVIDER=cloudflare but CLOUDFLARE_API_TOKEN unset '' @ em_dash
       @ '' set it in .env or switch to manual'')]
     else if setting env ''SELFU_ACCESS_PROVIDER'' = ''cloudflare'' \<and> trim_space (setting env ''CLOUDFLARE_ZONE_ID'') = []
     then [warned (''CLOUDFLARE_ZONE_ID unset '' @ em_dash
       @ '' automatic DNS records will need the zone ID set in .env'')]
     else [])"

definition checkDotEnv :: "'x doctor_host \<Rightarrow> (string \<rightharpoonup> string) \<Rightarrow> ('x, finding list) prog" where
  "checkDotEnv h env = do {
     there \<leftarrow> dr_stat h;
     ret (if \<not> there
       then [failed (''.env missing '' @ em_dash
         @ '' run `make gen-env` (bootstrap does this for you) and fill in hosts/secrets'')]
       else let missing = filter (\<lambda>k. trim_space (setting env k) = []) requiredEnv in
         if missing \<noteq> []
         then [failed (''.env missing required variables: '' @ join_with '', '' missing @ '' '' @ em_dash @ '' add them to .env'')]
         else passed (''.env present with all '' @ show_nat (length requiredEnv) @ '' required variables'')
           # provider_findings env) }"

definition hasMXIntent :: "(string \<rightharpoonup> string) \<Rightarrow> bool" where
  "hasMXIntent env \<longleftrightarrow> trim_space (setting env ''MAIL_HOST'') \<noteq> []"

definition check_host :: "'x doctor_host \<Rightarrow> (string \<rightharpoonup> string) \<Rightarrow> string \<Rightarrow> ('x, finding list) prog" where
  "check_host h env key =
    (let host = trim_space (setting env key) in
     if host = [] \<or> (key = ''MAIL_HOST'' \<and> \<not> hasMXIntent env) then ret []
     else do {
       r \<leftarrow> dr_lookup h host;
       ret (case r of
           Inr (ip # ips) \<Rightarrow> [passed (host @ '' resolves ('' @ ip @ '')'')]
         | _ \<Rightarrow>
             let pub = trim_space (setting env ''PUBLIC_IP'');
                 hint = (if pub \<noteq> [] then '' '' @ em_dash @ '' should point at '' @ pub @ '' (see scripts/dns-records.sh)'' else [])
             in [warned (''DNS does not resolve for '' @ key @ '' ('' @ host @ '')'' @ hint)]) })"

primrec check_hosts :: "'x doctor_host \<Rightarrow> (string \<rightharpoonup> string) \<Rightarrow> string list \<Rightarrow> ('x, finding list) prog" where
  "check_hosts h env [] = ret []"
| "check_hosts h env (k # ks) = do { f \<leftarrow> check_host h env k; fs \<leftarrow> check_hosts h env ks; ret (f @ fs) }"

definition checkDNS :: "'x doctor_host \<Rightarrow> (string \<rightharpoonup> string) \<Rightarrow> ('x, finding list) prog" where
  "checkDNS h env = check_hosts h env [''PLATFORM_HOST'', ''AUTH_HOST'', ''MAIL_HOST'']"

section \<open>The Cloudflare token\<close>

text \<open>The field \<open>success\<close> of the answer; the error of the decoder is dropped, so values of other types are passed over.\<close>

definition success_bit :: "string \<Rightarrow> bool" where
  "success_bit data =
    (case first_value data of
       Some (JObj ms) \<Rightarrow> fold (\<lambda>(k, v) b. case v of JBool x \<Rightarrow> if key_is ''success'' k then x else b | _ \<Rightarrow> b) ms False
     | _ \<Rightarrow> False)"

definition checkCloudflareToken :: "'x doctor_host \<Rightarrow> string \<Rightarrow> ('x, finding) prog" where
  "checkCloudflareToken h token = do {
     r \<leftarrow> hc_do (dr_http h) \<lparr>hr_method = ''GET'', hr_url = ''https://api.cloudflare.com/client/v4/user/tokens/verify'',
       hr_headers = [(''Authorization'', ''Bearer '' @ token)], hr_body = None\<rparr>;
     ret (case r of
         Inl e \<Rightarrow> warned (''could not reach Cloudflare API to verify token: '' @ e)
       | Inr (status, data) \<Rightarrow>
           if status \<noteq> 200 \<or> \<not> success_bit data
           then failed (''CLOUDFLARE_API_TOKEN rejected by Cloudflare '' @ em_dash
             @ '' generate a new token with Zone:DNS:Edit permission'')
           else passed ''CLOUDFLARE_API_TOKEN valid'') }"

section \<open>The verdict\<close>

definition findings_of :: "'x doctor_host \<Rightarrow> ('x, finding list) prog" where
  "findings_of h =
    (let env = loadDotEnv h;
         httpPort = portEnv env ''SELFU_HTTP_PORT'' ''18080'';
         authPort = portEnv env ''AUTHENTIK_PORT'' ''9000'';
         tok = setting env ''CLOUDFLARE_API_TOKEN'' in do {
       d \<leftarrow> checkDocker h;
       ps \<leftarrow> checkPorts h [httpPort, authPort];
       es \<leftarrow> checkDotEnv h env;
       ns \<leftarrow> checkDNS h env;
       cs \<leftarrow> (if tok \<noteq> [] then do { c \<leftarrow> checkCloudflareToken h tok; ret [c] } else ret []);
       ret (d # ps @ es @ ns @ cs) })"

definition line_of :: "finding \<Rightarrow> string" where
  "line_of r = (if fi_ok r then ''  ok    '' @ fi_msg r else if fi_warn r then ''  warn  '' @ fi_msg r
     else ''  FAIL  '' @ fi_msg r)"

definition hard :: "finding \<Rightarrow> bool" where
  "hard r \<longleftrightarrow> \<not> fi_ok r \<and> \<not> fi_warn r"

text \<open>The exit status and the lines printed.\<close>

definition doctor_main :: "'x doctor_host \<Rightarrow> ('x, nat \<times> string list) prog" where
  "doctor_main h = do {
     results \<leftarrow> findings_of h;
     (let lines = map line_of results; n = length (filter hard results) in
      ret (if 0 < n
        then (1, lines @ [[], ''doctor: '' @ show_nat n @ '' hard failure(s) '' @ em_dash
          @ '' fix the FAIL lines above before bootstrapping.''])
        else (0, lines @ [[], ''doctor: all preflight checks passed (warnings are non-blocking).'']))) }"

end
