(* ===== verification/Doctor_Lemmas.thy ===== *)
theory Doctor_Lemmas
  imports Doctor Http_Frames
begin

text \<open>
  What a verdict of the preflight check rests on, and where it differs from the behaviour it is documented to mirror.
\<close>

section \<open>Findings\<close>

lemma checkDocker_hard:
  "run_state (checkDocker h) x = (d, x1) \<Longrightarrow> \<not> hard d
    \<Longrightarrow> \<exists>v. run_state (dr_docker h [''info'', ''--format'', ''{{.ServerVersion}}'']) x = (Some v, x1)"
  by (cases "run_state (dr_docker h [''info'', ''--format'', ''{{.ServerVersion}}'']) x")
    (auto simp: checkDocker_def hard_def split: option.splits)

text \<open>A port that the stack can take: nobody answers on it, or containers that publish it do.\<close>

definition port_usable :: "'x doctor_host \<Rightarrow> string \<Rightarrow> bool" where
  "port_usable h p \<longleftrightarrow> (\<exists>y y1. run_state (dr_dial h p) y = (False, y1)
    \<or> run_state (dr_dial h p) y = (True, y1)
      \<and> (\<exists>names y2. run_state (dr_docker h [''ps'', ''--filter'', ''publish='' @ p, ''--format'', ''{{.Names}}'']) y1
          = (Some names, y2) \<and> stringsFields names \<noteq> []))"

lemma check_port_hard:
  assumes "run_state (check_port h p) x = (d, x1)" and "\<not> hard d"
  shows "port_usable h p"
proof (cases "run_state (dr_dial h p) x")
  case (Pair busy y)
  show ?thesis
  proof (cases busy)
    case True
    with assms Pair show ?thesis
      unfolding port_usable_def
      by (cases "run_state (dr_docker h [''ps'', ''--filter'', ''publish='' @ p, ''--format'', ''{{.Names}}'']) y")
        (fastforce simp: check_port_def selfuContainersOnPort_def hard_def split: option.splits if_splits)
  next
    case False
    with Pair have "run_state (dr_dial h p) x = (False, y)" by simp
    then show ?thesis unfolding port_usable_def by blast
  qed
qed

lemma checkPorts_hard:
  "run_state (checkPorts h ps) x = (ds, x1) \<Longrightarrow> \<not> list_ex hard ds \<Longrightarrow> list_all (port_usable h) ps"
proof (induction ps arbitrary: x ds)
  case (Cons p ps)
  from Cons.prems(1) obtain d x2 ds' where d: "run_state (check_port h p) x = (d, x2)"
    and r: "run_state (checkPorts h ps) x2 = (ds', x1)" "ds = d # ds'"
    by (cases "run_state (check_port h p) x") (auto split: prod.splits)
  from Cons.IH [OF r(1)] check_port_hard [OF d] Cons.prems(2) r(2) show ?case by simp
qed simp

lemma checkDotEnv_hard:
  assumes "run_state (checkDotEnv h env) x = (es, x1)" and "\<not> list_ex hard es"
  shows "list_all (\<lambda>k. trim_space (setting env k) \<noteq> []) requiredEnv"
    and "setting env ''SELFU_ACCESS_PROVIDER'' = ''cloudflare'' \<Longrightarrow> trim_space (setting env ''CLOUDFLARE_API_TOKEN'') \<noteq> []"
proof -
  from assms have "filter (\<lambda>k. trim_space (setting env k) = []) requiredEnv = [] \<and> \<not> list_ex hard (provider_findings env)"
    by (cases "run_state (dr_stat h) x") (auto simp: checkDotEnv_def hard_def Let_def split: if_splits)
  then show "list_all (\<lambda>k. trim_space (setting env k) \<noteq> []) requiredEnv"
    and "setting env ''SELFU_ACCESS_PROVIDER'' = ''cloudflare'' \<Longrightarrow> trim_space (setting env ''CLOUDFLARE_API_TOKEN'') \<noteq> []"
    by (auto simp: filter_empty_conv list_all_iff provider_findings_def hard_def split: if_splits)
qed

lemma check_hosts_soft: "run_state (check_hosts h env ks) x = (fs, x1) \<Longrightarrow> \<not> list_ex hard fs"
proof (induction ks arbitrary: x fs)
  case (Cons k ks)
  from Cons.prems obtain f x2 fs' where f: "run_state (check_host h env k) x = (f, x2)"
    and r: "run_state (check_hosts h env ks) x2 = (fs', x1)" "fs = f @ fs'"
    by (cases "run_state (check_host h env k) x") (auto split: prod.splits)
  from f have "\<not> list_ex hard f"
    by (cases "run_state (dr_lookup h (trim_space (setting env k))) x")
      (auto simp: check_host_def hard_def Let_def split: if_splits sum.splits list.splits)
  with Cons.IH [OF r(1)] r(2) show ?case by simp
qed simp

section \<open>The verdict\<close>

lemma doctor_findings:
  assumes "run_state (doctor_main h) x = ((0, out), x')"
  shows "\<exists>rs. run_state (findings_of h) x = (rs, x') \<and> \<not> list_ex hard rs"
  using assms by (cases "run_state (findings_of h) x")
    (auto simp: doctor_main_def Let_def filter_empty_conv list_ex_iff split: if_splits)

lemma doctor_parts:
  assumes "run_state (doctor_main h) x = ((0, out), x')"
  obtains d x1 ps x2 es x3 where "run_state (checkDocker h) x = (d, x1)" "\<not> hard d"
    "run_state (checkPorts h [portEnv (loadDotEnv h) ''SELFU_HTTP_PORT'' ''18080'', portEnv (loadDotEnv h) ''AUTHENTIK_PORT'' ''9000'']) x1
      = (ps, x2)" "\<not> list_ex hard ps"
    "run_state (checkDotEnv h (loadDotEnv h)) x2 = (es, x3)" "\<not> list_ex hard es"
proof -
  let ?env = "loadDotEnv h"
  from doctor_findings [OF assms] obtain rs where rs: "run_state (findings_of h) x = (rs, x')" "\<not> list_ex hard rs" by blast
  obtain d x1 where d: "run_state (checkDocker h) x = (d, x1)" by force
  obtain ps x2 where ps: "run_state (checkPorts h [portEnv ?env ''SELFU_HTTP_PORT'' ''18080'', portEnv ?env ''AUTHENTIK_PORT'' ''9000'']) x1
    = (ps, x2)" by force
  obtain es x3 where es: "run_state (checkDotEnv h ?env) x2 = (es, x3)" by force
  obtain ns x4 where ns: "run_state (checkDNS h ?env) x3 = (ns, x4)" by force
  from rs(1) d ps es ns obtain cs where "rs = d # ps @ es @ ns @ cs"
    by (auto simp: findings_of_def Let_def simp del: checkPorts.simps split: prod.splits if_splits)
  with rs(2) have n: "\<not> hard d" "\<not> list_ex hard ps" "\<not> list_ex hard es" by simp_all
  from that [OF d n(1) ps n(2) es n(3)] show ?thesis .
qed

text \<open>C38: a host passes only when Docker answers, the two ports are free or held by containers that publish them, every
  required variable has a value, and the provider at Cloudflare has a token; names that do not resolve never fail it.\<close>

theorem doctor_passes:
  assumes "run_state (doctor_main h) x = ((0, out), x')"
  shows "(\<exists>v x1. run_state (dr_docker h [''info'', ''--format'', ''{{.ServerVersion}}'']) x = (Some v, x1))
    \<and> list_all (port_usable h) [portEnv (loadDotEnv h) ''SELFU_HTTP_PORT'' ''18080'', portEnv (loadDotEnv h) ''AUTHENTIK_PORT'' ''9000'']
    \<and> list_all (\<lambda>k. trim_space (setting (loadDotEnv h) k) \<noteq> []) requiredEnv
    \<and> (setting (loadDotEnv h) ''SELFU_ACCESS_PROVIDER'' = ''cloudflare''
      \<longrightarrow> trim_space (setting (loadDotEnv h) ''CLOUDFLARE_API_TOKEN'') \<noteq> [])"
proof -
  obtain d x1 ps x2 es x3 where d: "run_state (checkDocker h) x = (d, x1)" "\<not> hard d"
    and ps: "run_state (checkPorts h [portEnv (loadDotEnv h) ''SELFU_HTTP_PORT'' ''18080'',
      portEnv (loadDotEnv h) ''AUTHENTIK_PORT'' ''9000'']) x1 = (ps, x2)" "\<not> list_ex hard ps"
    and es: "run_state (checkDotEnv h (loadDotEnv h)) x2 = (es, x3)" "\<not> list_ex hard es"
    using assms by (rule doctor_parts)
  from checkDocker_hard [OF d] checkPorts_hard [OF ps] checkDotEnv_hard [OF es] show ?thesis by blast
qed

text \<open>A required variable that no line of the file names is missing, whatever the environment of the process holds,
  although Compose would take it from there.\<close>

lemma loadDotEnv_names:
  assumes "dr_file h = Some data" and "loadDotEnv h k = Some v"
  shows "\<exists>l \<in> set (split_on (chr_of 10) data). setting_of (dr_environ h) l = Some (k, v)"
proof -
  have f: "m k = Some v \<or> (\<exists>l \<in> set ls. setting_of e l = Some (k, v))"
    if "fold (\<lambda>l env. case setting_of e l of None \<Rightarrow> env | Some (k, v) \<Rightarrow> env(k \<mapsto> v)) ls m k = Some v" for e ls m
    using that
  proof (induction ls arbitrary: m)
    case (Cons l ls)
    show ?case
    proof (cases "setting_of e l")
      case None
      with Cons.IH [of m] Cons.prems show ?thesis by simp
    next
      case (Some kv)
      obtain a b where ab: "kv = (a, b)" by force
      have "(m(a \<mapsto> b)) k = Some v \<or> (\<exists>l \<in> set ls. setting_of e l = Some (k, v))"
        by (rule Cons.IH [of "m(a \<mapsto> b)"]) (use Some ab Cons.prems in \<open>simp add: fun_upd_def\<close>)
      with Some ab show ?thesis by (auto split: if_splits)
    qed
  qed simp
  from f [of "dr_environ h" "split_on (chr_of 10) data" Map.empty] assms show ?thesis by (simp add: loadDotEnv_def)
qed

theorem doctor_needs_line:
  assumes "k \<in> set requiredEnv" and "dr_file h = Some data"
    and "\<And>l v. l \<in> set (split_on (chr_of 10) data) \<Longrightarrow> setting_of (dr_environ h) l \<noteq> Some (k, v)"
    and "run_state (doctor_main h) x = ((status, out), x')"
  shows "status \<noteq> 0"
proof
  assume "status = 0"
  with assms(4) have "run_state (doctor_main h) x = ((0, out), x')" by simp
  then obtain x2 es x3 where "run_state (checkDotEnv h (loadDotEnv h)) x2 = (es, x3)" "\<not> list_ex hard es" by (rule doctor_parts)
  from checkDotEnv_hard(1) [OF this] assms(1) have "trim_space (setting (loadDotEnv h) k) \<noteq> []" by (simp add: list_all_iff)
  moreover have "loadDotEnv h k = None" using loadDotEnv_names [OF assms(2)] assms(3) by (cases "loadDotEnv h k") auto
  ultimately show False by (simp add: setting_def)
qed

section \<open>Plain files\<close>

text \<open>A file of plain lines is read as its settings, the last of a name counts.\<close>

definition plain_setting :: "string \<times> string \<Rightarrow> bool" where
  "plain_setting kv \<longleftrightarrow> fst kv \<noteq> [] \<and> hd (fst kv) \<noteq> CHR ''#'' \<and> space_free (fst kv) \<and> CHR ''='' \<notin> set (fst kv)
     \<and> space_free (snd kv) \<and> (\<forall>c \<in> set (snd kv). c \<notin> quotes)"

definition setting_line :: "string \<times> string \<Rightarrow> string" where
  "setting_line kv = fst kv @ CHR ''='' # snd kv"

lemma trim_quotes_id: "\<forall>c \<in> set v. c \<notin> quotes \<Longrightarrow> trim_quotes v = v"
proof -
  have d: "dropWhile (\<lambda>c. c \<in> quotes) xs = xs" if "\<forall>c \<in> set xs. c \<notin> quotes" for xs using that by (cases xs) auto
  assume "\<forall>c \<in> set v. c \<notin> quotes"
  then show ?thesis using d [of v] d [of "rev v"] by (simp add: trim_quotes_def)
qed

lemma setting_line_free: "plain_setting kv \<Longrightarrow> space_free (setting_line kv)"
  by (simp add: plain_setting_def setting_line_def space_free_def byte_def ascii_space_def)

lemma setting_of_plain:
  "plain_setting kv \<Longrightarrow> setting_of Map.empty (setting_line kv) = Some kv"
proof -
  assume p: "plain_setting kv"
  note t = trim_space_free [OF setting_line_free [OF p]]
  have "\<not> has_prefix (setting_line kv) ''#''"
    using p by (cases "fst kv") (auto simp: plain_setting_def setting_line_def has_prefix_def)
  moreover have "trim_space (fst kv) = fst kv" "trim_quotes (trim_space (snd kv)) = snd kv"
    using p by (simp_all add: plain_setting_def trim_space_free trim_quotes_id)
  moreover have "cut_at CHR ''='' (setting_line kv) = (fst kv, snd kv, True)"
    using p by (simp add: setting_line_def cut_at_found plain_setting_def)
  moreover have "setting_line kv \<noteq> []" by (simp add: setting_line_def)
  ultimately show ?thesis by (simp add: setting_of_def t)
qed

lemma split_setting_lines:
  "list_all plain_setting kvs
    \<Longrightarrow> split_on (chr_of 10) (concat (map (\<lambda>kv. setting_line kv @ [chr_of 10]) kvs)) = map setting_line kvs @ [[]]"
proof (induction kvs)
  case (Cons kv kvs)
  then have "chr_of 10 \<notin> set (setting_line kv)"
    using setting_line_free [of kv] byte_chr_of [of 10] by (fastforce simp: space_free_def list_all_iff ascii_space_def)
  with Cons show ?case by (simp add: split_on_append split_on_word)
qed simp

lemma loadDotEnv_lines:
  assumes "dr_file h = Some (concat (map (\<lambda>kv. setting_line kv @ [chr_of 10]) kvs))" and "dr_environ h = Map.empty"
    and "list_all plain_setting kvs"
  shows "loadDotEnv h = map_of (rev kvs)"
proof -
  have "fold (\<lambda>l env. case setting_of Map.empty l of None \<Rightarrow> env | Some (k, v) \<Rightarrow> env(k \<mapsto> v)) (map setting_line kvs) m
      = m ++ map_of (rev kvs)" for m
    using assms(3) by (induction kvs arbitrary: m) (auto simp: setting_of_plain split: prod.splits)
  moreover have "setting_of Map.empty [] = None" by (simp add: setting_of_def)
  ultimately show ?thesis using assms by (simp add: loadDotEnv_def split_setting_lines)
qed

text \<open>A host on which everything is in place.\<close>

definition fit_lines :: "(string \<times> string) list" where
  "fit_lines = map (\<lambda>k. (k, ''x'')) requiredEnv"

definition fit_host :: "unit doctor_host" where
  "fit_host = \<lparr>dr_docker = (\<lambda>args. ret (Some ''27.0'')), dr_dial = (\<lambda>p. ret False), dr_lookup = (\<lambda>n. ret (Inl ''none'')),
     dr_http = \<lparr>hc_do = (\<lambda>r. ret (Inl ''offline'')), hc_decode_error = (\<lambda>s. s)\<rparr>,
     dr_file = Some (concat (map (\<lambda>kv. setting_line kv @ [chr_of 10]) fit_lines)), dr_stat = ret True, dr_environ = Map.empty\<rparr>"

lemma fit_settings: "setting (loadDotEnv fit_host) k = (if k \<in> set requiredEnv then ''x'' else [])"
proof -
  have "list_all plain_setting fit_lines"
    by (simp add: fit_lines_def requiredEnv_def plain_setting_def space_free_def byte_def ascii_space_def quotes_def)
  from loadDotEnv_lines [OF _ _ this, of fit_host] have "loadDotEnv fit_host = map_of (rev fit_lines)" by (simp add: fit_host_def)
  moreover have "map_of (rev (map (\<lambda>k. (k, ''x'')) ks)) k = (if k \<in> set ks then Some ''x'' else None)" for ks
    by (induction ks) (auto simp: map_add_def)
  ultimately show ?thesis by (simp add: setting_def fit_lines_def)
qed

theorem doctor_passes_witness:
  "\<exists>out. run_state (doctor_main fit_host) () = ((0, out), ()) \<and> port_usable fit_host ''18080''"
proof -
  have "trim_space ''x'' = ''x''" by (rule trim_space_free) (simp add: space_free_def byte_def ascii_space_def)
  note fit = fit_settings this
  have p: "portEnv (loadDotEnv fit_host) ''SELFU_HTTP_PORT'' ''18080'' = ''18080''"
    by (simp add: portEnv_def fit requiredEnv_def)
  have f: "dr_docker fit_host a = ret (Some ''27.0'')" "dr_dial fit_host q = ret False" "dr_stat fit_host = ret True"
    "dr_lookup fit_host n = ret (Inl ''none'')" for a q n
    by (simp_all add: fit_host_def)
  have missing: "filter (\<lambda>k. trim_space (setting (loadDotEnv fit_host) k) = []) requiredEnv = []"
    by (simp add: filter_empty_conv fit)
  have env: "setting (loadDotEnv fit_host) ''SELFU_ACCESS_PROVIDER'' = []" "setting (loadDotEnv fit_host) ''CLOUDFLARE_API_TOKEN'' = []"
    "setting (loadDotEnv fit_host) ''PUBLIC_IP'' = []"
    by (simp_all add: fit requiredEnv_def)
  have docker: "\<exists>d. run_state (checkDocker fit_host) () = (d, ()) \<and> \<not> hard d"
    by (simp add: checkDocker_def f hard_def)
  have ports: "\<exists>ds. run_state (checkPorts fit_host [p, q]) () = (ds, ()) \<and> \<not> list_ex hard ds" for p q
    by (simp add: check_port_def f hard_def)
  have dot: "\<exists>ds. run_state (checkDotEnv fit_host (loadDotEnv fit_host)) () = (ds, ()) \<and> \<not> list_ex hard ds"
    by (simp add: checkDotEnv_def f missing provider_findings_def env hard_def)
  obtain ns where ns: "run_state (checkDNS fit_host (loadDotEnv fit_host)) () = (ns, ())" by (metis old.unit.exhaust surj_pair)
  from check_hosts_soft [OF ns [unfolded checkDNS_def]] have "\<not> list_ex hard ns" .
  moreover obtain d where "run_state (checkDocker fit_host) () = (d, ())" "\<not> hard d" using docker by blast
  moreover obtain ps where "run_state (checkPorts fit_host [portEnv (loadDotEnv fit_host) ''SELFU_HTTP_PORT'' ''18080'',
    portEnv (loadDotEnv fit_host) ''AUTHENTIK_PORT'' ''9000'']) () = (ps, ())" "\<not> list_ex hard ps" using ports by blast
  moreover obtain es where "run_state (checkDotEnv fit_host (loadDotEnv fit_host)) () = (es, ())" "\<not> list_ex hard es"
    using dot by blast
  ultimately have "\<exists>rs. run_state (findings_of fit_host) () = (rs, ()) \<and> \<not> list_ex hard rs"
    using ns by (simp add: findings_of_def env Let_def del: checkPorts.simps)
  then have "\<exists>out. run_state (doctor_main fit_host) () = ((0, out), ())"
    by (auto simp: doctor_main_def Let_def list_ex_iff)
  then obtain out where "run_state (doctor_main fit_host) () = ((0, out), ())" by blast
  with doctor_passes [OF this] p show ?thesis by simp
qed

end
