(* ===== verification/Spec2Isabelle.thy ===== *)
theory Spec2Isabelle
  imports Domain_Lemmas Deploy_Model Http_Invites_Lemmas Http_Auth_Lemmas Provision_Mail_Lemmas Http_Onboard Http_Apps Http_Setup_Runs Chasquid_Lemmas
    Authentik_Lemmas Http_Router_Runs Platform_Settings Doctor_Lemmas
begin

text \<open>
  Selfu is a self-hosting platform written in Go: an API server with a PostgreSQL database as its
  source of truth, an identity provider (authentik), a mail server (chasquid), a DNS and certificate
  provider, and applications deployed from a catalog of manifests. This library models its core and
  proves what makes it correct.

  Parts and theories, bottom up:

  \<^item> \<open>Selfu_Prelude\<close>: programs as state transformers (\<open>prog\<close>), the rules that take a run apart
    (\<open>run_elims\<close>) and those that carry an invariant along a program (\<open>keeps\<close>).
  \<^item> \<open>Go_Strings\<close>, \<open>Go_Quote\<close>, \<open>Go_Encoding\<close>, \<open>Go_JSON\<close> with \<open>Go_JSON_Lemmas\<close>, \<open>Go_HTTP\<close> with \<open>Go_HTTP_Lemmas\<close>,
    \<open>Go_Crypto\<close>, \<open>Go_AES\<close>, \<open>Go_Files\<close>: what the code uses of Go's standard library: \<open>strings\<close> (bytes, UTF-8 runes),
    \<open>strconv.Quote\<close>, base64 and hex, \<open>encoding/json\<close>, requests and URL escaping of \<open>net/http\<close> and \<open>net/url\<close>, SHA-256, HMAC,
    AES-256-GCM, and the files of a host with the failures of its system calls.
  \<^item> \<open>Domain_Model\<close>, \<open>Domain_Lemmas\<close>: \<open>internal/domain\<close>: users, organizations, roles, slugs, domain names,
    mail addresses and their validation.
  \<^item> \<open>Catalog_Model\<close>, \<open>Deploy_Model\<close>: \<open>internal/catalog\<close>, \<open>internal/deploy\<close>, \<open>internal/traefik\<close>: manifests, the
    Compose file rendered from one, and the labels of its route.
  \<^item> \<open>World_Model\<close>: the tables of \<open>internal/store/migrations\<close>, the clock, the sources of ids and random bytes,
    the external systems, and what one SQL statement may do: succeed, fail, or take effect
    while its answer is lost.
  \<^item> \<open>Store_SQL\<close>, \<open>Store_SQL_Mail\<close>: every SQL statement of \<open>internal/store\<close> as a function on the tables, with
    its constraints, defaults and cascades. \<open>Store_Ops\<close>: the methods of \<open>Store\<close> over them.
  \<^item> \<open>Store_Invariant\<close>, \<open>Store_Integrity\<close>, \<open>Store_Cascade\<close>, \<open>Store_Steps\<close>, \<open>Store_Properties\<close>, \<open>Store_Contracts\<close>:
    the integrity of the tables as an invariant of every statement, the step relation of the
    database under any interleaving of requests, and the contracts of single methods.
  \<^item> \<open>Auth_Session\<close>: the tokens and cookies of \<open>internal/auth/session.go\<close>, with their round trip.
  \<^item> \<open>Http_Base\<close> (requests, replies, audit, \<open>requireOrgRole\<close>) and the handlers of \<open>internal/httpapi\<close>, a theory for a file:
    \<open>Http_Identity\<close> (organizations, groups, users), \<open>Http_Invites\<close>, \<open>Http_Auth\<close> (the login and the gateway),
    \<open>Http_Onboard\<close>, \<open>Http_Domains\<close>, \<open>Http_Mail\<close>, \<open>Http_Apps\<close>, \<open>Http_Crypto\<close> (sealed secrets), \<open>Http_Setup\<close> (the wizard, the
    limiter of its login, the verification run and its poller) and \<open>Http_UI\<close> (the data of the pages). \<open>Http_Frames\<close> holds
    the rules their proofs share; the theories ending in \<open>_Lemmas\<close> and \<open>_Runs\<close> hold their properties and sample runs.
  \<^item> \<open>Provision_Mail\<close> with its lemmas (\<open>internal/provision\<close>: creation of mailboxes and rotation of their credentials),
    \<open>Recon\<close> with its lemmas (\<open>internal/recon\<close> and the cycle of \<open>cmd/worker\<close>).
  \<^item> \<open>Chasquid_Agent\<close>, \<open>Chasquid_Client\<close>, \<open>Chasquid_Lemmas\<close>: the agent beside the mail server (\<open>cmd/chasquid-agent\<close>), which
    works on files and commands, its client (\<open>internal/chasquid\<close>), and the refinement: the client over the agent keeps a
    finite map from local parts to destinations, the contract of the locale \<open>keyed_table\<close> of \<open>Keyed_Table\<close>.
  \<^item> \<open>Dns_Cloudflare\<close>, \<open>Access_Providers\<close> (\<open>internal/dns\<close>, \<open>internal/access\<close>: Cloudflare and Route 53 with the signature of
    AWS); \<open>Authentik_Client\<close>, \<open>Authentik_Lemmas\<close> (\<open>internal/authentik\<close>).
  \<^item> \<open>Http_Requests\<close>, \<open>Http_Router\<close>, \<open>Http_Router_Lemmas\<close>, \<open>Http_Router_Runs\<close>: the bodies of requests, the table of routes,
    the dispatch of a raw request to the handlers (\<open>handle\<close>, \<open>serve\<close>), and what holds of every request whatever its route.
  \<^item> \<open>Config_Load\<close>, \<open>Config_Lemmas\<close>: \<open>internal/config\<close>: every variable with its default and its errors, and Go's durations.
  \<^item> \<open>Platform_Start\<close>: how \<open>cmd/api\<close>, \<open>cmd/worker\<close>, \<open>cmd/seed\<close>, \<open>cmd/migrate\<close> and \<open>cmd/authentik-bootstrap\<close> put the components
    together. \<open>Platform_Lemmas\<close>: the provider the wizard has stored survives a restart. \<open>Platform_Settings\<close>: what the
    settings do to the started platform, and the seed of the catalog.
  \<^item> \<open>Doctor\<close>, \<open>Doctor_Lemmas\<close>: the preflight check of a host (\<open>cmd/doctor\<close>).

  A handler is a program over the world that returns a reply; it calls the methods of the store, each
  of which is a few statements. The locale \<open>table_invariant\<close> states what a property of the tables
  needs so that every statement, method and handler keeps it; it is interpreted by the integrity of
  the tables. Since a statement is atomic in PostgreSQL and a handler is not a transaction, claims
  about concurrent requests are stated over \<open>store_step\<close>, claims about one handler over its run.
  Every statement may fail, or take effect although its answer is lost, in any order that \<open>fates\<close> gives; \<open>quiet\<close> is a
  world in which none does and the clock stands still, used where a claim says that something succeeds.

  Parameters, for code that is not in the repository: sending a request (\<open>http_client\<close>), the resolvers, running a command,
  the driver of the database and goose (\<open>postgres\<close>, \<open>goose\<close>), the discovery of the identity provider and the verification
  of id tokens (\<open>oidc_client\<close>), IDNA, decoding of YAML and XML, and the texts of decoding errors. \<open>platform\<close> collects those
  a server is started with. The memory of the process (the limiter, the result of the poller) is passed explicitly.

  Bounds and fuel: the JSON parser recurses with fuel \<open>2 * length s + 2\<close>, which suffices for every input
  (\<open>parse_fuel\<close>), and rejects nesting beyond 10000 levels as Go does. Durations and the words of a text recurse with fuel
  equal to their length, each step consuming a character. \<open>Open\<close> pings ten times, and \<open>WaitReady\<close> probes thirty times, fewer when its
  deadline passes. Times are integers; tokens store seconds as 64-bit integers, and the products of intervals wrap around at 64
  bits (\<open>wrap64\<close>). Lists of rows have no bound.

  Not modelled: the inside of the connection pool, sockets, signals and time limits of a process, log lines and the access
  log, the JSON encoding of replies and the HTML templates, and the recovery from panics, which the modelled handlers do
  not cause. The interfaces of \<open>internal/store/interfaces.go\<close> are types without behaviour: their implementation is modelled.
\<close>

end
